(* ===== verification/Prelude.thy ===== *)
theory Prelude
  imports Main "HOL-Library.Product_Lexorder" "HOL-Library.Finite_Map"
begin

text \<open>
  What every component of the development shares.

  \<^item> The error type: the exceptions of src/src/hcuopt/domain/errors.py that the modelled
    code raises, with the exceptions of Python and of the database driver it can meet.
    A fallible function returns \<open>error + 'a\<close>.
  \<^item> Relational tables. A table is the list of its rows; a \<open>SELECT\<close> of one row is
    \<open>find\<close>, an \<open>UPDATE ... WHERE\<close> is \<open>update_where\<close>, an \<open>INSERT\<close> appends,
    \<open>ORDER BY ... LIMIT 1\<close> is \<open>argmin\<close>. The lemmas on them carry the proofs of
    the components.
  \<^item> Two interfaces as locales: \<open>transactional\<close> (an invariant kept by every operation
    of a store holds after every sequence of operations) and \<open>idempotent_writer\<close> (an
    insert guarded by an idempotency key).

  Identifiers (\<open>UUID\<close>) are their canonical text, so \<open>str\<close> and \<open>UUID(...)\<close> are
  the identity on them; a time is an integer number of microseconds.
\<close>

named_theorems row_simps "simplification rules for rows and tables"
named_theorems inv_intros "preservation of an invariant by one operation"

type_synonym uuid = string
type_synonym time = int

definition seconds :: "int \<Rightarrow> time" where
  "seconds n = n * 1000000"

section \<open>Errors\<close>

text \<open>The exceptions of src/src/hcuopt/operator/errors.py that the modelled code raises.\<close>

datatype operator_fault =
    PROFILE_NOT_FOUND
  | PROFILE_REVOKED
  | PROFILE_MODE_MISMATCH
  | FORMAL_AUTHORIZATION_NOT_ACTIVE
  | PLAN_HASH_MISMATCH
  | SERVICE_IDENTITY_MISMATCH
  | PREVIEW_BLOCKED
  | PREVIEW_EXPIRED
  | WARNING_ACK_REQUIRED
  | START_FAILED

datatype error =
    ContractError string
  | InvalidTransition
  | StaleFencingToken string
  | NotFound string
  | Conflict string
  | StaleClaimToken string
  | ValueError string
  | TypeError
  | KeyError string
  | DatabaseError string
  | SourceIntegrityError string
  | OverflowError
  | ZeroDivisionError
  | IndexError
  | M2EvaluationError string
  | SamplingSafetyError string
  | HoldoutAuthorityError string
  | M2RoundEvidenceError string
  | OSError
  | SourceArtifactError string
  | AssertionError
  | Operator operator_fault string

definition bind_res :: "error + 'a \<Rightarrow> ('a \<Rightarrow> error + 'b) \<Rightarrow> error + 'b" where
  "bind_res m f = (case m of Inl e \<Rightarrow> Inl e | Inr a \<Rightarrow> f a)"

lemma bind_res_simps [simp]:
  "bind_res (Inl e) f = Inl e"
  "bind_res (Inr a) f = f a"
  by (simp_all add: bind_res_def)

lemma bind_res_eq_Inr:
  "bind_res m f = Inr b \<longleftrightarrow> (\<exists>a. m = Inr a \<and> f a = Inr b)"
  by (simp add: bind_res_def split: sum.split)

definition guard_err :: "bool \<Rightarrow> error \<Rightarrow> error + unit" where
  "guard_err b e = (if b then Inr () else Inl e)"

lemma guard_err_eq_Inr [simp]: "guard_err b e = Inr u \<longleftrightarrow> b"
  by (simp add: guard_err_def)

lemma bind_guard_err [simp]:
  "bind_res (guard_err b e) f = (if b then f () else Inl e)"
  by (simp add: guard_err_def)

fun map_res :: "('a \<Rightarrow> error + 'b) \<Rightarrow> 'a list \<Rightarrow> error + 'b list" where
  "map_res f [] = Inr []"
| "map_res f (x # xs) = bind_res (f x) (\<lambda>y. bind_res (map_res f xs) (\<lambda>ys. Inr (y # ys)))"

section \<open>Tables\<close>

lemma find_SomeD: "find P xs = Some x \<Longrightarrow> x \<in> set xs \<and> P x"
  by (induction xs) (auto split: if_splits)

lemma find_Some_mem [dest]: "find P xs = Some x \<Longrightarrow> x \<in> set xs"
  by (simp add: find_SomeD)

lemma find_Some_prop: "find P xs = Some x \<Longrightarrow> P x"
  by (simp add: find_SomeD)

lemma find_append [row_simps]:
  "find P (xs @ ys) = (case find P xs of Some x \<Rightarrow> Some x | None \<Rightarrow> find P ys)"
  by (induction xs) auto

lemma find_cong_set: "(\<And>x. x \<in> set xs \<Longrightarrow> P x = Q x) \<Longrightarrow> find P xs = find Q xs"
  by (induction xs) auto

lemma find_key_unique:
  "distinct (map key xs) \<Longrightarrow> x \<in> set xs \<Longrightarrow> key x = k \<Longrightarrow> find (\<lambda>r. key r = k) xs = Some x"
  by (induction xs) auto

lemma key_unique:
  "distinct (map key xs) \<Longrightarrow> x \<in> set xs \<Longrightarrow> y \<in> set xs \<Longrightarrow> key x = key y \<Longrightarrow> x = y"
  by (metis distinct_map inj_onD)

definition update_where :: "('r \<Rightarrow> bool) \<Rightarrow> ('r \<Rightarrow> 'r) \<Rightarrow> 'r list \<Rightarrow> 'r list" where
  "update_where P f xs = map (\<lambda>r. if P r then f r else r) xs"

definition row_count :: "('r \<Rightarrow> bool) \<Rightarrow> 'r list \<Rightarrow> nat" where
  "row_count P xs = length (filter P xs)"

lemma update_where_Nil [simp]: "update_where P f [] = []"
  by (simp add: update_where_def)

lemma update_where_Cons [simp]:
  "update_where P f (x # xs) = (if P x then f x else x) # update_where P f xs"
  by (simp add: update_where_def)

lemma length_update_where [simp]: "length (update_where P f xs) = length xs"
  by (simp add: update_where_def)

lemma set_update_where:
  "set (update_where P f xs) = (\<lambda>r. if P r then f r else r) ` set xs"
  by (simp add: update_where_def)

lemma update_where_mem:
  "y \<in> set (update_where P f xs) \<longleftrightarrow>
     (\<exists>x \<in> set xs. y = (if P x then f x else x))"
  by (auto simp: set_update_where)

lemma update_where_id: "(\<And>x. x \<in> set xs \<Longrightarrow> \<not> P x) \<Longrightarrow> update_where P f xs = xs"
  by (induction xs) auto

lemma map_update_where [row_simps]:
  assumes "\<And>r. key (f r) = key r"
  shows "map key (update_where P f xs) = map key xs"
  using assms by (simp add: update_where_def)

lemma find_update_where:
  assumes "\<And>r. key (f r) = key r"
  shows "find (\<lambda>r. key r = k) (update_where P f xs) =
    map_option (\<lambda>r. if P r then f r else r) (find (\<lambda>r. key r = k) xs)"
  using assms by (induction xs) auto

lemma find_update_where_same:
  assumes "\<And>r. key (f r) = key r" and "find (\<lambda>r. key r = k) xs = Some x"
  shows "find (\<lambda>r. key r = k) (update_where (\<lambda>r. key r = k) f xs) = Some (f x)"
  using assms find_SomeD [OF assms(2)] by (simp add: find_update_where)

text \<open>Updates and counts that single out one row by its key.\<close>

lemma only_row:
  assumes "distinct (map key xs)" "x \<in> set xs" "P x" "\<And>y. P y \<Longrightarrow> key y = key x" "z \<in> set xs"
  shows "P z \<longleftrightarrow> z = x"
  using assms key_unique by metis

lemma filter_eq_single: "distinct xs \<Longrightarrow> x \<in> set xs \<Longrightarrow> filter (\<lambda>z. z = x) xs = [x]"
  by (induction xs) (auto simp: filter_empty_conv)

lemma row_count_unique:
  assumes "distinct (map key xs)" "x \<in> set xs" "P x" "\<And>y. P y \<Longrightarrow> key y = key x"
  shows "row_count P xs = 1"
proof -
  have "filter P xs = filter (\<lambda>z. z = x) xs"
    by (rule filter_cong [OF refl only_row [of key xs x P, OF assms]])
  moreover have "distinct xs" using assms(1) by (simp add: distinct_map)
  ultimately show ?thesis using assms(2) by (simp add: row_count_def filter_eq_single)
qed

lemma mem_update_unique:
  assumes "distinct (map key xs)" "x \<in> set xs" "P x" "\<And>y. P y \<Longrightarrow> key y = key x"
  shows "y \<in> set (update_where P f xs) \<longleftrightarrow> y = f x \<or> (y \<in> set xs \<and> y \<noteq> x)"
  using only_row [of key xs x P, OF assms] assms(2) by (auto simp: update_where_mem)

lemma head_key: "distinct (map key (a # xs)) \<Longrightarrow> x \<in> set xs \<Longrightarrow> key x \<noteq> key a"
  by (metis distinct.simps(2) image_eqI list.set_map list.simps(9))

lemma distinct_map_filter: "distinct (map f xs) \<Longrightarrow> distinct (map f (filter P xs))"
  by (induction xs) auto

section \<open>The first row in an order\<close>

text \<open>The row with the least key, the earliest of them in the table on a tie.\<close>

fun argmin :: "('a \<Rightarrow> 'k::linorder) \<Rightarrow> 'a list \<Rightarrow> 'a option" where
  "argmin key [] = None"
| "argmin key (x # xs) =
     (case argmin key xs of None \<Rightarrow> Some x
      | Some y \<Rightarrow> if key x \<le> key y then Some x else Some y)"

lemma argmin_None [simp]: "argmin key xs = None \<longleftrightarrow> xs = []"
  by (cases xs) (auto split: option.splits)

lemma argmin_mem: "argmin key xs = Some x \<Longrightarrow> x \<in> set xs"
  by (induction xs arbitrary: x) (auto split: option.splits if_splits)

lemma argmin_le: "argmin key xs = Some x \<Longrightarrow> y \<in> set xs \<Longrightarrow> key x \<le> key y"
proof (induction xs arbitrary: x y)
  case Nil
  then show ?case by simp
next
  case (Cons a xs)
  show ?case
  proof (cases "argmin key xs")
    case None
    with Cons.prems show ?thesis by simp
  next
    case (Some b)
    from Cons.prems Some Cons.IH [OF Some] show ?thesis
      by (fastforce split: if_splits)
  qed
qed

lemma argmin_filterD:
  "argmin key (filter P xs) = Some x \<Longrightarrow> x \<in> set xs \<and> P x"
  using argmin_mem [of key "filter P xs" x] by simp

section \<open>Interface: a store whose operations keep an invariant\<close>

text \<open>
  Each public method of the repository is one transaction: it commits a new store or
  raises, and then the store is unchanged. A history is a list of such operations, the
  failed ones included.
\<close>

definition commit :: "('op \<Rightarrow> 'db \<Rightarrow> error + 'db) \<Rightarrow> 'op \<Rightarrow> 'db \<Rightarrow> 'db" where
  "commit step p d = (case step p d of Inl e \<Rightarrow> d | Inr d' \<Rightarrow> d')"

fun history :: "('op \<Rightarrow> 'db \<Rightarrow> error + 'db) \<Rightarrow> 'op list \<Rightarrow> 'db \<Rightarrow> 'db" where
  "history step [] d = d"
| "history step (p # ps) d = history step ps (commit step p d)"

lemma history_append: "history step (ps @ qs) d = history step qs (history step ps d)"
  by (induction ps arbitrary: d) auto

locale transactional =
  fixes step :: "'op \<Rightarrow> 'db \<Rightarrow> error + 'db"
    and admissible :: "'op \<Rightarrow> bool"
    and inv :: "'db \<Rightarrow> bool"
  assumes step_inv: "admissible p \<Longrightarrow> inv d \<Longrightarrow> step p d = Inr d' \<Longrightarrow> inv d'"
begin

lemma commit_inv: "admissible p \<Longrightarrow> inv d \<Longrightarrow> inv (commit step p d)"
  by (auto simp: commit_def split: sum.split intro: step_inv)

lemma history_inv: "list_all admissible ps \<Longrightarrow> inv d \<Longrightarrow> inv (history step ps d)"
  by (induction ps arbitrary: d) (auto intro: commit_inv)

end

section \<open>Interface: an insert guarded by an idempotency key\<close>

locale idempotent_writer =
  fixes put :: "'req \<Rightarrow> 'db \<Rightarrow> error + ('db \<times> 'row)"
    and lookup :: "'req \<Rightarrow> 'db \<Rightarrow> 'row option"
    and agrees :: "'req \<Rightarrow> 'row \<Rightarrow> bool"
  assumes put_hit: "lookup q d = Some r \<Longrightarrow> agrees q r \<Longrightarrow> put q d = Inr (d, r)"
    and put_clash: "lookup q d = Some r \<Longrightarrow> \<not> agrees q r \<Longrightarrow> \<exists>m. put q d = Inl (Conflict m)"
    and put_miss: "lookup q d = None \<Longrightarrow> put q d = Inr (d', r) \<Longrightarrow>
      lookup q d' = Some r \<and> agrees q r"
begin

lemma put_lookup: "put q d = Inr (d', r) \<Longrightarrow> lookup q d' = Some r \<and> agrees q r"
  using put_hit put_clash put_miss by (cases "lookup q d") fastforce+

lemma put_replay: "put q d = Inr (d', r) \<Longrightarrow> put q d' = Inr (d', r)"
  using put_lookup put_hit by blast

lemma put_conflict:
  "put q d = Inr (d', r) \<Longrightarrow> lookup q' d' = lookup q d' \<Longrightarrow> \<not> agrees q' r \<Longrightarrow>
   \<exists>m. put q' d' = Inl (Conflict m)"
  using put_lookup put_clash by metis

end

end
