(* ===== verification/Domain.thy ===== *)
theory Domain
  imports Prelude
begin

text \<open>
  The domain vocabulary of src/src/hcuopt/domain: the enumerations of enums.py that the
  modelled components use, one datatype each (the constructors carry a prefix where two
  enumerations share a name), and the transition graphs of transitions.py with the three
  guarded transition functions.

  The three state machines share the interface \<open>transition_system\<close>: a transition is
  granted exactly along an edge of the graph and returns its target.
\<close>

section \<open>Enumerations\<close>

datatype gate_result = GATE_PASS | GATE_FAIL

datatype profiler_capability = PROF_FULL | PROF_DEGRADED | PROF_NONE

datatype hot_patch_capability = HOT_PATCH | HP_OVERLAY_ONLY | HP_NONE

datatype project_mode =
  STOPPED_MEASUREMENT | FULL_MVP | DEGRADED_MANUAL_INTAKE | CONFIG_ONLY

datatype workflow_type =
    WF_OPTIMIZATION | WF_FRAMEWORK_SMOKE | WF_STAGE0 | WF_MANUAL_CANDIDATE
  | WF_SEARCH_ROUND | WF_ENDPOINT_VALIDATION

datatype verdict = FASTER | SLOWER | INCONCLUSIVE | INVALID

datatype stage0_run_state = S0_COLLECTING | S0_READY | S0_FINALIZED | S0_FAILED

datatype stage0_probe_type =
  P_FINGERPRINT | P_TIMER | P_NOISE | P_KNOWN_SIGNAL | P_NULL_SIGNAL | P_PROFILER | P_HOTPATCH

datatype task_state =
    T_CREATED | T_STAGE0_PENDING | T_STOPPED_MEASUREMENT | T_DEGRADED | T_BASELINE_PENDING
  | T_PROFILING | T_SEARCHING | T_EVALUATING | T_MODEL_VALIDATING | T_E2E_VALIDATING
  | T_AWAITING_SIGNOFF | T_COMPLETED | T_REJECTED | T_FRAMEWORK_SMOKE_PENDING
  | T_SOURCE_PREPARING | T_ARTIFACT_PREPARING | T_FRAMEWORK_EXECUTING | T_OUTPUT_VALIDATING
  | T_FRAMEWORK_RETESTING | T_MANUAL_CANDIDATE_PENDING | T_MANUAL_BUILDING
  | T_MANUAL_CORRECTNESS | T_MANUAL_PERFORMANCE | T_MANUAL_ADJUDICATING | T_ENDPOINT_PROBING
  | T_ENDPOINT_PROVISIONAL_PASSED | T_CANCELLED

datatype candidate_state =
    C_PROPOSED | C_BUILDING | C_BUILD_FAILED | C_BUILT | C_CORRECTNESS_RUNNING
  | C_PERFORMANCE_RUNNING | C_ROUND_WAITING | C_MODEL_VALIDATING | C_STAGED | C_E2E_RUNNING
  | C_RELEASE_CANDIDATE | C_REJECTED | C_FRAMEWORK_SMOKE_RUNNING | C_FRAMEWORK_SMOKE_PASSED
  | C_ADJUDICATING | C_AWAITING_SIGNOFF | C_ACCEPTED

datatype lease_state =
    L_AVAILABLE | L_ACTIVE | L_RELEASING | L_EXPIRED | L_WORKER_LOST | L_FENCING
  | L_HEALTH_CHECK | L_QUARANTINED

datatype worker_type = W_AGENT | W_BUILD | W_GPU | W_EVALUATION

datatype job_state = J_QUEUED | J_RUNNING | J_SUCCEEDED | J_FAILED | J_CANCELLED

datatype job_type =
    JT_PROFILE | JT_CANDIDATE_GENERATE | JT_BUILD | JT_CORRECTNESS | JT_PERFORMANCE | JT_E2E
  | JT_SOURCE_PREPARE | JT_NOOP_BUILD | JT_FRAMEWORK_SMOKE | JT_STAGE0_PROBE
  | JT_MANUAL_BUILD | JT_MANUAL_CORRECTNESS | JT_MANUAL_PERFORMANCE | JT_MANUAL_ADJUDICATE
  | JT_ENDPOINT_VALIDATION | JT_ENDPOINT_ADJUDICATE

fun job_type_value :: "job_type \<Rightarrow> string" where
  "job_type_value JT_PROFILE = ''profile''"
| "job_type_value JT_CANDIDATE_GENERATE = ''candidate_generate''"
| "job_type_value JT_BUILD = ''build''"
| "job_type_value JT_CORRECTNESS = ''correctness''"
| "job_type_value JT_PERFORMANCE = ''performance''"
| "job_type_value JT_E2E = ''e2e''"
| "job_type_value JT_SOURCE_PREPARE = ''source_prepare''"
| "job_type_value JT_NOOP_BUILD = ''noop_build''"
| "job_type_value JT_FRAMEWORK_SMOKE = ''framework_smoke''"
| "job_type_value JT_STAGE0_PROBE = ''stage0_probe''"
| "job_type_value JT_MANUAL_BUILD = ''manual_build''"
| "job_type_value JT_MANUAL_CORRECTNESS = ''manual_correctness''"
| "job_type_value JT_MANUAL_PERFORMANCE = ''manual_performance''"
| "job_type_value JT_MANUAL_ADJUDICATE = ''manual_adjudicate''"
| "job_type_value JT_ENDPOINT_VALIDATION = ''endpoint_validation''"
| "job_type_value JT_ENDPOINT_ADJUDICATE = ''endpoint_adjudicate''"

datatype lease_scope = SCOPE_NONE | SCOPE_SHARED | SCOPE_EXCLUSIVE

datatype round_mode = RM_SCRIPTED | RM_FORMAL

datatype round_state =
    R_INTAKE_OPEN | R_INTAKE_CLOSED | R_BUILDING | R_CORRECTNESS | R_SEARCH_MEASURING
  | R_SEARCH_BARRIER | R_HOLDOUT_MEASURING | R_HOLDOUT_BARRIER | R_AWAITING_SIGNOFF
  | R_SCRIPTED_COMPLETED | R_COMPLETED | R_REJECTED | R_CANCELLED

datatype round_candidate_state =
    RC_INTAKE_ACCEPTED | RC_BUILDING | RC_BUILD_FAILED | RC_BUILT | RC_CORRECTNESS_FAILED
  | RC_CORRECTNESS_PASSED | RC_SEARCH_FAILED | RC_SEARCH_MEASURED | RC_NOT_PROMOTED
  | RC_HOLDOUT_FAILED | RC_HOLDOUT_MEASURED | RC_INVALID

datatype round_phase = PH_SEARCH | PH_HOLDOUT

datatype barrier_outcome = MEMBERS_PROMOTED | NO_PROMOTABLE_CANDIDATE | BARRIER_COMPLETED

datatype reservation_state = BR_RESERVED | BR_SETTLED | BR_RELEASED

datatype budget_entry_type = BE_RESERVE | BE_SETTLE | BE_RELEASE

section \<open>The declaration order of the task states\<close>

text \<open>
  \<open>list(TaskState)\<close> enumerates the members in the order of their declaration; a
  coordinator compares positions in that list.
\<close>

definition task_states :: "task_state list" where
  "task_states =
    [T_CREATED, T_STAGE0_PENDING, T_STOPPED_MEASUREMENT, T_DEGRADED, T_BASELINE_PENDING,
     T_PROFILING, T_SEARCHING, T_EVALUATING, T_MODEL_VALIDATING, T_E2E_VALIDATING,
     T_AWAITING_SIGNOFF, T_COMPLETED, T_REJECTED, T_FRAMEWORK_SMOKE_PENDING,
     T_SOURCE_PREPARING, T_ARTIFACT_PREPARING, T_FRAMEWORK_EXECUTING, T_OUTPUT_VALIDATING,
     T_FRAMEWORK_RETESTING, T_MANUAL_CANDIDATE_PENDING, T_MANUAL_BUILDING,
     T_MANUAL_CORRECTNESS, T_MANUAL_PERFORMANCE, T_MANUAL_ADJUDICATING, T_ENDPOINT_PROBING,
     T_ENDPOINT_PROVISIONAL_PASSED, T_CANCELLED]"

fun index_of :: "'a list \<Rightarrow> 'a \<Rightarrow> nat" where
  "index_of [] x = 0"
| "index_of (y # ys) x = (if x = y then 0 else Suc (index_of ys x))"

lemma index_of_bound: "x \<in> set xs \<Longrightarrow> index_of xs x < length xs"
  by (induction xs) auto

lemma nth_index_of: "x \<in> set xs \<Longrightarrow> xs ! index_of xs x = x"
  by (induction xs) auto

lemma index_of_inj: "x \<in> set xs \<Longrightarrow> index_of xs x = index_of xs y \<Longrightarrow> y \<in> set xs \<Longrightarrow> x = y"
  by (metis nth_index_of)

lemma index_of_nth: "distinct xs \<Longrightarrow> i < length xs \<Longrightarrow> index_of xs (xs ! i) = i"
  by (metis index_of_bound nth_eq_iff_index_eq nth_index_of nth_mem)

lemma task_states_complete: "s \<in> set task_states"
  by (cases s) (simp_all add: task_states_def)

instantiation task_state :: linorder
begin

definition less_eq_task_state :: "task_state \<Rightarrow> task_state \<Rightarrow> bool" where
  "less_eq_task_state a b \<longleftrightarrow> index_of task_states a \<le> index_of task_states b"

definition less_task_state :: "task_state \<Rightarrow> task_state \<Rightarrow> bool" where
  "less_task_state a b \<longleftrightarrow> index_of task_states a < index_of task_states b"

instance
  by standard
    (auto simp: less_eq_task_state_def less_task_state_def
      intro: index_of_inj task_states_complete)

end

section \<open>Transition graphs\<close>

fun TASK_TRANSITIONS :: "task_state \<Rightarrow> task_state list" where
  "TASK_TRANSITIONS T_CREATED = [T_STAGE0_PENDING, T_FRAMEWORK_SMOKE_PENDING]"
| "TASK_TRANSITIONS T_STAGE0_PENDING =
     [T_STOPPED_MEASUREMENT, T_DEGRADED, T_BASELINE_PENDING, T_CANCELLED]"
| "TASK_TRANSITIONS T_DEGRADED = [T_BASELINE_PENDING]"
| "TASK_TRANSITIONS T_BASELINE_PENDING = [T_PROFILING, T_MANUAL_CANDIDATE_PENDING]"
| "TASK_TRANSITIONS T_PROFILING = [T_SEARCHING]"
| "TASK_TRANSITIONS T_SEARCHING = [T_EVALUATING]"
| "TASK_TRANSITIONS T_EVALUATING = [T_MODEL_VALIDATING]"
| "TASK_TRANSITIONS T_MODEL_VALIDATING = [T_E2E_VALIDATING, T_REJECTED]"
| "TASK_TRANSITIONS T_E2E_VALIDATING = [T_AWAITING_SIGNOFF, T_REJECTED]"
| "TASK_TRANSITIONS T_AWAITING_SIGNOFF =
     [T_COMPLETED, T_REJECTED, T_FRAMEWORK_RETESTING, T_CANCELLED]"
| "TASK_TRANSITIONS T_FRAMEWORK_SMOKE_PENDING = [T_SOURCE_PREPARING, T_REJECTED, T_CANCELLED]"
| "TASK_TRANSITIONS T_SOURCE_PREPARING = [T_ARTIFACT_PREPARING, T_REJECTED, T_CANCELLED]"
| "TASK_TRANSITIONS T_ARTIFACT_PREPARING = [T_FRAMEWORK_EXECUTING, T_REJECTED, T_CANCELLED]"
| "TASK_TRANSITIONS T_FRAMEWORK_EXECUTING = [T_OUTPUT_VALIDATING, T_REJECTED, T_CANCELLED]"
| "TASK_TRANSITIONS T_OUTPUT_VALIDATING = [T_AWAITING_SIGNOFF, T_REJECTED, T_CANCELLED]"
| "TASK_TRANSITIONS T_FRAMEWORK_RETESTING = [T_AWAITING_SIGNOFF, T_REJECTED, T_CANCELLED]"
| "TASK_TRANSITIONS T_MANUAL_CANDIDATE_PENDING = [T_MANUAL_BUILDING, T_CANCELLED]"
| "TASK_TRANSITIONS T_MANUAL_BUILDING = [T_MANUAL_CORRECTNESS, T_REJECTED, T_CANCELLED]"
| "TASK_TRANSITIONS T_MANUAL_CORRECTNESS = [T_MANUAL_PERFORMANCE, T_REJECTED, T_CANCELLED]"
| "TASK_TRANSITIONS T_MANUAL_PERFORMANCE = [T_MANUAL_ADJUDICATING, T_REJECTED, T_CANCELLED]"
| "TASK_TRANSITIONS T_MANUAL_ADJUDICATING = [T_AWAITING_SIGNOFF, T_REJECTED, T_CANCELLED]"
| "TASK_TRANSITIONS T_ENDPOINT_PROBING =
     [T_ENDPOINT_PROVISIONAL_PASSED, T_REJECTED, T_CANCELLED]"
| "TASK_TRANSITIONS _ = []"

fun CANDIDATE_TRANSITIONS :: "candidate_state \<Rightarrow> candidate_state list" where
  "CANDIDATE_TRANSITIONS C_PROPOSED = [C_BUILDING]"
| "CANDIDATE_TRANSITIONS C_BUILDING = [C_BUILT, C_BUILD_FAILED]"
| "CANDIDATE_TRANSITIONS C_BUILT = [C_CORRECTNESS_RUNNING, C_FRAMEWORK_SMOKE_RUNNING]"
| "CANDIDATE_TRANSITIONS C_CORRECTNESS_RUNNING = [C_PERFORMANCE_RUNNING, C_REJECTED]"
| "CANDIDATE_TRANSITIONS C_PERFORMANCE_RUNNING = [C_ROUND_WAITING, C_ADJUDICATING, C_REJECTED]"
| "CANDIDATE_TRANSITIONS C_ROUND_WAITING = [C_MODEL_VALIDATING, C_REJECTED]"
| "CANDIDATE_TRANSITIONS C_MODEL_VALIDATING = [C_STAGED, C_REJECTED]"
| "CANDIDATE_TRANSITIONS C_STAGED = [C_E2E_RUNNING]"
| "CANDIDATE_TRANSITIONS C_E2E_RUNNING = [C_RELEASE_CANDIDATE, C_REJECTED]"
| "CANDIDATE_TRANSITIONS C_FRAMEWORK_SMOKE_RUNNING = [C_FRAMEWORK_SMOKE_PASSED, C_REJECTED]"
| "CANDIDATE_TRANSITIONS C_FRAMEWORK_SMOKE_PASSED = [C_FRAMEWORK_SMOKE_RUNNING, C_REJECTED]"
| "CANDIDATE_TRANSITIONS C_ADJUDICATING = [C_AWAITING_SIGNOFF, C_REJECTED]"
| "CANDIDATE_TRANSITIONS C_AWAITING_SIGNOFF = [C_ACCEPTED, C_REJECTED]"
| "CANDIDATE_TRANSITIONS _ = []"

fun LEASE_TRANSITIONS :: "lease_state \<Rightarrow> lease_state list" where
  "LEASE_TRANSITIONS L_AVAILABLE = [L_ACTIVE]"
| "LEASE_TRANSITIONS L_ACTIVE = [L_RELEASING, L_EXPIRED, L_WORKER_LOST]"
| "LEASE_TRANSITIONS L_RELEASING = [L_FENCING]"
| "LEASE_TRANSITIONS L_EXPIRED = [L_FENCING]"
| "LEASE_TRANSITIONS L_WORKER_LOST = [L_FENCING]"
| "LEASE_TRANSITIONS L_FENCING = [L_HEALTH_CHECK]"
| "LEASE_TRANSITIONS L_HEALTH_CHECK = [L_AVAILABLE, L_QUARANTINED]"
| "LEASE_TRANSITIONS L_QUARANTINED = []"

definition transition :: "'s \<Rightarrow> 's \<Rightarrow> ('s \<Rightarrow> 's list) \<Rightarrow> error + 's" where
  "transition current target graph =
     (if target \<in> set (graph current) then Inr target else Inl InvalidTransition)"

definition transition_task :: "task_state \<Rightarrow> task_state \<Rightarrow> error + task_state" where
  "transition_task current target = transition current target TASK_TRANSITIONS"

definition transition_candidate ::
    "candidate_state \<Rightarrow> candidate_state \<Rightarrow> error + candidate_state" where
  "transition_candidate current target = transition current target CANDIDATE_TRANSITIONS"

definition transition_lease :: "lease_state \<Rightarrow> lease_state \<Rightarrow> error + lease_state" where
  "transition_lease current target = transition current target LEASE_TRANSITIONS"

lemmas transition_defs =
  transition_def transition_task_def transition_candidate_def transition_lease_def

section \<open>Runs of a state machine\<close>

text \<open>A run asks for one transition after the other and stops at the first refusal.\<close>

fun run_transitions :: "('s \<Rightarrow> 's \<Rightarrow> error + 's) \<Rightarrow> 's \<Rightarrow> 's list \<Rightarrow> error + 's" where
  "run_transitions tr s [] = Inr s"
| "run_transitions tr s (t # ts) = bind_res (tr s t) (\<lambda>s'. run_transitions tr s' ts)"

locale transition_system =
  fixes tr :: "'s \<Rightarrow> 's \<Rightarrow> error + 's"
    and graph :: "'s \<Rightarrow> 's list"
  assumes granted: "t \<in> set (graph s) \<Longrightarrow> tr s t = Inr t"
    and refused: "t \<notin> set (graph s) \<Longrightarrow> tr s t = Inl InvalidTransition"
begin

lemma tr_eq_Inr: "tr s t = Inr u \<longleftrightarrow> u = t \<and> t \<in> set (graph s)"
  using granted refused by (cases "t \<in> set (graph s)") auto

lemma run_last: "run_transitions tr s ts = Inr u \<Longrightarrow> u = last (s # ts)"
proof (induction ts arbitrary: s)
  case Nil
  then show ?case by simp
next
  case (Cons t ts)
  then show ?case by (force simp: bind_res_eq_Inr tr_eq_Inr)
qed

lemma run_edges:
  "run_transitions tr s ts = Inr u \<Longrightarrow> Suc i < length (s # ts) \<Longrightarrow>
   (s # ts) ! Suc i \<in> set (graph ((s # ts) ! i))"
proof (induction ts arbitrary: s i)
  case Nil
  then show ?case by simp
next
  case (Cons t ts)
  then show ?case by (cases i) (auto simp: bind_res_eq_Inr tr_eq_Inr)
qed

lemma run_rtrancl: "(\<exists>ts. run_transitions tr s ts = Inr u) \<longleftrightarrow> (s, u) \<in> {(a, b). b \<in> set (graph a)}\<^sup>*"
proof
  assume "\<exists>ts. run_transitions tr s ts = Inr u"
  then obtain ts where "run_transitions tr s ts = Inr u" by blast
  then show "(s, u) \<in> {(a, b). b \<in> set (graph a)}\<^sup>*"
  proof (induction ts arbitrary: s)
    case Nil
    then show ?case by simp
  next
    case (Cons t ts)
    then have "t \<in> set (graph s)" and "run_transitions tr t ts = Inr u"
      by (auto simp: bind_res_eq_Inr tr_eq_Inr)
    with Cons.IH [of t] show ?case
      by (intro converse_rtrancl_into_rtrancl [of s t]) simp_all
  qed
next
  assume "(s, u) \<in> {(a, b). b \<in> set (graph a)}\<^sup>*"
  then show "\<exists>ts. run_transitions tr s ts = Inr u"
  proof (induction rule: converse_rtrancl_induct)
    case base
    show ?case by (rule exI [of _ "[]"]) simp
  next
    case (step a b)
    then obtain ts where "run_transitions tr b ts = Inr u" by blast
    with step(1) show ?case
      by (intro exI [of _ "b # ts"]) (simp add: granted)
  qed
qed

text \<open>A state whose only predecessor is \<open>v\<close> is entered through \<open>v\<close>.\<close>

lemma run_through:
  assumes "run_transitions tr s ts = Inr u" and "s \<noteq> u"
    and pred: "\<And>a. u \<in> set (graph a) \<Longrightarrow> a = v \<or> a = u"
  shows "v \<in> set (butlast (s # ts))"
  using assms(1,2)
proof (induction ts arbitrary: s)
  case Nil
  then show ?case by simp
next
  case (Cons t ts)
  then have edge: "t \<in> set (graph s)" and run: "run_transitions tr t ts = Inr u"
    by (auto simp: bind_res_eq_Inr tr_eq_Inr)
  show ?case
  proof (cases "t = u")
    case True
    with edge pred Cons.prems(2) show ?thesis by auto
  next
    case False
    from Cons.IH [OF run False] show ?thesis by simp
  qed
qed

lemma run_sink: "graph s = [] \<Longrightarrow> run_transitions tr s ts = Inr u \<Longrightarrow> ts = [] \<and> u = s"
  by (cases ts) (auto simp: bind_res_eq_Inr tr_eq_Inr)

end

interpretation task_fsm: transition_system transition_task TASK_TRANSITIONS
  by unfold_locales (simp_all add: transition_defs)

interpretation candidate_fsm: transition_system transition_candidate CANDIDATE_TRANSITIONS
  by unfold_locales (simp_all add: transition_defs)

interpretation lease_fsm: transition_system transition_lease LEASE_TRANSITIONS
  by unfold_locales (simp_all add: transition_defs)

lemma transition_task_Inr [simp]:
  "transition_task s t = Inr u \<longleftrightarrow> u = t \<and> t \<in> set (TASK_TRANSITIONS s)"
  by (rule task_fsm.tr_eq_Inr)

lemma transition_candidate_Inr [simp]:
  "transition_candidate s t = Inr u \<longleftrightarrow> u = t \<and> t \<in> set (CANDIDATE_TRANSITIONS s)"
  by (rule candidate_fsm.tr_eq_Inr)

lemma transition_lease_Inr [simp]:
  "transition_lease s t = Inr u \<longleftrightarrow> u = t \<and> t \<in> set (LEASE_TRANSITIONS s)"
  by (rule lease_fsm.tr_eq_Inr)

section \<open>What the graphs guarantee\<close>

lemma pred_completed: "T_COMPLETED \<in> set (TASK_TRANSITIONS a) \<Longrightarrow> a = T_AWAITING_SIGNOFF"
  by (cases a) simp_all

lemma pred_accepted: "C_ACCEPTED \<in> set (CANDIDATE_TRANSITIONS a) \<Longrightarrow> a = C_AWAITING_SIGNOFF"
  by (cases a) simp_all

lemma pred_available: "L_AVAILABLE \<in> set (LEASE_TRANSITIONS a) \<Longrightarrow> a = L_HEALTH_CHECK"
  by (cases a) simp_all

lemma pred_health_check: "L_HEALTH_CHECK \<in> set (LEASE_TRANSITIONS a) \<Longrightarrow> a = L_FENCING"
  by (cases a) simp_all

text \<open>
  No task completes and no candidate is accepted without a human decision: every run
  of granted transitions that ends in completed (or accepted) leaves through
  awaiting_signoff, from whatever other state it starts.
\<close>

theorem completion_needs_signoff:
  "(run_transitions transition_task s ts = Inr T_COMPLETED \<and> s \<noteq> T_COMPLETED \<longrightarrow>
     T_AWAITING_SIGNOFF \<in> set (butlast (s # ts))) \<and>
   (run_transitions transition_candidate c cs = Inr C_ACCEPTED \<and> c \<noteq> C_ACCEPTED \<longrightarrow>
     C_AWAITING_SIGNOFF \<in> set (butlast (c # cs)))"
  using task_fsm.run_through [of s ts T_COMPLETED T_AWAITING_SIGNOFF] pred_completed
    candidate_fsm.run_through [of c cs C_ACCEPTED C_AWAITING_SIGNOFF] pred_accepted
  by blast

theorem completion_needs_signoff_witness:
  "T_AWAITING_SIGNOFF \<in> set (butlast (T_OUTPUT_VALIDATING # [T_AWAITING_SIGNOFF, T_COMPLETED])) \<and>
   C_AWAITING_SIGNOFF \<in> set (butlast (C_ADJUDICATING # [C_AWAITING_SIGNOFF, C_ACCEPTED]))"
proof -
  have t: "run_transitions transition_task T_OUTPUT_VALIDATING [T_AWAITING_SIGNOFF, T_COMPLETED]
      = Inr T_COMPLETED"
    and c: "run_transitions transition_candidate C_ADJUDICATING [C_AWAITING_SIGNOFF, C_ACCEPTED]
      = Inr C_ACCEPTED"
    by (simp_all add: transition_defs)
  show ?thesis
    using completion_needs_signoff [of T_OUTPUT_VALIDATING "[T_AWAITING_SIGNOFF, T_COMPLETED]"
      C_ADJUDICATING "[C_AWAITING_SIGNOFF, C_ACCEPTED]"] t c by blast
qed

end
