(* ===== verification/Lease.thy ===== *)
theory Lease
  imports Domain
begin

text \<open>
  The in-memory resource lease: \<open>ResourceLease\<close> of src/src/hcuopt/domain/models.py and
  the operations of src/src/hcuopt/leases.py. An operation that raises leaves the lease as
  it was, since each asks for its transition before it writes a field.

  The lemmas show that fencing tokens are issued once and only grow, that a holder with an
  older token is refused, and that a lease that was active is available again only after
  fencing, cleanup and a healthy check.
\<close>

record resource_lease =
  rl_owner :: "string option"
  rl_state :: lease_state
  rl_token :: int

definition new_lease :: resource_lease where
  "new_lease = \<lparr>rl_owner = None, rl_state = L_AVAILABLE, rl_token = 0\<rparr>"

definition assert_token :: "resource_lease \<Rightarrow> int \<Rightarrow> error + unit" where
  "assert_token l token =
     (if token \<noteq> rl_token l then Inl (StaleFencingToken ''token is stale'') else Inr ())"

definition acquire :: "resource_lease \<Rightarrow> string \<Rightarrow> error + (resource_lease \<times> int)" where
  "acquire l owner_id =
     bind_res (transition_lease (rl_state l) L_ACTIVE) (\<lambda>s.
       let l' = l\<lparr>rl_state := s, rl_token := rl_token l + 1, rl_owner := Some owner_id\<rparr>
       in Inr (l', rl_token l'))"

definition begin_release :: "resource_lease \<Rightarrow> int \<Rightarrow> error + resource_lease" where
  "begin_release l token =
     bind_res (assert_token l token) (\<lambda>_.
       bind_res (transition_lease (rl_state l) L_RELEASING) (\<lambda>s. Inr (l\<lparr>rl_state := s\<rparr>)))"

definition mark_expired :: "resource_lease \<Rightarrow> error + resource_lease" where
  "mark_expired l =
     bind_res (transition_lease (rl_state l) L_EXPIRED) (\<lambda>s. Inr (l\<lparr>rl_state := s\<rparr>))"

definition start_fencing :: "resource_lease \<Rightarrow> error + resource_lease" where
  "start_fencing l =
     bind_res (transition_lease (rl_state l) L_FENCING) (\<lambda>s. Inr (l\<lparr>rl_state := s\<rparr>))"

definition finish_cleanup :: "resource_lease \<Rightarrow> error + resource_lease" where
  "finish_cleanup l =
     bind_res (transition_lease (rl_state l) L_HEALTH_CHECK) (\<lambda>s. Inr (l\<lparr>rl_state := s\<rparr>))"

definition complete_health_check :: "resource_lease \<Rightarrow> bool \<Rightarrow> error + resource_lease" where
  "complete_health_check l healthy =
     (let target = (if healthy then L_AVAILABLE else L_QUARANTINED)
      in bind_res (transition_lease (rl_state l) target) (\<lambda>s.
           let l' = l\<lparr>rl_state := s\<rparr>
           in Inr (if healthy then l'\<lparr>rl_owner := None\<rparr> else l')))"

section \<open>Histories of operations\<close>

datatype lease_op =
    LAcquire string
  | LBeginRelease int
  | LMarkExpired
  | LStartFencing
  | LFinishCleanup
  | LCompleteHealthCheck bool

fun lease_step :: "lease_op \<Rightarrow> resource_lease \<Rightarrow> error + resource_lease" where
  "lease_step (LAcquire w) l = bind_res (acquire l w) (\<lambda>(l', t). Inr l')"
| "lease_step (LBeginRelease t) l = begin_release l t"
| "lease_step LMarkExpired l = mark_expired l"
| "lease_step LStartFencing l = start_fencing l"
| "lease_step LFinishCleanup l = finish_cleanup l"
| "lease_step (LCompleteHealthCheck h) l = complete_health_check l h"

lemmas lease_op_defs =
  acquire_def assert_token_def begin_release_def mark_expired_def start_fencing_def
  finish_cleanup_def complete_health_check_def Let_def

definition lease_inv :: "resource_lease \<Rightarrow> bool" where
  "lease_inv l \<longleftrightarrow> (rl_state l = L_AVAILABLE \<longrightarrow> rl_owner l = None) \<and>
     (rl_state l = L_ACTIVE \<longrightarrow> rl_owner l \<noteq> None) \<and> 0 \<le> rl_token l"

lemma lease_step_inv: "lease_inv l \<Longrightarrow> lease_step p l = Inr l' \<Longrightarrow> lease_inv l'"
  by (cases p)
    (auto simp: lease_op_defs lease_inv_def bind_res_eq_Inr split: if_splits)

interpretation lease_tx: transactional lease_step "\<lambda>p. True" lease_inv
  by unfold_locales (rule lease_step_inv)

lemma lease_step_token:
  "lease_step p l = Inr l' \<Longrightarrow>
   rl_token l' = (case p of LAcquire w \<Rightarrow> rl_token l + 1 | _ \<Rightarrow> rl_token l)"
  by (cases p) (auto simp: lease_op_defs bind_res_eq_Inr split: if_splits)

lemma commit_token_mono: "rl_token l \<le> rl_token (commit lease_step p l)"
  by (auto simp: commit_def split: sum.split lease_op.splits dest!: lease_step_token)

lemma history_token_mono: "rl_token l \<le> rl_token (history lease_step ps l)"
  by (induction ps arbitrary: l) (auto intro: order_trans [OF commit_token_mono])

lemma acquire_token: "acquire l w = Inr (l', t) \<Longrightarrow> t = rl_token l + 1 \<and> rl_token l' = t"
  by (auto simp: lease_op_defs bind_res_eq_Inr)

text \<open>
  C31. A fencing token fences: once a lease has been acquired again, whatever operations
  (granted or refused) came in between and after, the earlier holder's token is rejected
  and its release changes nothing.
\<close>

theorem old_token_is_fenced:
  assumes "acquire l w = Inr (l1, t1)"
    and "acquire (history lease_step ps l1) v = Inr (l2, t2)"
    and "l3 = history lease_step qs l2"
  shows "t1 < t2 \<and> begin_release l3 t1 = Inl (StaleFencingToken ''token is stale'') \<and>
    commit lease_step (LBeginRelease t1) l3 = l3"
proof -
  have "t1 < t2"
    using acquire_token [OF assms(1)] acquire_token [OF assms(2)]
      history_token_mono [of l1 ps] by simp
  moreover have "t2 \<le> rl_token l3"
    using acquire_token [OF assms(2)] history_token_mono [of l2 qs] assms(3) by simp
  ultimately show ?thesis
    by (simp add: commit_def begin_release_def assert_token_def)
qed

theorem old_token_is_fenced_witness:
  "(1::int) < 2 \<and>
   begin_release \<lparr>rl_owner = Some ''b'', rl_state = L_ACTIVE, rl_token = 2\<rparr> 1 =
     Inl (StaleFencingToken ''token is stale'')"
proof -
  let ?l1 = "\<lparr>rl_owner = Some ''a'', rl_state = L_ACTIVE, rl_token = 1\<rparr>"
  let ?l2 = "\<lparr>rl_owner = Some ''b'', rl_state = L_ACTIVE, rl_token = 2\<rparr>"
  let ?ps = "[LMarkExpired, LStartFencing, LFinishCleanup, LCompleteHealthCheck True]"
  have 1: "acquire new_lease ''a'' = Inr (?l1, 1)"
    by (simp add: lease_op_defs new_lease_def transition_defs)
  have 2: "acquire (history lease_step ?ps ?l1) ''b'' = Inr (?l2, 2)"
    by (simp add: lease_op_defs commit_def transition_defs)
  show ?thesis
    using old_token_is_fenced [OF 1 2, of ?l2 "[]"] by simp
qed

section \<open>Re-use of a resource\<close>

fun lease_run :: "lease_op list \<Rightarrow> resource_lease \<Rightarrow> error + resource_lease" where
  "lease_run [] l = Inr l"
| "lease_run (p # ps) l = bind_res (lease_step p l) (lease_run ps)"

text \<open>What must still happen before a lease in a state is available.\<close>

fun pending_cleanup :: "lease_state \<Rightarrow> lease_op set" where
  "pending_cleanup L_AVAILABLE = {}"
| "pending_cleanup L_HEALTH_CHECK = {LCompleteHealthCheck True}"
| "pending_cleanup L_FENCING = {LFinishCleanup, LCompleteHealthCheck True}"
| "pending_cleanup _ = {LStartFencing, LFinishCleanup, LCompleteHealthCheck True}"

lemma lease_step_pending:
  "lease_step p l = Inr l' \<Longrightarrow>
   pending_cleanup (rl_state l) \<subseteq> insert p (pending_cleanup (rl_state l'))"
  by (cases p; cases "rl_state l")
    (auto simp: lease_op_defs bind_res_eq_Inr split: if_splits)

lemma lease_run_pending:
  "lease_run ps l = Inr l' \<Longrightarrow>
   pending_cleanup (rl_state l) \<subseteq> set ps \<union> pending_cleanup (rl_state l')"
proof (induction ps arbitrary: l)
  case Nil
  then show ?case by simp
next
  case (Cons p ps)
  then obtain m where m: "lease_step p l = Inr m" and run: "lease_run ps m = Inr l'"
    by (auto simp: bind_res_eq_Inr)
  from lease_step_pending [OF m] Cons.IH [OF run] show ?case by auto
qed

lemma lease_run_inv: "lease_run ps l = Inr l' \<Longrightarrow> lease_inv l \<Longrightarrow> lease_inv l'"
  by (induction ps arbitrary: l) (auto simp: bind_res_eq_Inr intro: lease_step_inv)

text \<open>
  No resource is handed to a second owner before it was cleaned: if operations take a
  lease that is held (active, releasing, expired or with a lost worker) to available, they
  include fencing, the end of the cleanup and a healthy health check, and the lease has no
  owner afterwards.
\<close>

theorem reuse_needs_cleanup:
  assumes "lease_inv l" and "rl_state l \<in> {L_ACTIVE, L_RELEASING, L_EXPIRED, L_WORKER_LOST}"
    and "lease_run ps l = Inr l'" and "rl_state l' = L_AVAILABLE"
  shows "{LStartFencing, LFinishCleanup, LCompleteHealthCheck True} \<subseteq> set ps \<and>
    rl_owner l' = None"
  using lease_run_pending [OF assms(3)] lease_run_inv [OF assms(3,1)] assms(2,4)
  by (auto simp: lease_inv_def)

theorem reuse_needs_cleanup_witness:
  "{LStartFencing, LFinishCleanup, LCompleteHealthCheck True} \<subseteq>
     set [LBeginRelease 1, LStartFencing, LFinishCleanup, LCompleteHealthCheck True]"
proof -
  let ?l = "\<lparr>rl_owner = Some ''a'', rl_state = L_ACTIVE, rl_token = 1\<rparr>"
  let ?l' = "\<lparr>rl_owner = None, rl_state = L_AVAILABLE, rl_token = 1\<rparr>"
  let ?ps = "[LBeginRelease 1, LStartFencing, LFinishCleanup, LCompleteHealthCheck True]"
  have run: "lease_run ?ps ?l = Inr ?l'"
    by (simp add: lease_op_defs transition_defs)
  have inv: "lease_inv ?l" by (simp add: lease_inv_def)
  show ?thesis using reuse_needs_cleanup [OF inv _ run] by simp
qed

end
