(* ===== verification/Json.thy ===== *)
theory Json
  imports Complex_Main Prelude
begin

text \<open>
  JSON values as the code holds them: the payload and the result of a job, the
  capabilities of a worker and cleanup evidence are Python dicts stored as \<open>JSONB\<close>. An
  object is a finite map, so two objects are equal when they bind the same keys to equal
  values, as Python's \<open>==\<close> on dicts has it.
\<close>

text \<open>
  A Python float is the rational number it denotes, or an infinity, or NaN; every
  comparison with NaN is false.
\<close>

datatype pyfloat = Fin rat | PosInf | NegInf | NaN

fun is_negative :: "pyfloat \<Rightarrow> bool" where
  "is_negative (Fin q) = (q < 0)"
| "is_negative NegInf = True"
| "is_negative PosInf = False"
| "is_negative NaN = False"

datatype json =
    JNull
  | JBool bool
  | JInt int
  | JFloat pyfloat
  | JStr string
  | JArr "json list"
  | JObj "(string, json) fmap"

abbreviation jobj :: "(string \<times> json) list \<Rightarrow> json" where
  "jobj kvs \<equiv> JObj (fmap_of_list kvs)"

text \<open>\<open>value.get(name)\<close> on a dict; the models only call it on objects.\<close>

fun jget :: "json \<Rightarrow> string \<Rightarrow> json option" where
  "jget (JObj m) k = fmlookup m k"
| "jget _ k = None"

text \<open>\<open>isinstance(value, dict)\<close>\<close>

fun is_obj :: "json \<Rightarrow> bool" where
  "is_obj (JObj m) = True"
| "is_obj _ = False"

text \<open>\<open>{**value, ...}\<close>: the entries on the right win.\<close>

fun jmerge :: "json \<Rightarrow> json \<Rightarrow> json" where
  "jmerge (JObj a) (JObj b) = JObj (a ++\<^sub>f b)"
| "jmerge a b = a"

text \<open>Truth of a value in a condition: null, false, zero and empty values are false.\<close>

fun truthy :: "json \<Rightarrow> bool" where
  "truthy JNull = False"
| "truthy (JBool b) = b"
| "truthy (JInt n) = (n \<noteq> 0)"
| "truthy (JFloat x) = (x \<noteq> Fin 0)"
| "truthy (JStr s) = (s \<noteq> [])"
| "truthy (JArr xs) = (xs \<noteq> [])"
| "truthy (JObj m) = (m \<noteq> fmempty)"

fun jstr_opt :: "string option \<Rightarrow> json" where
  "jstr_opt None = JNull"
| "jstr_opt (Some s) = JStr s"

fun jint_opt :: "int option \<Rightarrow> json" where
  "jint_opt None = JNull"
| "jint_opt (Some n) = JInt n"

lemma jget_jobj [simp]: "jget (jobj kvs) k = map_of kvs k"
  by (simp add: fmlookup_of_list)

lemma jget_jmerge [simp]:
  "jget (jmerge (JObj a) (JObj b)) k =
     (case fmlookup b k of Some v \<Rightarrow> Some v | None \<Rightarrow> fmlookup a k)"
  by (auto split: option.splits)

end
