(* ===== verification/Stage0.thy ===== *)
theory Stage0
  imports Json Domain
begin

text \<open>
  The Stage 0 go/no-go gate: src/src/hcuopt/stage0.py and the \<open>Stage0Evidence\<close> and
  \<open>Stage0Report\<close> of src/src/hcuopt/domain/models.py. The family of probe summaries is a
  map from the probe type to a JSON object; the reasons of a report, prose in the code, are
  a datatype.
\<close>

record stage0_evidence =
  se_measurement :: gate_result
  se_profiler :: profiler_capability
  se_hot_patch :: hot_patch_capability
  se_hardware :: string
  se_software :: string
  se_timer_resolution :: "pyfloat option"
  se_noise_sigma :: "pyfloat option"
  se_noise_cv :: "pyfloat option"
  se_mde_ratio :: "pyfloat option"
  se_evidence_uri :: "string option"


datatype stage0_reason =
    MEASUREMENT_GATE_FAILED
  | NO_HOTSPOT_DATA
  | NO_PATCH_MECHANISM
  | PROFILER_IS_DEGRADED
  | STARTUP_OVERLAY_ONLY
  | ALL_PROBES_PASSED

record stage0_report =
  sr_mode :: project_mode
  sr_reasons :: "stage0_reason list"
  sr_automatic_release_allowed :: bool

section \<open>From probe summaries to evidence\<close>









section \<open>The gate\<close>

definition evaluate_stage0 :: "stage0_evidence \<Rightarrow> stage0_report" where
  "evaluate_stage0 e =
     (if se_measurement e = GATE_FAIL
      then \<lparr>sr_mode = STOPPED_MEASUREMENT, sr_reasons = [MEASUREMENT_GATE_FAILED],
            sr_automatic_release_allowed = False\<rparr>
      else
        let blocking =
              (if se_profiler e = PROF_NONE then [NO_HOTSPOT_DATA] else []) @
              (if se_hot_patch e = HP_NONE then [NO_PATCH_MECHANISM] else []);
            degrading =
              (if se_profiler e = PROF_DEGRADED then [PROFILER_IS_DEGRADED] else []) @
              (if se_hot_patch e = HP_OVERLAY_ONLY then [STARTUP_OVERLAY_ONLY] else [])
        in if blocking \<noteq> []
           then \<lparr>sr_mode = CONFIG_ONLY, sr_reasons = blocking,
                 sr_automatic_release_allowed = False\<rparr>
           else if degrading \<noteq> []
           then \<lparr>sr_mode = DEGRADED_MANUAL_INTAKE, sr_reasons = degrading,
                 sr_automatic_release_allowed = False\<rparr>
           else \<lparr>sr_mode = FULL_MVP, sr_reasons = [ALL_PROBES_PASSED],
                 sr_automatic_release_allowed = False\<rparr>)"

lemma evaluate_stage0_mode:
  "sr_mode (evaluate_stage0 e) =
     (if se_measurement e = GATE_FAIL then STOPPED_MEASUREMENT
      else if se_profiler e = PROF_NONE \<or> se_hot_patch e = HP_NONE then CONFIG_ONLY
      else if se_profiler e = PROF_DEGRADED \<or> se_hot_patch e = HP_OVERLAY_ONLY
      then DEGRADED_MANUAL_INTAKE else FULL_MVP)"
  by (simp add: evaluate_stage0_def Let_def)

lemma evaluate_stage0_never_releases: "\<not> sr_automatic_release_allowed (evaluate_stage0 e)"
  by (simp add: evaluate_stage0_def Let_def)

lemma evaluate_stage0_has_reason: "sr_reasons (evaluate_stage0 e) \<noteq> []"
  by (simp add: evaluate_stage0_def Let_def)

section \<open>Capabilities only help\<close>

fun gate_rank :: "gate_result \<Rightarrow> nat" where
  "gate_rank GATE_FAIL = 0" | "gate_rank GATE_PASS = 1"

fun profiler_rank :: "profiler_capability \<Rightarrow> nat" where
  "profiler_rank PROF_NONE = 0" | "profiler_rank PROF_DEGRADED = 1" | "profiler_rank PROF_FULL = 2"

fun hot_patch_rank :: "hot_patch_capability \<Rightarrow> nat" where
  "hot_patch_rank HP_NONE = 0" | "hot_patch_rank HP_OVERLAY_ONLY = 1" | "hot_patch_rank HOT_PATCH = 2"

fun mode_rank :: "project_mode \<Rightarrow> nat" where
  "mode_rank STOPPED_MEASUREMENT = 0" | "mode_rank CONFIG_ONLY = 1"
| "mode_rank DEGRADED_MANUAL_INTAKE = 2" | "mode_rank FULL_MVP = 3"

text \<open>The mode is the weakest of the three capabilities, on one scale.\<close>

definition weakest_capability :: "stage0_evidence \<Rightarrow> nat" where
  "weakest_capability e =
     (if gate_rank (se_measurement e) = 0 then 0
      else Suc (min (profiler_rank (se_profiler e)) (hot_patch_rank (se_hot_patch e))))"

lemma mode_rank_weakest: "mode_rank (sr_mode (evaluate_stage0 e)) = weakest_capability e"
  by (cases "se_measurement e"; cases "se_profiler e"; cases "se_hot_patch e")
    (simp_all add: evaluate_stage0_mode weakest_capability_def)

text \<open>
  C32. The gate is monotone and never grants a release: the mode is exactly the weakest of
  the measured capabilities, so evidence that is at least as good in the measurement, the
  profiler and the hot-patch capability never yields a weaker mode, and every report has a
  reason and leaves automatic release off.
\<close>

theorem stage0_gate_monotone:
  "mode_rank (sr_mode (evaluate_stage0 e)) = weakest_capability e \<and>
   (gate_rank (se_measurement e) \<le> gate_rank (se_measurement e') \<and>
    profiler_rank (se_profiler e) \<le> profiler_rank (se_profiler e') \<and>
    hot_patch_rank (se_hot_patch e) \<le> hot_patch_rank (se_hot_patch e') \<longrightarrow>
    mode_rank (sr_mode (evaluate_stage0 e)) \<le> mode_rank (sr_mode (evaluate_stage0 e'))) \<and>
   sr_reasons (evaluate_stage0 e) \<noteq> [] \<and> \<not> sr_automatic_release_allowed (evaluate_stage0 e)"
  by (auto simp: mode_rank_weakest weakest_capability_def evaluate_stage0_has_reason
      evaluate_stage0_never_releases min_def)

definition sample_evidence :: "profiler_capability \<Rightarrow> stage0_evidence" where
  "sample_evidence p =
    \<lparr>se_measurement = GATE_PASS, se_profiler = p, se_hot_patch = HP_OVERLAY_ONLY,
     se_hardware = ''hw'', se_software = ''sw'', se_timer_resolution = Some (Fin 1),
     se_noise_sigma = Some (Fin 1), se_noise_cv = Some (Fin 0), se_mde_ratio = Some (Fin 0),
     se_evidence_uri = None\<rparr>"

theorem stage0_gate_monotone_witness:
  "mode_rank (sr_mode (evaluate_stage0 (sample_evidence PROF_NONE))) \<le>
   mode_rank (sr_mode (evaluate_stage0 (sample_evidence PROF_FULL)))"
  using stage0_gate_monotone [of "sample_evidence PROF_NONE" "sample_evidence PROF_FULL"]
  by (simp add: sample_evidence_def)

section \<open>What accepted evidence says\<close>







end
