(* ===== verification/Database.thy ===== *)
theory Database
  imports Json Domain
begin

text \<open>
  The PostgreSQL store that src/src/hcuopt/storage/repository.py reads and writes: one
  record per table row with the columns the modelled operations use, and the store as the
  record of its tables. A table is the list of its rows in insertion order. The audit
  columns \<open>updated_at\<close> and the serial numbers of the event tables are left out: no
  operation reads them.

  Lookups by primary key, the row updates that every operation is made of, and their
  interaction are here, so that the operations of the components reason about rows only.
\<close>

record task =
  t_id :: uuid
  t_name :: string
  t_workload :: string
  t_key :: string
  t_state :: task_state
  t_mode :: "project_mode option"
  t_budget :: json
  t_auto_release :: bool
  t_workflow :: workflow_type
  t_target :: "string option"
  t_snapshot :: "uuid option"
  t_profile :: "string option"
  t_authority :: string
  t_stage0_run :: "uuid option"
  t_retests :: int
  t_version :: int

record job =
  j_id :: uuid
  j_task :: uuid
  j_type :: job_type
  j_accepts :: worker_type
  j_profile :: "string option"
  j_scope :: lease_scope
  j_payload :: json
  j_key :: string
  j_priority :: int
  j_state :: job_state
  j_available_at :: time
  j_claimed_by :: "string option"
  j_claim_token :: "uuid option"
  j_claimed_at :: "time option"
  j_heartbeat_at :: "time option"
  j_lease :: "uuid option"
  j_resource :: "string option"
  j_fence :: "int option"
  j_attempts :: int
  j_max_attempts :: int
  j_result :: "json option"
  j_error :: "json option"
  j_advanced_at :: "time option"
  j_finished_at :: "time option"
  j_created_at :: time

record resource =
  r_id :: string
  r_state :: lease_state
  r_owner :: "uuid option"
  r_lease :: "uuid option"
  r_fence :: int
  r_expires_at :: "time option"
  r_cleanup :: "json option"

record worker =
  w_id :: string
  w_type :: worker_type
  w_contract :: string
  w_profile :: "string option"
  w_capabilities :: json
  w_online :: bool
  w_heartbeat_at :: time

record candidate =
  c_id :: uuid
  c_task :: uuid
  c_round :: uuid
  c_baseline :: uuid
  c_source_hash :: string
  c_variant :: string
  c_state :: candidate_state
  c_ordinal :: int
  c_metadata :: json
  c_track :: "string option"
  c_release_mode :: "string option"
  c_kind :: "string option"
  c_intent :: "string option"
  c_point :: "string option"
  c_key :: "string option"
  c_hotspot :: "uuid option"

record baseline =
  b_id :: uuid
  b_task :: uuid
  b_hardware :: string
  b_software :: string
  b_workload :: string
  b_configuration :: string

record hotspot =
  h_id :: uuid
  h_task :: uuid
  h_baseline :: uuid
  h_symbol :: string
  h_evidence :: json

record artifact =
  a_id :: uuid
  a_task :: uuid
  a_candidate :: uuid
  a_kind :: string
  a_uri :: string
  a_hash :: string
  a_metadata :: json
  a_synthetic :: bool

record evaluation_run =
  e_id :: uuid
  e_task :: uuid
  e_candidate :: uuid
  e_round :: uuid
  e_baseline :: uuid
  e_phase :: string
  e_passed :: "bool option"
  e_protocol :: string
  e_fingerprint :: string
  e_key :: string
  e_metrics :: json
  e_measurement :: "json option"
  e_uris :: "string list"
  e_provenance :: json
  e_synthetic :: bool

record stage0_run =
  s_id :: uuid
  s_state :: stage0_run_state

datatype endpoint_run_state = ER_QUEUED | ER_RUNNING | ER_FAILED | ER_OTHER

record endpoint_run =
  n_id :: uuid
  n_job :: uuid
  n_state :: endpoint_run_state
  n_error :: "json option"
  n_cleanup :: "json option"

datatype campaign_state =
  EC_AWAITING_ADJUDICATION | EC_ADJUDICATING | EC_ADJUDICATION_FAILED | EC_OTHER

record campaign =
  k_id :: uuid
  k_signed_task :: uuid
  k_job :: "uuid option"
  k_state :: campaign_state

record event =
  ev_subject :: uuid
  ev_type :: string
  ev_details :: json

record db =
  tasks :: "task list"
  jobs :: "job list"
  resources :: "resource list"
  workers :: "worker list"
  candidates :: "candidate list"
  baselines :: "baseline list"
  hotspots :: "hotspot list"
  artifacts :: "artifact list"
  evaluations :: "evaluation_run list"
  stage0_reports :: "(uuid \<times> json) list"
  stage0_runs :: "stage0_run list"
  endpoint_runs :: "endpoint_run list"
  campaigns :: "campaign list"
  job_events :: "event list"
  task_events :: "event list"

definition empty_db :: db where
  "empty_db = \<lparr>tasks = [], jobs = [], resources = [], workers = [], candidates = [],
     baselines = [], hotspots = [], artifacts = [], evaluations = [], stage0_reports = [],
     stage0_runs = [], endpoint_runs = [], campaigns = [], job_events = [], task_events = []\<rparr>"

section \<open>Lookup by primary key\<close>

definition find_task :: "db \<Rightarrow> uuid \<Rightarrow> task option" where
  "find_task d i = find (\<lambda>t. t_id t = i) (tasks d)"

definition find_job :: "db \<Rightarrow> uuid \<Rightarrow> job option" where
  "find_job d i = find (\<lambda>j. j_id j = i) (jobs d)"

definition find_resource :: "db \<Rightarrow> string \<Rightarrow> resource option" where
  "find_resource d i = find (\<lambda>r. r_id r = i) (resources d)"

definition find_worker :: "db \<Rightarrow> string \<Rightarrow> worker option" where
  "find_worker d i = find (\<lambda>w. w_id w = i) (workers d)"

definition find_candidate :: "db \<Rightarrow> uuid \<Rightarrow> candidate option" where
  "find_candidate d i = find (\<lambda>c. c_id c = i) (candidates d)"

section \<open>Row updates\<close>

definition set_jobs :: "(job \<Rightarrow> bool) \<Rightarrow> (job \<Rightarrow> job) \<Rightarrow> db \<Rightarrow> db" where
  "set_jobs P f d = d\<lparr>jobs := update_where P f (jobs d)\<rparr>"

definition set_resources :: "(resource \<Rightarrow> bool) \<Rightarrow> (resource \<Rightarrow> resource) \<Rightarrow> db \<Rightarrow> db" where
  "set_resources P f d = d\<lparr>resources := update_where P f (resources d)\<rparr>"

definition set_task :: "uuid \<Rightarrow> (task \<Rightarrow> task) \<Rightarrow> db \<Rightarrow> db" where
  "set_task i f d = d\<lparr>tasks := update_where (\<lambda>t. t_id t = i) f (tasks d)\<rparr>"

definition set_candidate :: "uuid \<Rightarrow> (candidate \<Rightarrow> candidate) \<Rightarrow> db \<Rightarrow> db" where
  "set_candidate i f d = d\<lparr>candidates := update_where (\<lambda>c. c_id c = i) f (candidates d)\<rparr>"

definition touch_worker :: "string \<Rightarrow> time \<Rightarrow> db \<Rightarrow> db" where
  "touch_worker i now d =
     d\<lparr>workers := update_where (\<lambda>w. w_id w = i) (\<lambda>w. w\<lparr>w_heartbeat_at := now\<rparr>) (workers d)\<rparr>"

definition log_job :: "uuid \<Rightarrow> string \<Rightarrow> json \<Rightarrow> db \<Rightarrow> db" where
  "log_job i ty details d =
     d\<lparr>job_events := job_events d @ [\<lparr>ev_subject = i, ev_type = ty, ev_details = details\<rparr>]\<rparr>"

definition log_task :: "uuid \<Rightarrow> string \<Rightarrow> json \<Rightarrow> db \<Rightarrow> db" where
  "log_task i ty details d =
     d\<lparr>task_events := task_events d @ [\<lparr>ev_subject = i, ev_type = ty, ev_details = details\<rparr>]\<rparr>"

text \<open>\<open>UPDATE tasks SET state = ..., version = version + 1\<close>\<close>

definition move_task :: "uuid \<Rightarrow> task_state \<Rightarrow> db \<Rightarrow> db" where
  "move_task i s = set_task i (\<lambda>t. t\<lparr>t_state := s, t_version := t_version t + 1\<rparr>)"

definition move_candidate :: "uuid \<Rightarrow> candidate_state \<Rightarrow> db \<Rightarrow> db" where
  "move_candidate i s = set_candidate i (\<lambda>c. c\<lparr>c_state := s\<rparr>)"

section \<open>What an update leaves alone\<close>

lemma tables_set_jobs [simp]:
  "tasks (set_jobs P f d) = tasks d" "resources (set_jobs P f d) = resources d"
  "workers (set_jobs P f d) = workers d" "candidates (set_jobs P f d) = candidates d"
  "jobs (set_jobs P f d) = update_where P f (jobs d)"
  "campaigns (set_jobs P f d) = campaigns d" "endpoint_runs (set_jobs P f d) = endpoint_runs d"
  "stage0_runs (set_jobs P f d) = stage0_runs d" "baselines (set_jobs P f d) = baselines d"
  by (simp_all add: set_jobs_def)

lemma tables_set_resources [simp]:
  "tasks (set_resources P f d) = tasks d" "jobs (set_resources P f d) = jobs d"
  "workers (set_resources P f d) = workers d" "candidates (set_resources P f d) = candidates d"
  "resources (set_resources P f d) = update_where P f (resources d)"
  "campaigns (set_resources P f d) = campaigns d"
  "endpoint_runs (set_resources P f d) = endpoint_runs d"
  "stage0_runs (set_resources P f d) = stage0_runs d"
  "baselines (set_resources P f d) = baselines d"
  by (simp_all add: set_resources_def)

lemma tables_touch_worker [simp]:
  "tasks (touch_worker i n d) = tasks d" "jobs (touch_worker i n d) = jobs d"
  "resources (touch_worker i n d) = resources d" "candidates (touch_worker i n d) = candidates d"
  "campaigns (touch_worker i n d) = campaigns d" "baselines (touch_worker i n d) = baselines d"
  by (simp_all add: touch_worker_def)

lemma tables_log [simp]:
  "tasks (log_job i ty v d) = tasks d" "jobs (log_job i ty v d) = jobs d"
  "resources (log_job i ty v d) = resources d" "candidates (log_job i ty v d) = candidates d"
  "workers (log_job i ty v d) = workers d" "campaigns (log_job i ty v d) = campaigns d"
  "baselines (log_job i ty v d) = baselines d"
  "tasks (log_task i ty v d) = tasks d" "jobs (log_task i ty v d) = jobs d"
  "resources (log_task i ty v d) = resources d" "candidates (log_task i ty v d) = candidates d"
  "workers (log_task i ty v d) = workers d" "campaigns (log_task i ty v d) = campaigns d"
  "baselines (log_task i ty v d) = baselines d"
  by (simp_all add: log_job_def log_task_def)

lemma tables_move [simp]:
  "jobs (move_task i s d) = jobs d" "resources (move_task i s d) = resources d"
  "candidates (move_task i s d) = candidates d" "workers (move_task i s d) = workers d"
  "baselines (move_task i s d) = baselines d" "campaigns (move_task i s d) = campaigns d"
  "jobs (move_candidate i' s' d) = jobs d" "resources (move_candidate i' s' d) = resources d"
  "tasks (move_candidate i' s' d) = tasks d" "workers (move_candidate i' s' d) = workers d"
  "baselines (move_candidate i' s' d) = baselines d"
  "campaigns (move_candidate i' s' d) = campaigns d"
  by (simp_all add: move_task_def move_candidate_def set_task_def set_candidate_def)

lemma find_log [simp]:
  "find_task (log_job i ty v d) k = find_task d k"
  "find_task (log_task i ty v d) k = find_task d k"
  "find_candidate (log_job i ty v d) k = find_candidate d k"
  "find_candidate (log_task i ty v d) k = find_candidate d k"
  "find_job (log_job i ty v d) k = find_job d k"
  "find_job (log_task i ty v d) k = find_job d k"
  "find_resource (log_job i ty v d) k = find_resource d k"
  "find_resource (log_task i ty v d) k = find_resource d k"
  by (simp_all add: find_task_def find_candidate_def find_job_def find_resource_def)

lemma find_task_move [simp]:
  "find_task (move_task i s d) k = map_option
     (\<lambda>t. if t_id t = i then t\<lparr>t_state := s, t_version := t_version t + 1\<rparr> else t) (find_task d k)"
  "find_task (move_candidate i' s' d) k = find_task d k"
  by (simp_all add: find_task_def move_task_def set_task_def find_update_where)

lemma find_candidate_move [simp]:
  "find_candidate (move_candidate i s d) k = map_option
     (\<lambda>c. if c_id c = i then c\<lparr>c_state := s\<rparr> else c) (find_candidate d k)"
  "find_candidate (move_task i' s' d) k = find_candidate d k"
  by (simp_all add: find_candidate_def move_candidate_def set_candidate_def find_update_where)

lemma find_SomeD':
  "find_task d i = Some t \<Longrightarrow> t \<in> set (tasks d) \<and> t_id t = i"
  "find_job d i = Some j \<Longrightarrow> j \<in> set (jobs d) \<and> j_id j = i"
  "find_resource d k = Some r \<Longrightarrow> r \<in> set (resources d) \<and> r_id r = k"
  "find_worker d k = Some w \<Longrightarrow> w \<in> set (workers d) \<and> w_id w = k"
  "find_candidate d i = Some c \<Longrightarrow> c \<in> set (candidates d) \<and> c_id c = i"
  by (auto simp: find_task_def find_job_def find_resource_def find_worker_def
      find_candidate_def dest: find_SomeD)

end
