(* ===== verification/JobQueue.thy ===== *)
theory JobQueue
  imports Database "HOL-Library.List_Lexorder" "HOL-Library.Char_ord"
begin

text \<open>
  The durable job queue of src/src/hcuopt/storage/repository.py: registration of workers,
  enqueueing, claiming with a claim token and a fencing token, heartbeats, completion,
  failure with retry, recovery of lost workers, cancellation and the report of a resource
  cleanup, with the convergence of the owning task and candidate when a job fails for good
  (src/src/hcuopt/storage/endpoint_validation.py for the endpoint workflows).

  Each operation is one transaction: a function of the store that returns the new store
  and a result, or the error that rolls it back. What the database supplies is an argument:
  \<open>now\<close> for \<open>now()\<close>, the fresh identifiers that \<open>uuid4()\<close> returns, and for
  \<open>FOR UPDATE SKIP LOCKED\<close> the predicate \<open>locked\<close> of the rows that other
  transactions hold. Text columns are ordered by their bytes; rows that tie in an
  \<open>ORDER BY\<close> keep the order of their insertion.
\<close>

section \<open>Requests\<close>

record worker_register =
  wr_id :: string
  wr_type :: worker_type
  wr_contract :: string
  wr_profile :: "string option"
  wr_capabilities :: json

record job_create =
  jc_task :: uuid
  jc_type :: job_type
  jc_accepts :: worker_type
  jc_profile :: "string option"
  jc_payload :: json
  jc_key :: string
  jc_scope :: lease_scope
  jc_priority :: int
  jc_max_attempts :: int

text \<open>The field constraints of the contract model.\<close>

definition job_create_valid :: "job_create \<Rightarrow> bool" where
  "job_create_valid q \<longleftrightarrow>
     8 \<le> length (jc_key q) \<and> length (jc_key q) \<le> 300 \<and>
     (case jc_profile q of None \<Rightarrow> True | Some p \<Rightarrow> 1 \<le> length p \<and> length p \<le> 200) \<and>
     1 \<le> jc_max_attempts q \<and> jc_max_attempts q \<le> 20 \<and> is_obj (jc_payload q)"

section \<open>Workers\<close>

text \<open>\<open>capability_profile not in {None, declared_profile}\<close>; a list or a dict is unhashable.\<close>

definition capability_conflict :: "string option \<Rightarrow> json option \<Rightarrow> error + bool" where
  "capability_conflict declared capability =
     (case declared of None \<Rightarrow> Inr False
      | Some p \<Rightarrow>
          (case capability of
             None \<Rightarrow> Inr False
           | Some JNull \<Rightarrow> Inr False
           | Some (JStr s) \<Rightarrow> Inr (s \<noteq> p)
           | Some (JArr _) \<Rightarrow> Inl TypeError
           | Some (JObj _) \<Rightarrow> Inl TypeError
           | Some _ \<Rightarrow> Inr True))"

definition effective_profile :: "string option \<Rightarrow> json option \<Rightarrow> error + string option" where
  "effective_profile declared capability =
     (if declared \<noteq> None \<and> declared \<noteq> Some [] then Inr declared
      else case capability of
             None \<Rightarrow> Inr None
           | Some JNull \<Rightarrow> Inr None
           | Some (JStr s) \<Rightarrow> Inr (Some s)
           | Some _ \<Rightarrow> Inl (DatabaseError ''adapter_profile is not text''))"

definition upsert_worker :: "time \<Rightarrow> worker \<Rightarrow> db \<Rightarrow> db" where
  "upsert_worker now w d =
     (if find_worker d (w_id w) = None then d\<lparr>workers := workers d @ [w]\<rparr>
      else d\<lparr>workers := update_where (\<lambda>v. w_id v = w_id w)
             (\<lambda>v. v\<lparr>w_type := w_type w, w_contract := w_contract w, w_profile := w_profile w,
                w_capabilities := w_capabilities w, w_online := True, w_heartbeat_at := now\<rparr>)
             (workers d)\<rparr>)"

text \<open>
  The resource that a GPU worker serves; \<open>text_of\<close> is Python's \<open>str\<close> on a JSON value
  that is not a string.
\<close>

definition registered_resource :: "(json \<Rightarrow> string) \<Rightarrow> json \<Rightarrow> string" where
  "registered_resource text_of capabilities =
     (case jget capabilities ''resource_id'' of
        None \<Rightarrow> ''fake-hcu-0''
      | Some v \<Rightarrow> (case v of JStr s \<Rightarrow> s | _ \<Rightarrow> text_of v))"

definition register_resource :: "(json \<Rightarrow> string) \<Rightarrow> worker_register \<Rightarrow> db \<Rightarrow> db" where
  "register_resource text_of q d =
     (let rid = registered_resource text_of (wr_capabilities q) in
      if wr_type q = W_GPU \<and> find_resource d rid = None
      then d\<lparr>resources := resources d @
             [\<lparr>r_id = rid, r_state = L_AVAILABLE, r_owner = None, r_lease = None,
               r_fence = 0, r_expires_at = None, r_cleanup = None\<rparr>]\<rparr>
      else d)"

definition register_worker ::
    "(json \<Rightarrow> string) \<Rightarrow> time \<Rightarrow> worker_register \<Rightarrow> db \<Rightarrow> error + (db \<times> worker)" where
  "register_worker text_of now q d =
     (let capability = jget (wr_capabilities q) ''adapter_profile'' in
      bind_res (capability_conflict (wr_profile q) capability) (\<lambda>conflict.
      if conflict
      then Inl (Conflict ''worker adapter_profile conflicts with capabilities metadata'')
      else bind_res (effective_profile (wr_profile q) capability) (\<lambda>profile.
        let w = \<lparr>w_id = wr_id q, w_type = wr_type q, w_contract = wr_contract q,
                 w_profile = profile, w_capabilities = wr_capabilities q, w_online = True,
                 w_heartbeat_at = now\<rparr>
        in Inr (register_resource text_of q (upsert_worker now w d), w))))"

section \<open>Enqueueing\<close>

definition find_job_key :: "db \<Rightarrow> string \<Rightarrow> job option" where
  "find_job_key d k = find (\<lambda>j. j_key j = k) (jobs d)"

definition new_job :: "time \<Rightarrow> uuid \<Rightarrow> job_create \<Rightarrow> job" where
  "new_job now job_id q =
     \<lparr>j_id = job_id, j_task = jc_task q, j_type = jc_type q, j_accepts = jc_accepts q,
      j_profile = jc_profile q, j_scope = jc_scope q, j_payload = jc_payload q,
      j_key = jc_key q, j_priority = jc_priority q, j_state = J_QUEUED, j_available_at = now,
      j_claimed_by = None, j_claim_token = None, j_claimed_at = None, j_heartbeat_at = None,
      j_lease = None, j_resource = None, j_fence = None, j_attempts = 0,
      j_max_attempts = jc_max_attempts q, j_result = None, j_error = None,
      j_advanced_at = None, j_finished_at = None, j_created_at = now\<rparr>"

definition same_job :: "job_create \<Rightarrow> job \<Rightarrow> bool" where
  "same_job q j \<longleftrightarrow>
     j_task j = jc_task q \<and> j_type j = jc_type q \<and> j_accepts j = jc_accepts q \<and>
     j_profile j = jc_profile q \<and> j_scope j = jc_scope q \<and> j_payload j = jc_payload q \<and>
     j_priority j = jc_priority q \<and> j_max_attempts j = jc_max_attempts q"

definition enqueue_job :: "time \<Rightarrow> uuid \<Rightarrow> job_create \<Rightarrow> db \<Rightarrow> error + (db \<times> job)" where
  "enqueue_job now job_id q d =
     (case find_job_key d (jc_key q) of
        Some row \<Rightarrow>
          if same_job q row then Inr (d, row)
          else Inl (Conflict ''idempotency_key was already used with a different job'')
      | None \<Rightarrow>
          if find_job d job_id \<noteq> None then Inl (DatabaseError ''jobs_pkey'')
          else if find_task d (jc_task q) = None then Inl (DatabaseError ''jobs_task_id_fkey'')
          else let row = new_job now job_id q in Inr (d\<lparr>jobs := jobs d @ [row]\<rparr>, row))"

section \<open>Claiming\<close>

definition claimable :: "worker \<Rightarrow> time \<Rightarrow> (uuid \<Rightarrow> bool) \<Rightarrow> job \<Rightarrow> bool" where
  "claimable w now locked j \<longleftrightarrow>
     j_state j = J_QUEUED \<and> j_available_at j \<le> now \<and> j_accepts j = w_type w \<and>
     (j_profile j = None \<or> (w_profile w \<noteq> None \<and> j_profile j = w_profile w)) \<and>
     \<not> locked (j_id j)"

definition select_job :: "worker \<Rightarrow> time \<Rightarrow> (uuid \<Rightarrow> bool) \<Rightarrow> db \<Rightarrow> job option" where
  "select_job w now locked d =
     argmin (\<lambda>j. (- j_priority j, j_created_at j)) (filter (claimable w now locked) (jobs d))"

definition free_resource :: "(string \<Rightarrow> bool) \<Rightarrow> resource \<Rightarrow> bool" where
  "free_resource rlocked r \<longleftrightarrow> r_state r = L_AVAILABLE \<and> \<not> rlocked (r_id r)"

definition select_resource ::
    "worker \<Rightarrow> (string \<Rightarrow> bool) \<Rightarrow> db \<Rightarrow> error + resource option" where
  "select_resource w rlocked d =
     (case jget (w_capabilities w) ''resource_id'' of
        Some v \<Rightarrow>
          if truthy v
          then (case v of
                  JStr s \<Rightarrow> Inr (find (\<lambda>r. r_id r = s \<and> free_resource rlocked r) (resources d))
                | _ \<Rightarrow> Inl (DatabaseError ''resource_id is not text''))
          else Inr (argmin r_id (filter (free_resource rlocked) (resources d)))
      | None \<Rightarrow> Inr (argmin r_id (filter (free_resource rlocked) (resources d))))"

definition needs_lease :: "worker_type \<Rightarrow> job \<Rightarrow> bool" where
  "needs_lease ty j \<longleftrightarrow> ty = W_GPU \<and> j_scope j \<in> {SCOPE_SHARED, SCOPE_EXCLUSIVE}"

definition lease_resource :: "time \<Rightarrow> uuid \<Rightarrow> uuid \<Rightarrow> resource \<Rightarrow> db \<Rightarrow> db" where
  "lease_resource now job_id lease_id r =
     set_resources (\<lambda>x. r_id x = r_id r)
       (\<lambda>x. x\<lparr>r_state := L_ACTIVE, r_owner := Some job_id, r_lease := Some lease_id,
          r_fence := r_fence r + 1, r_expires_at := Some (now + seconds 90)\<rparr>)"

definition take_job ::
    "time \<Rightarrow> string \<Rightarrow> uuid \<Rightarrow> (uuid \<times> string \<times> int) option \<Rightarrow> uuid \<Rightarrow> db \<Rightarrow> db" where
  "take_job now worker_id token lease job_id =
     set_jobs (\<lambda>j. j_id j = job_id \<and> j_state j = J_QUEUED)
       (\<lambda>j. j\<lparr>j_state := J_RUNNING, j_claimed_by := Some worker_id,
          j_claim_token := Some token, j_claimed_at := Some now, j_heartbeat_at := Some now,
          j_attempts := j_attempts j + 1,
          j_lease := map_option fst lease,
          j_resource := map_option (\<lambda>x. fst (snd x)) lease,
          j_fence := map_option (\<lambda>x. snd (snd x)) lease\<rparr>)"

text \<open>The endpoint run or campaign of an endpoint job follows the claim.\<close>

definition advance_endpoint :: "job \<Rightarrow> db \<Rightarrow> error + db" where
  "advance_endpoint j d =
     (if j_type j = JT_ENDPOINT_VALIDATION
      then Inr (d\<lparr>endpoint_runs := update_where
             (\<lambda>n. n_job n = j_id j \<and> n_state n = ER_QUEUED)
             (\<lambda>n. n\<lparr>n_state := ER_RUNNING\<rparr>) (endpoint_runs d)\<rparr>)
      else if j_type j = JT_ENDPOINT_ADJUDICATE
      then let P = (\<lambda>k. k_job k = Some (j_id j) \<and> k_state k = EC_AWAITING_ADJUDICATION) in
           if row_count P (campaigns d) \<noteq> 1
           then Inl (Conflict ''endpoint D Job has no awaiting frozen Campaign binding'')
           else Inr (d\<lparr>campaigns := update_where P (\<lambda>k. k\<lparr>k_state := EC_ADJUDICATING\<rparr>)
                  (campaigns d)\<rparr>)
      else Inr d)"

definition finish_claim ::
    "time \<Rightarrow> string \<Rightarrow> uuid \<Rightarrow> (uuid \<times> string \<times> int) option \<Rightarrow> job \<Rightarrow> db \<Rightarrow>
     error + (db \<times> job option)" where
  "finish_claim now worker_id token lease j d =
     (let d1 = take_job now worker_id token lease (j_id j) d;
          claimed = find_job d1 (j_id j)
      in bind_res (advance_endpoint j d1) (\<lambda>d2.
           let d3 = touch_worker worker_id now d2;
               d4 = log_job (j_id j) ''claimed'' (jobj [(''worker_id'', JStr worker_id)]) d3
           in Inr (d4, claimed)))"

definition claim_job ::
    "time \<Rightarrow> (uuid \<Rightarrow> bool) \<Rightarrow> (string \<Rightarrow> bool) \<Rightarrow> uuid \<Rightarrow> uuid \<Rightarrow> string \<Rightarrow> db \<Rightarrow>
     error + (db \<times> job option)" where
  "claim_job now locked rlocked token lease_id worker_id d =
     (case find_worker d worker_id of
        None \<Rightarrow> Inl (NotFound ''worker not registered'')
      | Some w \<Rightarrow>
          (case select_job w now locked d of
             None \<Rightarrow> Inr (touch_worker worker_id now d, None)
           | Some j \<Rightarrow>
               if needs_lease (w_type w) j
               then bind_res (select_resource w rlocked d) (\<lambda>res.
                      case res of
                        None \<Rightarrow> Inr (d, None)
                      | Some r \<Rightarrow>
                          finish_claim now worker_id token
                            (Some (lease_id, r_id r, r_fence r + 1)) j
                            (lease_resource now (j_id j) lease_id r d))
               else finish_claim now worker_id token None j d))"

section \<open>Ownership, heartbeats and the release of a resource\<close>

definition assert_job_owner :: "uuid \<Rightarrow> uuid \<Rightarrow> int option \<Rightarrow> db \<Rightarrow> error + job" where
  "assert_job_owner job_id claim_token fencing_token d =
     (case find_job d job_id of
        None \<Rightarrow> Inl (NotFound ''job not found'')
      | Some j \<Rightarrow>
          if j_state j \<noteq> J_RUNNING \<or> j_claim_token j \<noteq> Some claim_token
          then Inl (StaleClaimToken ''claim token is stale or job is not running'')
          else (case j_resource j of
                  None \<Rightarrow> Inr j
                | Some rid \<Rightarrow>
                    (case find_resource d rid of
                       None \<Rightarrow> Inl (StaleFencingToken ''GPU lease fencing token is stale'')
                     | Some r \<Rightarrow>
                         if r_owner r \<noteq> Some job_id \<or> Some (r_fence r) \<noteq> fencing_token
                         then Inl (StaleFencingToken ''GPU lease fencing token is stale'')
                         else Inr j)))"

definition heartbeat_job ::
    "time \<Rightarrow> string \<Rightarrow> uuid \<Rightarrow> uuid \<Rightarrow> int option \<Rightarrow> db \<Rightarrow> error + (db \<times> unit)" where
  "heartbeat_job now worker_id job_id claim_token fencing_token d =
     bind_res (assert_job_owner job_id claim_token fencing_token d) (\<lambda>_.
       let P = (\<lambda>j. j_id j = job_id \<and> j_claimed_by j = Some worker_id \<and> j_state j = J_RUNNING)
       in if row_count P (jobs d) \<noteq> 1
          then Inl (StaleClaimToken ''worker no longer owns this running job'')
          else
            let d1 = set_jobs P (\<lambda>j. j\<lparr>j_heartbeat_at := Some now\<rparr>) d;
                d2 = touch_worker worker_id now d1;
                d3 = (case fencing_token of
                        None \<Rightarrow> d2
                      | Some f \<Rightarrow> set_resources
                          (\<lambda>r. r_owner r = Some job_id \<and> r_fence r = f)
                          (\<lambda>r. r\<lparr>r_expires_at := Some (now + seconds 90)\<rparr>) d2)
            in Inr (d3, ()))"

definition assert_live_job_lease ::
    "time \<Rightarrow> string \<Rightarrow> uuid \<Rightarrow> uuid \<Rightarrow> int option \<Rightarrow> db \<Rightarrow> error + unit" where
  "assert_live_job_lease clock worker_id job_id claim_token fencing_token d =
     bind_res (assert_job_owner job_id claim_token fencing_token d) (\<lambda>j.
       if j_claimed_by j \<noteq> Some worker_id
       then Inl (StaleClaimToken ''worker no longer owns this running job'')
       else case j_resource j of
              None \<Rightarrow> Inl (StaleFencingToken ''live resource lease required'')
            | Some rid \<Rightarrow>
                if j_lease j = None
                then Inl (StaleFencingToken ''live resource lease required'')
                else case find_resource d rid of
                       None \<Rightarrow> Inl (StaleFencingToken
                          ''resource lease is inactive, expired or changed'')
                     | Some r \<Rightarrow>
                         if r_state r \<noteq> L_ACTIVE \<or>
                            \<not> (\<exists>t. r_expires_at r = Some t \<and> t > clock) \<or>
                            r_owner r \<noteq> Some job_id \<or> r_lease r \<noteq> j_lease j \<or>
                            Some (r_fence r) \<noteq> fencing_token
                         then Inl (StaleFencingToken
                            ''resource lease is inactive, expired or changed'')
                         else Inr ())"

text \<open>\<open>_cleanup_is_healthy\<close>: fencing and health must both be confirmed, literally true.\<close>

definition cleanup_is_healthy :: "json option \<Rightarrow> bool" where
  "cleanup_is_healthy evidence =
     (case evidence of
        None \<Rightarrow> False
      | Some e \<Rightarrow>
          truthy e \<and>
          (case (jget e ''fence'', jget e ''health'') of
             (Some fence, Some health) \<Rightarrow>
               is_obj fence \<and> is_obj health \<and>
               jget fence ''fenced'' = Some (JBool True) \<and>
               jget health ''healthy'' = Some (JBool True)
           | _ \<Rightarrow> False))"

definition release_evidence :: "string \<Rightarrow> json option \<Rightarrow> json" where
  "release_evidence reason cleanup =
     jmerge (jmerge (jobj [(''reason'', JStr reason)])
               (case cleanup of None \<Rightarrow> jobj [] | Some e \<Rightarrow> e))
       (jobj [(''healthy'', JBool (cleanup_is_healthy cleanup))])"

definition release_resource :: "job \<Rightarrow> string \<Rightarrow> json option \<Rightarrow> db \<Rightarrow> db" where
  "release_resource j reason cleanup d =
     (case j_resource j of
        None \<Rightarrow> d
      | Some rid \<Rightarrow>
          let evidence = release_evidence reason cleanup;
              P = (\<lambda>r. r_id r = rid \<and> r_owner r = Some (j_id j) \<and> Some (r_fence r) = j_fence j)
          in if row_count P (resources d) \<noteq> 1 then d
             else
               let d1 = set_resources P (\<lambda>r. r\<lparr>r_state := L_FENCING\<rparr>) d;
                   d2 = set_resources (\<lambda>r. r_id r = rid)
                     (\<lambda>r. r\<lparr>r_state := L_HEALTH_CHECK, r_cleanup := Some evidence\<rparr>) d1
               in set_resources (\<lambda>r. r_id r = rid \<and> Some (r_fence r) = j_fence j)
                    (\<lambda>r. r\<lparr>r_state := (if cleanup_is_healthy cleanup then L_AVAILABLE
                                       else L_QUARANTINED),
                       r_owner := None, r_lease := None, r_expires_at := None\<rparr>) d2)"

section \<open>Completion\<close>

definition complete_job ::
    "time \<Rightarrow> uuid \<Rightarrow> uuid \<Rightarrow> int option \<Rightarrow> json \<Rightarrow> db \<Rightarrow> error + (db \<times> job)" where
  "complete_job now job_id claim_token fencing_token res d =
     (case find_job d job_id of
        None \<Rightarrow> Inl (NotFound ''job not found'')
      | Some existing \<Rightarrow>
          if j_state existing = J_SUCCEEDED
          then (if j_claim_token existing \<noteq> Some claim_token
                then Inl (StaleClaimToken ''completion replay used a stale claim token'')
                else if j_fence existing \<noteq> fencing_token
                then Inl (StaleFencingToken ''completion replay used a stale fencing token'')
                else if j_result existing \<noteq> Some res
                then Inl (Conflict ''completed job was replayed with a different result'')
                else Inr (d, existing))
          else bind_res (assert_job_owner job_id claim_token fencing_token d) (\<lambda>j.
            let f = (\<lambda>x. x\<lparr>j_state := J_SUCCEEDED, j_result := Some res,
                       j_finished_at := Some now\<rparr>);
                d1 = set_jobs (\<lambda>x. j_id x = job_id) f d;
                cleanup = (case jget res ''cleanup_evidence'' of
                             Some e \<Rightarrow> if is_obj e then Some e else None
                           | None \<Rightarrow> None);
                d2 = release_resource j ''job_completed'' cleanup d1;
                d3 = log_job job_id ''succeeded'' (jobj []) d2
            in Inr (d3, f j)))"

section \<open>Failure: convergence of the owning workflow\<close>

definition uuid_of_json :: "json \<Rightarrow> error + uuid" where
  "uuid_of_json v = (case v of JStr s \<Rightarrow> Inr s | _ \<Rightarrow> Inl (ValueError ''badly formed UUID''))"

text \<open>\<open>job["payload"].get("candidate_id")\<close>, a missing or null binding being a conflict.\<close>

definition candidate_binding :: "job \<Rightarrow> error + uuid" where
  "candidate_binding j =
     (case jget (j_payload j) ''candidate_id'' of
        None \<Rightarrow> Inl (Conflict ''job is missing its candidate_id binding'')
      | Some JNull \<Rightarrow> Inl (Conflict ''job is missing its candidate_id binding'')
      | Some v \<Rightarrow> uuid_of_json v)"

definition failure_details :: "job \<Rightarrow> json \<Rightarrow> json \<Rightarrow> json" where
  "failure_details j cid err =
     jobj [(''job_id'', JStr (j_id j)), (''job_type'', JStr (job_type_value (j_type j))),
       (''candidate_id'', cid),
       (''attempts'', JInt (j_attempts j)), (''max_attempts'', JInt (j_max_attempts j)),
       (''error'', err)]"

definition reject_task :: "task \<Rightarrow> db \<Rightarrow> error + db" where
  "reject_task t d =
     (if t_state t \<in> {T_REJECTED, T_CANCELLED, T_COMPLETED} then Inr d
      else bind_res (transition_task (t_state t) T_REJECTED)
             (\<lambda>s. Inr (move_task (t_id t) s d)))"

definition settle_candidate ::
    "candidate_state set \<Rightarrow> candidate_state \<Rightarrow> uuid \<Rightarrow> db \<Rightarrow> error + db" where
  "settle_candidate done target cid d =
     (case find_candidate d cid of
        None \<Rightarrow> Inl (NotFound ''candidate not found'')
      | Some c \<Rightarrow>
          if c_state c \<in> insert target done then Inr d
          else bind_res (transition_candidate (c_state c) target)
                 (\<lambda>s. Inr (move_candidate cid s d)))"

definition reject_framework_task_after_job_failure :: "job \<Rightarrow> json \<Rightarrow> db \<Rightarrow> error + db" where
  "reject_framework_task_after_job_failure j err d =
     (case find_task d (j_task j) of
        None \<Rightarrow> Inl (NotFound ''task not found'')
      | Some t \<Rightarrow>
          if t_workflow t \<noteq> WF_FRAMEWORK_SMOKE then Inr d
          else bind_res (reject_task t d) (\<lambda>d1.
            let target = (if j_type j = JT_NOOP_BUILD then Some C_BUILD_FAILED
                          else if j_type j = JT_FRAMEWORK_SMOKE then Some C_REJECTED
                          else None)
            in case target of
                 None \<Rightarrow> Inr (log_task (j_task j) ''framework_smoke_job_failed''
                               (failure_details j JNull err) d1)
               | Some s \<Rightarrow>
                   bind_res (candidate_binding j) (\<lambda>cid.
                   bind_res (settle_candidate {C_BUILD_FAILED, C_REJECTED} s cid d1) (\<lambda>d2.
                     Inr (log_task (j_task j) ''framework_smoke_job_failed''
                           (failure_details j (JStr cid) err) d2)))))"

definition fail_stage0_run_after_job_failure :: "job \<Rightarrow> json \<Rightarrow> db \<Rightarrow> db" where
  "fail_stage0_run_after_job_failure j err d =
     (if j_type j \<noteq> JT_STAGE0_PROBE then d
      else case jget (j_payload j) ''stage0_run_id'' of
             None \<Rightarrow> d
           | Some JNull \<Rightarrow> d
           | Some run_id \<Rightarrow>
               log_task (j_task j) ''stage0_probe_job_failed''
                 (jobj [(''stage0_run_id'', run_id), (''job_id'', JStr (j_id j)),
                    (''probe_type'', (case jget (j_payload j) ''probe_type'' of
                                       None \<Rightarrow> JNull | Some v \<Rightarrow> v)),
                    (''error'', err)])
                 (d\<lparr>stage0_runs := update_where
                    (\<lambda>s. JStr (s_id s) = run_id \<and> s_state s \<in> {S0_COLLECTING, S0_READY})
                    (\<lambda>s. s\<lparr>s_state := S0_FAILED\<rparr>) (stage0_runs d)\<rparr>))"

definition reject_manual_candidate_task_after_job_failure ::
    "job \<Rightarrow> json \<Rightarrow> db \<Rightarrow> error + db" where
  "reject_manual_candidate_task_after_job_failure j err d =
     (if j_type j \<notin> {JT_MANUAL_BUILD, JT_MANUAL_CORRECTNESS, JT_MANUAL_PERFORMANCE,
          JT_MANUAL_ADJUDICATE} then Inr d
      else case find_task d (j_task j) of
        None \<Rightarrow> Inl (NotFound ''task not found'')
      | Some t \<Rightarrow>
          if t_workflow t \<noteq> WF_MANUAL_CANDIDATE then Inr d
          else bind_res (reject_task t d) (\<lambda>d1.
               bind_res (candidate_binding j) (\<lambda>cid.
               bind_res (settle_candidate {C_BUILD_FAILED, C_REJECTED, C_ACCEPTED}
                   (if j_type j = JT_MANUAL_BUILD then C_BUILD_FAILED else C_REJECTED) cid d1)
                 (\<lambda>d2. Inr (log_task (j_task j) ''manual_candidate_job_failed''
                         (failure_details j (JStr cid) err) d2)))))"

definition fail_endpoint_validation_run_after_job_failure ::
    "job \<Rightarrow> json \<Rightarrow> json option \<Rightarrow> db \<Rightarrow> db" where
  "fail_endpoint_validation_run_after_job_failure j err cleanup d =
     (if j_type j \<noteq> JT_ENDPOINT_VALIDATION then d
      else case find (\<lambda>n. n_job n = j_id j) (endpoint_runs d) of
        None \<Rightarrow> d
      | Some run \<Rightarrow>
          let d1 = (if n_state run \<in> {ER_QUEUED, ER_RUNNING}
                    then d\<lparr>endpoint_runs := update_where (\<lambda>n. n_id n = n_id run)
                      (\<lambda>n. n\<lparr>n_state := ER_FAILED, n_error := Some err, n_cleanup := cleanup\<rparr>)
                      (endpoint_runs d)\<rparr>
                    else d);
              d2 = (case find_task d (j_task j) of
                      Some t \<Rightarrow> if t_state t = T_ENDPOINT_PROBING
                                then move_task (j_task j) T_REJECTED d1 else d1
                    | None \<Rightarrow> d1)
          in log_task (j_task j) ''endpoint_validation_failed''
               (jobj [(''endpoint_run_id'', JStr (n_id run)), (''job_id'', JStr (j_id j)),
                  (''error'', err), (''cleanup_evidence_recorded'', JBool (cleanup \<noteq> None)),
                  (''automatic_release_allowed'', JBool False)]) d2)"

definition fail_endpoint_adjudication_after_job_failure :: "job \<Rightarrow> json \<Rightarrow> db \<Rightarrow> db" where
  "fail_endpoint_adjudication_after_job_failure j err d =
     (if j_type j \<noteq> JT_ENDPOINT_ADJUDICATE then d
      else case find (\<lambda>k. k_job k = Some (j_id j)) (campaigns d) of
        None \<Rightarrow> d
      | Some k \<Rightarrow>
          let d1 = (if k_state k \<in> {EC_AWAITING_ADJUDICATION, EC_ADJUDICATING}
                    then d\<lparr>campaigns := update_where (\<lambda>x. k_id x = k_id k)
                      (\<lambda>x. x\<lparr>k_state := EC_ADJUDICATION_FAILED\<rparr>) (campaigns d)\<rparr>
                    else d)
          in log_task (k_signed_task k) ''endpoint_campaign_adjudication_failed''
               (jobj [(''campaign_id'', JStr (k_id k)), (''job_id'', JStr (j_id j)),
                  (''error'', err), (''verdict'', JNull),
                  (''automatic_release_allowed'', JBool False)]) d1)"

text \<open>The five hooks, in the order in which a terminal failure calls them.\<close>

definition converge_after_failure :: "job \<Rightarrow> json \<Rightarrow> json option \<Rightarrow> db \<Rightarrow> error + db" where
  "converge_after_failure j err cleanup d =
     bind_res (reject_framework_task_after_job_failure j err d) (\<lambda>d1.
     bind_res (reject_manual_candidate_task_after_job_failure j err
         (fail_stage0_run_after_job_failure j err d1)) (\<lambda>d2.
       Inr (fail_endpoint_adjudication_after_job_failure j err
             (fail_endpoint_validation_run_after_job_failure j err cleanup d2))))"

section \<open>Failure, recovery and cancellation\<close>

definition fail_row :: "time \<Rightarrow> bool \<Rightarrow> json \<Rightarrow> job \<Rightarrow> job" where
  "fail_row now retry err j =
     j\<lparr>j_state := (if retry then J_QUEUED else J_FAILED), j_error := Some err,
       j_available_at := (if retry then now + seconds 1 else j_available_at j),
       j_claimed_by := None, j_claim_token := None, j_claimed_at := None,
       j_heartbeat_at := None, j_lease := None, j_resource := None, j_fence := None,
       j_finished_at := (if retry then None else Some now)\<rparr>"

definition fail_job ::
    "time \<Rightarrow> uuid \<Rightarrow> uuid \<Rightarrow> int option \<Rightarrow> json \<Rightarrow> bool \<Rightarrow> json option \<Rightarrow> db \<Rightarrow>
     error + (db \<times> job)" where
  "fail_job now job_id claim_token fencing_token err retryable cleanup d =
     (if find_job d job_id = None then Inl (NotFound ''job not found'')
      else bind_res (assert_job_owner job_id claim_token fencing_token d) (\<lambda>j.
        let retry = (retryable \<and> j_attempts j < j_max_attempts j);
            d1 = set_jobs (\<lambda>x. j_id x = job_id) (fail_row now retry err) d;
            d2 = release_resource j ''job_failed'' cleanup d1;
            d3 = log_job job_id (if retry then ''requeued'' else ''failed'') err d2
        in bind_res (if retry then Inr d3 else converge_after_failure j err cleanup d3)
             (\<lambda>d4. Inr (d4, fail_row now retry err j))))"

definition worker_lost :: json where
  "worker_lost = jobj [(''code'', JStr ''worker_lost''), (''message'', JStr ''heartbeat expired'')]"

definition recover_row :: "time \<Rightarrow> job \<Rightarrow> job" where
  "recover_row now j =
     (let retry = (j_attempts j < j_max_attempts j) in
      j\<lparr>j_state := (if retry then J_QUEUED else J_FAILED), j_claimed_by := None,
        j_claim_token := None, j_claimed_at := None, j_heartbeat_at := None, j_lease := None,
        j_resource := None, j_fence := None, j_available_at := now,
        j_error := Some worker_lost, j_finished_at := (if retry then None else Some now)\<rparr>)"

definition recover_one :: "time \<Rightarrow> job \<Rightarrow> db \<Rightarrow> error + db" where
  "recover_one now j d =
     (let d1 = release_resource j ''worker_heartbeat_expired'' None d;
          d2 = set_jobs (\<lambda>x. j_id x = j_id j) (recover_row now) d1;
          d3 = log_job (j_id j) ''fenced_after_worker_loss''
                 (jobj [(''old_fencing_token'', jint_opt (j_fence j))]) d2
      in if j_attempts j < j_max_attempts j then Inr d3
         else converge_after_failure j worker_lost None d3)"

fun recover_all :: "time \<Rightarrow> job list \<Rightarrow> db \<Rightarrow> error + (db \<times> uuid list)" where
  "recover_all now [] d = Inr (d, [])"
| "recover_all now (j # js) d =
     bind_res (recover_one now j d) (\<lambda>d1.
     bind_res (recover_all now js d1) (\<lambda>(d2, recovered). Inr (d2, j_id j # recovered)))"

definition is_stale :: "time \<Rightarrow> int \<Rightarrow> (uuid \<Rightarrow> bool) \<Rightarrow> job \<Rightarrow> bool" where
  "is_stale now stale_after locked j \<longleftrightarrow>
     j_state j = J_RUNNING \<and> \<not> locked (j_id j) \<and>
     (case j_heartbeat_at j of None \<Rightarrow> False | Some t \<Rightarrow> t \<le> now - seconds stale_after)"

definition recover_stale_jobs ::
    "time \<Rightarrow> int \<Rightarrow> (uuid \<Rightarrow> bool) \<Rightarrow> db \<Rightarrow> error + (db \<times> uuid list)" where
  "recover_stale_jobs now stale_after locked d =
     recover_all now
       (sort_key (\<lambda>j. case j_heartbeat_at j of None \<Rightarrow> 0 | Some t \<Rightarrow> t)
          (filter (is_stale now stale_after locked) (jobs d))) d"

definition cancelled_error :: "string \<Rightarrow> json" where
  "cancelled_error reason = jobj [(''code'', JStr ''cancelled''), (''message'', JStr reason)]"

definition cancel_job :: "time \<Rightarrow> uuid \<Rightarrow> string \<Rightarrow> db \<Rightarrow> error + (db \<times> job)" where
  "cancel_job now job_id reason d =
     (case find_job d job_id of
        None \<Rightarrow> Inl (NotFound ''job not found'')
      | Some j \<Rightarrow>
          if j_state j \<in> {J_SUCCEEDED, J_FAILED, J_CANCELLED} then Inr (d, j)
          else
            let d1 = (if j_state j = J_RUNNING
                      then release_resource j ''job_cancelled'' None d else d);
                f = (\<lambda>x. x\<lparr>j_state := J_CANCELLED, j_error := Some (cancelled_error reason),
                       j_claimed_by := None, j_claim_token := None, j_lease := None,
                       j_resource := None, j_fence := None, j_finished_at := Some now\<rparr>);
                d2 = set_jobs (\<lambda>x. j_id x = job_id) f d1;
                d3 = log_job job_id ''cancelled'' (jobj [(''reason'', JStr reason)]) d2
            in Inr (fail_endpoint_adjudication_after_job_failure j (cancelled_error reason) d3,
                    f j))"

section \<open>Resources and workflow bookkeeping\<close>

definition report_resource_cleanup ::
    "string \<Rightarrow> int \<Rightarrow> json \<Rightarrow> db \<Rightarrow> error + (db \<times> resource)" where
  "report_resource_cleanup rid fencing_token cleanup d =
     (let healthy = cleanup_is_healthy (Some cleanup);
          evidence = jmerge cleanup
            (jobj [(''healthy'', JBool healthy), (''reason'', JStr ''cleanup_reported'')])
      in case find_resource d rid of
           None \<Rightarrow> Inl (NotFound ''resource not found'')
         | Some r \<Rightarrow>
             if r_fence r \<noteq> fencing_token
             then Inl (StaleFencingToken ''resource cleanup used a stale fencing token'')
             else if r_state r \<notin> {L_FENCING, L_HEALTH_CHECK, L_QUARANTINED}
             then Inl (Conflict ''resource cleanup cannot be reported from state'')
             else
               let f = (\<lambda>x. x\<lparr>r_state := (if healthy then L_AVAILABLE else L_QUARANTINED),
                          r_owner := None, r_lease := None, r_expires_at := None,
                          r_cleanup := Some evidence\<rparr>)
               in Inr (set_resources (\<lambda>x. r_id x = rid \<and> r_fence x = fencing_token) f d, f r))"

definition list_resources :: "db \<Rightarrow> resource list" where
  "list_resources d = sort_key r_id (resources d)"

definition mark_job_advanced :: "time \<Rightarrow> uuid \<Rightarrow> db \<Rightarrow> error + (db \<times> unit)" where
  "mark_job_advanced now job_id d =
     Inr (set_jobs (\<lambda>j. j_id j = job_id) (\<lambda>j. j\<lparr>j_advanced_at := Some now\<rparr>) d, ())"

definition unadvanced_succeeded_jobs :: "workflow_type option \<Rightarrow> nat \<Rightarrow> db \<Rightarrow> job list" where
  "unadvanced_succeeded_jobs workflow limit d =
     take limit
       (sort_key (\<lambda>j. case j_finished_at j of None \<Rightarrow> 0 | Some t \<Rightarrow> t)
         (filter (\<lambda>j. j_state j = J_SUCCEEDED \<and> j_advanced_at j = None \<and>
            (case find_task d (j_task j) of
               None \<Rightarrow> False
             | Some t \<Rightarrow> (case workflow of None \<Rightarrow> True | Some w \<Rightarrow> t_workflow t = w)))
           (jobs d)))"

text \<open>Cancelling a Framework Smoke task cancels its queued and running jobs with it.\<close>

fun release_running :: "job list \<Rightarrow> db \<Rightarrow> db" where
  "release_running [] d = d"
| "release_running (j # js) d =
     release_running js
       (if j_state j = J_RUNNING then release_resource j ''task_cancelled'' None d else d)"

definition cancel_row :: "time \<Rightarrow> string \<Rightarrow> job \<Rightarrow> job" where
  "cancel_row now reason j =
     j\<lparr>j_state := J_CANCELLED,
       j_error := Some (jobj [(''code'', JStr ''task_cancelled''), (''message'', JStr reason)]),
       j_claimed_by := None, j_claim_token := None, j_claimed_at := None,
       j_heartbeat_at := None, j_lease := None, j_resource := None, j_fence := None,
       j_finished_at := Some now\<rparr>"

definition cancel_framework_task :: "time \<Rightarrow> uuid \<Rightarrow> string \<Rightarrow> db \<Rightarrow> error + (db \<times> task)" where
  "cancel_framework_task now task_id reason d =
     (case find_task d task_id of
        None \<Rightarrow> Inl (NotFound ''task not found'')
      | Some t \<Rightarrow>
          if t_workflow t \<noteq> WF_FRAMEWORK_SMOKE
          then Inl (Conflict ''task is not a Framework Smoke workflow'')
          else if t_state t = T_CANCELLED then Inr (d, t)
          else if t_state t \<in> {T_COMPLETED, T_REJECTED}
          then Inl (Conflict ''terminal Framework Smoke task cannot be cancelled'')
          else bind_res (transition_task (t_state t) T_CANCELLED) (\<lambda>s.
            let P = (\<lambda>j. j_task j = task_id \<and> j_state j \<in> {J_QUEUED, J_RUNNING});
                d1 = release_running (filter P (jobs d)) d;
                d2 = set_jobs P (cancel_row now reason) d1;
                d3 = d2\<lparr>candidates := update_where
                       (\<lambda>c. c_task c = task_id \<and> c_state c \<noteq> C_REJECTED)
                       (\<lambda>c. c\<lparr>c_state := C_REJECTED\<rparr>) (candidates d2)\<rparr>;
                d4 = move_task task_id s d3;
                d5 = log_task task_id ''framework_smoke_cancelled''
                       (jobj [(''reason'', JStr reason)]) d4
            in Inr (d5, t\<lparr>t_state := s, t_version := t_version t + 1\<rparr>)))"

end
