(* ===== verification/QueueInv.thy ===== *)
theory QueueInv
  imports JobQueue
begin

text \<open>
  The invariant of the job queue and its preservation by every operation. It ties the two
  tables together: a running job that needs a lease holds exactly one active resource with
  its own fencing token, an active resource is owned by one running job, and a job is
  started at most as often as its attempt budget allows.
\<close>

section \<open>The invariant\<close>

definition holds :: "job \<Rightarrow> resource \<Rightarrow> bool" where
  "holds j r \<longleftrightarrow> r_state r = L_ACTIVE \<and> r_owner r = Some (j_id j) \<and>
     j_resource j = Some (r_id r) \<and> j_fence j = Some (r_fence r) \<and>
     r_lease r = j_lease j \<and> j_lease j \<noteq> None"

definition job_ok :: "resource list \<Rightarrow> job \<Rightarrow> bool" where
  "job_ok rs j \<longleftrightarrow> 0 \<le> j_attempts j \<and> j_attempts j \<le> j_max_attempts j \<and>
     (case j_state j of
        J_QUEUED \<Rightarrow> j_attempts j < j_max_attempts j \<and> j_claim_token j = None \<and>
          j_claimed_by j = None \<and> j_resource j = None \<and> j_fence j = None \<and> j_lease j = None
      | J_RUNNING \<Rightarrow> 1 \<le> j_attempts j \<and> j_claim_token j \<noteq> None \<and> j_claimed_by j \<noteq> None \<and>
          j_heartbeat_at j \<noteq> None \<and>
          (case j_resource j of
             None \<Rightarrow> j_fence j = None \<and> j_lease j = None
           | Some rid \<Rightarrow> \<exists>r \<in> set rs. r_id r = rid \<and> holds j r)
      | J_SUCCEEDED \<Rightarrow> j_result j \<noteq> None
      | _ \<Rightarrow> j_claim_token j = None)"

definition resource_ok :: "job list \<Rightarrow> resource \<Rightarrow> bool" where
  "resource_ok js r \<longleftrightarrow> 0 \<le> r_fence r \<and>
     (case r_state r of
        L_ACTIVE \<Rightarrow> \<exists>j \<in> set js. j_state j = J_RUNNING \<and> holds j r
      | L_AVAILABLE \<Rightarrow> r_owner r = None \<and> r_lease r = None
      | L_QUARANTINED \<Rightarrow> r_owner r = None \<and> r_lease r = None
      | _ \<Rightarrow> False)"

definition queue_ok :: "job list \<Rightarrow> resource list \<Rightarrow> bool" where
  "queue_ok js rs \<longleftrightarrow>
     distinct (map j_id js) \<and> distinct (map j_key js) \<and> distinct (map r_id rs) \<and>
     (\<forall>j \<in> set js. job_ok rs j) \<and> (\<forall>r \<in> set rs. resource_ok js r)"

definition queue_inv :: "db \<Rightarrow> bool" where
  "queue_inv d \<longleftrightarrow> queue_ok (jobs d) (resources d)"

lemma queue_okD:
  assumes "queue_ok js rs"
  shows "distinct (map j_id js)" "distinct (map j_key js)" "distinct (map r_id rs)"
    "j \<in> set js \<Longrightarrow> job_ok rs j" "r \<in> set rs \<Longrightarrow> resource_ok js r"
  using assms by (auto simp: queue_ok_def)

lemma running_holds:
  assumes "queue_ok js rs" "j \<in> set js" "j_state j = J_RUNNING" "j_resource j = Some rid"
  shows "\<exists>r \<in> set rs. r_id r = rid \<and> holds j r"
  using queue_okD(4) [OF assms(1,2)] assms(3,4) by (simp add: job_ok_def)

lemma active_held:
  assumes "queue_ok js rs" "r \<in> set rs" "r_state r = L_ACTIVE"
  shows "\<exists>j \<in> set js. j_state j = J_RUNNING \<and> holds j r"
  using queue_okD(5) [OF assms(1,2)] assms(3) by (simp add: resource_ok_def)

lemma holds_unique:
  assumes "queue_ok js rs" "i \<in> set js" "j \<in> set js" "holds i r" "holds j r"
  shows "i = j"
  using assms queue_okD(1) [OF assms(1)] by (auto simp: holds_def intro: key_unique)

section \<open>What release does under the invariant\<close>

definition freed :: "json option \<Rightarrow> string \<Rightarrow> resource \<Rightarrow> resource" where
  "freed cleanup reason r =
     r\<lparr>r_state := (if cleanup_is_healthy cleanup then L_AVAILABLE else L_QUARANTINED),
       r_owner := None, r_lease := None, r_expires_at := None,
       r_cleanup := Some (release_evidence reason cleanup)\<rparr>"

definition release_rows :: "job \<Rightarrow> string \<Rightarrow> json option \<Rightarrow> resource list \<Rightarrow> resource list" where
  "release_rows j reason cleanup rs =
     (case j_resource j of None \<Rightarrow> rs
      | Some rid \<Rightarrow> update_where (\<lambda>r. r_id r = rid) (freed cleanup reason) rs)"

lemma release_tables [simp]:
  "jobs (release_resource j reason cleanup d) = jobs d"
  "tasks (release_resource j reason cleanup d) = tasks d"
  "candidates (release_resource j reason cleanup d) = candidates d"
  "workers (release_resource j reason cleanup d) = workers d"
  by (simp_all add: release_resource_def Let_def split: option.split)

lemma release_resources:
  assumes "distinct (map r_id (resources d))"
    and "\<And>rid. j_resource j = Some rid \<Longrightarrow> \<exists>r \<in> set (resources d). r_id r = rid \<and> holds j r"
  shows "resources (release_resource j reason cleanup d) =
    release_rows j reason cleanup (resources d)"
proof (cases "j_resource j")
  case None
  then show ?thesis by (simp add: release_resource_def release_rows_def)
next
  case (Some rid)
  with assms(2) obtain r where r: "r \<in> set (resources d)" "r_id r = rid" "holds j r"
    by blast
  let ?P = "\<lambda>r. r_id r = rid \<and> r_owner r = Some (j_id j) \<and> Some (r_fence r) = j_fence j"
  have P: "?P r" using r by (simp add: holds_def)
  have count: "row_count ?P (resources d) = 1"
    by (rule row_count_unique [of r_id _ r ?P, OF assms(1) r(1) P]) (use r in simp)
  have same: "x = r" if "x \<in> set (resources d)" "r_id x = rid" for x
    using key_unique [OF assms(1) that(1) r(1)] that(2) r(2) by simp
  have row: "r_owner x = Some (j_id j) \<and> Some (r_fence x) = j_fence j"
    if "x \<in> set (resources d)" "r_id x = rid" for x
    using same [OF that] P by simp
  have "update_where (\<lambda>r. r_id r = rid \<and> Some (r_fence r) = j_fence j)
      (\<lambda>r. r\<lparr>r_state := (if cleanup_is_healthy cleanup then L_AVAILABLE else L_QUARANTINED),
         r_owner := None, r_lease := None, r_expires_at := None\<rparr>)
      (update_where (\<lambda>r. r_id r = rid)
         (\<lambda>r. r\<lparr>r_state := L_HEALTH_CHECK, r_cleanup := Some (release_evidence reason cleanup)\<rparr>)
         (update_where ?P (\<lambda>r. r\<lparr>r_state := L_FENCING\<rparr>) (resources d))) =
    update_where (\<lambda>r. r_id r = rid) (freed cleanup reason) (resources d)"
    unfolding update_where_def map_map o_def
    by (rule map_cong [OF refl], case_tac "r_id x = rid")
      (use row in \<open>simp_all add: freed_def\<close>)
  with Some count show ?thesis
    by (simp add: release_resource_def release_rows_def Let_def)
qed

lemma set_release_rows:
  "distinct (map r_id rs) \<Longrightarrow> r \<in> set rs \<Longrightarrow> j_resource j \<noteq> Some (r_id r) \<Longrightarrow>
   r \<in> set (release_rows j reason cleanup rs)"
  by (force simp: release_rows_def update_where_mem split: option.splits)

lemma release_rows_ids [simp]: "map r_id (release_rows j reason cleanup rs) = map r_id rs"
  by (simp add: release_rows_def row_simps freed_def split: option.split)

section \<open>The three kinds of change\<close>

text \<open>A queued or running job leaves this state and gives its resource back.\<close>

definition live :: "job \<Rightarrow> bool" where
  "live j \<longleftrightarrow> j_state j \<in> {J_QUEUED, J_RUNNING}"

lemma live_holds:
  assumes "queue_ok js rs" "j \<in> set js" "live j" "j_resource j = Some rid"
  shows "\<exists>r \<in> set rs. r_id r = rid \<and> holds j r"
  using queue_okD(4) [OF assms(1,2)] assms(3,4) by (auto simp: job_ok_def live_def)

lemma leave_live:
  assumes inv: "queue_ok js rs" and j: "j \<in> set js" "live j"
    and f: "j_id (f j) = j_id j" "j_key (f j) = j_key j" "j_state (f j) \<noteq> J_RUNNING"
      "\<And>rs'. job_ok rs' (f j)"
  shows "queue_ok (update_where (\<lambda>x. j_id x = j_id j) f js) (release_rows j reason cleanup rs)"
proof -
  let ?js = "update_where (\<lambda>x. j_id x = j_id j) f js"
  let ?rs = "release_rows j reason cleanup rs"
  note D = queue_okD [OF inv]
  have only: "x = j" if "x \<in> set js" "j_id x = j_id j" for x
    using key_unique [OF D(1) that(1) j(1) that(2)] .
  have ids: "map j_id ?js = map j_id js" and keys: "map j_key ?js = map j_key js"
    using only f(1,2) by (auto simp: update_where_def)
  have mem: "x \<in> set ?js \<longleftrightarrow> x = f j \<or> (x \<in> set js \<and> x \<noteq> j)" for x
    by (rule mem_update_unique [OF D(1) j(1)]) (simp_all add: j)
  have job: "job_ok ?rs x" if x: "x \<in> set js" "x \<noteq> j" for x
  proof -
    have "\<exists>r \<in> set ?rs. r_id r = rid \<and> holds x r"
      if run: "j_state x = J_RUNNING" "j_resource x = Some rid" for rid
    proof -
      obtain r where r: "r \<in> set rs" "r_id r = rid" "holds x r"
        using running_holds [OF inv x(1) run] by blast
      have "j_resource j \<noteq> Some rid"
      proof
        assume res: "j_resource j = Some rid"
        from live_holds [OF inv j res] obtain r' where
          r': "r' \<in> set rs" "r_id r' = rid" "holds j r'" by blast
        have "r' = r" using key_unique [OF D(3) r'(1) r(1)] r r' by simp
        with r r' holds_unique [OF inv x(1) j(1), of r] x(2) show False by blast
      qed
      with r set_release_rows [OF D(3) r(1), of j reason cleanup] show ?thesis by blast
    qed
    with D(4) [OF x(1)] show ?thesis
      by (auto simp: job_ok_def split: job_state.splits option.splits)
  qed
  have res: "resource_ok ?js r" if "r \<in> set ?rs" for r
  proof (cases "j_resource j")
    case None
    with that have r: "r \<in> set rs" by (simp add: release_rows_def)
    have "i \<noteq> j" if "holds i r" for i
      using that None by (auto simp: holds_def)
    with D(5) [OF r] mem show ?thesis
      by (auto simp: resource_ok_def split: lease_state.splits)
  next
    case (Some rid)
    with that consider (old) "r \<in> set rs" "r_id r \<noteq> rid"
      | (new) q where "q \<in> set rs" "r_id q = rid" "r = freed cleanup reason q"
      by (auto simp: release_rows_def update_where_mem split: if_splits)
    then show ?thesis
    proof cases
      case old
      have "i \<noteq> j" if "holds i r" for i
        using that old(2) Some by (auto simp: holds_def)
      with D(5) [OF old(1)] mem show ?thesis
        by (auto simp: resource_ok_def split: lease_state.splits)
    next
      case new
      with D(5) [OF new(1)] show ?thesis
        by (simp add: resource_ok_def freed_def)
    qed
  qed
  show ?thesis
    unfolding queue_ok_def using D ids keys mem f(4) job res by auto
qed

text \<open>A queued job starts to run, with or without a resource.\<close>

lemma start_running:
  assumes inv: "queue_ok js rs" and j: "j \<in> set js" "j_state j = J_QUEUED"
    and r: "r \<in> set rs" "r_state r = L_AVAILABLE"
    and f: "j_id (f j) = j_id j" "j_key (f j) = j_key j" "j_state (f j) = J_RUNNING"
      "j_attempts (f j) = j_attempts j + 1" "j_max_attempts (f j) = j_max_attempts j"
      "j_claim_token (f j) \<noteq> None" "j_claimed_by (f j) \<noteq> None" "j_heartbeat_at (f j) \<noteq> None"
    and g: "r_id (g r) = r_id r" "0 \<le> r_fence (g r)"
    and hold: "holds (f j) (g r)"
  shows "queue_ok (update_where (\<lambda>x. j_id x = j_id j \<and> j_state x = J_QUEUED) f js)
    (update_where (\<lambda>x. r_id x = r_id r) g rs)"
proof -
  let ?js = "update_where (\<lambda>x. j_id x = j_id j \<and> j_state x = J_QUEUED) f js"
  let ?rs = "update_where (\<lambda>x. r_id x = r_id r) g rs"
  note D = queue_okD [OF inv]
  have only: "x = j" if "x \<in> set js" "j_id x = j_id j" for x
    using key_unique [OF D(1) that(1) j(1) that(2)] .
  have onlyr: "x = r" if "x \<in> set rs" "r_id x = r_id r" for x
    using key_unique [OF D(3) that(1) r(1) that(2)] .
  have ids: "map j_id ?js = map j_id js" "map j_key ?js = map j_key js" "map r_id ?rs = map r_id rs"
    using only onlyr f(1,2) g(1) by (auto simp: update_where_def)
  have mem: "x \<in> set ?js \<longleftrightarrow> x = f j \<or> (x \<in> set js \<and> x \<noteq> j)" for x
    by (rule mem_update_unique [OF D(1) j(1)]) (simp_all add: j)
  have memr: "x \<in> set ?rs \<longleftrightarrow> x = g r \<or> (x \<in> set rs \<and> x \<noteq> r)" for x
    by (rule mem_update_unique [OF D(3) r(1)]) simp_all
  have new: "job_ok ?rs (f j)"
    using D(4) [OF j(1)] j(2) f hold memr [of "g r"] g(1)
    by (auto simp: job_ok_def holds_def split: option.split)
  have job: "job_ok ?rs x" if "x \<in> set js" "x \<noteq> j" for x
  proof -
    have "holds x q \<Longrightarrow> q \<noteq> r" for q
      using r(2) by (auto simp: holds_def)
    with D(4) [OF that(1)] memr show ?thesis
      by (fastforce simp: job_ok_def split: job_state.splits option.splits)
  qed
  have res: "resource_ok ?js q" if "q \<in> set rs" "q \<noteq> r" for q
  proof -
    have "j_state i = J_RUNNING \<Longrightarrow> i \<noteq> j" for i using j(2) by auto
    with D(5) [OF that(1)] mem show ?thesis
      by (fastforce simp: resource_ok_def split: lease_state.splits)
  qed
  have newr: "resource_ok ?js (g r)"
    using hold g(2) f(3) mem [of "f j"] by (auto simp: resource_ok_def holds_def)
  show ?thesis
    unfolding queue_ok_def using D ids mem memr new job res newr by auto
qed

lemma start_without_lease:
  assumes inv: "queue_ok js rs" and j: "j \<in> set js" "j_state j = J_QUEUED"
    and f: "j_id (f j) = j_id j" "j_key (f j) = j_key j" "j_state (f j) = J_RUNNING"
      "j_attempts (f j) = j_attempts j + 1" "j_max_attempts (f j) = j_max_attempts j"
      "j_claim_token (f j) \<noteq> None" "j_claimed_by (f j) \<noteq> None" "j_heartbeat_at (f j) \<noteq> None"
      "j_resource (f j) = None" "j_fence (f j) = None" "j_lease (f j) = None"
  shows "queue_ok (update_where (\<lambda>x. j_id x = j_id j \<and> j_state x = J_QUEUED) f js) rs"
proof -
  let ?js = "update_where (\<lambda>x. j_id x = j_id j \<and> j_state x = J_QUEUED) f js"
  note D = queue_okD [OF inv]
  have only: "x = j" if "x \<in> set js" "j_id x = j_id j" for x
    using key_unique [OF D(1) that(1) j(1) that(2)] .
  have ids: "map j_id ?js = map j_id js" "map j_key ?js = map j_key js"
    using only f(1,2) by (auto simp: update_where_def)
  have mem: "x \<in> set ?js \<longleftrightarrow> x = f j \<or> (x \<in> set js \<and> x \<noteq> j)" for x
    by (rule mem_update_unique [OF D(1) j(1)]) (simp_all add: j)
  have new: "job_ok rs (f j)"
    using D(4) [OF j(1)] j(2) f by (simp add: job_ok_def)
  have res: "resource_ok ?js q" if "q \<in> set rs" for q
  proof -
    have "j_state i = J_RUNNING \<Longrightarrow> i \<noteq> j" for i using j(2) by auto
    with D(5) [OF that] mem show ?thesis
      by (fastforce simp: resource_ok_def split: lease_state.splits)
  qed
  show ?thesis
    unfolding queue_ok_def using D ids mem new res by auto
qed

text \<open>A resource that no job holds is repaired or stays in quarantine.\<close>

lemma idle_resource:
  assumes inv: "queue_ok js rs" and r: "r \<in> set rs" "r_state r \<noteq> L_ACTIVE"
    and g: "r_id (g r) = r_id r" "0 \<le> r_fence (g r)" "r_owner (g r) = None" "r_lease (g r) = None"
      "r_state (g r) \<in> {L_AVAILABLE, L_QUARANTINED}"
    and P: "P r" "\<And>x. P x \<Longrightarrow> r_id x = r_id r"
  shows "queue_ok js (update_where P g rs)"
proof -
  note D = queue_okD [OF inv]
  have memr: "x \<in> set (update_where P g rs) \<longleftrightarrow> x = g r \<or> (x \<in> set rs \<and> x \<noteq> r)" for x
    by (rule mem_update_unique [of r_id rs r P, OF D(3) r(1) P])
  have ids: "map r_id (update_where P g rs) = map r_id rs"
    using only_row [of r_id rs r P, OF D(3) r(1) P] g(1) by (simp add: update_where_def)
  have job: "job_ok (update_where P g rs) x" if "x \<in> set js" for x
  proof -
    have "holds x q \<Longrightarrow> q \<noteq> r" for q using r(2) by (auto simp: holds_def)
    with D(4) [OF that] memr show ?thesis
      by (fastforce simp: job_ok_def split: job_state.splits option.splits)
  qed
  have new: "resource_ok js (g r)"
    using g by (auto simp: resource_ok_def)
  show ?thesis unfolding queue_ok_def using D ids memr job new by auto
qed

text \<open>A change of columns the invariant does not read.\<close>

definition same_core :: "job \<Rightarrow> job \<Rightarrow> bool" where
  "same_core i j \<longleftrightarrow> j_id i = j_id j \<and> j_key i = j_key j \<and> j_state i = j_state j \<and>
     j_claim_token i = j_claim_token j \<and> j_claimed_by i = j_claimed_by j \<and>
     j_resource i = j_resource j \<and> j_fence i = j_fence j \<and> j_lease i = j_lease j \<and>
     j_attempts i = j_attempts j \<and> j_max_attempts i = j_max_attempts j \<and>
     j_result i = j_result j \<and> (j_heartbeat_at j \<noteq> None \<longrightarrow> j_heartbeat_at i \<noteq> None)"

definition same_lease :: "resource \<Rightarrow> resource \<Rightarrow> bool" where
  "same_lease q r \<longleftrightarrow> r_id q = r_id r \<and> r_state q = r_state r \<and> r_owner q = r_owner r \<and>
     r_lease q = r_lease r \<and> r_fence q = r_fence r"

lemma holds_same: "same_core i j \<Longrightarrow> same_lease q r \<Longrightarrow> holds i q = holds j r"
  by (auto simp: same_core_def same_lease_def holds_def)

lemma neutral:
  assumes inv: "queue_ok js rs" and f: "\<And>j. same_core (f j) j" and g: "\<And>r. same_lease (g r) r"
  shows "queue_ok (map f js) (map g rs)"
proof -
  note D = queue_okD [OF inv]
  have h: "holds (f j) (g r) = holds j r" for j r by (rule holds_same [OF f g])
  have ids: "map j_id (map f js) = map j_id js" "map j_key (map f js) = map j_key js"
    "map r_id (map g rs) = map r_id rs"
    using f g by (auto simp: same_core_def same_lease_def)
  have gid: "r_id (g r) = r_id r" for r using g [of r] by (simp add: same_lease_def)
  have "job_ok (map g rs) (f j)" if "j \<in> set js" for j
    using D(4) [OF that] f [of j] h [of j] gid
    by (fastforce simp: job_ok_def same_core_def split: job_state.splits option.splits)
  moreover have "resource_ok (map f js) (g r)" if "r \<in> set rs" for r
    using D(5) [OF that] g [of r] f h [of _ r]
    by (fastforce simp: resource_ok_def same_core_def same_lease_def split: lease_state.splits)
  ultimately show ?thesis unfolding queue_ok_def ids using D(1-3) by auto
qed

text \<open>New rows.\<close>

lemma append_job:
  assumes inv: "queue_ok js rs" and "j_id j \<notin> j_id ` set js" "j_key j \<notin> j_key ` set js"
    and "job_ok rs j"
  shows "queue_ok (js @ [j]) rs"
proof -
  note D = queue_okD [OF inv]
  have "resource_ok (js @ [j]) r" if "r \<in> set rs" for r
    using D(5) [OF that] by (auto simp: resource_ok_def split: lease_state.splits)
  with D assms show ?thesis by (auto simp: queue_ok_def)
qed

lemma append_resource:
  assumes inv: "queue_ok js rs" and "r_id r \<notin> r_id ` set rs" and "resource_ok js r"
  shows "queue_ok js (rs @ [r])"
proof -
  note D = queue_okD [OF inv]
  have "job_ok (rs @ [r]) j" if "j \<in> set js" for j
    using D(4) [OF that] by (auto simp: job_ok_def split: job_state.splits option.splits)
  with D assms show ?thesis by (auto simp: queue_ok_def)
qed

section \<open>Every operation keeps the invariant\<close>

lemma queue_inv_tables: "jobs d' = jobs d \<Longrightarrow> resources d' = resources d \<Longrightarrow> queue_inv d' = queue_inv d"
  by (simp add: queue_inv_def)

lemma release_inv_resources:
  assumes "queue_ok js (resources d)" "j \<in> set js" "live j"
  shows "resources (release_resource j reason cleanup d) =
    release_rows j reason cleanup (resources d)"
  using release_resources [OF queue_okD(3) [OF assms(1)], of j reason cleanup]
    live_holds [OF assms] by blast

lemma leave_queue:
  assumes inv: "queue_inv d" and j: "j \<in> set (jobs d)" "live j"
    and f: "j_id (f j) = j_id j" "j_key (f j) = j_key j" "j_state (f j) \<noteq> J_RUNNING"
      "\<And>rs'. job_ok rs' (f j)"
    and d': "jobs d' = update_where (\<lambda>x. j_id x = j_id j) f (jobs d)"
      "resources d' = release_rows j reason cleanup (resources d)"
  shows "queue_inv d'"
  using leave_live [of _ _ j f, OF inv [unfolded queue_inv_def] j f] d' by (simp add: queue_inv_def)

lemma queue_okD_job:
  assumes "queue_inv d" "j \<in> set (jobs d)"
  shows "0 \<le> j_attempts j" "j_attempts j \<le> j_max_attempts j"
  using assms by (auto simp: queue_inv_def queue_ok_def job_ok_def)

lemma owner_running:
  assumes "assert_job_owner i tok fen d = Inr j"
  shows "j \<in> set (jobs d)" "j_id j = i" "j_state j = J_RUNNING" "j_claim_token j = Some tok"
    "find_job d i = Some j"
  using assms find_SomeD' (2) [of d i j]
  by (auto simp: assert_job_owner_def split: option.splits if_splits)

lemma hooks_tables [simp]:
  "jobs (fail_stage0_run_after_job_failure j e d) = jobs d"
  "resources (fail_stage0_run_after_job_failure j e d) = resources d"
  "jobs (fail_endpoint_validation_run_after_job_failure j e c d) = jobs d"
  "resources (fail_endpoint_validation_run_after_job_failure j e c d) = resources d"
  "jobs (fail_endpoint_adjudication_after_job_failure j e d) = jobs d"
  "resources (fail_endpoint_adjudication_after_job_failure j e d) = resources d"
  by (auto simp: fail_stage0_run_after_job_failure_def
      fail_endpoint_validation_run_after_job_failure_def
      fail_endpoint_adjudication_after_job_failure_def Let_def split: option.split json.split)

lemma reject_task_tables:
  "reject_task t d = Inr d' \<Longrightarrow> jobs d' = jobs d \<and> resources d' = resources d"
  by (auto simp: reject_task_def bind_res_eq_Inr split: if_splits)

lemma settle_candidate_tables:
  "settle_candidate S s c d = Inr d' \<Longrightarrow> jobs d' = jobs d \<and> resources d' = resources d"
  by (auto simp: settle_candidate_def bind_res_eq_Inr split: if_splits option.splits)

lemma framework_hook_tables:
  "reject_framework_task_after_job_failure j e d = Inr d' \<Longrightarrow>
   jobs d' = jobs d \<and> resources d' = resources d"
  by (auto simp: reject_framework_task_after_job_failure_def bind_res_eq_Inr Let_def
      dest!: reject_task_tables settle_candidate_tables split: if_splits option.splits)

lemma manual_hook_tables:
  "reject_manual_candidate_task_after_job_failure j e d = Inr d' \<Longrightarrow>
   jobs d' = jobs d \<and> resources d' = resources d"
  by (auto simp: reject_manual_candidate_task_after_job_failure_def bind_res_eq_Inr
      dest!: reject_task_tables settle_candidate_tables split: if_splits option.splits)

lemma converge_tables:
  "converge_after_failure j e c d = Inr d' \<Longrightarrow> jobs d' = jobs d \<and> resources d' = resources d"
  by (auto simp: converge_after_failure_def bind_res_eq_Inr
      dest!: framework_hook_tables manual_hook_tables)

lemma upsert_worker_tables [simp]:
  "jobs (upsert_worker now w d) = jobs d" "resources (upsert_worker now w d) = resources d"
  "tasks (upsert_worker now w d) = tasks d"
  by (auto simp: upsert_worker_def)

lemma register_resource_tables [simp]:
  "jobs (register_resource text_of q d) = jobs d" "tasks (register_resource text_of q d) = tasks d"
  by (simp_all add: register_resource_def Let_def)

lemma register_worker_result:
  "register_worker text_of now q d = Inr (d', w) \<Longrightarrow> d' = register_resource text_of q (upsert_worker now w d)"
  by (auto simp: register_worker_def bind_res_eq_Inr Let_def split: if_split_asm)

lemma register_worker_tables:
  assumes "register_worker text_of now q d = Inr (d', w)"
  shows "jobs d' = jobs d" "tasks d' = tasks d"
  using register_worker_result [OF assms] by simp_all

lemma register_worker_resources:
  assumes "register_worker text_of now q d = Inr (d', w)"
  obtains "resources d' = resources d"
    | rid where "rid \<notin> r_id ` set (resources d)"
      "resources d' = resources d @ [\<lparr>r_id = rid, r_state = L_AVAILABLE, r_owner = None,
         r_lease = None, r_fence = 0, r_expires_at = None, r_cleanup = None\<rparr>]"
proof (cases "resources d' = resources d")
  case False
  let ?rid = "registered_resource text_of (wr_capabilities q)"
  from False have "find (\<lambda>r. r_id r = ?rid) (resources d) = None"
    "resources d' = resources d @ [\<lparr>r_id = ?rid, r_state = L_AVAILABLE, r_owner = None,
       r_lease = None, r_fence = 0, r_expires_at = None, r_cleanup = None\<rparr>]"
    unfolding register_worker_result [OF assms]
    by (auto simp: register_resource_def Let_def find_resource_def split: if_splits)
  moreover from this(1) have "?rid \<notin> r_id ` set (resources d)" by (auto simp: find_None_iff)
  ultimately show thesis using that(2) by blast
qed (rule that(1))

lemma register_worker_inv [inv_intros]:
  assumes "queue_inv d" "register_worker text_of now q d = Inr (d', w)"
  shows "queue_inv d'"
proof -
  note js = register_worker_tables(1) [OF assms(2)]
  from assms(2) consider "jobs d' = jobs d" "resources d' = resources d"
    | rid where "jobs d' = jobs d" "rid \<notin> r_id ` set (resources d)"
      "resources d' = resources d @ [\<lparr>r_id = rid, r_state = L_AVAILABLE, r_owner = None,
         r_lease = None, r_fence = 0, r_expires_at = None, r_cleanup = None\<rparr>]"
    by (rule register_worker_resources) (simp_all add: js)
  then show ?thesis
  proof cases
    case 1
    with assms(1) show ?thesis by (simp add: queue_inv_def)
  next
    case 2
    with assms(1) show ?thesis
      unfolding queue_inv_def by (auto intro!: append_resource simp: resource_ok_def)
  qed
qed

lemma enqueue_job_inv [inv_intros]:
  assumes "queue_inv d" "1 \<le> jc_max_attempts q" "enqueue_job now i q d = Inr (d', j)"
  shows "queue_inv d'"
proof (cases "find_job_key d (jc_key q)")
  case (Some row)
  with assms show ?thesis by (auto simp: enqueue_job_def split: if_splits)
next
  case None
  with assms(3) have d': "d' = d\<lparr>jobs := jobs d @ [new_job now i q]\<rparr>" and "find_job d i = None"
    by (auto simp: enqueue_job_def Let_def split: if_splits)
  with None have "i \<notin> j_id ` set (jobs d)" "jc_key q \<notin> j_key ` set (jobs d)"
    by (auto simp: find_job_def find_job_key_def find_None_iff)
  moreover have "job_ok rs (new_job now i q)" for rs
    using assms(2) by (simp add: job_ok_def new_job_def)
  ultimately show ?thesis
    using assms(1) d' unfolding queue_inv_def
    by (auto intro!: append_job simp: new_job_def)
qed

lemma heartbeat_job_inv [inv_intros]:
  assumes "queue_inv d" "heartbeat_job now w i tok fen d = Inr (d', u)"
  shows "queue_inv d'"
proof -
  define f where "f = (\<lambda>x::job. if j_id x = i \<and> j_claimed_by x = Some w \<and> j_state x = J_RUNNING
    then x\<lparr>j_heartbeat_at := Some now\<rparr> else x)"
  define g where "g = (\<lambda>r::resource. if \<exists>n. fen = Some n \<and> r_owner r = Some i \<and> r_fence r = n
    then r\<lparr>r_expires_at := Some (now + seconds 90)\<rparr> else r)"
  have "jobs d' = map f (jobs d)" "resources d' = map g (resources d)"
    using assms(2)
    by (auto simp: heartbeat_job_def bind_res_eq_Inr Let_def f_def g_def update_where_def
        split: if_splits option.splits)
  then show ?thesis
    using neutral [OF assms(1) [unfolded queue_inv_def], of f g]
    by (simp add: queue_inv_def same_core_def same_lease_def f_def g_def)
qed

lemma mark_job_advanced_inv [inv_intros]:
  assumes "queue_inv d" "mark_job_advanced now i d = Inr (d', u)"
  shows "queue_inv d'"
  using assms neutral [of "jobs d" "resources d"
      "\<lambda>j. if j_id j = i then j\<lparr>j_advanced_at := Some now\<rparr> else j" "\<lambda>r. r"]
  by (auto simp: mark_job_advanced_def queue_inv_def update_where_def same_core_def same_lease_def)

lemma complete_job_inv [inv_intros]:
  assumes inv: "queue_inv d" and c: "complete_job now i tok fen res d = Inr (d', j')"
  shows "queue_inv d'"
proof (cases "d' = d")
  case True
  with inv show ?thesis by simp
next
  case False
  let ?f = "\<lambda>x. x\<lparr>j_state := J_SUCCEEDED, j_result := Some res, j_finished_at := Some now\<rparr>"
  from c False obtain j cleanup where own: "assert_job_owner i tok fen d = Inr j"
    and d': "jobs d' = update_where (\<lambda>x. j_id x = i) ?f (jobs d)"
      "resources d' = resources (release_resource j ''job_completed'' cleanup
         (set_jobs (\<lambda>x. j_id x = i) ?f d))"
    by (auto simp: complete_job_def bind_res_eq_Inr Let_def split: option.splits if_splits)
  note o = owner_running [OF own]
  have live: "live j" using o by (simp add: live_def)
  have rows: "resources d' = release_rows j ''job_completed'' cleanup (resources d)"
    unfolding d'(2)
    using release_inv_resources [of "jobs d" "set_jobs (\<lambda>x. j_id x = i) ?f d" j] inv o(1) live
    by (simp add: queue_inv_def)
  show ?thesis
    by (rule leave_queue [OF inv o(1) live, of ?f, OF _ _ _ _ _ rows])
      (use queue_okD_job [OF inv o(1)] d'(1) o(2) in \<open>auto simp: job_ok_def\<close>)
qed

lemma fail_job_inv [inv_intros]:
  assumes inv: "queue_inv d" and c: "fail_job now i tok fen err retryable cleanup d = Inr (d', j')"
  shows "queue_inv d'"
proof -
  from c obtain j where own: "assert_job_owner i tok fen d = Inr j"
    by (auto simp: fail_job_def bind_res_eq_Inr split: if_splits)
  note o = owner_running [OF own]
  define retry where "retry = (retryable \<and> j_attempts j < j_max_attempts j)"
  let ?d1 = "set_jobs (\<lambda>x. j_id x = i) (fail_row now retry err) d"
  have d': "jobs d' = jobs ?d1"
    "resources d' = resources (release_resource j ''job_failed'' cleanup ?d1)"
    using c own
    by (auto simp: fail_job_def bind_res_eq_Inr Let_def retry_def
        split: if_splits dest!: converge_tables)
  have live: "live j" using o by (simp add: live_def)
  have rows: "resources d' = release_rows j ''job_failed'' cleanup (resources d)"
    unfolding d'(2) using release_inv_resources [of "jobs d" ?d1 j] inv o(1) live
    by (simp add: queue_inv_def)
  show ?thesis
    by (rule leave_queue [OF inv o(1) live, of "fail_row now retry err", OF _ _ _ _ _ rows])
      (use queue_okD_job [OF inv o(1)] d'(1) o(2) in
        \<open>auto simp: fail_row_def job_ok_def retry_def\<close>)
qed

lemma recover_one_inv:
  assumes inv: "queue_inv d" and j: "j \<in> set (jobs d)" "j_state j = J_RUNNING"
    and c: "recover_one now j d = Inr d'"
  shows "queue_inv d'" "jobs d' = update_where (\<lambda>x. j_id x = j_id j) (recover_row now) (jobs d)"
proof -
  let ?d1 = "release_resource j ''worker_heartbeat_expired'' None d"
  have d': "jobs d' = update_where (\<lambda>x. j_id x = j_id j) (recover_row now) (jobs d)"
    "resources d' = resources ?d1"
    using c by (auto simp: recover_one_def Let_def split: if_splits dest!: converge_tables)
  have live: "live j" using j by (simp add: live_def)
  have rows: "resources d' = release_rows j ''worker_heartbeat_expired'' None (resources d)"
    unfolding d'(2) using release_inv_resources [of "jobs d" d j] inv j(1) live
    by (simp add: queue_inv_def)
  show "queue_inv d'"
    by (rule leave_queue [OF inv j(1) live, of "recover_row now", OF _ _ _ _ _ rows])
      (use queue_okD_job [OF inv j(1)] d'(1) in
        \<open>auto simp: recover_row_def job_ok_def Let_def\<close>)
  show "jobs d' = update_where (\<lambda>x. j_id x = j_id j) (recover_row now) (jobs d)"
    by (rule d')
qed

lemma recover_all_inv:
  "recover_all now js d = Inr (d', rec) \<Longrightarrow> queue_inv d \<Longrightarrow>
   set js \<subseteq> {j \<in> set (jobs d). j_state j = J_RUNNING} \<Longrightarrow> distinct (map j_id js) \<Longrightarrow> queue_inv d'"
proof (induction js arbitrary: d rec)
  case Nil
  then show ?case by simp
next
  case (Cons j js)
  from Cons.prems obtain d1 rec' where
    one: "recover_one now j d = Inr d1" and rest: "recover_all now js d1 = Inr (d', rec')"
    by (auto simp: bind_res_eq_Inr)
  have j: "j \<in> set (jobs d)" "j_state j = J_RUNNING" using Cons.prems by auto
  note R = recover_one_inv [OF Cons.prems(2) j one]
  have "set js \<subseteq> {j \<in> set (jobs d1). j_state j = J_RUNNING}"
  proof
    fix x assume x: "x \<in> set js"
    with Cons.prems(3) have "x \<in> set (jobs d)" "j_state x = J_RUNNING" by auto
    moreover have "j_id x \<noteq> j_id j" by (rule head_key [OF Cons.prems(4) x])
    ultimately
    show "x \<in> {j \<in> set (jobs d1). j_state j = J_RUNNING}"
      by (auto simp: R(2) update_where_mem)
  qed
  with Cons.IH [OF rest R(1)] Cons.prems(4) show ?case by simp
qed

lemma distinct_sort_ids:
  "distinct (map j_id js) \<Longrightarrow> distinct (map j_id (sort_key k (filter P js)))"
  by (simp add: distinct_map inj_on_def)

lemma recover_stale_jobs_inv [inv_intros]:
  assumes inv: "queue_inv d" and c: "recover_stale_jobs now n locked d = Inr (d', rec)"
  shows "queue_inv d'"
  by (rule recover_all_inv [OF c [unfolded recover_stale_jobs_def] inv])
    (use inv in \<open>auto simp: is_stale_def queue_inv_def queue_ok_def intro!: distinct_sort_ids\<close>)

lemma cancel_job_inv [inv_intros]:
  assumes inv: "queue_inv d" and c: "cancel_job now i reason d = Inr (d', j')"
  shows "queue_inv d'"
proof (cases "d' = d")
  case True
  with inv show ?thesis by simp
next
  case False
  let ?f = "\<lambda>x. x\<lparr>j_state := J_CANCELLED, j_error := Some (cancelled_error reason),
     j_claimed_by := None, j_claim_token := None, j_lease := None,
     j_resource := None, j_fence := None, j_finished_at := Some now\<rparr>"
  from c False obtain j where j: "find_job d i = Some j" "live j"
    and d': "jobs d' = update_where (\<lambda>x. j_id x = i) ?f (jobs d)"
      "resources d' = (if j_state j = J_RUNNING
         then resources (release_resource j ''job_cancelled'' None d) else resources d)"
    by (cases "find_job d i"; cases "j_state (the (find_job d i))")
      (auto simp: cancel_job_def Let_def live_def)
  from j(1) have m: "j \<in> set (jobs d)" "j_id j = i" by (auto dest: find_SomeD')
  have "j_state j \<noteq> J_RUNNING \<Longrightarrow> j_resource j = None"
    using inv m(1) j(2) by (auto simp: queue_inv_def queue_ok_def job_ok_def live_def)
  then have rows: "resources d' = release_rows j ''job_cancelled'' None (resources d)"
    unfolding d'(2) using release_inv_resources [of "jobs d" d j] inv m(1) j(2)
    by (auto simp: queue_inv_def release_rows_def)
  show ?thesis
    by (rule leave_queue [OF inv m(1) j(2), of ?f, OF _ _ _ _ _ rows])
      (use queue_okD_job [OF inv m(1)] d'(1) m(2) in \<open>auto simp: job_ok_def\<close>)
qed

lemma report_resource_cleanup_inv [inv_intros]:
  assumes inv: "queue_inv d" and c: "report_resource_cleanup rid fen cleanup d = Inr (d', r')"
  shows "queue_inv d'"
proof -
  from c obtain r g where r: "find_resource d rid = Some r" "r_fence r = fen" "r_state r \<noteq> L_ACTIVE"
    and d': "jobs d' = jobs d"
      "resources d' = update_where (\<lambda>x. r_id x = rid \<and> r_fence x = fen) g (resources d)"
    and g: "\<And>x. r_id (g x) = r_id x" "\<And>x. r_fence (g x) = r_fence x"
      "\<And>x. r_owner (g x) = None" "\<And>x. r_lease (g x) = None"
      "\<And>x. r_state (g x) \<in> {L_AVAILABLE, L_QUARANTINED}"
    by (fastforce simp: report_resource_cleanup_def Let_def split: option.splits if_splits)
  from r(1) have m: "r \<in> set (resources d)" "r_id r = rid" by (auto dest: find_SomeD')
  have "0 \<le> r_fence r" using inv m(1) by (auto simp: queue_inv_def queue_ok_def resource_ok_def)
  with idle_resource [OF inv [unfolded queue_inv_def] m(1) r(3), of g
      "\<lambda>x. r_id x = rid \<and> r_fence x = fen"] g r m d'
  show ?thesis by (simp add: queue_inv_def)
qed

lemma advance_endpoint_tables:
  "advance_endpoint j d = Inr d' \<Longrightarrow> jobs d' = jobs d \<and> resources d' = resources d"
  by (auto simp: advance_endpoint_def Let_def split: if_splits)

lemma finish_claim_tables:
  "finish_claim now w tok lease j d = Inr (d', c) \<Longrightarrow>
   jobs d' = jobs (take_job now w tok lease (j_id j) d) \<and> resources d' = resources d"
  by (auto simp: finish_claim_def Let_def bind_res_eq_Inr take_job_def
      dest!: advance_endpoint_tables)

lemma select_jobD:
  assumes "select_job w now locked d = Some j"
  shows "j \<in> set (jobs d)" "claimable w now locked j" "j_state j = J_QUEUED"
  using argmin_filterD [OF assms [unfolded select_job_def]] by (auto simp: claimable_def)

lemma select_resourceD:
  assumes "select_resource w rlocked d = Inr (Some r)"
  shows "r \<in> set (resources d)" "r_state r = L_AVAILABLE"
  using assms
  by (auto simp: select_resource_def free_resource_def split: option.splits if_splits json.splits
      dest: find_SomeD argmin_filterD)

lemma claim_job_cases:
  assumes "claim_job now locked rlocked tok lid wid d = Inr (d', c)"
  obtains (none) "jobs d' = jobs d" "resources d' = resources d" "c = None"
  | (plain) w j where "find_worker d wid = Some w" "select_job w now locked d = Some j"
      "\<not> needs_lease (w_type w) j" "finish_claim now wid tok None j d = Inr (d', c)"
  | (leased) w j r where "find_worker d wid = Some w" "select_job w now locked d = Some j"
      "needs_lease (w_type w) j" "select_resource w rlocked d = Inr (Some r)"
      "finish_claim now wid tok (Some (lid, r_id r, r_fence r + 1)) j
         (lease_resource now (j_id j) lid r d) = Inr (d', c)"
  using assms
  by (auto simp: claim_job_def bind_res_eq_Inr split: option.splits if_splits)

lemma claim_job_inv [inv_intros]:
  assumes inv: "queue_inv d" and c: "claim_job now locked rlocked tok lid wid d = Inr (d', c)"
  shows "queue_inv d'"
  using c
proof (cases rule: claim_job_cases)
  case none
  with inv show ?thesis by (simp add: queue_inv_def)
next
  case (plain w j)
  note j = select_jobD [OF plain(2)]
  from finish_claim_tables [OF plain(4)]
  have "jobs d' = jobs (take_job now wid tok None (j_id j) d)" "resources d' = resources d" by auto
  then show ?thesis
    unfolding queue_inv_def
    by (simp add: take_job_def)
      (rule start_without_lease [OF inv [unfolded queue_inv_def] j(1,3)]; simp)
next
  case (leased w j r)
  note j = select_jobD [OF leased(2)]
  note r = select_resourceD [OF leased(4)]
  let ?d1 = "lease_resource now (j_id j) lid r d"
  from finish_claim_tables [OF leased(5)]
  have d': "jobs d' = jobs (take_job now wid tok (Some (lid, r_id r, r_fence r + 1)) (j_id j) ?d1)"
    "resources d' = resources ?d1" by auto
  have "0 \<le> r_fence r" using inv r(1) by (auto simp: queue_inv_def queue_ok_def resource_ok_def)
  then show ?thesis
    unfolding queue_inv_def d'
    by (simp add: take_job_def lease_resource_def)
      (rule start_running [OF inv [unfolded queue_inv_def] j(1,3) r]; simp add: holds_def)
qed

lemma cancel_one:
  assumes f: "\<And>j. j_id (f j) = j_id j" "\<And>j. j_key (f j) = j_key j" "\<And>j. j_state (f j) = J_CANCELLED"
    "\<And>j. j_claim_token (f j) = None" "\<And>j. j_attempts (f j) = j_attempts j"
    "\<And>j. j_max_attempts (f j) = j_max_attempts j"
    and inv: "queue_ok js (resources d)" and j: "j \<in> set js" "live j"
  defines "d1 \<equiv> if j_state j = J_RUNNING then release_resource j ''task_cancelled'' None d else d"
  shows "resources d1 = release_rows j ''task_cancelled'' None (resources d)"
    and "queue_ok (update_where (\<lambda>x. j_id x = j_id j) f js) (resources d1)"
proof -
  have bounds: "0 \<le> j_attempts j" "j_attempts j \<le> j_max_attempts j"
    using inv j(1) by (auto simp: queue_ok_def job_ok_def)
  have "j_state j \<noteq> J_RUNNING \<Longrightarrow> j_resource j = None"
    using inv j by (auto simp: queue_ok_def job_ok_def live_def)
  then show rows: "resources d1 = release_rows j ''task_cancelled'' None (resources d)"
    using release_inv_resources [OF inv j] by (simp add: release_rows_def d1_def)
  show "queue_ok (update_where (\<lambda>x. j_id x = j_id j) f js) (resources d1)"
    unfolding rows by (rule leave_live [OF inv j]) (use f bounds in \<open>simp_all add: job_ok_def\<close>)
qed

lemma cancel_many:
  assumes "\<And>j. j_id (f j) = j_id j" "\<And>j. j_key (f j) = j_key j" "\<And>j. j_state (f j) = J_CANCELLED"
    "\<And>j. j_claim_token (f j) = None" "\<And>j. j_attempts (f j) = j_attempts j"
    "\<And>j. j_max_attempts (f j) = j_max_attempts j"
  shows "queue_ok js (resources d) \<Longrightarrow> set L \<subseteq> set js \<Longrightarrow> distinct (map j_id L) \<Longrightarrow>
    list_all live L \<Longrightarrow>
    queue_ok (update_where (\<lambda>x. x \<in> set L) f js) (resources (release_running L d))"
proof (induction L arbitrary: js d)
  case Nil
  then show ?case by (simp add: update_where_id)
next
  case (Cons j L)
  let ?js = "update_where (\<lambda>x. j_id x = j_id j) f js"
  let ?d = "if j_state j = J_RUNNING then release_resource j ''task_cancelled'' None d else d"
  have j: "j \<in> set js" "live j" using Cons.prems by auto
  note ok = cancel_one(2) [OF assms Cons.prems(1) j]
  have only: "x \<in> set js \<Longrightarrow> j_id x = j_id j \<longleftrightarrow> x = j" for x
    using key_unique [OF queue_okD(1) [OF Cons.prems(1)] _ j(1)] by auto
  have live: "x \<in> set L \<Longrightarrow> live x" for x using Cons.prems(4) by (auto simp: list_all_iff)
  have notin: "f x \<notin> set L" for x using live assms(3) by (force simp: live_def)
  have sub: "set L \<subseteq> set ?js"
    using Cons.prems(2) head_key [OF Cons.prems(3)] by (fastforce simp: update_where_mem)
  have "queue_ok (update_where (\<lambda>x. x \<in> set L) f ?js) (resources (release_running L ?d))"
    by (rule Cons.IH [OF ok sub]) (use Cons.prems in simp_all)
  moreover have "update_where (\<lambda>x. x \<in> set L) f ?js = update_where (\<lambda>x. x \<in> set (j # L)) f js"
    unfolding update_where_def map_map by (rule map_cong) (auto simp: only notin)
  ultimately show ?case by simp
qed

lemma release_running_tables [simp]:
  "jobs (release_running L d) = jobs d" "tasks (release_running L d) = tasks d"
  "candidates (release_running L d) = candidates d"
  by (induction L arbitrary: d) auto

lemma cancel_framework_task_inv [inv_intros]:
  assumes inv: "queue_inv d" and c: "cancel_framework_task now i reason d = Inr (d', t)"
  shows "queue_inv d'"
proof (cases "d' = d")
  case True
  with inv show ?thesis by simp
next
  case False
  let ?P = "\<lambda>j. j_task j = i \<and> j_state j \<in> {J_QUEUED, J_RUNNING}"
  let ?L = "filter ?P (jobs d)"
  from c False have d': "jobs d' = update_where ?P (cancel_row now reason) (jobs d)"
    "resources d' = resources (release_running ?L d)"
    by (auto simp: cancel_framework_task_def Let_def bind_res_eq_Inr split: option.splits if_splits)
  have "update_where ?P (cancel_row now reason) (jobs d) =
    update_where (\<lambda>x. x \<in> set ?L) (cancel_row now reason) (jobs d)"
    unfolding update_where_def by (rule map_cong) auto
  moreover have "queue_ok (update_where (\<lambda>x. x \<in> set ?L) (cancel_row now reason) (jobs d))
      (resources (release_running ?L d))"
    by (rule cancel_many [OF _ _ _ _ _ _ inv [unfolded queue_inv_def]])
      (use inv in \<open>auto simp: cancel_row_def live_def list_all_iff queue_inv_def queue_ok_def
         intro: distinct_map_filter\<close>)
  ultimately show ?thesis unfolding queue_inv_def d' by simp
qed

end
