(* ===== verification/QueueSteps.thy ===== *)
theory QueueSteps
  imports QueueInv
begin

text \<open>
  The job queue as a transition system: its public operations, the histories they make,
  and the properties that every history has. Two views of one step carry the proofs: what
  it does to the jobs table (\<open>job_steps\<close>) and to the resource table (\<open>lease_steps\<close>).
\<close>

section \<open>Operations and histories\<close>

datatype queue_op =
    Op_register "json \<Rightarrow> string" time worker_register
  | Op_enqueue time uuid job_create
  | Op_claim time "uuid \<Rightarrow> bool" "string \<Rightarrow> bool" uuid uuid string
  | Op_heartbeat time string uuid uuid "int option"
  | Op_complete time uuid uuid "int option" json
  | Op_fail time uuid uuid "int option" json bool "json option"
  | Op_recover time int "uuid \<Rightarrow> bool"
  | Op_cancel time uuid string
  | Op_cancel_task time uuid string
  | Op_cleanup string int json
  | Op_advance time uuid

definition new_state :: "error + ('d \<times> 'r) \<Rightarrow> error + 'd" where
  "new_state m = bind_res m (\<lambda>(d, _). Inr d)"

lemma new_state_Inr [simp]: "new_state m = Inr d \<longleftrightarrow> (\<exists>r. m = Inr (d, r))"
  by (auto simp: new_state_def bind_res_eq_Inr)

fun queue_step :: "queue_op \<Rightarrow> db \<Rightarrow> error + db" where
  "queue_step (Op_register text_of now q) d = new_state (register_worker text_of now q d)"
| "queue_step (Op_enqueue now i q) d = new_state (enqueue_job now i q d)"
| "queue_step (Op_claim now locked rlocked tok lid w) d =
     new_state (claim_job now locked rlocked tok lid w d)"
| "queue_step (Op_heartbeat now w i tok fen) d = new_state (heartbeat_job now w i tok fen d)"
| "queue_step (Op_complete now i tok fen res) d = new_state (complete_job now i tok fen res d)"
| "queue_step (Op_fail now i tok fen err retryable cleanup) d =
     new_state (fail_job now i tok fen err retryable cleanup d)"
| "queue_step (Op_recover now n locked) d = new_state (recover_stale_jobs now n locked d)"
| "queue_step (Op_cancel now i reason) d = new_state (cancel_job now i reason d)"
| "queue_step (Op_cancel_task now i reason) d = new_state (cancel_framework_task now i reason d)"
| "queue_step (Op_cleanup rid fen cleanup) d = new_state (report_resource_cleanup rid fen cleanup d)"
| "queue_step (Op_advance now i) d = new_state (mark_job_advanced now i d)"

text \<open>A request of the contract model may only ask for at least one attempt.\<close>

fun valid_op :: "queue_op \<Rightarrow> bool" where
  "valid_op (Op_enqueue now i q) = job_create_valid q"
| "valid_op _ = True"

lemma queue_step_inv:
  "valid_op p \<Longrightarrow> queue_inv d \<Longrightarrow> queue_step p d = Inr d' \<Longrightarrow> queue_inv d'"
  by (cases p) (auto simp: job_create_valid_def intro: inv_intros)

interpretation queue_tx: transactional queue_step valid_op queue_inv
  by unfold_locales (rule queue_step_inv)

section \<open>One step on the jobs table\<close>

definition terminal :: "job \<Rightarrow> bool" where
  "terminal j \<longleftrightarrow> j_state j \<in> {J_SUCCEEDED, J_FAILED, J_CANCELLED}"

text \<open>What one step may do to a row, \<open>tk\<close> being the claim token the step hands out.\<close>

definition job_rel :: "uuid option \<Rightarrow> job \<Rightarrow> job \<Rightarrow> bool" where
  "job_rel tk j j' \<longleftrightarrow> j_id j' = j_id j \<and> j_max_attempts j' = j_max_attempts j \<and>
     j_attempts j \<le> j_attempts j' \<and>
     (j_claim_token j' = j_claim_token j \<or> j_claim_token j' = None \<or>
        (tk \<noteq> None \<and> j_claim_token j' = tk)) \<and>
     (terminal j \<longrightarrow> j_state j' = j_state j \<and> j_result j' = j_result j \<and> j_error j' = j_error j)"

definition job_steps :: "uuid option \<Rightarrow> job list \<Rightarrow> job list \<Rightarrow> bool" where
  "job_steps tk js js' \<longleftrightarrow>
     (\<exists>F new. js' = map F js @ new \<and> (\<forall>j \<in> set js. job_rel tk j (F j)) \<and>
        (\<forall>j \<in> set new. j_state j = J_QUEUED \<and> j_claim_token j = None \<and> j_id j \<notin> j_id ` set js))"

fun op_token :: "queue_op \<Rightarrow> uuid option" where
  "op_token (Op_claim now locked rlocked tok lid w) = Some tok"
| "op_token _ = None"

lemma job_rel_refl [simp]: "job_rel tk j j"
  by (simp add: job_rel_def)

lemma job_steps_update:
  assumes "\<And>j. j \<in> set js \<Longrightarrow> P j \<Longrightarrow> job_rel tk j (f j)"
  shows "job_steps tk js (update_where P f js)"
proof -
  have "update_where P f js = map (\<lambda>j. if P j then f j else j) js @ []"
    by (simp add: update_where_def)
  then show ?thesis unfolding job_steps_def using assms by (force intro: exI)
qed

lemma job_steps_refl [simp]: "job_steps tk js js"
  using job_steps_update [of js "\<lambda>_. False" tk id] by (simp add: update_where_id)

lemma job_rel_trans: "job_rel None j k \<Longrightarrow> job_rel None k l \<Longrightarrow> job_rel None j l"
  by (auto simp: job_rel_def terminal_def)

lemmas register_steps = register_worker_tables(1)

lemma enqueue_steps:
  assumes "enqueue_job now i q d = Inr (d', j)"
  shows "job_steps None (jobs d) (jobs d')"
proof (cases "find_job_key d (jc_key q)")
  case None
  with assms have "jobs d' = map id (jobs d) @ [new_job now i q]" "find_job d i = None"
    by (auto simp: enqueue_job_def Let_def split: if_splits)
  then show ?thesis
    unfolding job_steps_def
    by (intro exI [of _ id] exI [of _ "[new_job now i q]"])
      (auto simp: new_job_def find_job_def find_None_iff)
qed (use assms in \<open>auto simp: enqueue_job_def split: if_splits\<close>)

lemma claim_steps:
  assumes "claim_job now locked rlocked tok lid wid d = Inr (d', c)"
  shows "job_steps (Some tok) (jobs d) (jobs d')"
  using assms
  by (cases rule: claim_job_cases)
    (auto dest!: finish_claim_tables simp: take_job_def lease_resource_def job_rel_def terminal_def
      intro!: job_steps_update)

lemma same_id_row:
  "queue_inv d \<Longrightarrow> x \<in> set (jobs d) \<Longrightarrow> j \<in> set (jobs d) \<Longrightarrow> j_id x = j_id j \<Longrightarrow> x = j"
  unfolding queue_inv_def using key_unique queue_okD(1) by metis

lemma complete_steps:
  assumes inv: "queue_inv d" and c: "complete_job now i tok fen res d = Inr (d', j')"
  shows "job_steps None (jobs d) (jobs d')"
proof (cases "d' = d")
  case False
  with c obtain j where own: "assert_job_owner i tok fen d = Inr j"
    and d': "jobs d' = update_where (\<lambda>x. j_id x = i) (\<lambda>x. x\<lparr>j_state := J_SUCCEEDED,
       j_result := Some res, j_finished_at := Some now\<rparr>) (jobs d)"
    by (auto simp: complete_job_def bind_res_eq_Inr Let_def split: option.splits if_splits)
  note o = owner_running [OF own]
  show ?thesis
    unfolding d' by (rule job_steps_update)
      (use same_id_row [OF inv _ o(1)] o in \<open>auto simp: job_rel_def terminal_def\<close>)
qed simp

lemma fail_steps:
  assumes inv: "queue_inv d" and c: "fail_job now i tok fen err retryable cleanup d = Inr (d', j')"
  shows "job_steps None (jobs d) (jobs d')"
proof -
  from c obtain j retry where own: "assert_job_owner i tok fen d = Inr j"
    and d': "jobs d' = update_where (\<lambda>x. j_id x = i) (fail_row now retry err) (jobs d)"
    by (fastforce simp: fail_job_def bind_res_eq_Inr Let_def split: if_splits dest!: converge_tables)
  note o = owner_running [OF own]
  show ?thesis
    unfolding d' by (rule job_steps_update)
      (use same_id_row [OF inv _ o(1)] o in \<open>auto simp: job_rel_def terminal_def fail_row_def\<close>)
qed

lemma job_steps_mapI:
  "(\<And>j. j \<in> set js \<Longrightarrow> job_rel tk j (F j)) \<Longrightarrow> job_steps tk js (map F js)"
  unfolding job_steps_def by (intro exI [of _ F] exI [of _ "[]"]) simp

lemma recover_all_steps:
  "recover_all now js d = Inr (d', rec) \<Longrightarrow> queue_inv d \<Longrightarrow>
   set js \<subseteq> {j \<in> set (jobs d). j_state j = J_RUNNING} \<Longrightarrow> distinct (map j_id js) \<Longrightarrow>
   rec = map j_id js \<and> jobs d' = update_where (\<lambda>x. x \<in> set js) (recover_row now) (jobs d)"
proof (induction js arbitrary: d rec)
  case Nil
  then show ?case by (simp add: update_where_id)
next
  case (Cons j js)
  from Cons.prems obtain d1 rec' where
    one: "recover_one now j d = Inr d1" and rest: "recover_all now js d1 = Inr (d', rec')"
    and rec: "rec = j_id j # rec'"
    by (auto simp: bind_res_eq_Inr)
  have j: "j \<in> set (jobs d)" "j_state j = J_RUNNING" using Cons.prems by auto
  note R = recover_one_inv [OF Cons.prems(2) j one]
  have sub: "set js \<subseteq> {j \<in> set (jobs d1). j_state j = J_RUNNING}"
    using Cons.prems(3) head_key [OF Cons.prems(4)] by (fastforce simp: R(2) update_where_mem)
  have only: "x \<in> set (jobs d) \<Longrightarrow> j_id x = j_id j \<longleftrightarrow> x = j" for x
    using same_id_row [OF Cons.prems(2) _ j(1)] by auto
  have run: "x \<in> set js \<Longrightarrow> j_state x = J_RUNNING" for x using sub by auto
  have notin: "recover_row now x \<notin> set js" for x
    using run [of "recover_row now x"] by (auto simp: recover_row_def Let_def split: if_splits)
  have "jobs d' = update_where (\<lambda>x. x \<in> set js) (recover_row now) (jobs d1)" "rec' = map j_id js"
    using Cons.IH [OF rest R(1) sub] Cons.prems(4) by auto
  moreover have "update_where (\<lambda>x. x \<in> set js) (recover_row now) (jobs d1) =
    update_where (\<lambda>x. x \<in> set (j # js)) (recover_row now) (jobs d)"
    unfolding R(2) update_where_def map_map
  proof (rule map_cong [OF refl])
    fix x
    assume x: "x \<in> set (jobs d)"
    show "((\<lambda>r. if r \<in> set js then recover_row now r else r) \<circ>
        (\<lambda>r. if j_id r = j_id j then recover_row now r else r)) x =
      (if x \<in> set (j # js) then recover_row now x else x)"
      using notin [of x] only [OF x] by (cases "x = j") simp_all
  qed
  ultimately show ?case using rec by simp
qed

lemma recover_stale_rows:
  assumes inv: "queue_inv d" and c: "recover_stale_jobs now n locked d = Inr (d', rec)"
  shows "jobs d' = update_where (is_stale now n locked) (recover_row now) (jobs d)"
    and "set rec = j_id ` {j \<in> set (jobs d). is_stale now n locked j}"
proof -
  have R: "rec = map j_id (sort_key (\<lambda>j. case j_heartbeat_at j of None \<Rightarrow> 0 | Some t \<Rightarrow> t)
        (filter (is_stale now n locked) (jobs d))) \<and>
    jobs d' = update_where (\<lambda>x. x \<in> set (sort_key (\<lambda>j. case j_heartbeat_at j of None \<Rightarrow> 0 | Some t \<Rightarrow> t)
        (filter (is_stale now n locked) (jobs d)))) (recover_row now) (jobs d)"
    by (rule recover_all_steps [OF c [unfolded recover_stale_jobs_def] inv])
      (use inv in \<open>auto simp: is_stale_def queue_inv_def queue_ok_def intro!: distinct_sort_ids\<close>)
  then show "jobs d' = update_where (is_stale now n locked) (recover_row now) (jobs d)"
    unfolding update_where_def by (auto intro: map_cong)
  from R show "set rec = j_id ` {j \<in> set (jobs d). is_stale now n locked j}" by auto
qed

lemma recover_steps:
  assumes "queue_inv d" and "recover_stale_jobs now n locked d = Inr (d', rec)"
  shows "job_steps None (jobs d) (jobs d')"
  unfolding recover_stale_rows(1) [OF assms]
  by (rule job_steps_update) (auto simp: job_rel_def terminal_def recover_row_def Let_def is_stale_def)

lemma cancel_steps:
  assumes inv: "queue_inv d" and c: "cancel_job now i reason d = Inr (d', j')"
  shows "job_steps None (jobs d) (jobs d')"
proof (cases "d' = d")
  case False
  from c False obtain j where j: "find_job d i = Some j" "\<not> terminal j"
    and d': "jobs d' = update_where (\<lambda>x. j_id x = i)
      (\<lambda>x. x\<lparr>j_state := J_CANCELLED, j_error := Some (cancelled_error reason),
         j_claimed_by := None, j_claim_token := None, j_lease := None,
         j_resource := None, j_fence := None, j_finished_at := Some now\<rparr>) (jobs d)"
    by (cases "find_job d i") (auto simp: cancel_job_def Let_def terminal_def split: if_splits)
  from j(1) have m: "j \<in> set (jobs d)" "j_id j = i" by (auto dest: find_SomeD')
  show ?thesis
    unfolding d' by (rule job_steps_update)
      (use same_id_row [OF inv _ m(1)] m j(2) in \<open>auto simp: job_rel_def\<close>)
qed simp

lemma cancel_task_steps:
  assumes "cancel_framework_task now i reason d = Inr (d', t)"
  shows "job_steps None (jobs d) (jobs d')"
proof (cases "d' = d")
  case False
  with assms have "jobs d' = update_where (\<lambda>j. j_task j = i \<and> j_state j \<in> {J_QUEUED, J_RUNNING})
      (cancel_row now reason) (jobs d)"
    by (auto simp: cancel_framework_task_def Let_def bind_res_eq_Inr split: option.splits if_splits)
  then show ?thesis
    by (auto simp: job_rel_def terminal_def cancel_row_def intro!: job_steps_update)
qed simp

lemma queue_step_jobs:
  assumes "queue_inv d" "queue_step p d = Inr d'"
  shows "job_steps (op_token p) (jobs d) (jobs d')"
proof (cases p)
  case (Op_heartbeat now w i tok fen)
  with assms(2) have "jobs d' = update_where
      (\<lambda>j. j_id j = i \<and> j_claimed_by j = Some w \<and> j_state j = J_RUNNING)
      (\<lambda>j. j\<lparr>j_heartbeat_at := Some now\<rparr>) (jobs d)"
    by (auto simp: heartbeat_job_def bind_res_eq_Inr Let_def split: if_splits option.splits)
  then show ?thesis
    by (auto simp: job_rel_def Op_heartbeat intro!: job_steps_update)
next
  case (Op_cleanup rid fen cleanup)
  with assms(2) have "jobs d' = jobs d"
    by (auto simp: report_resource_cleanup_def Let_def split: if_splits option.splits)
  then show ?thesis by simp
next
  case (Op_advance now i)
  with assms(2) show ?thesis
    by (auto simp: mark_job_advanced_def job_rel_def intro!: job_steps_update)
qed (use assms in \<open>auto dest: register_steps enqueue_steps claim_steps complete_steps fail_steps
        recover_steps cancel_steps cancel_task_steps\<close>)

section \<open>One step on the resource table\<close>

text \<open>
  A step may raise the fencing token, or keep it and then make no owner: with the token
  unchanged a resource is active only for the owner it already had. A quarantined resource
  stays so unless the step reports a healthy cleanup of it.
\<close>

definition lease_rel :: "string option \<Rightarrow> resource \<Rightarrow> resource \<Rightarrow> bool" where
  "lease_rel repaired r r' \<longleftrightarrow> r_id r' = r_id r \<and>
     (r_fence r < r_fence r' \<or>
      (r_fence r' = r_fence r \<and>
       (r_state r' = L_ACTIVE \<longrightarrow>
          r_state r = L_ACTIVE \<and> r_owner r' = r_owner r \<and> r_lease r' = r_lease r))) \<and>
     (r_state r = L_QUARANTINED \<and> repaired \<noteq> Some (r_id r) \<longrightarrow>
        r_state r' = L_QUARANTINED \<and> r_fence r' = r_fence r)"

definition lease_steps :: "string option \<Rightarrow> resource list \<Rightarrow> resource list \<Rightarrow> bool" where
  "lease_steps repaired rs rs' \<longleftrightarrow>
     (\<exists>G new. rs' = map G rs @ new \<and> (\<forall>r \<in> set rs. lease_rel repaired r (G r)) \<and>
        (\<forall>r \<in> set new. r_id r \<notin> r_id ` set rs))"

fun op_repairs :: "queue_op \<Rightarrow> string option" where
  "op_repairs (Op_cleanup rid fen cleanup) =
     (if cleanup_is_healthy (Some cleanup) then Some rid else None)"
| "op_repairs _ = None"

lemma lease_rel_refl [simp]: "lease_rel h r r"
  by (simp add: lease_rel_def)

lemma lease_steps_map:
  assumes "rs' = map G rs" "\<And>r. r \<in> set rs \<Longrightarrow> lease_rel h r (G r)"
  shows "lease_steps h rs rs'"
  unfolding lease_steps_def using assms by (intro exI [of _ G] exI [of _ "[]"]) simp

lemma lease_steps_refl [simp]: "lease_steps h rs rs"
  by (rule lease_steps_map [of _ id]) simp_all

lemma lease_steps_append:
  "r_id r \<notin> r_id ` set rs \<Longrightarrow> lease_steps h rs (rs @ [r])"
  unfolding lease_steps_def by (intro exI [of _ id] exI [of _ "[r]"]) simp

lemma lease_rel_trans: "lease_rel None q r \<Longrightarrow> lease_rel None r s \<Longrightarrow> lease_rel None q s"
  by (auto simp: lease_rel_def)

lemma lease_steps_trans:
  assumes "lease_steps None rs rs'" "lease_steps None rs' rs''"
    "length rs' = length rs"
  shows "lease_steps None rs rs''"
proof -
  from assms(1) obtain G new where
    1: "rs' = map G rs @ new" "\<forall>r \<in> set rs. lease_rel None r (G r)"
    by (auto simp: lease_steps_def)
  with assms(3) have new: "new = []" by simp
  from assms(2) obtain H new' where
    2: "rs'' = map H rs' @ new'" "\<forall>r \<in> set rs'. lease_rel None r (H r)"
      "\<forall>r \<in> set new'. r_id r \<notin> r_id ` set rs'"
    by (auto simp: lease_steps_def)
  have rel: "\<forall>r \<in> set rs. lease_rel None r (H (G r))"
    using 1 2(2) new lease_rel_trans by auto
  have "r_id (G r) = r_id r" if "r \<in> set rs" for r
    using 1(2) that by (simp add: lease_rel_def)
  then have ids: "r_id ` set rs' = r_id ` set rs"
    unfolding 1(1) new by (simp add: image_image)
  have "rs'' = map (\<lambda>r. H (G r)) rs @ new'" using 1(1) 2(1) new by simp
  with rel 2(3) show ?thesis
    unfolding lease_steps_def ids by blast
qed

lemma release_lease_rel:
  "lease_rel h r (if r_id r = rid \<and> r_state r = L_ACTIVE then freed cleanup reason r else r)"
  by (auto simp: lease_rel_def freed_def)

text \<open>Whatever the job row says, the release of a resource it does not hold does nothing to it.\<close>

lemma release_rows_steps:
  assumes "queue_ok js rs" "j \<in> set js" "live j"
  shows "lease_steps h rs (release_rows j reason cleanup rs)"
proof (cases "j_resource j")
  case (Some rid)
  from live_holds [OF assms Some] obtain r where
    r: "r \<in> set rs" "r_id r = rid" "r_state r = L_ACTIVE" by (auto simp: holds_def)
  have "x = r" if "x \<in> set rs" "r_id x = rid" for x
    using key_unique [OF queue_okD(3) [OF assms(1)] that(1) r(1)] that(2) r(2) by simp
  with r(3) have "release_rows j reason cleanup rs =
    map (\<lambda>x. if r_id x = rid \<and> r_state x = L_ACTIVE then freed cleanup reason x else x) rs"
    using Some by (auto simp: release_rows_def update_where_def intro!: map_cong)
  then show ?thesis by (rule lease_steps_map) (rule release_lease_rel)
qed (simp add: release_rows_def)

lemma release_steps:
  assumes "queue_ok js (resources d)" "j \<in> set js" "live j"
  shows "lease_steps h (resources d) (resources (release_resource j reason cleanup d))"
  unfolding release_inv_resources [OF assms] by (rule release_rows_steps [OF assms])

lemma length_release_rows [simp]: "length (release_rows j reason cleanup rs) = length rs"
  by (simp add: release_rows_def split: option.split)

lemma claim_lease_steps:
  assumes inv: "queue_inv d" and c: "claim_job now locked rlocked tok lid wid d = Inr (d', c)"
  shows "lease_steps h (resources d) (resources d')"
  using c
proof (cases rule: claim_job_cases)
  case (leased w j r)
  note r = select_resourceD [OF leased(4)]
  have only: "x = r" if "x \<in> set (resources d)" "r_id x = r_id r" for x
    using inv key_unique [OF queue_okD(3) that(1) r(1) that(2)] by (simp add: queue_inv_def)
  from finish_claim_tables [OF leased(5)]
  have "resources d' = update_where (\<lambda>x. r_id x = r_id r)
    (\<lambda>x. x\<lparr>r_state := L_ACTIVE, r_owner := Some (j_id j), r_lease := Some lid,
       r_fence := r_fence r + 1, r_expires_at := Some (now + seconds 90)\<rparr>) (resources d)"
    by (simp add: take_job_def lease_resource_def)
  then show ?thesis
    unfolding update_where_def
    by (rule lease_steps_map) (use r(2) in \<open>auto simp: lease_rel_def dest!: only\<close>)
qed (auto dest: finish_claim_tables simp: take_job_def)

lemma recover_all_leases:
  "recover_all now js d = Inr (d', rec) \<Longrightarrow> queue_inv d \<Longrightarrow>
   set js \<subseteq> {j \<in> set (jobs d). j_state j = J_RUNNING} \<Longrightarrow> distinct (map j_id js) \<Longrightarrow>
   lease_steps None (resources d) (resources d')"
proof (induction js arbitrary: d rec)
  case Nil
  then show ?case by simp
next
  case (Cons j js)
  from Cons.prems obtain d1 rec' where
    one: "recover_one now j d = Inr d1" and rest: "recover_all now js d1 = Inr (d', rec')"
    by (auto simp: bind_res_eq_Inr)
  have j: "j \<in> set (jobs d)" "j_state j = J_RUNNING" "live j"
    using Cons.prems by (auto simp: live_def)
  note R = recover_one_inv [OF Cons.prems(2) j(1,2) one]
  have sub: "set js \<subseteq> {j \<in> set (jobs d1). j_state j = J_RUNNING}"
    using Cons.prems(3) head_key [OF Cons.prems(4)] by (fastforce simp: R(2) update_where_mem)
  have d1: "resources d1 = release_rows j ''worker_heartbeat_expired'' None (resources d)"
    using one release_inv_resources [OF Cons.prems(2) [unfolded queue_inv_def] j(1,3)]
    by (auto simp: recover_one_def Let_def split: if_splits dest!: converge_tables)
  have "lease_steps None (resources d1) (resources d')"
    using Cons.IH [OF rest R(1) sub] Cons.prems(4) by simp
  with release_rows_steps [OF Cons.prems(2) [unfolded queue_inv_def] j(1,3)]
  show ?case unfolding d1 by (rule lease_steps_trans) simp
qed

lemma cancel_many_leases:
  fixes f :: "job \<Rightarrow> job"
  assumes "\<And>j. j_id (f j) = j_id j" "\<And>j. j_key (f j) = j_key j" "\<And>j. j_state (f j) = J_CANCELLED"
    "\<And>j. j_claim_token (f j) = None" "\<And>j. j_attempts (f j) = j_attempts j"
    "\<And>j. j_max_attempts (f j) = j_max_attempts j"
  shows "queue_ok js (resources d) \<Longrightarrow> set L \<subseteq> set js \<Longrightarrow> distinct (map j_id L) \<Longrightarrow>
    list_all live L \<Longrightarrow> lease_steps None (resources d) (resources (release_running L d))"
proof (induction L arbitrary: js d)
  case Nil
  then show ?case by simp
next
  case (Cons j L)
  let ?js = "update_where (\<lambda>x. j_id x = j_id j) f js"
  let ?d = "if j_state j = J_RUNNING then release_resource j ''task_cancelled'' None d else d"
  have j: "j \<in> set js" "live j" using Cons.prems by auto
  note C = cancel_one [OF assms Cons.prems(1) j]
  have sub: "set L \<subseteq> set ?js"
    using Cons.prems(2) head_key [OF Cons.prems(3)] by (fastforce simp: update_where_mem)
  have "lease_steps None (resources ?d) (resources (release_running L ?d))"
    by (rule Cons.IH [OF C(2) sub]) (use Cons.prems in simp_all)
  with release_rows_steps [OF Cons.prems(1) j]
  show ?case unfolding C(1) release_running.simps by (rule lease_steps_trans) simp
qed

lemma cancel_task_leases:
  assumes inv: "queue_inv d" and c: "cancel_framework_task now i reason d = Inr (d', t)"
  shows "lease_steps None (resources d) (resources d')"
proof (cases "d' = d")
  case False
  let ?L = "filter (\<lambda>j. j_task j = i \<and> j_state j \<in> {J_QUEUED, J_RUNNING}) (jobs d)"
  from c False have d': "resources d' = resources (release_running ?L d)"
    by (auto simp: cancel_framework_task_def Let_def bind_res_eq_Inr split: option.splits if_splits)
  show ?thesis
    unfolding d'
    by (rule cancel_many_leases [of "cancel_row now reason", OF _ _ _ _ _ _ inv [unfolded queue_inv_def]])
      (use inv in \<open>auto simp: cancel_row_def live_def list_all_iff queue_inv_def queue_ok_def
         intro: distinct_map_filter\<close>)
qed simp

lemma cleanup_leases:
  assumes inv: "queue_inv d" and c: "report_resource_cleanup rid fen cleanup d = Inr (d', r')"
  shows "lease_steps (if cleanup_is_healthy (Some cleanup) then Some rid else None)
    (resources d) (resources d')"
proof -
  from c obtain g where
    d': "resources d' = update_where (\<lambda>x. r_id x = rid \<and> r_fence x = fen) g (resources d)"
    and g: "\<And>x. r_id (g x) = r_id x" "\<And>x. r_fence (g x) = r_fence x"
      "\<And>x. r_state (g x) = (if cleanup_is_healthy (Some cleanup) then L_AVAILABLE
         else L_QUARANTINED)"
    by (fastforce simp: report_resource_cleanup_def Let_def split: option.splits if_splits)
  show ?thesis
    unfolding d' update_where_def by (rule lease_steps_map [OF refl]) (use g in \<open>auto simp: lease_rel_def\<close>)
qed

lemma complete_leases:
  assumes inv: "queue_inv d" and c: "complete_job now i tok fen res d = Inr (d', j')"
  shows "lease_steps h (resources d) (resources d')"
proof (cases "d' = d")
  case False
  from c False obtain j cleanup where own: "assert_job_owner i tok fen d = Inr j"
    and d': "resources d' = resources (release_resource j ''job_completed'' cleanup
         (set_jobs (\<lambda>x. j_id x = i) (\<lambda>x. x\<lparr>j_state := J_SUCCEEDED, j_result := Some res,
            j_finished_at := Some now\<rparr>) d))" (is "_ = resources (release_resource _ _ _ ?d)")
    by (auto simp: complete_job_def bind_res_eq_Inr Let_def split: option.splits if_splits)
  note o = owner_running [OF own]
  show ?thesis
    using release_steps [of "jobs d" ?d j h] inv o by (simp add: d' queue_inv_def live_def)
qed simp

lemma fail_leases:
  assumes inv: "queue_inv d" and c: "fail_job now i tok fen err retryable cleanup d = Inr (d', j')"
  shows "lease_steps h (resources d) (resources d')"
proof -
  from c obtain j retry where own: "assert_job_owner i tok fen d = Inr j"
    and d': "resources d' = resources (release_resource j ''job_failed'' cleanup
      (set_jobs (\<lambda>x. j_id x = i) (fail_row now retry err) d))"
    by (fastforce simp: fail_job_def bind_res_eq_Inr Let_def split: if_splits dest!: converge_tables)
  note o = owner_running [OF own]
  show ?thesis
    using release_steps [of "jobs d" "set_jobs (\<lambda>x. j_id x = i) (fail_row now retry err) d" j h]
      inv o by (simp add: d' queue_inv_def live_def)
qed

lemma recover_leases:
  assumes inv: "queue_inv d" and c: "recover_stale_jobs now n locked d = Inr (d', rec)"
  shows "lease_steps None (resources d) (resources d')"
  by (rule recover_all_leases [OF c [unfolded recover_stale_jobs_def] inv])
    (use inv in \<open>auto simp: is_stale_def queue_inv_def queue_ok_def intro!: distinct_sort_ids\<close>)

lemma cancel_leases:
  assumes inv: "queue_inv d" and c: "cancel_job now i reason d = Inr (d', j')"
  shows "lease_steps h (resources d) (resources d')"
proof (cases "resources d' = resources d")
  case False
  with c obtain j where j: "find_job d i = Some j" "j_state j = J_RUNNING"
    and d': "resources d' = resources (release_resource j ''job_cancelled'' None d)"
    by (cases "find_job d i") (auto simp: cancel_job_def Let_def split: if_splits)
  from j(1) have "j \<in> set (jobs d)" by (auto dest: find_SomeD')
  with release_steps [of "jobs d" d j h] inv j(2) show ?thesis
    by (simp add: d' queue_inv_def live_def)
qed simp

lemma register_leases:
  "register_worker text_of now q d = Inr (d', w) \<Longrightarrow> lease_steps h (resources d) (resources d')"
  by (erule register_worker_resources) (simp_all add: lease_steps_append)

lemma heartbeat_leases:
  assumes "heartbeat_job now w i tok fen d = Inr (d', u)"
  shows "lease_steps h (resources d) (resources d')"
proof (cases fen)
  case (Some f)
  with assms have "resources d' = update_where (\<lambda>r. r_owner r = Some i \<and> r_fence r = f)
      (\<lambda>r. r\<lparr>r_expires_at := Some (now + seconds 90)\<rparr>) (resources d)"
    by (auto simp: heartbeat_job_def bind_res_eq_Inr Let_def split: if_splits)
  then show ?thesis
    unfolding update_where_def by (rule lease_steps_map) (simp add: lease_rel_def)
qed (use assms in \<open>auto simp: heartbeat_job_def bind_res_eq_Inr Let_def split: if_splits\<close>)

lemma queue_step_leases:
  assumes "queue_inv d" "queue_step p d = Inr d'"
  shows "lease_steps (op_repairs p) (resources d) (resources d')"
proof (cases p)
  case (Op_enqueue now i q)
  with assms(2) show ?thesis
    by (auto simp: enqueue_job_def Let_def split: option.splits if_splits)
next
  case (Op_cleanup rid fen cleanup)
  with assms show ?thesis using cleanup_leases [of d rid fen cleanup] by auto
next
  case (Op_advance now i)
  with assms(2) show ?thesis by (auto simp: mark_job_advanced_def)
qed (use assms in \<open>auto dest: register_leases heartbeat_leases claim_lease_steps complete_leases
        fail_leases recover_leases cancel_leases cancel_task_leases\<close>)

end
