(* ===== verification/QueueProps.thy ===== *)
theory QueueProps
  imports QueueSteps
begin

text \<open>
  The properties of the job queue. Each speaks of the store after an arbitrary history of
  queue operations, by any workers and in any order, the refused operations included.
\<close>

section \<open>Histories\<close>

lemma queue_history_inv:
  "list_all valid_op ps \<Longrightarrow> queue_inv d \<Longrightarrow> queue_inv (history queue_step ps d)"
  by (rule queue_tx.history_inv)

lemma empty_queue_inv: "jobs d = [] \<Longrightarrow> resources d = [] \<Longrightarrow> queue_inv d"
  by (simp add: queue_inv_def queue_ok_def)

lemma commit_jobs:
  "queue_inv d \<Longrightarrow> job_steps (op_token p) (jobs d) (jobs (commit queue_step p d))"
  by (auto simp: commit_def split: sum.split intro: queue_step_jobs)

lemma commit_leases:
  "queue_inv d \<Longrightarrow> lease_steps (op_repairs p) (resources d) (resources (commit queue_step p d))"
  by (auto simp: commit_def split: sum.split intro: queue_step_leases)

lemma job_steps_row:
  "job_steps tk js js' \<Longrightarrow> j \<in> set js \<Longrightarrow> \<exists>j' \<in> set js'. job_rel tk j j'"
  by (auto simp: job_steps_def)

lemma job_steps_origin:
  assumes "job_steps tk js js'" "j' \<in> set js'"
  shows "(\<exists>j \<in> set js. job_rel tk j j') \<or> j_claim_token j' = None"
proof -
  from assms obtain F new where F: "js' = map F js @ new" "\<forall>j \<in> set js. job_rel tk j (F j)"
    "\<forall>j \<in> set new. j_claim_token j = None" unfolding job_steps_def by blast
  from assms(2) F(1) consider j where "j \<in> set js" "j' = F j" | "j' \<in> set new" by auto
  then show ?thesis by cases (use F in auto)
qed

lemma lease_steps_row:
  "lease_steps h rs rs' \<Longrightarrow> r \<in> set rs \<Longrightarrow> \<exists>r' \<in> set rs'. lease_rel h r r'"
  by (auto simp: lease_steps_def)

text \<open>A relation between rows that every step keeps holds after every history.\<close>

lemma history_job:
  assumes "\<And>p j j'. job_rel (op_token p) j j' \<Longrightarrow> R (j0::job) j \<Longrightarrow> R j0 j'"
  shows "list_all valid_op ps \<Longrightarrow> queue_inv d \<Longrightarrow> j \<in> set (jobs d) \<Longrightarrow> R j0 j \<Longrightarrow>
    \<exists>j' \<in> set (jobs (history queue_step ps d)). R j0 j'"
proof (induction ps arbitrary: d j)
  case (Cons p ps)
  then obtain k where "k \<in> set (jobs (commit queue_step p d))" "job_rel (op_token p) j k"
    using job_steps_row [OF commit_jobs] by blast
  with Cons.IH [of "commit queue_step p d" k] Cons.prems assms [of p j k] show ?case
    by (auto intro: queue_tx.commit_inv)
qed auto

lemma history_resource:
  assumes "\<And>p r r'. p \<in> set ps0 \<Longrightarrow> lease_rel (op_repairs p) r r' \<Longrightarrow> R (r0::resource) r \<Longrightarrow> R r0 r'"
  shows "set ps \<subseteq> set ps0 \<Longrightarrow> list_all valid_op ps \<Longrightarrow> queue_inv d \<Longrightarrow> r \<in> set (resources d) \<Longrightarrow>
    R r0 r \<Longrightarrow> \<exists>r' \<in> set (resources (history queue_step ps d)). R r0 r'"
proof (induction ps arbitrary: d r)
  case (Cons p ps)
  then obtain q where "q \<in> set (resources (commit queue_step p d))" "lease_rel (op_repairs p) r q"
    using lease_steps_row [OF commit_leases] by blast
  with Cons.IH [of "commit queue_step p d" q] Cons.prems assms [of p r q] show ?case
    by (auto intro: queue_tx.commit_inv)
qed auto

lemma find_job_unique:
  "queue_inv d \<Longrightarrow> j \<in> set (jobs d) \<Longrightarrow> find_job d (j_id j) = Some j"
  by (auto simp: find_job_def queue_inv_def queue_ok_def intro: find_key_unique)

lemma find_resource_unique:
  "queue_inv d \<Longrightarrow> r \<in> set (resources d) \<Longrightarrow> find_resource d (r_id r) = Some r"
  by (auto simp: find_resource_def queue_inv_def queue_ok_def intro: find_key_unique)

section \<open>A sample queue\<close>

definition sample_worker :: worker_register where
  "sample_worker = \<lparr>wr_id = ''gpu-worker'', wr_type = W_GPU, wr_contract = ''v1'',
     wr_profile = None, wr_capabilities = jobj [(''resource_id'', JStr ''hcu-0'')]\<rparr>"

definition sample_request :: job_create where
  "sample_request = \<lparr>jc_task = ''task-1'', jc_type = JT_PERFORMANCE, jc_accepts = W_GPU,
     jc_profile = None, jc_payload = jobj [], jc_key = ''task-1:performance'',
     jc_scope = SCOPE_EXCLUSIVE, jc_priority = 5, jc_max_attempts = 2\<rparr>"

definition sample_task :: task where
  "sample_task = \<lparr>t_id = ''task-1'', t_name = ''sample'', t_workload = ''w'', t_key = ''k'',
     t_state = T_EVALUATING, t_mode = None, t_budget = jobj [], t_auto_release = False,
     t_workflow = WF_OPTIMIZATION, t_target = None, t_snapshot = None, t_profile = None,
     t_authority = ''none'', t_stage0_run = None, t_retests = 0, t_version = 1\<rparr>"

definition sample_db :: db where
  "sample_db = empty_db\<lparr>tasks := [sample_task]\<rparr>"

text \<open>A worker registers, a job is queued and the worker claims it.\<close>

definition sample_start :: "queue_op list" where
  "sample_start =
     [Op_register (\<lambda>_. []) 0 sample_worker,
      Op_enqueue 1 ''job-1'' sample_request,
      Op_claim 2 (\<lambda>_. False) (\<lambda>_. False) ''token-1'' ''lease-1'' ''gpu-worker'']"

definition sample_running :: db where
  "sample_running = history queue_step sample_start sample_db"

lemma sample_valid: "list_all valid_op sample_start"
  by (simp add: sample_start_def job_create_valid_def sample_request_def)

lemma sample_running_inv: "queue_inv sample_running"
  unfolding sample_running_def
  by (rule queue_history_inv [OF sample_valid empty_queue_inv])
    (simp_all add: sample_db_def empty_db_def)

lemma sample_job:
  "jobs sample_running =
     [(new_job 1 ''job-1'' sample_request)\<lparr>j_state := J_RUNNING,
        j_claimed_by := Some ''gpu-worker'', j_claim_token := Some ''token-1'',
        j_claimed_at := Some 2, j_heartbeat_at := Some 2, j_attempts := 1,
        j_lease := Some ''lease-1'', j_resource := Some ''hcu-0'', j_fence := Some 1\<rparr>]"
  by code_simp

lemma sample_resource:
  "resources sample_running =
     [\<lparr>r_id = ''hcu-0'', r_state = L_ACTIVE, r_owner = Some ''job-1'', r_lease = Some ''lease-1'',
       r_fence = 1, r_expires_at = Some 90000002, r_cleanup = None\<rparr>]"
  by code_simp

section \<open>Exclusive ownership\<close>

text \<open>
  C1. Two workers never run on one accelerator: after any history that starts with an empty
  queue, two running jobs that claim the same resource are the same job, and the resource
  table agrees with it: the resource is active, owned by that job under its lease, with the
  fencing token the job was given.
\<close>

theorem exclusive_ownership:
  assumes "jobs d = []" "resources d = []" "list_all valid_op ps"
    and "i \<in> set (jobs (history queue_step ps d))" "j \<in> set (jobs (history queue_step ps d))"
    and "j_state i = J_RUNNING" "j_state j = J_RUNNING"
    and "j_resource i = Some rid" "j_resource j = Some rid"
  shows "i = j \<and>
    (\<exists>r. find_resource (history queue_step ps d) rid = Some r \<and> r_state r = L_ACTIVE \<and>
       r_owner r = Some (j_id i) \<and> j_fence i = Some (r_fence r) \<and> r_lease r = j_lease i)"
proof -
  let ?e = "history queue_step ps d"
  have inv: "queue_inv ?e" by (rule queue_history_inv [OF assms(3) empty_queue_inv [OF assms(1,2)]])
  note Q = inv [unfolded queue_inv_def]
  obtain r where r: "r \<in> set (resources ?e)" "r_id r = rid" "holds i r"
    using running_holds [OF Q assms(4,6,8)] by blast
  obtain q where q: "q \<in> set (resources ?e)" "r_id q = rid" "holds j q"
    using running_holds [OF Q assms(5,7,9)] by blast
  have "q = r" using key_unique [OF queue_okD(3) [OF Q] q(1) r(1)] q(2) r(2) by simp
  with q(3) r(3) have "i = j" using holds_unique [OF Q assms(4,5)] by simp
  with r find_resource_unique [OF inv r(1)] show ?thesis by (auto simp: holds_def)
qed

theorem exclusive_ownership_witness:
  "\<exists>r. find_resource sample_running ''hcu-0'' = Some r \<and> r_state r = L_ACTIVE \<and>
     r_owner r = Some ''job-1''"
proof -
  have d: "jobs sample_db = []" "resources sample_db = []"
    by (simp_all add: sample_db_def empty_db_def)
  from exclusive_ownership [OF d sample_valid, folded sample_running_def,
      of "hd (jobs sample_running)" "hd (jobs sample_running)" "''hcu-0''"]
  show ?thesis by (auto simp: sample_job new_job_def)
qed

section \<open>Fencing of a lost worker\<close>

lemma token_gone:
  "list_all valid_op ps \<Longrightarrow> queue_inv d \<Longrightarrow> \<forall>p \<in> set ps. op_token p \<noteq> Some tok \<Longrightarrow>
   \<forall>j \<in> set (jobs d). j_id j = i \<longrightarrow> j_claim_token j \<noteq> Some tok \<Longrightarrow>
   \<forall>j \<in> set (jobs (history queue_step ps d)). j_id j = i \<longrightarrow> j_claim_token j \<noteq> Some tok"
proof (induction ps arbitrary: d)
  case (Cons p ps)
  have "\<forall>j \<in> set (jobs (commit queue_step p d)). j_id j = i \<longrightarrow> j_claim_token j \<noteq> Some tok"
    using job_steps_origin [OF commit_jobs [OF Cons.prems(2)]] Cons.prems(3,4)
    by (fastforce simp: job_rel_def)
  with Cons show ?case by (auto intro: queue_tx.commit_inv)
qed auto

lemma owner_needs_token:
  assumes "\<forall>j \<in> set (jobs d). j_id j = i \<longrightarrow> j_claim_token j \<noteq> Some tok"
  shows "\<exists>e. assert_job_owner i tok fen d = Inl e"
  using assms by (auto simp: assert_job_owner_def split: option.split dest!: find_SomeD')

text \<open>
  C4. A worker that was declared lost is locked out: once recovery has taken its stale job,
  no history in which the token is not handed out again (tokens are fresh identifiers) lets
  the old claim token heartbeat, complete or fail that job, or act under its lease,
  whatever fencing token and result it brings.
\<close>

theorem lost_worker_locked_out:
  assumes "queue_inv d" "find_job d i = Some j" "is_stale now n locked j"
    and "recover_stale_jobs now n locked d = Inr (d', recovered)"
    and "list_all valid_op ps" "\<forall>p \<in> set ps. op_token p \<noteq> Some tok"
    and "e = history queue_step ps d'"
  shows "(\<exists>err. heartbeat_job t w i tok fen e = Inl err) \<and>
    (\<exists>err. complete_job t i tok fen res e = Inl err) \<and>
    (\<exists>err. fail_job t i tok fen er retryable cleanup e = Inl err) \<and>
    (\<exists>err. assert_live_job_lease t w i tok fen e = Inl err)"
proof -
  have inv': "queue_inv d'" by (rule recover_stale_jobs_inv [OF assms(1,4)])
  have only: "x = j" if "x \<in> set (jobs d)" "j_id x = i" for x
    using find_job_unique [OF assms(1) that(1)] that(2) assms(2) by simp
  have "\<forall>x \<in> set (jobs d'). j_id x = i \<longrightarrow> j_claim_token x \<noteq> Some tok"
    using only assms(3) unfolding recover_stale_rows(1) [OF assms(1,4)]
    by (auto simp: update_where_mem recover_row_def Let_def)
  then have gone: "\<forall>x \<in> set (jobs e). j_id x = i \<longrightarrow> j_claim_token x \<noteq> Some tok"
    using token_gone [OF assms(5) inv' assms(6)] assms(7) by blast
  note no_owner = owner_needs_token [OF this]
  have "\<exists>err. heartbeat_job t w i tok fen e = Inl err"
    "\<exists>err. fail_job t i tok fen er retryable cleanup e = Inl err"
    "\<exists>err. assert_live_job_lease t w i tok fen e = Inl err"
    using no_owner [of fen]
    by (auto simp: heartbeat_job_def fail_job_def assert_live_job_lease_def)
  moreover have "\<exists>err. complete_job t i tok fen res e = Inl err"
    using no_owner [of fen] gone
    by (auto simp: complete_job_def split: option.split dest!: find_SomeD')
  ultimately show ?thesis by blast
qed

definition sample_lost :: db where
  "sample_lost = history queue_step [Op_recover 60000002 60 (\<lambda>_. False)] sample_running"

lemma sample_recover:
  "recover_stale_jobs 60000002 60 (\<lambda>_. False) sample_running = Inr (sample_lost, [''job-1''])"
  by code_simp

theorem lost_worker_locked_out_witness:
  "\<exists>err. complete_job 70000000 ''job-1'' ''token-1'' (Some 1) (jobj [])
     (history queue_step [Op_cleanup ''hcu-0'' 1 (jobj []),
        Op_claim 65000000 (\<lambda>_. False) (\<lambda>_. False) ''token-2'' ''lease-2'' ''gpu-worker'']
        sample_lost) = Inl err"
  by (rule lost_worker_locked_out [OF sample_running_inv _ _ sample_recover _ _ refl,
        THEN conjunct2, THEN conjunct1, of "''job-1''" "hd (jobs sample_running)"])
    (simp_all add: find_job_def sample_job new_job_def is_stale_def seconds_def)

section \<open>Fencing tokens\<close>

text \<open>
  C5. A fencing token names one ownership for ever: through any history the token of a
  resource never decreases, and if the resource is active again under the same token, its
  owner and its lease are the same.
\<close>

theorem fencing_token_names_one_owner:
  assumes "queue_inv d" "list_all valid_op ps"
    and "find_resource d rid = Some r" "r_state r = L_ACTIVE"
  shows "\<exists>r'. find_resource (history queue_step ps d) rid = Some r' \<and>
    r_fence r \<le> r_fence r' \<and>
    (r_state r' = L_ACTIVE \<and> r_fence r' = r_fence r \<longrightarrow>
       r_owner r' = r_owner r \<and> r_lease r' = r_lease r)"
proof -
  let ?R = "\<lambda>r r'. r_id r' = r_id r \<and> r_fence r \<le> r_fence r' \<and>
    (r_state r' = L_ACTIVE \<and> r_fence r' = r_fence r \<longrightarrow>
       r_owner r' = r_owner r \<and> r_lease r' = r_lease r)"
  from assms(3) have r: "r \<in> set (resources d)" "r_id r = rid" by (auto dest: find_SomeD')
  have "\<exists>r' \<in> set (resources (history queue_step ps d)). ?R r r'"
    by (rule history_resource [OF _ subset_refl assms(2,1) r(1)])
      (auto simp: lease_rel_def)
  then obtain r' where r': "r' \<in> set (resources (history queue_step ps d))" "?R r r'" by blast
  from find_resource_unique [OF queue_history_inv [OF assms(2,1)] r'(1)] r'(2) r(2) show ?thesis by auto
qed

theorem fencing_token_witness:
  "\<exists>r'. find_resource (history queue_step
       [Op_recover 60000002 60 (\<lambda>_. False), Op_cleanup ''hcu-0'' 1 (jobj [])] sample_running)
     ''hcu-0'' = Some r' \<and> 1 \<le> r_fence r'"
  using fencing_token_names_one_owner [OF sample_running_inv,
      of "[Op_recover 60000002 60 (\<lambda>_. False), Op_cleanup ''hcu-0'' 1 (jobj [])]"
        "''hcu-0''" "hd (resources sample_running)"]
  by (auto simp: find_resource_def sample_resource)

text \<open>
  C6. Quarantine is sticky: a quarantined resource has no owner, and through any history
  without a healthy cleanup report for it, it stays quarantined with the same fencing
  token and is never handed to a job.
\<close>

theorem quarantine_is_sticky:
  assumes "queue_inv d" "list_all valid_op ps"
    and "find_resource d rid = Some r" "r_state r = L_QUARANTINED"
    and "\<forall>p \<in> set ps. op_repairs p \<noteq> Some rid"
  shows "\<exists>r'. find_resource (history queue_step ps d) rid = Some r' \<and>
    r_state r' = L_QUARANTINED \<and> r_fence r' = r_fence r \<and> r_owner r' = None \<and>
    (\<forall>j \<in> set (jobs (history queue_step ps d)). j_state j = J_RUNNING \<longrightarrow> j_resource j \<noteq> Some rid)"
proof -
  let ?e = "history queue_step ps d"
  let ?R = "\<lambda>r r'. r_id r' = r_id r \<and> r_state r' = L_QUARANTINED \<and> r_fence r' = r_fence r"
  have inv: "queue_inv ?e" by (rule queue_history_inv [OF assms(2,1)])
  note Q = inv [unfolded queue_inv_def]
  from assms(3) have r: "r \<in> set (resources d)" "r_id r = rid" by (auto dest: find_SomeD')
  have "\<exists>r' \<in> set (resources ?e). ?R r r'"
    by (rule history_resource [OF _ subset_refl assms(2,1) r(1)])
      (use assms(4,5) r(2) in \<open>auto simp: lease_rel_def\<close>)
  then obtain r' where r': "r' \<in> set (resources ?e)" "?R r r'" by blast
  have "r_owner r' = None" using queue_okD(5) [OF Q r'(1)] r'(2) by (simp add: resource_ok_def)
  moreover have "j_resource j \<noteq> Some rid" if "j \<in> set (jobs ?e)" "j_state j = J_RUNNING" for j
  proof
    assume "j_resource j = Some rid"
    from running_holds [OF Q that this] obtain q where
      q: "q \<in> set (resources ?e)" "r_id q = rid" "holds j q" by blast
    then have "q = r'" using key_unique [OF queue_okD(3) [OF Q] q(1) r'(1)] r'(2) r(2) by simp
    with q(3) r'(2) show False by (simp add: holds_def)
  qed
  ultimately show ?thesis using r' r(2) find_resource_unique [OF inv r'(1)] by auto
qed

theorem quarantine_witness:
  "\<exists>r'. find_resource (history queue_step
       [Op_claim 65000000 (\<lambda>_. False) (\<lambda>_. False) ''token-2'' ''lease-2'' ''gpu-worker'']
       sample_lost) ''hcu-0'' = Some r' \<and> r_state r' = L_QUARANTINED"
proof -
  have d: "queue_inv sample_lost"
    unfolding sample_lost_def by (rule queue_history_inv [OF _ sample_running_inv]) simp
  have "find_resource sample_lost ''hcu-0'' \<noteq> None"
    "r_state (the (find_resource sample_lost ''hcu-0'')) = L_QUARANTINED"
    by code_simp+
  then obtain r where "find_resource sample_lost ''hcu-0'' = Some r" "r_state r = L_QUARANTINED"
    by auto
  from quarantine_is_sticky [OF d _ this,
      of "[Op_claim 65000000 (\<lambda>_. False) (\<lambda>_. False) ''token-2'' ''lease-2'' ''gpu-worker'']"]
  show ?thesis by auto
qed

section \<open>Bounded retries and final states\<close>

fun claims_of :: "uuid \<Rightarrow> queue_op list \<Rightarrow> db \<Rightarrow> int" where
  "claims_of i [] d = 0"
| "claims_of i (p # ps) d =
     (case p of
        Op_claim now locked rlocked tok lid w \<Rightarrow>
          (case claim_job now locked rlocked tok lid w d of
             Inr (d', Some j) \<Rightarrow> if j_id j = i then 1 else 0
           | _ \<Rightarrow> 0)
      | _ \<Rightarrow> 0) + claims_of i ps (commit queue_step p d)"

lemma finish_claim_row:
  "finish_claim now w tok lease j d = Inr (d', c) \<Longrightarrow>
   c = find_job (take_job now w tok lease (j_id j) d) (j_id j)"
  by (auto simp: finish_claim_def Let_def bind_res_eq_Inr)

lemma take_job_find:
  assumes "queue_inv d" "j \<in> set (jobs d)" "j_state j = J_QUEUED" "jobs d1 = jobs d"
  shows "find_job (take_job now w tok lease (j_id j) d1) (j_id j) =
    Some (j\<lparr>j_state := J_RUNNING, j_claimed_by := Some w,
          j_claim_token := Some tok, j_claimed_at := Some now, j_heartbeat_at := Some now,
          j_attempts := j_attempts j + 1,
          j_lease := map_option fst lease,
          j_resource := map_option (\<lambda>x. fst (snd x)) lease,
          j_fence := map_option (\<lambda>x. snd (snd x)) lease\<rparr>)"
  using find_job_unique [OF assms(1,2)] assms(3,4)
  by (simp add: find_job_def take_job_def find_update_where)

text \<open>A claim that returns a job found it queued, and started it.\<close>

lemma claim_job_row:
  assumes inv: "queue_inv d" and c: "claim_job now locked rlocked tok lid wid d = Inr (d', Some k)"
  obtains j w where "find_worker d wid = Some w" "select_job w now locked d = Some j"
    "j_id k = j_id j" "j_state k = J_RUNNING" "j_claim_token k = Some tok"
    "j_claimed_by k = Some wid" "j_attempts k = j_attempts j + 1"
    "j_max_attempts k = j_max_attempts j" "j_payload k = j_payload j" "j_type k = j_type j"
    "needs_lease (w_type w) j \<longleftrightarrow> j_resource k \<noteq> None" "find_job d' (j_id j) = Some k"
  using c
proof (cases rule: claim_job_cases)
  case (plain w j)
  note j = select_jobD [OF plain(2)]
  from finish_claim_row [OF plain(4)] take_job_find [OF inv j(1,3) refl, of now wid tok None]
    finish_claim_tables [OF plain(4)] plain that show thesis by (auto simp: find_job_def)
next
  case (leased w j r)
  note j = select_jobD [OF leased(2)]
  have "jobs (lease_resource now (j_id j) lid r d) = jobs d" by (simp add: lease_resource_def)
  from finish_claim_row [OF leased(5)] take_job_find [OF inv j(1,3) this, of now wid tok
      "Some (lid, r_id r, r_fence r + 1)"] finish_claim_tables [OF leased(5)] leased that
  show thesis by (auto simp: find_job_def)
qed simp

lemma claims_of_bound:
  "list_all valid_op ps \<Longrightarrow> queue_inv d \<Longrightarrow> j \<in> set (jobs d) \<Longrightarrow>
   claims_of (j_id j) ps d \<le> j_max_attempts j - j_attempts j"
proof (induction ps arbitrary: d j)
  case Nil
  then show ?case using queue_okD_job by auto
next
  case (Cons p ps)
  let ?d = "commit queue_step p d"
  have inv: "queue_inv ?d" using Cons.prems by (auto intro: queue_tx.commit_inv)
  obtain k where k: "k \<in> set (jobs ?d)" "job_rel (op_token p) j k"
    using job_steps_row [OF commit_jobs [OF Cons.prems(2)] Cons.prems(3)] by blast
  have rest: "claims_of (j_id j) ps ?d \<le> j_max_attempts j - j_attempts k"
    using Cons.IH [OF _ inv k(1)] Cons.prems(1) k(2) by (simp add: job_rel_def)
  show ?case
  proof (cases "\<exists>now locked rlocked tok lid w d' c. p = Op_claim now locked rlocked tok lid w \<and>
      claim_job now locked rlocked tok lid w d = Inr (d', Some c) \<and> j_id c = j_id j")
    case True
    then obtain now locked rlocked tok lid w d' c where
      p: "p = Op_claim now locked rlocked tok lid w"
      and c: "claim_job now locked rlocked tok lid w d = Inr (d', Some c)" "j_id c = j_id j"
      by blast
    from claim_job_row [OF Cons.prems(2) c(1)] obtain j0 w0 where
      j0: "select_job w0 now locked d = Some j0" "j_id c = j_id j0"
        "j_attempts c = j_attempts j0 + 1" "find_job d' (j_id j0) = Some c" by metis
    have "j0 = j"
      using same_id_row [OF Cons.prems(2) select_jobD(1) [OF j0(1)] Cons.prems(3)] j0(2) c(2) by simp
    moreover have "?d = d'" using p c(1) by (simp add: commit_def new_state_def)
    moreover have "c = k"
      using find_job_unique [OF inv k(1)] k(2) j0(4) c(2) calculation j0(2) by (simp add: job_rel_def)
    ultimately show ?thesis using rest j0(3) p c by simp
  next
    case False
    then have "claims_of (j_id j) (p # ps) d = claims_of (j_id j) ps ?d"
      by (auto split: queue_op.split sum.split option.split)
    with rest k(2) show ?thesis by (simp add: job_rel_def)
  qed
qed

text \<open>
  C15. Retries are bounded: however the workers fail, get lost or are recovered, a job is
  claimed at most as often as its attempt budget allows in the whole history of a queue.
\<close>

theorem claims_are_bounded:
  assumes "queue_inv d" "list_all valid_op ps" "find_job d i = Some j"
  shows "claims_of i ps d \<le> j_max_attempts j - j_attempts j"
proof -
  from assms(3) have "j \<in> set (jobs d)" "j_id j = i" by (auto dest: find_SomeD')
  with claims_of_bound [OF assms(2,1)] show ?thesis by blast
qed

theorem claims_are_bounded_witness:
  "claims_of ''job-1'' [Op_recover 60000002 60 (\<lambda>_. False),
     Op_claim 65000000 (\<lambda>_. False) (\<lambda>_. False) ''token-2'' ''lease-2'' ''gpu-worker'']
     sample_running \<le> 1"
  using claims_are_bounded [OF sample_running_inv, of "[Op_recover 60000002 60 (\<lambda>_. False),
     Op_claim 65000000 (\<lambda>_. False) (\<lambda>_. False) ''token-2'' ''lease-2'' ''gpu-worker'']"
      "''job-1''" "hd (jobs sample_running)"]
  by (simp add: find_job_def sample_job new_job_def sample_request_def)

text \<open>
  C16. A finished job is final: a job that succeeded, failed or was cancelled keeps its
  state, its result and its error through every later history, and is never claimed again.
\<close>

theorem finished_is_final:
  assumes "queue_inv d" "list_all valid_op ps" "find_job d i = Some j" "terminal j"
  shows "\<exists>j'. find_job (history queue_step ps d) i = Some j' \<and> j_state j' = j_state j \<and>
    j_result j' = j_result j \<and> j_error j' = j_error j"
proof -
  let ?R = "\<lambda>j j'. j_id j' = j_id j \<and> terminal j' \<and> j_state j' = j_state j \<and>
    j_result j' = j_result j \<and> j_error j' = j_error j"
  from assms(3) have j: "j \<in> set (jobs d)" "j_id j = i" by (auto dest: find_SomeD')
  have "\<exists>j' \<in> set (jobs (history queue_step ps d)). ?R j j'"
    by (rule history_job [OF _ assms(2,1) j(1)]) (use assms(4) in \<open>auto simp: job_rel_def terminal_def\<close>)
  then obtain j' where j': "j' \<in> set (jobs (history queue_step ps d))" "?R j j'" by blast
  from find_job_unique [OF queue_history_inv [OF assms(2,1)] j'(1)] j'(2) j(2) show ?thesis by auto
qed

definition sample_done :: db where
  "sample_done = history queue_step
     [Op_complete 3 ''job-1'' ''token-1'' (Some 1) (jobj [(''ok'', JBool True)])] sample_running"

lemma sample_done_inv: "queue_inv sample_done"
  unfolding sample_done_def by (rule queue_history_inv [OF _ sample_running_inv]) simp

theorem finished_is_final_witness:
  "\<exists>j'. find_job (history queue_step [Op_cancel 9 ''job-1'' ''late'', Op_recover 99 1 (\<lambda>_. False)]
     sample_done) ''job-1'' = Some j' \<and> j_state j' = J_SUCCEEDED"
proof -
  have "find_job sample_done ''job-1'' \<noteq> None"
    "j_state (the (find_job sample_done ''job-1'')) = J_SUCCEEDED" by code_simp+
  then obtain j where "find_job sample_done ''job-1'' = Some j" "terminal j" "j_state j = J_SUCCEEDED"
    by (auto simp: terminal_def)
  from finished_is_final [OF sample_done_inv _ this(1,2),
      of "[Op_cancel 9 ''job-1'' ''late'', Op_recover 99 1 (\<lambda>_. False)]"] this(3)
  show ?thesis by auto
qed

section \<open>Replays\<close>




text \<open>
  Enqueueing is an insert guarded by its idempotency key. The request carries the time and
  the fresh identifier of the row it would insert.
\<close>

definition put_job :: "time \<times> uuid \<times> job_create \<Rightarrow> db \<Rightarrow> error + (db \<times> job)" where
  "put_job q d = enqueue_job (fst q) (fst (snd q)) (snd (snd q)) d"

interpretation job_writer: idempotent_writer put_job
  "\<lambda>q d. find_job_key d (jc_key (snd (snd q)))" "\<lambda>q. same_job (snd (snd q))"
  by unfold_locales
    (auto simp: put_job_def enqueue_job_def Let_def find_job_key_def new_job_def same_job_def
      row_simps split: option.splits if_splits)

text \<open>
  C18. Enqueueing is idempotent: once a request was accepted, repeating it at any time and
  with any fresh identifier returns the same job and inserts nothing; a request with the
  same idempotency key that differs in any bound field is a conflict.
\<close>

theorem enqueue_is_idempotent:
  assumes "enqueue_job now i q d = Inr (d', j)"
  shows "enqueue_job now' i' q d' = Inr (d', j) \<and>
    (jc_key q' = jc_key q \<and> \<not> same_job q' j \<longrightarrow>
       (\<exists>m. enqueue_job now' i' q' d' = Inl (Conflict m)))"
proof -
  have p: "put_job (now, i, q) d = Inr (d', j)" using assms by (simp add: put_job_def)
  have "find_job_key d' (jc_key q) = Some j \<and> same_job q j"
    using job_writer.put_lookup [OF p] by simp
  then have "put_job (now', i', q) d' = Inr (d', j)" using job_writer.put_hit [where q = "(now', i', q)" and d = d' and r = j] by simp
  with job_writer.put_conflict [OF p, where q' = "(now', i', q')"] show ?thesis
    by (auto simp: put_job_def)
qed

theorem enqueue_is_idempotent_witness:
  "enqueue_job 7 ''job-9'' sample_request
     (sample_db\<lparr>jobs := [new_job 1 ''job-1'' sample_request]\<rparr>) =
   Inr (sample_db\<lparr>jobs := [new_job 1 ''job-1'' sample_request]\<rparr>, new_job 1 ''job-1'' sample_request)"
  by (rule enqueue_is_idempotent [THEN conjunct1, of 1 "''job-1''" _ sample_db])
    (simp add: enqueue_job_def find_job_key_def find_job_def find_task_def sample_db_def
      empty_db_def sample_request_def sample_task_def Let_def)

section \<open>What a claim, a recovery and a failure do\<close>

text \<open>
  C19. A claim serves the most urgent job: the job it returns was queued, due, meant for
  this type of worker and its adapter profile, and no unlocked job that the worker could
  take instead has a higher priority, or the same priority and an earlier creation; the
  job is now running for this worker under the new token, with one more attempt, and it
  has a resource exactly if it asked for one from a GPU worker.
\<close>

theorem claim_takes_the_most_urgent:
  assumes "queue_inv d" "claim_job now locked rlocked tok lid wid d = Inr (d', Some k)"
  shows "\<exists>j w. find_worker d wid = Some w \<and> find_job d (j_id k) = Some j \<and>
    claimable w now locked j \<and>
    (\<forall>x \<in> set (jobs d). claimable w now locked x \<longrightarrow>
       j_priority x < j_priority j \<or>
       (j_priority x = j_priority j \<and> j_created_at j \<le> j_created_at x)) \<and>
    find_job d' (j_id k) = Some k \<and> j_state k = J_RUNNING \<and> j_claimed_by k = Some wid \<and>
    j_claim_token k = Some tok \<and> j_attempts k = j_attempts j + 1 \<and>
    j_attempts k \<le> j_max_attempts j \<and> (j_resource k \<noteq> None \<longleftrightarrow> needs_lease (w_type w) j)"
proof -
  from claim_job_row [OF assms] obtain j w where
    k: "find_worker d wid = Some w" "select_job w now locked d = Some j"
      "j_id k = j_id j" "j_state k = J_RUNNING" "j_claim_token k = Some tok"
      "j_claimed_by k = Some wid" "j_attempts k = j_attempts j + 1"
      "needs_lease (w_type w) j \<longleftrightarrow> j_resource k \<noteq> None" "find_job d' (j_id j) = Some k"
    by metis
  note j = select_jobD [OF k(2)]
  have "(- j_priority j, j_created_at j) \<le> (- j_priority x, j_created_at x)"
    if "x \<in> set (jobs d)" "claimable w now locked x" for x
    using argmin_le [OF k(2) [unfolded select_job_def]] that by simp
  then have best: "\<forall>x \<in> set (jobs d). claimable w now locked x \<longrightarrow>
       j_priority x < j_priority j \<or>
       (j_priority x = j_priority j \<and> j_created_at j \<le> j_created_at x)"
    by (force simp: less_eq_prod_def)
  have "job_ok (resources d) j" using assms(1) j(1) by (simp add: queue_inv_def queue_ok_def)
  then have "j_attempts j < j_max_attempts j" using j(3) by (simp add: job_ok_def)
  with k j(2) best find_job_unique [OF assms(1) j(1)] show ?thesis by force
qed

theorem claim_takes_the_most_urgent_witness:
  "\<exists>j. find_job (history queue_step (take 2 sample_start) sample_db) ''job-1'' = Some j \<and>
     j_attempts j + 1 = 1"
proof -
  let ?d = "history queue_step (take 2 sample_start) sample_db"
  have inv: "queue_inv ?d"
    by (rule queue_history_inv [OF _ empty_queue_inv])
      (use sample_valid in \<open>simp_all add: sample_db_def empty_db_def sample_start_def\<close>)
  have "claim_job 2 (\<lambda>_. False) (\<lambda>_. False) ''token-1'' ''lease-1'' ''gpu-worker'' ?d =
    Inr (sample_running, Some (hd (jobs sample_running)))" by code_simp
  from claim_takes_the_most_urgent [OF inv this] show ?thesis
    by (auto simp: sample_job new_job_def)
qed

text \<open>
  C20. Recovery is complete and touches nothing else: afterwards no unlocked running job
  has a stale heartbeat; every job that was stale is queued again when it has attempts
  left and failed otherwise, without its token, its worker or its resource; every other job
  row is as it was, and the call names exactly the jobs it took.
\<close>

theorem recovery_is_complete:
  assumes "queue_inv d" "recover_stale_jobs now n locked d = Inr (d', recovered)"
  shows "(\<forall>j \<in> set (jobs d'). \<not> is_stale now n locked j) \<and>
    set recovered = j_id ` {j \<in> set (jobs d). is_stale now n locked j} \<and>
    (\<forall>j \<in> set (jobs d). if is_stale now n locked j
       then (\<exists>j'. find_job d' (j_id j) = Some j' \<and> j_claim_token j' = None \<and>
              j_claimed_by j' = None \<and> j_resource j' = None \<and>
              j_state j' = (if j_attempts j < j_max_attempts j then J_QUEUED else J_FAILED))
       else find_job d' (j_id j) = Some j)"
proof -
  note rows = recover_stale_rows [OF assms]
  have gone: "\<not> is_stale now n locked (recover_row now j)" for j
    by (simp add: is_stale_def recover_row_def Let_def)
  have row: "find_job d' (j_id j) =
      Some (if is_stale now n locked j then recover_row now j else j)" if "j \<in> set (jobs d)" for j
    using find_job_unique [OF assms(1) that] rows(1)
    by (simp add: find_job_def find_update_where recover_row_def Let_def)
  have "\<not> is_stale now n locked j" if "j \<in> set (jobs d')" for j
  proof -
    from that obtain x where "j = (if is_stale now n locked x then recover_row now x else x)"
      by (auto simp: rows(1) update_where_mem)
    with gone [of x] show ?thesis by (cases "is_stale now n locked x") simp_all
  qed
  moreover have "find_job d' (j_id j) = Some (recover_row now j)"
    if "j \<in> set (jobs d)" "is_stale now n locked j" for j using row that by simp
  ultimately show ?thesis
    using row rows(2) by (auto simp: recover_row_def Let_def)
qed

theorem recovery_witness:
  "\<exists>j'. find_job sample_lost ''job-1'' = Some j' \<and> j_state j' = J_QUEUED"
  using recovery_is_complete [OF sample_running_inv sample_recover]
  by (auto simp: sample_job new_job_def is_stale_def seconds_def sample_request_def)

text \<open>
  A failure report by the owner retries or gives up, and always gives the resource
  back: with attempts left and a retryable error the job is queued again one second later;
  otherwise it has failed. Either way it keeps no token, worker or lease, and a resource it
  held is available exactly after a healthy cleanup and quarantined otherwise, with its
  fencing token unchanged.
\<close>

theorem failure_retries_or_gives_up:
  assumes "queue_inv d" "fail_job now i tok fen err retryable cleanup d = Inr (d', j')"
  shows "\<exists>j. find_job d i = Some j \<and> j_claim_token j = Some tok \<and> find_job d' i = Some j' \<and>
    (if retryable \<and> j_attempts j < j_max_attempts j
     then j_state j' = J_QUEUED \<and> j_available_at j' = now + seconds 1
     else j_state j' = J_FAILED \<and> j_finished_at j' = Some now) \<and>
    j_error j' = Some err \<and> j_claim_token j' = None \<and> j_claimed_by j' = None \<and>
    j_resource j' = None \<and>
    (\<forall>rid. j_resource j = Some rid \<longrightarrow>
       (\<exists>r. find_resource d' rid = Some r \<and> r_owner r = None \<and> Some (r_fence r) = j_fence j \<and>
          r_state r = (if cleanup_is_healthy cleanup then L_AVAILABLE else L_QUARANTINED)))"
proof -
  have inv': "queue_inv d'" by (rule fail_job_inv [OF assms])
  from assms(2) obtain j where own: "assert_job_owner i tok fen d = Inr j"
    by (auto simp: fail_job_def bind_res_eq_Inr split: if_splits)
  note o = owner_running [OF own]
  define retry where "retry = (retryable \<and> j_attempts j < j_max_attempts j)"
  let ?d1 = "set_jobs (\<lambda>x. j_id x = i) (fail_row now retry err) d"
  have live: "live j" using o by (simp add: live_def)
  have d': "jobs d' = jobs ?d1" "j' = fail_row now retry err j"
    "resources d' = resources (release_resource j ''job_failed'' cleanup ?d1)"
    using assms(2) own
    by (auto simp: fail_job_def bind_res_eq_Inr Let_def retry_def
        split: if_splits dest!: converge_tables)
  then have rows: "resources d' = release_rows j ''job_failed'' cleanup (resources d)"
    using release_inv_resources [of "jobs d" ?d1 j] assms(1) o(1) live by (simp add: queue_inv_def)
  have "\<exists>r. find_resource d' rid = Some r \<and> r_owner r = None \<and> Some (r_fence r) = j_fence j \<and>
          r_state r = (if cleanup_is_healthy cleanup then L_AVAILABLE else L_QUARANTINED)"
    if rid: "j_resource j = Some rid" for rid
  proof -
    from live_holds [OF assms(1) [unfolded queue_inv_def] o(1) live rid] obtain r where
      r: "r \<in> set (resources d)" "r_id r = rid" "holds j r" by blast
    then have "freed cleanup ''job_failed'' r \<in> set (resources d')"
      unfolding rows by (auto simp: release_rows_def rid update_where_mem)
    from find_resource_unique [OF inv' this] r show ?thesis by (auto simp: freed_def holds_def)
  qed
  moreover have "find_job d' i = Some j'"
    using o d' by (simp add: find_job_def find_update_where fail_row_def)
  ultimately show ?thesis using o d'(2) by (auto simp: fail_row_def retry_def)
qed

theorem failure_witness:
  "\<exists>j'. find_job (history queue_step [Op_fail 5 ''job-1'' ''token-1'' (Some 1) (jobj []) True None]
     sample_running) ''job-1'' = Some j' \<and> j_state j' = J_QUEUED"
proof -
  let ?d = "history queue_step [Op_fail 5 ''job-1'' ''token-1'' (Some 1) (jobj []) True None]
     sample_running"
  have "fail_job 5 ''job-1'' ''token-1'' (Some 1) (jobj []) True None sample_running =
    Inr (?d, hd (jobs ?d))" by code_simp
  from failure_retries_or_gives_up [OF sample_running_inv this] show ?thesis
    by (auto simp: sample_job find_job_def new_job_def sample_request_def)
qed

text \<open>
  Cancelling a Framework Smoke task leaves nothing of it running: the task is
  cancelled, none of its jobs is queued or running, all its candidates are rejected, and
  every job of another task is as it was.
\<close>

theorem task_cancellation_is_complete:
  assumes "queue_inv d" "cancel_framework_task now i reason d = Inr (d', t)"
    and "find_task d i = Some t0" "t_state t0 \<noteq> T_CANCELLED"
  shows "t_state t = T_CANCELLED \<and> find_task d' i = Some t \<and>
    (\<forall>j \<in> set (jobs d'). j_task j = i \<longrightarrow> terminal j) \<and>
    (\<forall>c \<in> set (candidates d'). c_task c = i \<longrightarrow> c_state c = C_REJECTED) \<and>
    (\<forall>j \<in> set (jobs d). j_task j \<noteq> i \<longrightarrow> find_job d' (j_id j) = Some j)"
proof -
  let ?P = "\<lambda>j. j_task j = i \<and> j_state j \<in> {J_QUEUED, J_RUNNING}"
  from assms(2-4) have d':
    "jobs d' = update_where ?P (cancel_row now reason) (jobs d)"
    "candidates d' = update_where (\<lambda>c. c_task c = i \<and> c_state c \<noteq> C_REJECTED)
       (\<lambda>c. c\<lparr>c_state := C_REJECTED\<rparr>) (candidates d)"
    by (auto simp: cancel_framework_task_def Let_def bind_res_eq_Inr split: if_splits)
  have t: "t = t0\<lparr>t_state := T_CANCELLED, t_version := t_version t0 + 1\<rparr>" "find_task d' i = Some t"
    using assms(2-4)
    by (auto simp: cancel_framework_task_def Let_def bind_res_eq_Inr find_task_def
        move_task_def set_task_def find_update_where dest: find_SomeD split: if_splits)
  have "terminal j" if "j \<in> set (jobs d')" "j_task j = i" for j
  proof -
    from that(1) obtain b where "j = (if ?P b then cancel_row now reason b else b)"
      by (auto simp: d'(1) update_where_mem)
    with that(2) show ?thesis
      by (cases "?P b"; cases "j_state b") (auto simp: cancel_row_def terminal_def)
  qed
  moreover have "find_job d' (j_id j) = Some j" if "j \<in> set (jobs d)" "j_task j \<noteq> i" for j
    using find_job_unique [OF assms(1) that(1)] that(2)
    by (simp add: find_job_def d'(1) find_update_where cancel_row_def)
  moreover have "c_state c = C_REJECTED" if "c \<in> set (candidates d')" "c_task c = i" for c
  proof -
    from that(1) obtain b where "c = (if c_task b = i \<and> c_state b \<noteq> C_REJECTED
        then b\<lparr>c_state := C_REJECTED\<rparr> else b)"
      by (auto simp: d'(2) update_where_mem)
    with that(2) show ?thesis by (cases "c_task b = i \<and> c_state b \<noteq> C_REJECTED") auto
  qed
  ultimately show ?thesis using t by simp
qed

definition sample_smoke_task :: task where
  "sample_smoke_task =
     sample_task\<lparr>t_workflow := WF_FRAMEWORK_SMOKE, t_state := T_STAGE0_PENDING\<rparr>"

theorem task_cancellation_witness:
  "let d = sample_running\<lparr>tasks := [sample_smoke_task]\<rparr> in
   \<exists>d' t. cancel_framework_task 9 ''task-1'' ''stop'' d = Inr (d', t) \<and>
     (\<forall>j \<in> set (jobs d'). j_task j = ''task-1'' \<longrightarrow> terminal j)"
proof -
  let ?d = "sample_running\<lparr>tasks := [sample_smoke_task]\<rparr>"
  have inv: "queue_inv ?d" using sample_running_inv by (simp add: queue_inv_def)
  have t0: "find_task ?d ''task-1'' = Some sample_smoke_task"
    by (simp add: find_task_def sample_smoke_task_def sample_task_def)
  have tr: "transition_task T_STAGE0_PENDING T_CANCELLED = Inr T_CANCELLED" by simp
  from t0 obtain d' t where c: "cancel_framework_task 9 ''task-1'' ''stop'' ?d = Inr (d', t)"
    by (auto simp: cancel_framework_task_def sample_smoke_task_def sample_task_def Let_def tr)
  from task_cancellation_is_complete [OF inv c t0] c show ?thesis
    by (auto simp: sample_smoke_task_def sample_task_def)
qed

end
