(* ===== verification/Session.thy ===== *)
theory Session
  imports Prelude
begin

text \<open>
  Sessions: code that calls the repository several times. Every call is one transaction of
  its own, so an exception, or the death of the process between two calls, leaves behind
  what the earlier calls committed. A session maps a store to the list of the stores it
  commits, one after the other, and its outcome; a process that dies after \<open>k\<close> commits
  leaves the \<open>k\<close>-th of them.

  The locale \<open>store_relation\<close> is the interface through which the components reason about
  all commits of a session at once: a preorder on stores that every transaction respects
  is respected by every commit. \<open>settled\<close> is the session that has nothing left to do.
\<close>

type_synonym ('d, 'a) session = "'d \<Rightarrow> 'd list \<times> (error + 'a)"

definition final :: "'d \<Rightarrow> 'd list \<Rightarrow> 'd" where
  "final d cs = last (d # cs)"

definition ret :: "'a \<Rightarrow> ('d, 'a) session" where
  "ret a d = ([], Inr a)"

definition fetch :: "('d \<Rightarrow> error + 'a) \<Rightarrow> ('d, 'a) session" where
  "fetch f d = ([], f d)"

definition transact :: "('d \<Rightarrow> error + ('d \<times> 'a)) \<Rightarrow> ('d, 'a) session" where
  "transact m d = (case m d of Inl e \<Rightarrow> ([], Inl e) | Inr (d', a) \<Rightarrow> ([d'], Inr a))"

definition act_bind :: "('d, 'a) session \<Rightarrow> ('a \<Rightarrow> ('d, 'b) session) \<Rightarrow> ('d, 'b) session" where
  "act_bind m f d =
     (let (cs, r) = m d in
      case r of
        Inl e \<Rightarrow> (cs, Inl e)
      | Inr a \<Rightarrow> let (cs', r') = f a (final d cs) in (cs @ cs', r'))"

abbreviation act_then :: "('d, 'a) session \<Rightarrow> ('d, 'b) session \<Rightarrow> ('d, 'b) session" where
  "act_then m n \<equiv> act_bind m (\<lambda>_. n)"

fun each :: "('x \<Rightarrow> ('d, unit) session) \<Rightarrow> 'x list \<Rightarrow> ('d, unit) session" where
  "each f [] = ret ()"
| "each f (x # xs) = act_then (f x) (each f xs)"

definition commits :: "('d, 'a) session \<Rightarrow> 'd \<Rightarrow> 'd list" where
  "commits m d = fst (m d)"

definition outcome :: "('d, 'a) session \<Rightarrow> 'd \<Rightarrow> error + 'a" where
  "outcome m d = snd (m d)"

definition after :: "('d, 'a) session \<Rightarrow> 'd \<Rightarrow> 'd" where
  "after m d = final d (commits m d)"

section \<open>Evaluation\<close>

lemma final_Nil [simp]: "final d [] = d"
  by (simp add: final_def)

lemma final_append: "final d (xs @ ys) = final (final d xs) ys"
  by (simp add: final_def last_append)

lemma final_mem: "cs \<noteq> [] \<Longrightarrow> final d cs \<in> set cs"
  by (simp add: final_def)

lemma ret_fetch [simp]:
  "commits (ret a) d = []" "outcome (ret a) d = Inr a" "after (ret a) d = d"
  "commits (fetch f) d = []" "outcome (fetch f) d = f d" "after (fetch f) d = d"
  by (simp_all add: commits_def outcome_def after_def ret_def fetch_def)

lemma transact_eval:
  "commits (transact m) d = (case m d of Inl e \<Rightarrow> [] | Inr (d', a) \<Rightarrow> [d'])"
  "outcome (transact m) d = (case m d of Inl e \<Rightarrow> Inl e | Inr (d', a) \<Rightarrow> Inr a)"
  "after (transact m) d = (case m d of Inl e \<Rightarrow> d | Inr (d', a) \<Rightarrow> d')"
  by (auto simp: commits_def outcome_def after_def transact_def final_def
      split: sum.split prod.split)

lemma transact_simps [simp]:
  "set (commits (transact m) d) = {d'. \<exists>a. m d = Inr (d', a)}"
  "outcome (transact m) d = Inr a \<longleftrightarrow> (\<exists>d'. m d = Inr (d', a))"
  "outcome (transact m) d = Inl e \<longleftrightarrow> m d = Inl e"
  "m d = Inr (d', a) \<Longrightarrow> after (transact m) d = d'"
  "m d = Inl e \<Longrightarrow> after (transact m) d = d"
  by (cases "m d"; auto simp: transact_eval)+

lemma commits_bind:
  "commits (act_bind m f) d = commits m d @
     (case outcome m d of Inl e \<Rightarrow> [] | Inr a \<Rightarrow> commits (f a) (after m d))"
  by (auto simp: commits_def outcome_def after_def act_bind_def Let_def split: sum.split prod.split)

lemma outcome_bind:
  "outcome (act_bind m f) d = bind_res (outcome m d) (\<lambda>a. outcome (f a) (after m d))"
  by (auto simp: commits_def outcome_def after_def act_bind_def Let_def bind_res_def
      split: sum.split prod.split)

lemma after_bind:
  "after (act_bind m f) d =
     (case outcome m d of Inl e \<Rightarrow> after m d | Inr a \<Rightarrow> after (f a) (after m d))"
  by (auto simp: after_def [of "act_bind m f"] commits_bind final_append after_def
      split: sum.split)

lemma commits_bind_mem:
  "d' \<in> set (commits (act_bind m f) d) \<longleftrightarrow>
     d' \<in> set (commits m d) \<or> (\<exists>a. outcome m d = Inr a \<and> d' \<in> set (commits (f a) (after m d)))"
  by (auto simp: commits_bind split: sum.split)

lemma outcome_bind_Inr:
  "outcome (act_bind m f) d = Inr b \<longleftrightarrow>
     (\<exists>a. outcome m d = Inr a \<and> outcome (f a) (after m d) = Inr b)"
  by (simp add: outcome_bind bind_res_eq_Inr)

lemma after_bind_Inr:
  "outcome m d = Inr a \<Longrightarrow> after (act_bind m f) d = after (f a) (after m d)"
  by (simp add: after_bind)

lemma after_mem: "after m d = d \<or> after m d \<in> set (commits m d)"
  by (cases "commits m d = []") (auto simp: after_def final_mem)

section \<open>Interface: a relation that every commit respects\<close>

locale store_relation =
  fixes R :: "'d \<Rightarrow> 'd \<Rightarrow> bool"
  assumes rel_refl: "R d d"
    and rel_trans: "R a b \<Longrightarrow> R b c \<Longrightarrow> R a c"
begin

definition obeys :: "('d, 'a) session \<Rightarrow> bool" where
  "obeys m \<longleftrightarrow> (\<forall>d. \<forall>d' \<in> set (commits m d). R d d')"

lemma obeys_after: "obeys m \<Longrightarrow> R d (after m d)"
  using after_mem [of m d] rel_refl by (auto simp: obeys_def)

lemma obeys_ret: "obeys (ret a)"
  and obeys_fetch: "obeys (fetch f)"
  by (simp_all add: obeys_def)

lemma obeys_transact:
  "(\<And>d d' a. m d = Inr (d', a) \<Longrightarrow> R d d') \<Longrightarrow> obeys (transact m)"
  by (auto simp: obeys_def)

lemma obeys_bind:
  assumes "obeys m" "\<And>d a. outcome m d = Inr a \<Longrightarrow> obeys (f a)"
  shows "obeys (act_bind m f)"
  unfolding obeys_def
proof (intro allI ballI)
  fix d d' assume d': "d' \<in> set (commits (act_bind m f) d)"
  show "R d d'"
  proof (cases "outcome m d")
    case (Inl e)
    with d' assms(1) show ?thesis by (simp add: commits_bind obeys_def)
  next
    case (Inr a)
    with d' consider "d' \<in> set (commits m d)" | "d' \<in> set (commits (f a) (after m d))"
      by (auto simp: commits_bind)
    then show ?thesis
    proof cases
      case 1
      with assms(1) show ?thesis by (simp add: obeys_def)
    next
      case 2
      with assms(2) [OF Inr] have "R (after m d) d'" by (simp add: obeys_def)
      with obeys_after [OF assms(1)] show ?thesis by (rule rel_trans)
    qed
  qed
qed

lemma obeys_then: "obeys m \<Longrightarrow> obeys n \<Longrightarrow> obeys (act_then m n)"
  by (rule obeys_bind)

lemma obeys_each: "(\<And>x. x \<in> set xs \<Longrightarrow> obeys (f x)) \<Longrightarrow> obeys (each f xs)"
  by (induction xs) (auto intro: obeys_ret obeys_bind)

lemmas obeys_intros = obeys_ret obeys_fetch obeys_bind obeys_each

end

section \<open>Sessions with nothing left to do\<close>

definition settled :: "('d, 'a) session \<Rightarrow> 'd \<Rightarrow> bool" where
  "settled m d \<longleftrightarrow> (\<exists>a. outcome m d = Inr a) \<and> set (commits m d) \<subseteq> {d}"

lemma settled_after: "settled m d \<Longrightarrow> after m d = d"
  using after_mem [of m d] by (auto simp: settled_def)

lemma settled_ret [simp]: "settled (ret a) d"
  by (simp add: settled_def)

lemma settled_fetch: "f d = Inr a \<Longrightarrow> settled (fetch f) d"
  by (simp add: settled_def)

lemma settled_transact: "m d = Inr (d, a) \<Longrightarrow> settled (transact m) d"
  by (simp add: settled_def)

lemma settled_bind:
  "settled m d \<Longrightarrow> (\<And>a. outcome m d = Inr a \<Longrightarrow> settled (f a) d) \<Longrightarrow> settled (act_bind m f) d"
  using settled_after [of m d] by (fastforce simp: settled_def commits_bind outcome_bind)

lemma settled_each: "(\<And>x. x \<in> set xs \<Longrightarrow> settled (f x) d) \<Longrightarrow> settled (each f xs) d"
  by (induction xs) (auto intro: settled_bind)

end
