(* ===== verification/Float64.thy ===== *)
theory Float64
  imports Json "HOL-Library.Log_Nat"
begin

text \<open>
  Python's float arithmetic. A float is the rational it denotes; an operation returns the
  exact rational result rounded to binary64, to nearest with ties to even, with
  subnormals and overflow to infinity. A comparison of a float with an int is exact.
\<close>

definition round_half_even :: "rat \<Rightarrow> int" where
  "round_half_even x =
     (let f = \<lfloor>x\<rfloor>; r = x - of_int f in
      if r < 1/2 then f else if 1/2 < r then f + 1 else if even f then f else f + 1)"

definition pow2 :: "int \<Rightarrow> rat" where
  "pow2 e = (if 0 \<le> e then 2 ^ nat e else 1 / 2 ^ nat (- e))"

text \<open>The exponent of the last place of the binary64 numbers around a positive rational.\<close>

definition ulp_exponent :: "rat \<Rightarrow> int" where
  "ulp_exponent q =
     (let (n, m) = quotient_of q;
          e = bitlen n - bitlen m - 53;
          e' = (if pow2 (e + 53) \<le> q then e + 1 else e)
      in max e' (- 1074))"

definition round_pos :: "rat \<Rightarrow> pyfloat" where
  "round_pos q =
     (let e = ulp_exponent q; m = round_half_even (q / pow2 e)
      in if 971 < e \<or> (e = 971 \<and> 2 ^ 53 \<le> m) then PosInf else Fin (of_int m * pow2 e))"

fun fneg :: "pyfloat \<Rightarrow> pyfloat" where
  "fneg (Fin q) = Fin (- q)"
| "fneg PosInf = NegInf"
| "fneg NegInf = PosInf"
| "fneg NaN = NaN"

definition double :: "rat \<Rightarrow> pyfloat" where
  "double q = (if q = 0 then Fin 0 else if 0 < q then round_pos q else fneg (round_pos (- q)))"

fun fadd :: "pyfloat \<Rightarrow> pyfloat \<Rightarrow> pyfloat" where
  "fadd (Fin x) (Fin y) = double (x + y)"
| "fadd NaN y = NaN"
| "fadd x NaN = NaN"
| "fadd PosInf NegInf = NaN"
| "fadd NegInf PosInf = NaN"
| "fadd PosInf y = PosInf"
| "fadd NegInf y = NegInf"
| "fadd x PosInf = PosInf"
| "fadd x NegInf = NegInf"

fun fless :: "pyfloat \<Rightarrow> pyfloat \<Rightarrow> bool" where
  "fless (Fin x) (Fin y) = (x < y)"
| "fless NaN y = False"
| "fless x NaN = False"
| "fless NegInf y = (y \<noteq> NegInf)"
| "fless x PosInf = (x \<noteq> PosInf)"
| "fless x y = False"

text \<open>\<open>float(n)\<close> on an int and the exact comparison of an int with a float.\<close>

abbreviation of_py_int :: "int \<Rightarrow> pyfloat" where
  "of_py_int n \<equiv> Fin (of_int n)"

lemma round_half_even_nonneg: "0 \<le> x \<Longrightarrow> 0 \<le> round_half_even x"
  by (simp add: round_half_even_def Let_def)

lemma pow2_pos [simp]: "0 < pow2 e"
  by (simp add: pow2_def)

lemma round_pos_nonneg: "0 < q \<Longrightarrow> \<not> is_negative (round_pos q) \<and> round_pos q \<noteq> NaN"
proof -
  assume "0 < q"
  then have "0 \<le> q / pow2 (ulp_exponent q)"
    using pow2_pos [of "ulp_exponent q"] by (simp add: less_imp_le)
  then have "0 \<le> of_int (round_half_even (q / pow2 (ulp_exponent q))) * pow2 (ulp_exponent q)"
    using round_half_even_nonneg pow2_pos [of "ulp_exponent q"] by (simp add: less_imp_le)
  then show ?thesis by (simp add: round_pos_def Let_def not_less)
qed

lemma fadd_nonneg:
  "\<not> is_negative x \<Longrightarrow> \<not> is_negative y \<Longrightarrow> x \<noteq> NaN \<Longrightarrow> y \<noteq> NaN \<Longrightarrow>
   \<not> is_negative (fadd x y) \<and> fadd x y \<noteq> NaN"
  using round_pos_nonneg by (cases x; cases y) (auto simp: double_def not_less)

end
