(* ===== verification/TaskStore.thy ===== *)
theory TaskStore
  imports JobQueue Float64
begin

text \<open>
  The repository operations that carry a task from its creation to a frozen baseline, and
  those by which a workflow records what its jobs produced: hotspots, candidates and
  artifacts (src/src/hcuopt/storage/repository.py). Every operation is one transaction: an
  error leaves the store unchanged.

  Columns that no operation reads are not stored: the evidence next to a Stage 0 report,
  and the scores of a hotspot, whose evidence holds them too.
\<close>

section \<open>Values for columns\<close>

text \<open>\<open>value[name]\<close>\<close>

fun jitem :: "json \<Rightarrow> string \<Rightarrow> error + json" where
  "jitem (JObj m) k = (case fmlookup m k of None \<Rightarrow> Inl (KeyError k) | Some v \<Rightarrow> Inr v)"
| "jitem _ k = Inl TypeError"

text \<open>\<open>value.get(name, {})\<close>, after an item of the same value was read\<close>

definition jget_obj :: "json \<Rightarrow> string \<Rightarrow> json" where
  "jget_obj v k = (case jget v k of None \<Rightarrow> jobj [] | Some x \<Rightarrow> x)"

text \<open>A value bound to a text, a double or a 32-bit integer column.\<close>

definition text_column :: "json \<Rightarrow> error + string" where
  "text_column v = (case v of JStr s \<Rightarrow> Inr s | _ \<Rightarrow> Inl (DatabaseError ''text column''))"

definition double_column :: "json \<Rightarrow> error + unit" where
  "double_column v =
     (case v of JInt n \<Rightarrow> Inr () | JFloat x \<Rightarrow> Inr () | _ \<Rightarrow> Inl (DatabaseError ''double column''))"

definition int_column :: "json \<Rightarrow> error + int" where
  "int_column v =
     (case (case v of JInt n \<Rightarrow> Some n | JFloat (Fin q) \<Rightarrow> Some (round_half_even q) | _ \<Rightarrow> None) of
        None \<Rightarrow> Inl (DatabaseError ''integer column'')
      | Some n \<Rightarrow> if - (2 ^ 31) \<le> n \<and> n < 2 ^ 31 then Inr n
                  else Inl (DatabaseError ''integer out of range''))"

text \<open>
  Iterating over a value: a list gives its items; over the keys of an object or the
  characters of a text the first step fails with the error given for a text item.
\<close>

definition py_items :: "error \<Rightarrow> json \<Rightarrow> error + json list" where
  "py_items e v =
     (case v of
        JArr xs \<Rightarrow> Inr xs
      | JStr s \<Rightarrow> if s = [] then Inr [] else Inl e
      | JObj m \<Rightarrow> if m = fmempty then Inr [] else Inl e
      | _ \<Rightarrow> Inl TypeError)"

section \<open>Reading\<close>

definition get_task :: "uuid \<Rightarrow> db \<Rightarrow> error + task" where
  "get_task i d = (case find_task d i of None \<Rightarrow> Inl (NotFound ''task'') | Some t \<Rightarrow> Inr t)"

definition get_job :: "uuid \<Rightarrow> db \<Rightarrow> error + job" where
  "get_job i d = (case find_job d i of None \<Rightarrow> Inl (NotFound ''job'') | Some j \<Rightarrow> Inr j)"

definition get_candidate :: "uuid \<Rightarrow> db \<Rightarrow> error + candidate" where
  "get_candidate i d =
     (case find_candidate d i of None \<Rightarrow> Inl (NotFound ''candidate'') | Some c \<Rightarrow> Inr c)"

definition get_baseline :: "uuid \<Rightarrow> db \<Rightarrow> baseline option" where
  "get_baseline i d = find (\<lambda>b. b_task b = i) (baselines d)"

definition list_candidates :: "uuid \<Rightarrow> db \<Rightarrow> candidate list" where
  "list_candidates i d = sort_key c_ordinal (filter (\<lambda>c. c_task c = i) (candidates d))"

section \<open>Creating a task\<close>

record task_create =
  tc_name :: string
  tc_workload :: string
  tc_key :: string
  tc_budget :: json
  tc_auto_release :: bool

definition new_task :: "uuid \<Rightarrow> task_create \<Rightarrow> task" where
  "new_task i q =
     \<lparr>t_id = i, t_name = tc_name q, t_workload = tc_workload q, t_key = tc_key q,
      t_state = T_STAGE0_PENDING, t_mode = None, t_budget = tc_budget q, t_auto_release = False,
      t_workflow = WF_OPTIMIZATION, t_target = None, t_snapshot = None, t_profile = None,
      t_authority = ''none'', t_stage0_run = None, t_retests = 0, t_version = 1\<rparr>"

definition create_task :: "uuid \<Rightarrow> task_create \<Rightarrow> db \<Rightarrow> error + (db \<times> task)" where
  "create_task i q d =
     (if tc_auto_release q then Inl (Conflict ''MVP forbids automatic production release'')
      else case find (\<lambda>t. t_key t = tc_key q) (tasks d) of
        Some t \<Rightarrow>
          if t_name t \<noteq> tc_name q \<or> t_workload t \<noteq> tc_workload q
          then Inl (Conflict ''idempotency_key was already used with a different task'')
          else Inr (d, t)
      | None \<Rightarrow>
          if find_task d i \<noteq> None then Inl (DatabaseError ''tasks_pkey'')
          else Inr (d\<lparr>tasks := tasks d @ [new_task i q]\<rparr>, new_task i q))"

section \<open>Stage 0 and the baseline\<close>

fun project_mode_value :: "project_mode \<Rightarrow> string" where
  "project_mode_value STOPPED_MEASUREMENT = ''stopped_measurement''"
| "project_mode_value FULL_MVP = ''full_mvp''"
| "project_mode_value DEGRADED_MANUAL_INTAKE = ''degraded_manual_intake''"
| "project_mode_value CONFIG_ONLY = ''config_only''"

definition stage0_target :: "project_mode \<Rightarrow> task_state" where
  "stage0_target mode =
     (if mode = STOPPED_MEASUREMENT then T_STOPPED_MEASUREMENT
      else if mode \<in> {DEGRADED_MANUAL_INTAKE, CONFIG_ONLY} then T_DEGRADED
      else T_BASELINE_PENDING)"

definition stage0_document :: "uuid \<Rightarrow> project_mode \<Rightarrow> string list \<Rightarrow> json" where
  "stage0_document i mode reasons = jobj
     [(''task_id'', JStr i), (''mode'', JStr (project_mode_value mode)),
      (''reasons'', JArr (map JStr reasons)), (''automatic_release_allowed'', JBool False),
      (''evidence_authority'', JStr ''synthetic_control_flow_only'')]"

definition save_stage0 ::
    "uuid \<Rightarrow> project_mode \<Rightarrow> string list \<Rightarrow> db \<Rightarrow> error + (db \<times> json)" where
  "save_stage0 i mode reasons d =
     (case find_task d i of
        None \<Rightarrow> Inl (NotFound ''task'')
      | Some t \<Rightarrow>
          if t_state t \<noteq> T_STAGE0_PENDING
          then (case map_of (stage0_reports d) i of
                  Some report \<Rightarrow> Inr (d, report)
                | None \<Rightarrow> Inl (Conflict ''Stage 0 can only run from stage0_pending''))
          else bind_res (transition_task (t_state t) (stage0_target mode)) (\<lambda>s.
            if map_of (stage0_reports d) i \<noteq> None then Inl (DatabaseError ''stage0_evidence_pkey'')
            else
              let report = stage0_document i mode reasons;
                  d1 = d\<lparr>stage0_reports := stage0_reports d @ [(i, report)]\<rparr>;
                  d2 = set_task i (\<lambda>x. x\<lparr>t_state := stage0_target mode, t_mode := Some mode,
                         t_authority := ''synthetic'', t_version := t_version x + 1\<rparr>) d1
              in Inr (d2, report)))"

record baseline_create =
  bc_hardware :: string
  bc_software :: string
  bc_workload :: string
  bc_configuration :: string

definition same_baseline :: "baseline_create \<Rightarrow> baseline \<Rightarrow> bool" where
  "same_baseline q b \<longleftrightarrow>
     b_hardware b = bc_hardware q \<and> b_software b = bc_software q \<and>
     b_workload b = bc_workload q \<and> b_configuration b = bc_configuration q"

definition new_baseline :: "uuid \<Rightarrow> uuid \<Rightarrow> baseline_create \<Rightarrow> baseline" where
  "new_baseline epoch i q =
     \<lparr>b_id = epoch, b_task = i, b_hardware = bc_hardware q, b_software = bc_software q,
      b_workload = bc_workload q, b_configuration = bc_configuration q\<rparr>"

definition freeze_baseline ::
    "uuid \<Rightarrow> uuid \<Rightarrow> baseline_create \<Rightarrow> db \<Rightarrow> error + (db \<times> baseline)" where
  "freeze_baseline epoch i q d =
     (case find_task d i of
        None \<Rightarrow> Inl (NotFound ''task'')
      | Some t \<Rightarrow>
          (case get_baseline i d of
             Some b \<Rightarrow>
               if same_baseline q b then Inr (d, b)
               else Inl (Conflict ''task already has a different frozen baseline'')
           | None \<Rightarrow>
               bind_res
                 (if t_state t = T_DEGRADED
                  then bind_res (transition_task (t_state t) T_BASELINE_PENDING)
                         (\<lambda>_. Inr T_BASELINE_PENDING)
                  else Inr (t_state t)) (\<lambda>current.
               if current \<noteq> T_BASELINE_PENDING
               then Inl (Conflict ''baseline requires a passed or degraded Stage 0'')
               else bind_res (transition_task current T_PROFILING) (\<lambda>_.
                 if list_ex (\<lambda>b. b_id b = epoch) (baselines d)
                 then Inl (DatabaseError ''baseline_epochs_pkey'')
                 else
                   let b = new_baseline epoch i q
                   in Inr (move_task i T_PROFILING (d\<lparr>baselines := baselines d @ [b]\<rparr>), b)))))"

section \<open>State changes\<close>

text \<open>
  \<open>_transition_task\<close>: the row is locked, so the update under its version always finds it.
\<close>

definition repo_transition_task :: "uuid \<Rightarrow> task_state \<Rightarrow> db \<Rightarrow> error + (db \<times> unit)" where
  "repo_transition_task i target d =
     (case find_task d i of
        None \<Rightarrow> Inl (NotFound ''task'')
      | Some t \<Rightarrow> bind_res (transition_task (t_state t) target) (\<lambda>_.
          Inr (move_task i target d, ())))"

definition repo_transition_candidate ::
    "uuid \<Rightarrow> candidate_state \<Rightarrow> db \<Rightarrow> error + (db \<times> unit)" where
  "repo_transition_candidate i target d =
     (case find_candidate d i of
        None \<Rightarrow> Inl (NotFound ''candidate'')
      | Some c \<Rightarrow> bind_res (transition_candidate (c_state c) target) (\<lambda>_.
          Inr (move_candidate i target d, ())))"

section \<open>Recording\<close>

definition record_hotspot :: "uuid \<Rightarrow> uuid \<Rightarrow> uuid \<Rightarrow> json \<Rightarrow> db \<Rightarrow> error + (db \<times> unit)" where
  "record_hotspot h i epoch result d =
     bind_res (jitem result ''symbol'') (\<lambda>symbol.
     bind_res (jitem result ''share_ratio'') (\<lambda>share.
     bind_res (jitem result ''opportunity_score'') (\<lambda>score.
     bind_res (jitem result ''patchability'') (\<lambda>patch.
     bind_res (text_column symbol) (\<lambda>symbol.
     bind_res (double_column share) (\<lambda>_.
     bind_res (double_column score) (\<lambda>_.
     bind_res (text_column patch) (\<lambda>_.
       if list_ex (\<lambda>x. h_task x = i \<and> h_symbol x = symbol) (hotspots d)
       then Inr (d\<lparr>hotspots := update_where (\<lambda>x. h_task x = i \<and> h_symbol x = symbol)
              (\<lambda>x. x\<lparr>h_evidence := result\<rparr>) (hotspots d)\<rparr>, ())
       else if list_ex (\<lambda>x. h_id x = h) (hotspots d) then Inl (DatabaseError ''hotspots_pkey'')
       else if find_task d i = None \<or> \<not> list_ex (\<lambda>b. b_id b = epoch) (baselines d)
       then Inl (DatabaseError ''hotspots_fkey'')
       else Inr (d\<lparr>hotspots := hotspots d @ [\<lparr>h_id = h, h_task = i, h_baseline = epoch,
              h_symbol = symbol, h_evidence = result\<rparr>]\<rparr>, ())))))))))"

definition candidate_row :: "uuid \<Rightarrow> uuid \<Rightarrow> uuid \<Rightarrow> json \<Rightarrow> error + candidate" where
  "candidate_row i epoch round_id item =
     bind_res (jitem item ''candidate_id'') (\<lambda>cid.
     bind_res (uuid_of_json cid) (\<lambda>cid.
     bind_res (jitem item ''source_hash'') (\<lambda>source.
     bind_res (jitem item ''variant'') (\<lambda>variant.
     bind_res (jitem item ''ordinal'') (\<lambda>ordinal.
     bind_res (text_column source) (\<lambda>source.
     bind_res (text_column variant) (\<lambda>variant.
     bind_res (int_column ordinal) (\<lambda>ordinal.
       Inr \<lparr>c_id = cid, c_task = i, c_round = round_id, c_baseline = epoch,
            c_source_hash = source, c_variant = variant, c_state = C_PROPOSED,
            c_ordinal = ordinal, c_metadata = jget_obj item ''metadata'',
            c_track = None, c_release_mode = None, c_kind = None, c_intent = None,
            c_point = None, c_key = None, c_hotspot = None\<rparr>))))))))"

definition insert_candidate :: "candidate \<Rightarrow> db \<Rightarrow> error + (db \<times> candidate)" where
  "insert_candidate q d =
     (case find_candidate d (c_id q) of
        Some c \<Rightarrow> Inr (d, c)
      | None \<Rightarrow>
          if list_ex (\<lambda>c. c_task c = c_task q \<and> c_round c = c_round q \<and> c_ordinal c = c_ordinal q)
               (candidates d)
          then Inl (DatabaseError ''candidates_task_id_round_id_ordinal_key'')
          else if list_ex (\<lambda>c. c_task c = c_task q \<and> c_source_hash c = c_source_hash q) (candidates d)
          then Inl (DatabaseError ''candidates_task_id_source_hash_key'')
          else if find_task d (c_task q) = None \<or> \<not> list_ex (\<lambda>b. b_id b = c_baseline q) (baselines d)
          then Inl (DatabaseError ''candidates_fkey'')
          else Inr (d\<lparr>candidates := candidates d @ [q]\<rparr>, q))"

fun create_candidates ::
    "uuid \<Rightarrow> uuid \<Rightarrow> uuid \<Rightarrow> json list \<Rightarrow> db \<Rightarrow> error + (db \<times> candidate list)" where
  "create_candidates i epoch round_id [] d = Inr (d, [])"
| "create_candidates i epoch round_id (item # items) d =
     bind_res (candidate_row i epoch round_id item) (\<lambda>q.
     bind_res (insert_candidate q d) (\<lambda>(d1, c).
     bind_res (create_candidates i epoch round_id items d1) (\<lambda>(d2, cs).
       Inr (d2, c # cs))))"

definition record_artifact :: "uuid \<Rightarrow> uuid \<Rightarrow> uuid \<Rightarrow> json \<Rightarrow> db \<Rightarrow> error + (db \<times> artifact)" where
  "record_artifact new_id i cid result d =
     bind_res (jitem result ''kind'') (\<lambda>kind.
     bind_res (jitem result ''uri'') (\<lambda>uri.
     bind_res (jitem result ''content_hash'') (\<lambda>hash.
     bind_res (text_column kind) (\<lambda>kind.
     bind_res (text_column uri) (\<lambda>uri.
     bind_res (text_column hash) (\<lambda>hash.
       case find (\<lambda>a. a_candidate a = cid \<and> a_hash a = hash) (artifacts d) of
         Some a \<Rightarrow> Inr (d, a)
       | None \<Rightarrow>
           if list_ex (\<lambda>a. a_id a = new_id) (artifacts d) then Inl (DatabaseError ''artifacts_pkey'')
           else if find_task d i = None \<or> find_candidate d cid = None
           then Inl (DatabaseError ''artifacts_fkey'')
           else
             let a = \<lparr>a_id = new_id, a_task = i, a_candidate = cid, a_kind = kind, a_uri = uri,
                  a_hash = hash, a_metadata = jget_obj result ''metadata'', a_synthetic = False\<rparr>
             in Inr (d\<lparr>artifacts := artifacts d @ [a]\<rparr>, a)))))))"

end
