(* ===== verification/SearchRound.thy ===== *)
theory SearchRound
  imports Database Float64
begin

text \<open>
  The M2a SearchRound authority of src/src/hcuopt/storage/repository.py: creation of a
  scripted round, intake of its candidates, the close of the intake that freezes the
  candidate family, the build terminals of the members and the freeze of the artifact
  family, with the contract models of src/src/hcuopt/contracts/m2.py and the family hashes
  of src/src/hcuopt/orchestrator/search_round.py.

  Fields that the contract fixes to one literal (schema version, commitment scheme, track,
  release mode of a member, \<open>automatic_release_allowed = False\<close>) are not stored. The hash
  \<open>"sha256:" + sha256(canonical_json_bytes(document))\<close> is a parameter \<open>digest\<close> of the
  document; no theorem assumes more of it than a theorem says.
\<close>

section \<open>Contract models\<close>

text \<open>\<open>RoundBudget\<close> and \<open>BudgetUsage\<close>\<close>

record round_budget =
  rb_candidates :: int
  rb_builds :: int
  rb_correctness :: int
  rb_search :: int
  rb_holdout :: int
  rb_wall :: int
  rb_lease :: int

definition round_budget_valid :: "round_budget \<Rightarrow> bool" where
  "round_budget_valid b \<longleftrightarrow>
     2 \<le> rb_candidates b \<and> rb_candidates b \<le> 4 \<and>
     1 \<le> rb_builds b \<and> rb_builds b \<le> 100 \<and>
     1 \<le> rb_correctness b \<and> rb_correctness b \<le> 100 \<and>
     1 \<le> rb_search b \<and> rb_search b \<le> 10000000 \<and>
     1 \<le> rb_holdout b \<and> rb_holdout b \<le> 10000000 \<and>
     1 \<le> rb_wall b \<and> rb_wall b \<le> 604800 \<and>
     1 \<le> rb_lease b \<and> rb_lease b \<le> 604800"

definition budget_document :: "round_budget \<Rightarrow> json" where
  "budget_document b = jobj
     [(''max_candidates'', JInt (rb_candidates b)),
      (''max_build_attempts'', JInt (rb_builds b)),
      (''max_correctness_attempts'', JInt (rb_correctness b)),
      (''max_search_samples'', JInt (rb_search b)),
      (''max_holdout_samples'', JInt (rb_holdout b)),
      (''max_wall_seconds'', JInt (rb_wall b)),
      (''max_exclusive_lease_seconds'', JInt (rb_lease b))]"

text \<open>\<open>SHA256_PATTERN\<close>\<close>

definition is_hex_digit :: "char \<Rightarrow> bool" where
  "is_hex_digit c \<longleftrightarrow> c \<in> set ''0123456789abcdef''"

definition is_sha256 :: "string \<Rightarrow> bool" where
  "is_sha256 s \<longleftrightarrow> take 7 s = ''sha256:'' \<and> length s = 71 \<and> list_all is_hex_digit (drop 7 s)"

record search_round =
  sr_id :: uuid
  sr_task :: uuid
  sr_key :: string
  sr_state :: round_state
  sr_mode :: round_mode
  sr_project :: "project_mode option"
  sr_snapshot :: uuid
  sr_stage0 :: uuid
  sr_protocol :: string
  sr_baseline :: uuid
  sr_hotspot :: uuid
  sr_point :: string
  sr_workload :: string
  sr_workload_hash :: string
  sr_configuration :: string
  sr_image :: string
  sr_profile :: string
  sr_declared :: int
  sr_promoted :: int
  sr_alpha :: pyfloat
  sr_search_plan :: string
  sr_commitment :: string
  sr_authority_id :: string
  sr_authority_hash :: string
  sr_holdout_plan :: "string option"
  sr_reveal_lease :: "uuid option"
  sr_reveal_evidence :: "string option"
  sr_rule :: string
  sr_budget :: round_budget
  sr_family :: "string option"
  sr_artifacts :: "string option"
  sr_holdout :: "string option"
  sr_version :: int
  sr_created :: time
  sr_closed :: "time option"

text \<open>The field constraints and the validator of \<open>SearchRound\<close>.\<close>

definition opt_all :: "('a \<Rightarrow> bool) \<Rightarrow> 'a option \<Rightarrow> bool" where
  "opt_all P x = (case x of None \<Rightarrow> True | Some v \<Rightarrow> P v)"

definition text_between :: "nat \<Rightarrow> nat \<Rightarrow> string \<Rightarrow> bool" where
  "text_between l h s \<longleftrightarrow> l \<le> length s \<and> length s \<le> h"

definition search_round_fields :: "search_round \<Rightarrow> bool" where
  "search_round_fields q \<longleftrightarrow>
     text_between 8 300 (sr_key q) \<and> is_sha256 (sr_protocol q) \<and>
     text_between 1 1000 (sr_point q) \<and> text_between 1 200 (sr_workload q) \<and>
     is_sha256 (sr_workload_hash q) \<and> is_sha256 (sr_configuration q) \<and>
     is_sha256 (sr_image q) \<and> text_between 1 200 (sr_profile q) \<and>
     2 \<le> sr_declared q \<and> sr_declared q \<le> 4 \<and> 1 \<le> sr_promoted q \<and> sr_promoted q \<le> 2 \<and>
     fless (Fin 0) (sr_alpha q) \<and> fless (sr_alpha q) (Fin 1) \<and>
     is_sha256 (sr_search_plan q) \<and> is_sha256 (sr_commitment q) \<and>
     text_between 1 300 (sr_authority_id q) \<and> is_sha256 (sr_authority_hash q) \<and>
     opt_all is_sha256 (sr_holdout_plan q) \<and> opt_all is_sha256 (sr_reveal_evidence q) \<and>
     is_sha256 (sr_rule q) \<and> round_budget_valid (sr_budget q) \<and>
     opt_all is_sha256 (sr_family q) \<and> opt_all is_sha256 (sr_artifacts q) \<and>
     opt_all is_sha256 (sr_holdout q) \<and> 1 \<le> sr_version q"

definition require_safe_mode_and_limits :: "search_round \<Rightarrow> error + unit" where
  "require_safe_mode_and_limits q =
     (let reveal = [sr_holdout_plan q = None, sr_reveal_lease q = None, sr_reveal_evidence q = None]
      in if sr_mode q = RM_SCRIPTED \<and> sr_project q \<noteq> None
         then Inl (ValueError ''scripted Round project_mode must be null'')
         else if sr_mode q = RM_SCRIPTED \<and> sr_state q \<in> {R_AWAITING_SIGNOFF, R_COMPLETED, R_REJECTED}
         then Inl (ValueError ''scripted Round cannot enter Formal terminal/signoff states'')
         else if sr_mode q = RM_FORMAL \<and> sr_project q \<noteq> Some DEGRADED_MANUAL_INTAKE
         then Inl (ValueError ''formal M2a Round requires degraded_manual_intake'')
         else if sr_mode q = RM_FORMAL \<and> sr_state q = R_SCRIPTED_COMPLETED
         then Inl (ValueError ''formal Round cannot enter scripted_completed'')
         else if sr_promoted q > sr_declared q
         then Inl (ValueError ''max_promoted cannot exceed declared_candidate_count'')
         else if rb_candidates (sr_budget q) \<noteq> sr_declared q
         then Inl (ValueError ''budget max_candidates must equal declared_candidate_count'')
         else if (\<not> list_all id reveal) \<and> list_ex id reveal
         then Inl (ValueError ''Holdout reveal hash, Lease, and evidence must be written together'')
         else if (\<not> list_all id reveal) \<and> sr_holdout q = None
         then Inl (ValueError ''Holdout reveal requires a frozen holdout_family_hash'')
         else Inr ())"

datatype candidate_kind = KIND_FIXTURE | KIND_BUSINESS

record member =
  mb_id :: uuid
  mb_round :: uuid
  mb_candidate :: uuid
  mb_ordinal :: int
  mb_store_id :: string
  mb_store_hash :: string
  mb_package :: string
  mb_manifest :: string
  mb_baseline_source :: string
  mb_source :: string
  mb_intent :: string
  mb_point :: string
  mb_kind :: candidate_kind
  mb_artifact :: "uuid option"
  mb_artifact_hash :: "string option"
  mb_failure :: "string option"
  mb_failure_hash :: "string option"
  mb_state :: round_candidate_state
  mb_key :: string

definition round_candidate_fields :: "member \<Rightarrow> bool" where
  "round_candidate_fields q \<longleftrightarrow>
     0 \<le> mb_ordinal q \<and> mb_ordinal q \<le> 3 \<and> text_between 1 300 (mb_store_id q) \<and>
     is_sha256 (mb_store_hash q) \<and> is_sha256 (mb_package q) \<and> is_sha256 (mb_manifest q) \<and>
     is_sha256 (mb_baseline_source q) \<and> is_sha256 (mb_source q) \<and>
     text_between 1 2000 (mb_intent q) \<and> text_between 1 1000 (mb_point q) \<and>
     opt_all is_sha256 (mb_artifact_hash q) \<and> opt_all (text_between 1 200) (mb_failure q) \<and>
     opt_all is_sha256 (mb_failure_hash q) \<and> text_between 8 300 (mb_key q)"

definition require_artifact_or_failure_pairs :: "member \<Rightarrow> error + unit" where
  "require_artifact_or_failure_pairs q =
     (if (mb_artifact q = None) \<noteq> (mb_artifact_hash q = None)
      then Inl (ValueError ''artifact_id and artifact_hash must be written together'')
      else if (mb_failure q = None) \<noteq> (mb_failure_hash q = None)
      then Inl (ValueError ''failure code and failure evidence must be written together'')
      else if mb_artifact q \<noteq> None \<and> mb_failure q \<noteq> None
      then Inl (ValueError ''Candidate cannot bind an Artifact and terminal failure together'')
      else if mb_baseline_source q = mb_source q
      then Inl (ValueError ''M2 Candidate source must differ from its Baseline'')
      else Inr ())"

record build_terminal =
  bt_round :: uuid
  bt_member :: uuid
  bt_candidate :: uuid
  bt_state :: round_candidate_state
  bt_artifact :: "uuid option"
  bt_artifact_hash :: "string option"
  bt_failure :: "string option"
  bt_failure_hash :: "string option"

definition require_one_build_terminal :: "build_terminal \<Rightarrow> error + unit" where
  "require_one_build_terminal q =
     (let has_artifact = (bt_artifact q \<noteq> None \<and> bt_artifact_hash q \<noteq> None);
          has_failure = (bt_failure q \<noteq> None \<and> bt_failure_hash q \<noteq> None)
      in if (bt_artifact q = None) \<noteq> (bt_artifact_hash q = None) \<or>
            (bt_failure q = None) \<noteq> (bt_failure_hash q = None)
         then Inl (ValueError ''Build terminal identities must be written in pairs'')
         else if has_artifact = has_failure
         then Inl (ValueError ''Build terminal must bind exactly one Artifact or failure'')
         else if has_artifact \<and> bt_state q \<noteq> RC_BUILT
         then Inl (ValueError ''Artifact Build terminal must be built'')
         else if has_failure \<and> bt_state q \<notin> {RC_BUILD_FAILED, RC_INVALID}
         then Inl (ValueError ''failure Build terminal must be build_failed or invalid'')
         else Inr ())"

section \<open>The M2 tables\<close>

text \<open>
  The row of the join over \<open>stage0_runs\<close>, its task, \<open>target_snapshots\<close>,
  \<open>baseline_epochs\<close> and \<open>hotspots\<close> that a round is checked against. The join is kept
  as a table of its own, keyed by baseline, hotspot and Stage 0 run, since the tables
  behind it are only read here.
\<close>

datatype stage0_run_mode = DRY_RUN | S0_FORMAL

record authority =
  au_baseline :: uuid
  au_hotspot :: uuid
  au_run :: uuid
  au_mode :: stage0_run_mode
  au_state :: stage0_run_state
  au_run_snapshot :: uuid
  au_authority :: string
  au_target :: string
  au_base_snapshot :: "uuid option"
  au_base_run :: "uuid option"
  au_protocol :: "string option"
  au_workload :: string
  au_workload_hash :: "string option"
  au_configuration :: string
  au_image :: "string option"
  au_profile :: "string option"
  au_hotspot_baseline :: uuid
  au_hotspot_kind :: "string option"
  au_hotspot_evidence :: json

record usage =
  u_candidates :: int
  u_builds :: int
  u_correctness :: int
  u_search :: int
  u_holdout :: int
  u_wall :: pyfloat
  u_lease :: pyfloat

record reservation =
  v_id :: uuid
  v_round :: uuid
  v_job :: uuid
  v_attempt :: int
  v_candidate :: "uuid option"
  v_phase :: "round_phase option"
  v_planned :: usage
  v_state :: reservation_state
  v_key :: string

record ledger_entry =
  g_id :: uuid
  g_reservation :: uuid
  g_round :: uuid
  g_type :: budget_entry_type
  g_reserved :: usage
  g_actual :: usage
  g_held :: pyfloat
  g_active :: pyfloat
  g_evidence :: string
  g_key :: string
  g_created :: time

record m2_db =
  base :: db
  authorities :: "authority list"
  baseline_sources :: "(uuid \<times> string) list"
  rounds :: "search_round list"
  members :: "member list"
  reservations :: "reservation list"
  ledger :: "ledger_entry list"

definition find_round :: "m2_db \<Rightarrow> uuid \<Rightarrow> search_round option" where
  "find_round d i = find (\<lambda>q. sr_id q = i) (rounds d)"

definition set_round :: "uuid \<Rightarrow> (search_round \<Rightarrow> search_round) \<Rightarrow> m2_db \<Rightarrow> m2_db" where
  "set_round i f d = d\<lparr>rounds := update_where (\<lambda>q. sr_id q = i) f (rounds d)\<rparr>"

definition in_base :: "(db \<Rightarrow> db) \<Rightarrow> m2_db \<Rightarrow> m2_db" where
  "in_base f d = d\<lparr>base := f (base d)\<rparr>"

section \<open>Creating a round\<close>

definition authority_matches :: "search_round \<Rightarrow> authority \<Rightarrow> bool" where
  "authority_matches q a \<longleftrightarrow>
     au_mode a = DRY_RUN \<and> au_state a = S0_FINALIZED \<and> au_authority a = ''synthetic'' \<and>
     au_run_snapshot a = sr_snapshot q \<and> au_base_snapshot a = Some (sr_snapshot q) \<and>
     au_base_run a = Some (sr_stage0 q) \<and> au_protocol a = Some (sr_protocol q) \<and>
     au_workload a = sr_workload q \<and> au_workload_hash a = Some (sr_workload_hash q) \<and>
     au_configuration a = sr_configuration q \<and> au_image a = Some (sr_image q) \<and>
     au_profile a = Some (sr_profile q) \<and> au_hotspot_baseline a = sr_baseline q \<and>
     au_hotspot_kind a = Some ''fixture'' \<and>
     jget (au_hotspot_evidence a) ''replacement_point'' = Some (JStr (sr_point q))"

definition round_task :: "search_round \<Rightarrow> authority \<Rightarrow> task" where
  "round_task q a =
     \<lparr>t_id = sr_task q, t_name = ''M2a SearchRound '' @ sr_id q, t_workload = sr_workload q,
      t_key = sr_key q, t_state = T_CREATED, t_mode = None,
      t_budget = budget_document (sr_budget q), t_auto_release = False,
      t_workflow = WF_SEARCH_ROUND, t_target = Some (au_target a),
      t_snapshot = Some (sr_snapshot q), t_profile = Some (sr_profile q),
      t_authority = ''synthetic'', t_stage0_run = Some (sr_stage0 q), t_retests = 0,
      t_version = 1\<rparr>"

definition task_matches :: "search_round \<Rightarrow> authority \<Rightarrow> task \<Rightarrow> bool" where
  "task_matches q a t \<longleftrightarrow>
     t_id t = sr_task q \<and> t_workload t = sr_workload q \<and> t_key t = sr_key q \<and>
     t_workflow t = WF_SEARCH_ROUND \<and> t_target t = Some (au_target a) \<and>
     t_snapshot t = Some (sr_snapshot q) \<and> t_profile t = Some (sr_profile q) \<and>
     t_stage0_run t = Some (sr_stage0 q) \<and> t_authority t = ''synthetic'' \<and>
     t_mode t = None \<and> \<not> t_auto_release t \<and> t_budget t = budget_document (sr_budget q)"

definition insert_round_task :: "search_round \<Rightarrow> authority \<Rightarrow> m2_db \<Rightarrow> m2_db \<times> task" where
  "insert_round_task q a d =
     (case find (\<lambda>t. t_id t = sr_task q \<or> t_key t = sr_key q) (tasks (base d)) of
        Some t \<Rightarrow> (d, t)
      | None \<Rightarrow> (in_base (\<lambda>b. b\<lparr>tasks := tasks b @ [round_task q a]\<rparr>) d, round_task q a))"

definition active_round :: "search_round \<Rightarrow> bool" where
  "active_round q \<longleftrightarrow> sr_state q \<notin> {R_SCRIPTED_COMPLETED, R_COMPLETED, R_REJECTED, R_CANCELLED}"

text \<open>
  \<open>INSERT ... ON CONFLICT DO NOTHING\<close> under the primary key, the unique idempotency key
  and the index of one active round per task, then the lookup of the row in the way.
\<close>

definition insert_round :: "search_round \<Rightarrow> m2_db \<Rightarrow> error + (m2_db \<times> search_round)" where
  "insert_round q d =
     (if list_ex (\<lambda>r. sr_id r = sr_id q \<or> sr_key r = sr_key q \<or>
                     (sr_task r = sr_task q \<and> active_round r \<and> active_round q)) (rounds d)
      then (case find (\<lambda>r. sr_id r = sr_id q \<or> sr_key r = sr_key q) (rounds d) of
              Some r \<Rightarrow> Inr (d, r)
            | None \<Rightarrow> Inl (Conflict ''M2a Round identity conflict could not be resolved''))
      else Inr (d\<lparr>rounds := rounds d @ [q]\<rparr>, q))"

definition same_creation :: "search_round \<Rightarrow> search_round \<Rightarrow> bool" where
  "same_creation q r \<longleftrightarrow>
     sr_id r = sr_id q \<and> sr_task r = sr_task q \<and> sr_key r = sr_key q \<and> sr_mode r = sr_mode q \<and>
     sr_project r = sr_project q \<and> sr_snapshot r = sr_snapshot q \<and> sr_stage0 r = sr_stage0 q \<and>
     sr_protocol r = sr_protocol q \<and> sr_baseline r = sr_baseline q \<and>
     sr_hotspot r = sr_hotspot q \<and> sr_point r = sr_point q \<and> sr_workload r = sr_workload q \<and>
     sr_workload_hash r = sr_workload_hash q \<and> sr_configuration r = sr_configuration q \<and>
     sr_image r = sr_image q \<and> sr_profile r = sr_profile q \<and> sr_declared r = sr_declared q \<and>
     sr_promoted r = sr_promoted q \<and> sr_alpha r = sr_alpha q \<and>
     sr_search_plan r = sr_search_plan q \<and> sr_commitment r = sr_commitment q \<and>
     sr_authority_id r = sr_authority_id q \<and> sr_authority_hash r = sr_authority_hash q \<and>
     sr_rule r = sr_rule q \<and> sr_budget r = sr_budget q \<and> sr_created r = sr_created q"

definition log_created_once :: "search_round \<Rightarrow> m2_db \<Rightarrow> m2_db" where
  "log_created_once q d =
     (if list_ex (\<lambda>e. ev_subject e = sr_task q \<and> ev_type e = ''m2_round_created'')
           (task_events (base d))
      then d
      else in_base (log_task (sr_task q) ''m2_round_created''
             (jobj [(''round_id'', JStr (sr_id q)), (''run_mode'', JStr ''scripted'')])) d)"

definition create_search_round ::
    "search_round \<Rightarrow> m2_db \<Rightarrow> error + (m2_db \<times> search_round)" where
  "create_search_round q d =
     (if sr_mode q \<noteq> RM_SCRIPTED then Inl (Conflict ''M2a Formal Round creation is not approved'')
      else if sr_state q \<noteq> R_INTAKE_OPEN \<or> sr_version q \<noteq> 1 \<or> sr_family q \<noteq> None \<or>
              sr_artifacts q \<noteq> None \<or> sr_holdout q \<noteq> None \<or> sr_holdout_plan q \<noteq> None \<or>
              sr_closed q \<noteq> None
      then Inl (Conflict ''new M2a Round must be an unfrozen intake_open authority'')
      else case find (\<lambda>a. au_baseline a = sr_baseline q \<and> au_hotspot a = sr_hotspot q \<and>
                       au_run a = sr_stage0 q) (authorities d) of
        None \<Rightarrow> Inl (NotFound ''M2a Scripted Stage 0, Baseline, or Hotspot authority not found'')
      | Some a \<Rightarrow>
          if \<not> authority_matches q a
          then Inl (Conflict ''M2a Scripted Round authority bindings do not match'')
          else
            let (d1, t) = insert_round_task q a d
            in if \<not> task_matches q a t
               then Inl (Conflict
                 ''M2a Round idempotency_key was reused with different task inputs'')
               else bind_res (insert_round q d1) (\<lambda>(d2, r).
                 if \<not> same_creation q r
                 then Inl (Conflict ''M2a Round idempotency_key was reused with different inputs'')
                 else Inr (log_created_once q d2, r)))"

section \<open>Candidate intake\<close>

definition member_clash :: "member \<Rightarrow> member \<Rightarrow> bool" where
  "member_clash q m \<longleftrightarrow>
     mb_id m = mb_id q \<or> mb_key m = mb_key q \<or>
     (mb_round m = mb_round q \<and>
        (mb_candidate m = mb_candidate q \<or> mb_ordinal m = mb_ordinal q \<or>
         mb_source m = mb_source q \<or> mb_package m = mb_package q \<or> mb_manifest m = mb_manifest q))"

definition same_identity :: "member \<Rightarrow> member \<Rightarrow> bool" where
  "same_identity q m \<longleftrightarrow>
     mb_id m = mb_id q \<and> mb_round m = mb_round q \<and> mb_candidate m = mb_candidate q \<and>
     mb_ordinal m = mb_ordinal q \<and> mb_store_id m = mb_store_id q \<and>
     mb_store_hash m = mb_store_hash q \<and> mb_package m = mb_package q \<and>
     mb_manifest m = mb_manifest q \<and> mb_baseline_source m = mb_baseline_source q \<and>
     mb_source m = mb_source q \<and> mb_intent m = mb_intent q \<and> mb_point m = mb_point q \<and>
     mb_kind m = mb_kind q \<and> mb_key m = mb_key q"

definition kind_value :: "candidate_kind \<Rightarrow> string" where
  "kind_value k = (case k of KIND_FIXTURE \<Rightarrow> ''fixture'' | KIND_BUSINESS \<Rightarrow> ''business'')"

definition round_candidate_row :: "member \<Rightarrow> search_round \<Rightarrow> candidate" where
  "round_candidate_row q r =
     \<lparr>c_id = mb_candidate q, c_task = sr_task r, c_round = mb_round q,
      c_baseline = sr_baseline r, c_source_hash = mb_source q,
      c_variant = ''m2-scripted-fixture'', c_state = C_PROPOSED, c_ordinal = mb_ordinal q,
      c_metadata = jobj
        [(''workflow_type'', JStr ''search_round''), (''round_candidate_id'', JStr (mb_id q)),
         (''source_package_store_id'', JStr (mb_store_id q)),
         (''source_package_store_hash'', JStr (mb_store_hash q)),
         (''source_package_hash'', JStr (mb_package q)),
         (''source_manifest_version'', JStr ''m1-candidate-source-v1''),
         (''source_manifest_hash'', JStr (mb_manifest q)),
         (''baseline_source_hash'', JStr (mb_baseline_source q))],
      c_track = Some ''triton'', c_release_mode = Some ''overlay'',
      c_kind = Some (kind_value (mb_kind q)), c_intent = Some (mb_intent q),
      c_point = Some (mb_point q), c_key = Some (mb_key q), c_hotspot = Some (sr_hotspot r)\<rparr>"

text \<open>The unique constraints of the \<open>candidates\<close> table.\<close>

definition candidate_clash :: "candidate \<Rightarrow> candidate \<Rightarrow> bool" where
  "candidate_clash q c \<longleftrightarrow>
     c_id c = c_id q \<or> (c_key q \<noteq> None \<and> c_key c = c_key q) \<or>
     (c_task c = c_task q \<and> c_round c = c_round q \<and> c_ordinal c = c_ordinal q) \<or>
     (c_task c = c_task q \<and> c_source_hash c = c_source_hash q)"

definition candidate_matches :: "candidate \<Rightarrow> candidate \<Rightarrow> bool" where
  "candidate_matches q c \<longleftrightarrow>
     c_id c = c_id q \<and> c_task c = c_task q \<and> c_round c = c_round q \<and>
     c_baseline c = c_baseline q \<and> c_source_hash c = c_source_hash q \<and>
     c_ordinal c = c_ordinal q \<and> c_track c = c_track q \<and>
     c_release_mode c = c_release_mode q \<and> c_kind c = c_kind q \<and> c_intent c = c_intent q \<and>
     c_point c = c_point q \<and> c_key c = c_key q \<and> c_hotspot c = c_hotspot q"

definition insert_round_candidate :: "candidate \<Rightarrow> m2_db \<Rightarrow> error + m2_db" where
  "insert_round_candidate q d =
     (if list_ex (candidate_clash q) (candidates (base d))
      then (case find (\<lambda>c. c_id c = c_id q \<or> c_key c = c_key q) (candidates (base d)) of
              None \<Rightarrow> Inl (Conflict
                ''M2a generic Candidate identity conflict could not be resolved'')
            | Some c \<Rightarrow>
                if candidate_matches q c then Inr d
                else Inl (Conflict
                  ''M2a generic Candidate identity belongs to different inputs''))
      else Inr (in_base (\<lambda>b. b\<lparr>candidates := candidates b @ [q]\<rparr>) d))"

definition add_round_candidate :: "member \<Rightarrow> m2_db \<Rightarrow> error + (m2_db \<times> member)" where
  "add_round_candidate q d =
     (if mb_state q \<noteq> RC_INTAKE_ACCEPTED \<or> mb_artifact q \<noteq> None \<or> mb_failure q \<noteq> None
      then Inl (Conflict ''M2a intake accepts only unfrozen intake_accepted Candidates'')
      else case find_round d (mb_round q) of
        None \<Rightarrow> Inl (NotFound ''M2a SearchRound not found'')
      | Some r \<Rightarrow>
          (case find (member_clash q) (members d) of
             Some m \<Rightarrow>
               if same_identity q m then Inr (d, m)
               else Inl (Conflict ''M2a Candidate identity was reused with different inputs'')
           | None \<Rightarrow>
               if sr_state r \<noteq> R_INTAKE_OPEN then Inl (Conflict ''M2a Candidate intake is closed'')
               else if sr_declared r \<le> mb_ordinal q
               then Inl (Conflict ''M2a Candidate ordinal exceeds the declared family'')
               else if mb_point q \<noteq> sr_point r \<or> mb_kind q \<noteq> KIND_FIXTURE
               then Inl (Conflict ''M2a Scripted Candidate does not match its Round bindings'')
               else if map_of (baseline_sources d) (sr_baseline r) \<noteq> Some (mb_baseline_source q)
               then Inl (Conflict ''M2a Candidate Baseline source binding does not match'')
               else bind_res (insert_round_candidate (round_candidate_row q r) d) (\<lambda>d1.
                 let d2 = d1\<lparr>members := members d1 @ [q]\<rparr>
                 in Inr (in_base (log_task (sr_task r) ''m2_round_candidate_registered''
                      (jobj [(''round_id'', JStr (mb_round q)),
                         (''round_candidate_id'', JStr (mb_id q)),
                         (''candidate_id'', JStr (mb_candidate q)),
                         (''ordinal'', JInt (mb_ordinal q))])) d2, q))))"

section \<open>Family hashes\<close>

fun round_candidate_state_value :: "round_candidate_state \<Rightarrow> string" where
  "round_candidate_state_value RC_INTAKE_ACCEPTED = ''intake_accepted''"
| "round_candidate_state_value RC_BUILDING = ''building''"
| "round_candidate_state_value RC_BUILD_FAILED = ''build_failed''"
| "round_candidate_state_value RC_BUILT = ''built''"
| "round_candidate_state_value RC_CORRECTNESS_FAILED = ''correctness_failed''"
| "round_candidate_state_value RC_CORRECTNESS_PASSED = ''correctness_passed''"
| "round_candidate_state_value RC_SEARCH_FAILED = ''search_failed''"
| "round_candidate_state_value RC_SEARCH_MEASURED = ''search_measured''"
| "round_candidate_state_value RC_NOT_PROMOTED = ''not_promoted''"
| "round_candidate_state_value RC_HOLDOUT_FAILED = ''holdout_failed''"
| "round_candidate_state_value RC_HOLDOUT_MEASURED = ''holdout_measured''"
| "round_candidate_state_value RC_INVALID = ''invalid''"

definition member_document :: "search_round \<Rightarrow> member \<Rightarrow> json" where
  "member_document r m = jobj
     [(''ordinal'', JInt (mb_ordinal m)), (''candidate_id'', JStr (mb_candidate m)),
      (''round_candidate_id'', JStr (mb_id m)),
      (''source_package_store_id'', JStr (mb_store_id m)),
      (''source_package_store_hash'', JStr (mb_store_hash m)),
      (''source_package_hash'', JStr (mb_package m)),
      (''source_manifest_version'', JStr ''m1-candidate-source-v1''),
      (''source_manifest_hash'', JStr (mb_manifest m)),
      (''baseline_source_hash'', JStr (mb_baseline_source m)),
      (''candidate_source_hash'', JStr (mb_source m)), (''hotspot_id'', JStr (sr_hotspot r)),
      (''replacement_point'', JStr (mb_point m)), (''candidate_kind'', JStr (kind_value (mb_kind m))),
      (''optimization_intent'', JStr (mb_intent m))]"

definition candidate_family_hash ::
    "(json \<Rightarrow> string) \<Rightarrow> search_round \<Rightarrow> member list \<Rightarrow> string" where
  "candidate_family_hash digest r ms =
     digest (JArr (map (member_document r) (sort_key mb_ordinal ms)))"

definition BUILD_TERMINAL_STATES :: "round_candidate_state list" where
  "BUILD_TERMINAL_STATES = [RC_BUILT, RC_BUILD_FAILED, RC_INVALID]"

definition artifact_member_document :: "member \<Rightarrow> error + json" where
  "artifact_member_document m =
     (let has_artifact = (mb_artifact m \<noteq> None \<and> mb_artifact_hash m \<noteq> None);
          has_failure = (mb_failure m \<noteq> None \<and> mb_failure_hash m \<noteq> None)
      in if (mb_artifact m = None) \<noteq> (mb_artifact_hash m = None) \<or>
            (mb_failure m = None) \<noteq> (mb_failure_hash m = None)
         then Inl (ValueError ''Artifact Family terminal requires complete identity pairs'')
         else if mb_state m \<notin> set BUILD_TERMINAL_STATES \<or> has_artifact = has_failure
         then Inl (ValueError ''Artifact Family member is not one unambiguous Build terminal'')
         else if has_artifact \<and> mb_state m \<noteq> RC_BUILT
         then Inl (ValueError ''only a built member may bind an Artifact'')
         else if has_failure \<and> mb_state m \<notin> {RC_BUILD_FAILED, RC_INVALID}
         then Inl (ValueError ''Build failure evidence requires a failed or invalid member'')
         else Inr (jobj
           [(''ordinal'', JInt (mb_ordinal m)), (''candidate_id'', JStr (mb_candidate m)),
            (''round_candidate_id'', JStr (mb_id m)),
            (''state'', JStr (round_candidate_state_value (mb_state m))),
            (''artifact_id'', if has_artifact then jstr_opt (mb_artifact m) else JNull),
            (''artifact_hash'', if has_artifact then jstr_opt (mb_artifact_hash m) else JNull),
            (''terminal_failure_code'', if has_failure then jstr_opt (mb_failure m) else JNull),
            (''failure_evidence_hash'', if has_failure then jstr_opt (mb_failure_hash m) else JNull)]))"

fun artifact_documents ::
    "int list \<Rightarrow> uuid list \<Rightarrow> uuid list \<Rightarrow> member list \<Rightarrow> error + json list" where
  "artifact_documents ordinals cands ids [] = Inr []"
| "artifact_documents ordinals cands ids (m # ms) =
     (if mb_ordinal m \<in> set ordinals \<or> mb_candidate m \<in> set cands \<or> mb_id m \<in> set ids
      then Inl (ValueError ''Artifact Family contains duplicate member identities'')
      else bind_res (artifact_member_document m) (\<lambda>doc.
        bind_res (artifact_documents (mb_ordinal m # ordinals) (mb_candidate m # cands)
            (mb_id m # ids) ms) (\<lambda>docs. Inr (doc # docs))))"

definition artifact_family_hash ::
    "(json \<Rightarrow> string) \<Rightarrow> search_round \<Rightarrow> member list \<Rightarrow> error + string" where
  "artifact_family_hash digest r ms =
     (case sr_family r of
        None \<Rightarrow> Inl (ValueError ''Artifact Family requires one frozen Candidate Family'')
      | Some family \<Rightarrow>
          if int (length ms) \<noteq> sr_declared r
          then Inl (ValueError ''Artifact Family requires the declared Candidate count'')
          else bind_res (artifact_documents [] [] [] (sort_key mb_ordinal ms)) (\<lambda>docs.
            Inr (digest (jobj [(''candidate_family_hash'', JStr family), (''members'', JArr docs)]))))"

section \<open>Closing the intake\<close>

definition round_members :: "m2_db \<Rightarrow> uuid \<Rightarrow> member list" where
  "round_members d i = sort_key mb_ordinal (filter (\<lambda>m. mb_round m = i) (members d))"

definition close_search_round_intake ::
    "(json \<Rightarrow> string) \<Rightarrow> time \<Rightarrow> uuid \<Rightarrow> m2_db \<Rightarrow> error + (m2_db \<times> search_round)" where
  "close_search_round_intake digest now i d =
     (case find_round d i of
        None \<Rightarrow> Inl (NotFound ''M2a SearchRound not found'')
      | Some r \<Rightarrow>
          let ms = round_members d i in
          if int (length ms) \<noteq> sr_declared r
          then Inl (Conflict ''M2a Intake Close requires the declared Candidate count'')
          else if list_ex (\<lambda>m. mb_state m \<noteq> RC_INTAKE_ACCEPTED) ms
          then Inl (Conflict ''M2a Intake Close requires all Candidates intake_accepted'')
          else
            let family = candidate_family_hash digest r ms in
            if sr_state r \<noteq> R_INTAKE_OPEN
            then (if sr_family r = Some family \<and> sr_closed r \<noteq> None then Inr (d, r)
                  else Inl (Conflict
                    ''M2a Candidate Intake is already closed with different inputs''))
            else
              let f = (\<lambda>q. q\<lparr>sr_state := R_INTAKE_CLOSED, sr_family := Some family,
                         sr_closed := Some now, sr_version := sr_version q + 1\<rparr>);
                  d1 = set_round i f d
              in Inr (in_base (log_task (sr_task r) ''m2_round_intake_closed''
                   (jobj [(''round_id'', JStr i), (''candidate_family_hash'', JStr family),
                      (''candidate_count'', JInt (int (length ms)))])) d1, f r))"

section \<open>Build terminals and the artifact family\<close>

definition same_terminal :: "build_terminal \<Rightarrow> member \<Rightarrow> bool" where
  "same_terminal q m \<longleftrightarrow>
     mb_state m = bt_state q \<and> mb_artifact m = bt_artifact q \<and>
     mb_artifact_hash m = bt_artifact_hash q \<and> mb_failure m = bt_failure q \<and>
     mb_failure_hash m = bt_failure_hash q"

definition synthetic_artifact :: "build_terminal \<Rightarrow> search_round \<Rightarrow> db \<Rightarrow> bool" where
  "synthetic_artifact q r b =
     (case bt_artifact q of
        None \<Rightarrow> True
      | Some i \<Rightarrow>
          (case find (\<lambda>a. a_id a = i \<and> a_candidate a = bt_candidate q \<and> a_task a = sr_task r \<and>
                       Some (a_hash a) = bt_artifact_hash q) (artifacts b) of
             None \<Rightarrow> False
           | Some a \<Rightarrow> a_synthetic a))"

definition record_round_candidate_build ::
    "build_terminal \<Rightarrow> m2_db \<Rightarrow> error + (m2_db \<times> member)" where
  "record_round_candidate_build q d =
     (case find_round d (bt_round q) of
        None \<Rightarrow> Inl (NotFound ''M2a SearchRound not found'')
      | Some r \<Rightarrow>
          (case find (\<lambda>m. mb_id m = bt_member q) (members d) of
             None \<Rightarrow> Inl (Conflict ''M2a Build terminal does not match one Round member'')
           | Some m \<Rightarrow>
               if mb_round m \<noteq> bt_round q \<or> mb_candidate m \<noteq> bt_candidate q
               then Inl (Conflict ''M2a Build terminal does not match one Round member'')
               else if mb_state m \<in> {RC_BUILT, RC_BUILD_FAILED, RC_INVALID}
               then (if same_terminal q m then Inr (d, m)
                     else Inl (Conflict ''M2a Candidate already has another Build terminal''))
               else if sr_family r = None \<or> sr_artifacts r \<noteq> None \<or>
                       sr_state r \<notin> {R_INTAKE_CLOSED, R_BUILDING}
               then Inl (Conflict ''M2a Round is not accepting Build terminals'')
               else if \<not> synthetic_artifact q r (base d)
               then Inl (Conflict ''M2a Scripted Build terminal requires its synthetic Artifact'')
               else
                 let f = (\<lambda>x. x\<lparr>mb_state := bt_state q, mb_artifact := bt_artifact q,
                            mb_artifact_hash := bt_artifact_hash q, mb_failure := bt_failure q,
                            mb_failure_hash := bt_failure_hash q\<rparr>);
                     d1 = d\<lparr>members := update_where (\<lambda>x. mb_id x = bt_member q) f (members d)\<rparr>;
                     d2 = in_base (move_candidate (bt_candidate q)
                            (if bt_state q = RC_BUILT then C_BUILT else C_BUILD_FAILED)) d1;
                     d3 = set_round (bt_round q)
                            (\<lambda>x. x\<lparr>sr_state := R_BUILDING, sr_version := sr_version x + 1\<rparr>) d2
                 in Inr (in_base (log_task (sr_task r) ''m2_round_candidate_build_terminal''
                      (jobj [(''round_id'', JStr (bt_round q)),
                         (''round_candidate_id'', JStr (bt_member q)),
                         (''candidate_id'', JStr (bt_candidate q)),
                         (''state'', JStr (round_candidate_state_value (bt_state q)))])) d3, f m)))"

definition freeze_search_round_artifact_family ::
    "(json \<Rightarrow> string) \<Rightarrow> uuid \<Rightarrow> string \<Rightarrow> string \<Rightarrow> m2_db \<Rightarrow> error + (m2_db \<times> search_round)" where
  "freeze_search_round_artifact_family digest i family expected d =
     (case find_round d i of
        None \<Rightarrow> Inl (NotFound ''M2a SearchRound not found'')
      | Some r \<Rightarrow>
          if sr_family r \<noteq> Some family
          then Inl (Conflict ''M2a Artifact Family changed its Candidate Family binding'')
          else (case artifact_family_hash digest r (round_members d i) of
            Inl _ \<Rightarrow> Inl (Conflict ''M2a Artifact Family is not ready'')
          | Inr computed \<Rightarrow>
              if computed \<noteq> expected
              then Inl (Conflict ''M2a Artifact Family Hash does not match the frozen members'')
              else (case sr_artifacts r of
                Some h \<Rightarrow>
                  if h \<noteq> computed
                  then Inl (Conflict ''M2a Artifact Family is already frozen with other members'')
                  else Inr (d, r)
              | None \<Rightarrow>
                  if sr_state r \<noteq> R_BUILDING
                  then Inl (Conflict ''M2a Artifact Family requires a building Round'')
                  else
                    let f = (\<lambda>q. q\<lparr>sr_state := R_CORRECTNESS, sr_artifacts := Some computed,
                               sr_version := sr_version q + 1\<rparr>)
                    in Inr (in_base (log_task (sr_task r) ''m2_round_artifact_family_frozen''
                         (jobj [(''round_id'', JStr i), (''candidate_family_hash'', JStr family),
                            (''artifact_family_hash'', JStr computed)])) (set_round i f d), f r))))"

end
