(* ===== verification/Evaluation.thy ===== *)
theory Evaluation
  imports TaskStore SearchRound
begin

text \<open>
  The evaluation contract of src/src/hcuopt/contracts/platform_v1.py and the write of an
  evaluation run (\<open>record_evaluation\<close> of src/src/hcuopt/storage/repository.py).

  Pydantic, a third-party library, converts JSON to the fields of a contract model and back.
  That conversion is a parameter, the record \<open>codec\<close>; the constraints and validators that
  the contracts declare are modelled here on the converted fields, and run in the order
  Pydantic runs them: the fields first, then the validator of the model.
\<close>

section \<open>Provenance and measurement series\<close>

datatype implementation_kind = REAL_ADAPTER | FAKE_ADAPTER

record provenance =
  pv_profile :: string
  pv_capability :: string
  pv_adapter :: string
  pv_version :: string
  pv_kind :: implementation_kind
  pv_commit :: "string option"

definition is_git_commit :: "string \<Rightarrow> bool" where
  "is_git_commit s \<longleftrightarrow> length s = 40 \<and> list_all is_hex_digit s"

definition provenance_fields :: "provenance \<Rightarrow> bool" where
  "provenance_fields p \<longleftrightarrow>
     pv_profile p \<noteq> [] \<and> pv_capability p \<noteq> [] \<and> pv_adapter p \<noteq> [] \<and> pv_version p \<noteq> [] \<and>
     opt_all is_git_commit (pv_commit p)"

datatype series_status = MEASURED | NOT_MEASURED

record series =
  ms_id :: uuid
  ms_status :: series_status
  ms_metric :: string
  ms_unit :: string
  ms_protocol :: string
  ms_samples :: int
  ms_warmups :: int
  ms_restarts :: int
  ms_raw_uri :: "string option"
  ms_raw_hash :: "string option"
  ms_environment :: "string option"
  ms_summary :: json
  ms_provenance :: provenance
  ms_synthetic :: bool
  ms_created :: time

definition series_fields :: "series \<Rightarrow> bool" where
  "series_fields m \<longleftrightarrow>
     ms_metric m \<noteq> [] \<and> ms_unit m \<noteq> [] \<and> ms_protocol m \<noteq> [] \<and> 0 \<le> ms_samples m \<and>
     0 \<le> ms_warmups m \<and> 0 \<le> ms_restarts m \<and> opt_all is_sha256 (ms_raw_hash m) \<and>
     is_obj (ms_summary m) \<and> provenance_fields (ms_provenance m)"

section \<open>What a synthetic result may not say\<close>

definition SYNTHETIC_PERFORMANCE_CLAIM_FIELDS :: "string list" where
  "SYNTHETIC_PERFORMANCE_CLAIM_FIELDS =
     [''speedup_ratio'', ''e2e_speedup_ratio'', ''latency'', ''throughput'', ''ci_low'', ''ci_high'']"

definition claim_names :: "(string, 'v) fmap \<Rightarrow> string list" where
  "claim_names m = filter (\<lambda>k. fmlookup m k \<noteq> None) SYNTHETIC_PERFORMANCE_CLAIM_FIELDS"

text \<open>\<open>bool(_performance_claim_fields(value))\<close>: some nested object has a claim as a key.\<close>

primrec performance_claim :: "json \<Rightarrow> bool" where
  "performance_claim JNull = False"
| "performance_claim (JBool b) = False"
| "performance_claim (JInt n) = False"
| "performance_claim (JFloat x) = False"
| "performance_claim (JStr s) = False"
| "performance_claim (JArr xs) = list_ex id (map performance_claim xs)"
| "performance_claim (JObj m) =
     (claim_names m \<noteq> [] \<or> True |\<in>| fmran (fmmap performance_claim m))"

definition reject_fake_provenance_without_synthetic ::
    "provenance list \<Rightarrow> bool \<Rightarrow> error + unit" where
  "reject_fake_provenance_without_synthetic ps synthetic =
     guard_err (\<not> (list_ex (\<lambda>p. pv_kind p = FAKE_ADAPTER) ps \<and> \<not> synthetic))
       (ValueError ''results produced by a fake adapter must be synthetic'')"

definition reject_synthetic_performance_claims :: "json \<Rightarrow> bool \<Rightarrow> error + unit" where
  "reject_synthetic_performance_claims v synthetic =
     guard_err (\<not> (synthetic \<and> performance_claim v))
       (ValueError ''synthetic results cannot contain performance claims'')"

definition validate_series :: "series \<Rightarrow> error + unit" where
  "validate_series m =
     bind_res (reject_fake_provenance_without_synthetic [ms_provenance m] (ms_synthetic m)) (\<lambda>_.
     bind_res (reject_synthetic_performance_claims (ms_summary m) (ms_synthetic m)) (\<lambda>_.
       if ms_status m = MEASURED
       then (if pv_kind (ms_provenance m) = FAKE_ADAPTER
             then Inl (ValueError ''fake adapters cannot produce measured samples'')
             else if ms_samples m < 1
             then Inl (ValueError ''measured series require at least one sample'')
             else if ms_raw_uri m = None \<or> ms_raw_hash m = None
             then Inl (ValueError ''measured series require raw sample URI and content hash'')
             else if ms_environment m = None
             then Inl (ValueError ''measured series require an environment fingerprint'')
             else Inr ())
       else (if \<not> ms_synthetic m
             then Inl (ValueError
               ''not_measured series are control-flow fixtures and must be synthetic'')
             else if ms_samples m \<noteq> 0
             then Inl (ValueError ''not_measured series cannot report samples'')
             else if ms_raw_uri m \<noteq> None \<or> ms_raw_hash m \<noteq> None
             then Inl (ValueError ''not_measured series cannot reference raw samples'')
             else Inr ())))"

section \<open>Evaluation runs\<close>

datatype phase = CORRECTNESS | PERFORMANCE | E2E

fun phase_value :: "phase \<Rightarrow> string" where
  "phase_value CORRECTNESS = ''correctness''"
| "phase_value PERFORMANCE = ''performance''"
| "phase_value E2E = ''e2e''"

record evaluation =
  q_id :: uuid
  q_task :: uuid
  q_candidate :: uuid
  q_round :: uuid
  q_baseline :: uuid
  q_phase :: phase
  q_protocol :: string
  q_fingerprint :: string
  q_key :: string
  q_passed :: "bool option"
  q_metrics :: json
  q_measurement :: "series option"
  q_uris :: "string list"
  q_provenance :: "provenance list"
  q_synthetic :: bool

definition evaluation_fields :: "evaluation \<Rightarrow> bool" where
  "evaluation_fields q \<longleftrightarrow>
     q_protocol q \<noteq> [] \<and> q_fingerprint q \<noteq> [] \<and> text_between 8 300 (q_key q) \<and>
     is_obj (q_metrics q) \<and> q_provenance q \<noteq> []"

definition producer :: "provenance \<Rightarrow> string \<times> string \<times> string \<times> string" where
  "producer p = (pv_profile p, pv_capability p, pv_adapter p, pv_version p)"

definition validate_evaluation :: "evaluation \<Rightarrow> error + unit" where
  "validate_evaluation q =
     bind_res (reject_fake_provenance_without_synthetic (q_provenance q) (q_synthetic q)) (\<lambda>_.
     bind_res (reject_synthetic_performance_claims (q_metrics q) (q_synthetic q)) (\<lambda>_.
       if q_synthetic q \<and> q_phase q \<in> {PERFORMANCE, E2E} \<and> q_passed q \<noteq> None
       then Inl (ValueError ''synthetic performance evaluations cannot have a pass verdict'')
       else case q_measurement q of
         None \<Rightarrow> Inr ()
       | Some m \<Rightarrow>
           if ms_synthetic m \<and> \<not> q_synthetic q
           then Inl (ValueError ''synthetic measurements require a synthetic evaluation'')
           else if producer (ms_provenance m) \<notin> producer ` set (q_provenance q)
           then Inl (ValueError
             ''measurement adapter provenance must be included in evaluation'')
           else Inr ()))"

definition make_evaluation :: "evaluation \<Rightarrow> error + evaluation" where
  "make_evaluation q =
     (if \<not> evaluation_fields q then Inl (ValueError ''EvaluationRun'')
      else bind_res (validate_evaluation q) (\<lambda>_. Inr q))"

section \<open>Reading and writing through Pydantic\<close>

text \<open>
  \<open>model_validate\<close> and \<open>model_dump(mode="json")\<close> of the two models, before and after
  their declared constraints, and the text \<open>sha256(json.dumps(value, sort_keys=True))\<close>.
  A series without an identifier or a creation time gets the fresh ones it is read with.
\<close>

record codec =
  read_provenance :: "json \<Rightarrow> error + provenance"
  read_series :: "uuid \<Rightarrow> time \<Rightarrow> json \<Rightarrow> error + series"
  dump_provenance :: "provenance \<Rightarrow> json"
  dump_series :: "series \<Rightarrow> json"
  sha256_json :: "json \<Rightarrow> string"

definition load_provenance :: "codec \<Rightarrow> json \<Rightarrow> error + provenance" where
  "load_provenance C v =
     bind_res (read_provenance C v) (\<lambda>p.
       if provenance_fields p then Inr p else Inl (ValueError ''AdapterProvenance''))"

definition load_series :: "codec \<Rightarrow> uuid \<Rightarrow> time \<Rightarrow> json \<Rightarrow> error + series" where
  "load_series C i now v =
     bind_res (read_series C i now v) (\<lambda>m.
       if \<not> series_fields m then Inl (ValueError ''MeasurementSeries'')
       else bind_res (validate_series m) (\<lambda>_. Inr m))"

definition evaluation_row :: "codec \<Rightarrow> evaluation \<Rightarrow> evaluation_run" where
  "evaluation_row C q =
     \<lparr>e_id = q_id q, e_task = q_task q, e_candidate = q_candidate q, e_round = q_round q,
      e_baseline = q_baseline q, e_phase = phase_value (q_phase q), e_passed = q_passed q,
      e_protocol = q_protocol q, e_fingerprint = q_fingerprint q, e_key = q_key q,
      e_metrics = q_metrics q, e_measurement = map_option (dump_series C) (q_measurement q),
      e_uris = q_uris q, e_provenance = JArr (map (dump_provenance C) (q_provenance q)),
      e_synthetic = q_synthetic q\<rparr>"

definition same_evaluation :: "evaluation_run \<Rightarrow> evaluation_run \<Rightarrow> bool" where
  "same_evaluation q r \<longleftrightarrow>
     e_task r = e_task q \<and> e_candidate r = e_candidate q \<and> e_round r = e_round q \<and>
     e_baseline r = e_baseline q \<and> e_phase r = e_phase q \<and> e_protocol r = e_protocol q \<and>
     e_fingerprint r = e_fingerprint q \<and> e_passed r = e_passed q \<and> e_metrics r = e_metrics q \<and>
     e_measurement r = e_measurement q \<and> e_uris r = e_uris q \<and>
     e_provenance r = e_provenance q \<and> e_synthetic r = e_synthetic q"

definition record_evaluation ::
    "codec \<Rightarrow> evaluation \<Rightarrow> db \<Rightarrow> error + (db \<times> evaluation_run)" where
  "record_evaluation C q d =
     (let row = evaluation_row C q in
      case find (\<lambda>r. e_key r = e_key row) (evaluations d) of
        Some r \<Rightarrow>
          if same_evaluation row r then Inr (d, r)
          else Inl (Conflict ''evaluation idempotency_key was reused with different inputs'')
      | None \<Rightarrow>
          if list_ex (\<lambda>r. e_id r = e_id row) (evaluations d)
          then Inl (DatabaseError ''evaluation_runs_pkey'')
          else if find_task d (e_task row) = None \<or> find_candidate d (e_candidate row) = None \<or>
                  \<not> list_ex (\<lambda>b. b_id b = e_baseline row) (baselines d)
          then Inl (DatabaseError ''evaluation_runs_fkey'')
          else Inr (d\<lparr>evaluations := evaluations d @ [row]\<rparr>, row))"

end
