(* ===== verification/Walking.thy ===== *)
theory Walking
  imports Session Evaluation JobQueue
begin

text \<open>
  The coordinator of the optimization workflow, src/src/hcuopt/orchestrator/walking.py
  (\<open>WalkingSkeletonCoordinator\<close>). Its handlers are sessions of repository transactions.

  \<open>uuid4()\<close> and \<open>now()\<close> of the transactions a handler starts are the two functions of
  the record \<open>env\<close>, applied to a label of the call. A job is the row the handler was given.
\<close>

record env =
  fresh :: "string \<Rightarrow> uuid"
  clock :: "string \<Rightarrow> time"
  codec_of :: codec

section \<open>Jobs of the workflow\<close>

text \<open>\<open>JobCreate(...)\<close> with its defaults, then \<open>enqueue_job\<close>\<close>

definition enqueue :: "env \<Rightarrow> job_create \<Rightarrow> (db, job) session" where
  "enqueue E q =
     act_then (fetch (\<lambda>_. guard_err (job_create_valid q) (ValueError ''JobCreate'')))
       (transact (enqueue_job (clock E (jc_key q)) (fresh E (jc_key q)) q))"

definition job_request ::
    "uuid \<Rightarrow> job_type \<Rightarrow> worker_type \<Rightarrow> lease_scope \<Rightarrow> string \<Rightarrow> json \<Rightarrow> job_create" where
  "job_request i ty accepts scope key payload =
     \<lparr>jc_task = i, jc_type = ty, jc_accepts = accepts, jc_profile = None, jc_payload = payload,
      jc_key = key, jc_scope = scope, jc_priority = 0, jc_max_attempts = 3\<rparr>"

definition start_after_baseline :: "env \<Rightarrow> uuid \<Rightarrow> baseline \<Rightarrow> (db, job) session" where
  "start_after_baseline E i b =
     enqueue E (job_request i JT_PROFILE W_GPU SCOPE_EXCLUSIVE (i @ '':profile:v1'')
       (jobj [(''task_id'', JStr i), (''baseline_epoch_id'', JStr (b_id b)),
          (''workload_id'', JStr (b_workload b)), (''synthetic'', JBool True)]))"

definition result_of :: "job \<Rightarrow> json" where
  "result_of j = (case j_result j of None \<Rightarrow> JNull | Some v \<Rightarrow> v)"

definition payload_candidate :: "job \<Rightarrow> error + uuid" where
  "payload_candidate j = bind_res (jitem (j_payload j) ''candidate_id'') uuid_of_json"

section \<open>States\<close>

fun task_path :: "task_state \<Rightarrow> error + task_state list" where
  "task_path T_SEARCHING = Inr [T_SEARCHING]"
| "task_path T_EVALUATING = Inr [T_EVALUATING]"
| "task_path T_E2E_VALIDATING = Inr [T_MODEL_VALIDATING, T_E2E_VALIDATING]"
| "task_path T_AWAITING_SIGNOFF = Inr [T_AWAITING_SIGNOFF]"
| "task_path T_REJECTED = Inr [T_REJECTED]"
| "task_path s = Inl (KeyError ''paths'')"

definition step_task :: "uuid \<Rightarrow> task_state \<Rightarrow> (db, unit) session" where
  "step_task i s =
     act_bind (fetch (get_task i)) (\<lambda>t.
       if t_state t = s then ret () else transact (repo_transition_task i s))"

definition ensure_task_state :: "uuid \<Rightarrow> task_state \<Rightarrow> (db, unit) session" where
  "ensure_task_state i target =
     act_bind (fetch (get_task i)) (\<lambda>t.
       if t_state t = target \<or> target < t_state t then ret ()
       else act_bind (fetch (\<lambda>_. task_path target)) (each (step_task i)))"

definition happy_path :: "candidate_state list" where
  "happy_path =
     [C_PROPOSED, C_BUILDING, C_BUILT, C_CORRECTNESS_RUNNING, C_PERFORMANCE_RUNNING,
      C_ROUND_WAITING, C_MODEL_VALIDATING, C_STAGED, C_E2E_RUNNING, C_RELEASE_CANDIDATE]"

text \<open>\<open>happy_path.index(state)\<close>\<close>

definition happy_index :: "candidate_state \<Rightarrow> error + nat" where
  "happy_index s =
     (if s \<in> set happy_path then Inr (index_of happy_path s)
      else Inl (ValueError ''not in happy_path''))"

definition step_candidate :: "uuid \<Rightarrow> candidate_state \<Rightarrow> (db, unit) session" where
  "step_candidate i s = transact (repo_transition_candidate i s)"

definition ensure_candidate_state :: "uuid \<Rightarrow> candidate_state \<Rightarrow> (db, unit) session" where
  "ensure_candidate_state i target =
     act_bind (fetch (get_candidate i)) (\<lambda>c.
       if c_state c = target then ret ()
       else if target = C_REJECTED then step_candidate i target
       else if c_state c \<in> {C_REJECTED, C_BUILD_FAILED} then ret ()
       else act_bind (fetch (\<lambda>_. happy_index (c_state c))) (\<lambda>from.
         act_bind (fetch (\<lambda>_. happy_index target)) (\<lambda>upto.
           if upto \<le> from then ret ()
           else each (step_candidate i) (drop (from + 1) (take (upto + 1) happy_path)))))"

section \<open>Evaluations\<close>

definition fingerprint_payload :: "baseline \<Rightarrow> json" where
  "fingerprint_payload b = jobj
     [(''hardware'', JStr (b_hardware b)), (''software'', JStr (b_software b)),
      (''workload'', JStr (b_workload b)), (''configuration'', JStr (b_configuration b))]"

definition metrics_of :: "json \<Rightarrow> json" where
  "metrics_of result =
     (case result of
        JObj m \<Rightarrow> JObj (fmfilter (\<lambda>k. k \<notin> set [''adapter_provenance'', ''measurement'', ''passed'',
                     ''synthetic'']) m)
      | v \<Rightarrow> v)"

definition load_measurement :: "env \<Rightarrow> string \<Rightarrow> json \<Rightarrow> error + series option" where
  "load_measurement E label result =
     (case jget result ''measurement'' of
        None \<Rightarrow> Inr None
      | Some JNull \<Rightarrow> Inr None
      | Some v \<Rightarrow> bind_res (load_series (codec_of E) (fresh E (''measurement:'' @ label))
                     (clock E (''measurement:'' @ label)) v) (\<lambda>m. Inr (Some m)))"

text \<open>\<open>_evaluation_run\<close>\<close>

definition evaluation_run_of :: "env \<Rightarrow> job \<Rightarrow> phase \<Rightarrow> db \<Rightarrow> error + evaluation" where
  "evaluation_run_of E j ph d =
     (let result = result_of j; key = ''job:'' @ j_id j @ '':evaluation:'' @ phase_value ph in
      bind_res (payload_candidate j) (\<lambda>cid.
      bind_res (get_candidate cid d) (\<lambda>c.
      case get_baseline (j_task j) d of
        None \<Rightarrow> Inl (ValueError ''evaluation requires a frozen baseline'')
      | Some b \<Rightarrow>
          bind_res (jitem result ''adapter_provenance'') (\<lambda>items.
          bind_res (py_items (ValueError ''AdapterProvenance'') items) (\<lambda>items.
          bind_res (map_res (load_provenance (codec_of E)) items) (\<lambda>provs.
          bind_res (load_measurement E key result) (\<lambda>measurement.
          bind_res (jitem result ''synthetic'') (\<lambda>synthetic.
          bind_res
            (if truthy synthetic \<and> ph \<in> {PERFORMANCE, E2E} then Inr None
             else bind_res (jitem result ''passed'') (\<lambda>v. Inr (Some (truthy v)))) (\<lambda>passed.
            make_evaluation
              \<lparr>q_id = fresh E key, q_task = j_task j, q_candidate = cid, q_round = c_round c,
               q_baseline = c_baseline c, q_phase = ph,
               q_protocol = ''fake-v1-control-flow-only'',
               q_fingerprint = ''sha256:'' @ sha256_json (codec_of E) (fingerprint_payload b),
               q_key = key, q_passed = passed, q_metrics = metrics_of result,
               q_measurement = measurement,
               q_uris = [''fake://evaluations/'' @ cid @ ''/'' @ phase_value ph],
               q_provenance = provs, q_synthetic = truthy synthetic\<rparr>)))))))))"

definition evaluate_phase :: "env \<Rightarrow> job \<Rightarrow> phase \<Rightarrow> (db, evaluation_run) session" where
  "evaluate_phase E j ph =
     act_bind (fetch (evaluation_run_of E j ph)) (\<lambda>q. transact (record_evaluation (codec_of E) q))"

section \<open>The handlers\<close>

definition after_profile :: "env \<Rightarrow> job \<Rightarrow> (db, unit) session" where
  "after_profile E j =
     (let i = j_task j; result = result_of j in
      act_bind (fetch (\<lambda>_. bind_res (jitem (j_payload j) ''baseline_epoch_id'') uuid_of_json)) (\<lambda>epoch.
      act_then (transact (record_hotspot (fresh E (''hotspot:'' @ j_id j)) i epoch result))
      (act_then (ensure_task_state i T_SEARCHING)
      (act_bind (fetch (\<lambda>_. jitem (j_payload j) ''baseline_epoch_id'')) (\<lambda>raw.
       act_then (enqueue E (job_request i JT_CANDIDATE_GENERATE W_AGENT SCOPE_NONE
           (i @ '':candidate-generate:round-0:v1'')
           (jobj [(''task_id'', JStr i), (''baseline_epoch_id'', raw), (''hotspot'', result),
              (''synthetic'', JBool True)])))
        (ret ()))))))"

definition start_build :: "env \<Rightarrow> uuid \<Rightarrow> candidate \<Rightarrow> (db, unit) session" where
  "start_build E i c =
     act_then (ensure_candidate_state (c_id c) C_BUILDING)
     (act_then (enqueue E (job_request i JT_BUILD W_BUILD SCOPE_NONE (c_id c @ '':build:v1'')
         (jobj [(''candidate_id'', JStr (c_id c)), (''source_hash'', JStr (c_source_hash c)),
            (''variant'', JStr (c_variant c)), (''synthetic'', JBool True)])))
      (ret ()))"

definition after_candidate_generate :: "env \<Rightarrow> job \<Rightarrow> (db, unit) session" where
  "after_candidate_generate E j =
     (let i = j_task j; result = result_of j in
      act_bind (fetch (\<lambda>_. bind_res (jitem result ''round_id'') uuid_of_json)) (\<lambda>round_id.
      act_bind (fetch (\<lambda>_. bind_res (jitem (j_payload j) ''baseline_epoch_id'') uuid_of_json)) (\<lambda>epoch.
      act_bind (fetch (\<lambda>_. bind_res (jitem result ''candidates'') (py_items TypeError))) (\<lambda>items.
      act_bind (transact (create_candidates i epoch round_id items)) (\<lambda>cs.
      act_then (ensure_task_state i T_EVALUATING) (each (start_build E i) cs))))))"

definition after_build :: "env \<Rightarrow> job \<Rightarrow> (db, unit) session" where
  "after_build E j =
     (let i = j_task j in
      act_bind (fetch (\<lambda>_. payload_candidate j)) (\<lambda>cid.
      act_then (transact (record_artifact (fresh E (''artifact:'' @ j_id j)) i cid (result_of j)))
      (act_then (ensure_candidate_state cid C_CORRECTNESS_RUNNING)
      (act_bind (fetch (get_candidate cid)) (\<lambda>c.
       act_then (enqueue E (job_request i JT_CORRECTNESS W_GPU SCOPE_SHARED
           (cid @ '':correctness:v1'')
           (jobj [(''candidate_id'', JStr cid), (''round_id'', JStr (c_round c)),
              (''variant'', JStr (c_variant c)), (''synthetic'', JBool True)])))
        (ret ()))))))"

definition round_terminal :: "candidate \<Rightarrow> bool" where
  "round_terminal c \<longleftrightarrow> c_state c \<in> {C_ROUND_WAITING, C_REJECTED}"

definition round_winners :: "candidate list \<Rightarrow> candidate list" where
  "round_winners cs = filter (\<lambda>c. c_state c = C_ROUND_WAITING) cs"

definition maybe_finish_round :: "env \<Rightarrow> uuid \<Rightarrow> (db, unit) session" where
  "maybe_finish_round E i =
     act_bind (fetch (\<lambda>d. Inr (list_candidates i d))) (\<lambda>cs.
       if cs = [] then ret ()
       else if list_ex (\<lambda>c. \<not> round_terminal c) cs then ret ()
       else case sort_key c_ordinal (round_winners cs) of
         [] \<Rightarrow> ret ()
       | winner # _ \<Rightarrow>
           act_then (ensure_candidate_state (c_id winner) C_E2E_RUNNING)
           (act_then (ensure_task_state i T_E2E_VALIDATING)
           (act_then (enqueue E (job_request i JT_E2E W_GPU SCOPE_EXCLUSIVE (c_id winner @ '':e2e:v1'')
               (jobj [(''candidate_id'', JStr (c_id winner)),
                  (''variant'', JStr (c_variant winner)), (''synthetic'', JBool True)])))
            (ret ()))))"

definition after_correctness :: "env \<Rightarrow> job \<Rightarrow> (db, unit) session" where
  "after_correctness E j =
     (let i = j_task j in
      act_bind (fetch (\<lambda>_. payload_candidate j)) (\<lambda>cid.
      act_then (evaluate_phase E j CORRECTNESS)
      (act_bind (fetch (\<lambda>_. jitem (result_of j) ''passed'')) (\<lambda>passed.
       act_then
         (if truthy passed
          then act_then (ensure_candidate_state cid C_PERFORMANCE_RUNNING)
            (act_bind (fetch (\<lambda>_. jitem (j_payload j) ''round_id'')) (\<lambda>round_id.
             act_bind (fetch (\<lambda>_. jitem (j_payload j) ''variant'')) (\<lambda>variant.
             act_then (enqueue E (job_request i JT_PERFORMANCE W_GPU SCOPE_EXCLUSIVE
                 (cid @ '':performance:v1'')
                 (jobj [(''candidate_id'', JStr cid), (''round_id'', round_id),
                    (''variant'', variant), (''synthetic'', JBool True)])))
               (ret ()))))
          else ensure_candidate_state cid C_REJECTED)
         (maybe_finish_round E i)))))"

definition after_performance :: "env \<Rightarrow> job \<Rightarrow> (db, unit) session" where
  "after_performance E j =
     (let i = j_task j in
      act_bind (fetch (\<lambda>_. payload_candidate j)) (\<lambda>cid.
      act_then (evaluate_phase E j PERFORMANCE)
      (act_bind (fetch (\<lambda>_. jitem (result_of j) ''passed'')) (\<lambda>passed.
       act_then (ensure_candidate_state cid
           (if truthy passed then C_ROUND_WAITING else C_REJECTED))
         (maybe_finish_round E i)))))"

definition after_e2e :: "env \<Rightarrow> job \<Rightarrow> (db, unit) session" where
  "after_e2e E j =
     (let i = j_task j in
      act_bind (fetch (\<lambda>_. payload_candidate j)) (\<lambda>cid.
      act_then (evaluate_phase E j E2E)
      (act_bind (fetch (\<lambda>_. jitem (result_of j) ''passed'')) (\<lambda>passed.
       if truthy passed
       then act_then (ensure_candidate_state cid C_RELEASE_CANDIDATE)
         (ensure_task_state i T_AWAITING_SIGNOFF)
       else act_then (ensure_candidate_state cid C_REJECTED)
         (ensure_task_state i T_REJECTED)))))"

definition handler :: "env \<Rightarrow> job \<Rightarrow> (db, unit) session" where
  "handler E j =
     (case j_type j of
        JT_PROFILE \<Rightarrow> after_profile E j
      | JT_CANDIDATE_GENERATE \<Rightarrow> after_candidate_generate E j
      | JT_BUILD \<Rightarrow> after_build E j
      | JT_CORRECTNESS \<Rightarrow> after_correctness E j
      | JT_PERFORMANCE \<Rightarrow> after_performance E j
      | JT_E2E \<Rightarrow> after_e2e E j
      | _ \<Rightarrow> fetch (\<lambda>_. Inl (KeyError ''handlers'')))"

definition advance :: "env \<Rightarrow> job \<Rightarrow> (db, unit) session" where
  "advance E j =
     (if j_advanced_at j \<noteq> None then ret ()
      else act_then (handler E j) (transact (mark_job_advanced (clock E (''advanced:'' @ j_id j)) (j_id j))))"

definition reconcile :: "env \<Rightarrow> (db, uuid list) session" where
  "reconcile E =
     act_bind (fetch (\<lambda>d. Inr (unadvanced_succeeded_jobs (Some WF_OPTIMIZATION) 100 d))) (\<lambda>js.
       act_then (each (advance E) js) (ret (map j_id js)))"

end
