(* ===== verification/WalkingInv.thy ===== *)
theory WalkingInv
  imports Walking QueueProps
begin

text \<open>
  What every commit of the coordinator respects: the locales \<open>early_relation\<close> and
  \<open>coordinator_relation\<close> reduce a statement about all commits of all handlers to one
  statement per repository call, and the relations of this theory are their instances.
  Then the functional behaviour of the two sessions the handlers are made of: moving a
  candidate along the happy path and finishing a round.
\<close>

text \<open>The states the coordinator asks for before and after the end-to-end validation.\<close>

definition early_tasks :: "task_state set" where
  "early_tasks = {T_SEARCHING, T_EVALUATING, T_MODEL_VALIDATING, T_E2E_VALIDATING}"

definition late_tasks :: "task_state set" where
  "late_tasks = {T_AWAITING_SIGNOFF, T_REJECTED}"

definition early_candidates :: "candidate_state set" where
  "early_candidates = insert C_REJECTED (set (butlast happy_path))"

lemma task_path_targets: "task_path target = Inr ss \<Longrightarrow> s \<in> set ss \<Longrightarrow> s \<in> early_tasks \<union> late_tasks"
  and task_path_early: "target \<in> early_tasks \<Longrightarrow> task_path target = Inr ss \<Longrightarrow> s \<in> set ss \<Longrightarrow>
    s \<in> early_tasks"
  by (cases target; auto simp: early_tasks_def late_tasks_def)+

lemma happy_slice: "x \<in> set (drop n (take k happy_path)) \<Longrightarrow> x \<in> set happy_path"
  by (blast dest: in_set_dropD in_set_takeD)

lemma happy_slice_early:
  assumes "happy_index target = Inr k" "target \<noteq> C_RELEASE_CANDIDATE"
    and "x \<in> set (drop n (take (Suc k) happy_path))"
  shows "x \<in> early_candidates"
proof -
  have "k < 9" using assms(1,2)
    by (cases target) (auto simp: happy_index_def happy_path_def split: if_splits)
  moreover have "happy_path = butlast happy_path @ [C_RELEASE_CANDIDATE]"
    "length (butlast happy_path) = 9" by (simp_all add: happy_path_def)
  ultimately have "take (Suc k) happy_path = take (Suc k) (butlast happy_path)"
    by (metis Suc_leI take_append take_eq_Nil append_Nil2 diff_is_0_eq)
  with assms(3) show ?thesis
    by (metis early_candidates_def in_set_dropD in_set_takeD insertCI)
qed

section \<open>Interface: a relation that every repository call of the coordinator respects\<close>

text \<open>
  Up to the end-to-end validation, then with the calls after it: each component of the
  argument about the coordinator is an instance of one of the two.
\<close>

locale early_relation = store_relation R for R :: "db \<Rightarrow> db \<Rightarrow> bool" +
  assumes on_task: "repo_transition_task i s d = Inr (d', a) \<Longrightarrow> s \<in> early_tasks \<Longrightarrow> R d d'"
    and on_candidate: "repo_transition_candidate i cs d = Inr (d', a) \<Longrightarrow>
      cs \<in> early_candidates \<Longrightarrow> R d d'"
    and on_job: "enqueue_job now i q d = Inr (d', row) \<Longrightarrow> job_create_valid q \<Longrightarrow> R d d'"
    and on_hotspot: "record_hotspot h i epoch v d = Inr (d', a) \<Longrightarrow> R d d'"
    and on_candidates: "create_candidates i epoch rid items d = Inr (d', rows) \<Longrightarrow> R d d'"
    and on_artifact: "record_artifact h i epoch v d = Inr (d', art) \<Longrightarrow> R d d'"
    and on_evaluation: "record_evaluation C q' d = Inr (d', run) \<Longrightarrow> R d d'"
    and on_advanced: "mark_job_advanced now i d = Inr (d', a) \<Longrightarrow> R d d'"
begin

lemma obeys_enqueue: "obeys (enqueue E q)"
  unfolding enqueue_def by (auto intro!: obeys_intros obeys_transact intro: on_job)

lemma obeys_step_task:
  "(\<And>d d' a. repo_transition_task i s d = Inr (d', a) \<Longrightarrow> R d d') \<Longrightarrow> obeys (step_task i s)"
  unfolding step_task_def by (auto intro!: obeys_intros obeys_transact)

lemma obeys_ensure_task_path:
  "(\<And>ss s. task_path target = Inr ss \<Longrightarrow> s \<in> set ss \<Longrightarrow> obeys (step_task i s)) \<Longrightarrow>
   obeys (ensure_task_state i target)"
  unfolding ensure_task_state_def by (auto intro!: obeys_intros)

lemma obeys_ensure_task: "target \<in> early_tasks \<Longrightarrow> obeys (ensure_task_state i target)"
  by (rule obeys_ensure_task_path, rule obeys_step_task) (blast intro: on_task task_path_early)

lemma obeys_ensure_candidate_path:
  "(\<And>s k n. s = C_REJECTED \<or> happy_index target = Inr k \<and> s \<in> set (drop n (take (Suc k) happy_path)) \<Longrightarrow>
     obeys (step_candidate i s)) \<Longrightarrow> obeys (ensure_candidate_state i target)"
  unfolding ensure_candidate_state_def by (auto intro!: obeys_intros) blast

lemma obeys_ensure_candidate:
  "target \<noteq> C_RELEASE_CANDIDATE \<Longrightarrow> obeys (ensure_candidate_state i target)"
  by (rule obeys_ensure_candidate_path, unfold step_candidate_def, rule obeys_transact, erule on_candidate)
    (auto dest: happy_slice_early simp: early_candidates_def)

lemma obeys_evaluate: "obeys (evaluate_phase E j ph)"
  unfolding evaluate_phase_def by (auto intro!: obeys_intros obeys_transact intro: on_evaluation)

lemma early_task_simps [simp]:
  "T_SEARCHING \<in> early_tasks" "T_EVALUATING \<in> early_tasks" "T_E2E_VALIDATING \<in> early_tasks"
  by (simp_all add: early_tasks_def)

lemma obeys_finish: "obeys (maybe_finish_round E i)"
  unfolding maybe_finish_round_def
  by (auto intro!: obeys_intros obeys_ensure_candidate obeys_ensure_task obeys_enqueue
      split: list.split)

lemma obeys_early_handler: "j_type j \<noteq> JT_E2E \<Longrightarrow> obeys (handler E j)"
  unfolding handler_def after_profile_def after_candidate_generate_def start_build_def
    after_build_def after_correctness_def after_performance_def Let_def
  by (auto split: job_type.split if_splits
      intro!: obeys_intros obeys_transact obeys_ensure_candidate obeys_ensure_task obeys_enqueue
        obeys_evaluate obeys_finish
      intro: on_hotspot on_candidates on_artifact)

lemma obeys_advance_of: "obeys (handler E j) \<Longrightarrow> obeys (advance E j)"
  unfolding advance_def by (auto intro!: obeys_intros obeys_transact intro: on_advanced)

end

locale coordinator_relation = early_relation +
  assumes on_late_task: "repo_transition_task i s d = Inr (d', a) \<Longrightarrow> s \<in> late_tasks \<Longrightarrow> R d d'"
    and on_release: "repo_transition_candidate i C_RELEASE_CANDIDATE d = Inr (d', a) \<Longrightarrow> R d d'"
begin

lemma obeys_any_task: "obeys (ensure_task_state i target)"
  by (rule obeys_ensure_task_path, rule obeys_step_task)
    (blast intro: on_task on_late_task dest: task_path_targets)

lemma obeys_any_candidate: "obeys (ensure_candidate_state i target)"
proof (rule obeys_ensure_candidate_path)
  fix s k n
  assume "s = C_REJECTED \<or> happy_index target = Inr k \<and> s \<in> set (drop n (take (Suc k) happy_path))"
  then have "s \<in> insert C_REJECTED (set happy_path)" by (auto dest: happy_slice)
  then have "s \<in> early_candidates \<or> s = C_RELEASE_CANDIDATE"
    by (auto simp: early_candidates_def happy_path_def)
  then show "obeys (step_candidate i s)"
    unfolding step_candidate_def by (intro obeys_transact) (blast intro: on_candidate on_release)
qed

lemma obeys_handler: "obeys (handler E j)"
proof (cases "j_type j = JT_E2E")
  case True
  then show ?thesis
    unfolding handler_def after_e2e_def Let_def
    by (auto intro!: obeys_intros obeys_evaluate obeys_any_task obeys_any_candidate)
qed (rule obeys_early_handler)

lemma obeys_advance: "obeys (advance E j)"
  by (rule obeys_advance_of) (rule obeys_handler)

lemma obeys_reconcile: "obeys (reconcile E)"
  unfolding reconcile_def by (auto intro!: obeys_intros obeys_advance)

lemma every_commit: "d' \<in> set (commits (advance E j) d) \<Longrightarrow> R d d'"
  using obeys_advance by (simp add: obeys_def)

end

section \<open>The workflow follows the state machines\<close>

text \<open>The edges a workflow may take: all of them but the ones into the signed-off states.\<close>

definition task_edges :: "(task_state \<times> task_state) set" where
  "task_edges = {(a, b). b \<in> set (TASK_TRANSITIONS a) \<and> b \<noteq> T_COMPLETED}"

definition candidate_edges :: "(candidate_state \<times> candidate_state) set" where
  "candidate_edges = {(a, b). b \<in> set (CANDIDATE_TRANSITIONS a) \<and> b \<noteq> C_ACCEPTED}"

definition task_moved :: "task \<Rightarrow> task \<Rightarrow> bool" where
  "task_moved t t' \<longleftrightarrow> (\<exists>s v. t' = t\<lparr>t_state := s, t_version := v\<rparr> \<and> t_version t \<le> v \<and>
     (t_state t, s) \<in> task_edges\<^sup>*)"

definition candidate_moved :: "candidate \<Rightarrow> candidate \<Rightarrow> bool" where
  "candidate_moved c c' \<longleftrightarrow> (\<exists>s. c' = c\<lparr>c_state := s\<rparr> \<and> (c_state c, s) \<in> candidate_edges\<^sup>*)"

definition unique_rows :: "db \<Rightarrow> bool" where
  "unique_rows d \<longleftrightarrow> distinct (map t_id (tasks d)) \<and> distinct (map c_id (candidates d))"

definition follows_graph :: "db \<Rightarrow> db \<Rightarrow> bool" where
  "follows_graph d d' \<longleftrightarrow> (unique_rows d \<longrightarrow> unique_rows d' \<and>
     list_all2 task_moved (tasks d) (tasks d') \<and>
     (\<exists>cs new. candidates d' = cs @ new \<and> list_all2 candidate_moved (candidates d) cs \<and>
        (\<forall>c \<in> set new. (C_PROPOSED, c_state c) \<in> candidate_edges\<^sup>*)))"

lemma task_moved_refl [simp]: "task_moved t t"
  unfolding task_moved_def
  by (rule exI [of _ "t_state t"], rule exI [of _ "t_version t"]) simp

lemma candidate_moved_refl [simp]: "candidate_moved c c"
  unfolding candidate_moved_def by (rule exI [of _ "c_state c"]) simp

lemma task_moved_trans: "task_moved a b \<Longrightarrow> task_moved b c \<Longrightarrow> task_moved a c"
  unfolding task_moved_def by (elim exE conjE) (force intro: rtrancl_trans)

lemma candidate_moved_trans: "candidate_moved a b \<Longrightarrow> candidate_moved b c \<Longrightarrow> candidate_moved a c"
  unfolding candidate_moved_def by (elim exE conjE) (force intro: rtrancl_trans)

lemma list_all2_update:
  assumes "distinct (map key xs)" "find (\<lambda>r. key r = i) xs = Some x" "R x (f x)" "\<And>y. R y y"
  shows "list_all2 R xs (update_where (\<lambda>r. key r = i) f xs)"
  using assms(1,2)
proof (induction xs)
  case (Cons a xs)
  show ?case
  proof (cases "key a = i")
    case True
    with Cons.prems(1) have "update_where (\<lambda>r. key r = i) f xs = xs"
      using head_key [OF Cons.prems(1)] by (intro update_where_id) auto
    with True Cons.prems(2) assms(3,4) show ?thesis by (simp add: list_all2_refl)
  next
    case False
    with Cons assms(4) show ?thesis by simp
  qed
qed simp


lemma follows_graphI:
  assumes "unique_rows d \<Longrightarrow> unique_rows d'"
    and "unique_rows d \<Longrightarrow> list_all2 task_moved (tasks d) (tasks d')"
    and "candidates d' = cs @ new" "unique_rows d \<Longrightarrow> list_all2 candidate_moved (candidates d) cs"
    and "\<And>c. c \<in> set new \<Longrightarrow> (C_PROPOSED, c_state c) \<in> candidate_edges\<^sup>*"
  shows "follows_graph d d'"
  unfolding follows_graph_def using assms by blast

lemma follows_graph_refl: "follows_graph d d"
  by (rule follows_graphI [of _ _ "candidates d" "[]"]) (simp_all add: list_all2_refl)

lemma follows_graph_trans:
  assumes ab: "follows_graph a b" and bc: "follows_graph b c"
  shows "follows_graph a c"
  unfolding follows_graph_def
proof (intro impI)
  assume u: "unique_rows a"
  with ab obtain cs new where AB: "unique_rows b" "list_all2 task_moved (tasks a) (tasks b)"
    "candidates b = cs @ new" "list_all2 candidate_moved (candidates a) cs"
    "\<forall>c \<in> set new. (C_PROPOSED, c_state c) \<in> candidate_edges\<^sup>*"
    by (auto simp: follows_graph_def)
  with bc obtain cs' new' where BC: "unique_rows c" "list_all2 task_moved (tasks b) (tasks c)"
    "candidates c = cs' @ new'" "list_all2 candidate_moved (cs @ new) cs'"
    "\<forall>c \<in> set new'. (C_PROPOSED, c_state c) \<in> candidate_edges\<^sup>*"
    by (auto simp: follows_graph_def)
  from BC(4) obtain xs ys where X: "cs' = xs @ ys" "list_all2 candidate_moved cs xs"
    "list_all2 candidate_moved new ys" by (auto simp: list_all2_append1)
  have tasks: "list_all2 task_moved (tasks a) (tasks c)"
    by (rule list_all2_trans [OF task_moved_trans AB(2) BC(2)])
  have old: "list_all2 candidate_moved (candidates a) xs"
    by (rule list_all2_trans [OF candidate_moved_trans AB(4) X(2)])
  have "(C_PROPOSED, c_state y) \<in> candidate_edges\<^sup>*" if "y \<in> set ys" for y
  proof -
    from that X(3) obtain x where "x \<in> set new" "candidate_moved x y"
      by (metis in_set_conv_nth list_all2_conv_all_nth)
    with AB(5) show ?thesis by (auto simp: candidate_moved_def intro: rtrancl_trans)
  qed
  with BC(1,3,5) X(1) tasks old
  show "unique_rows c \<and> list_all2 task_moved (tasks a) (tasks c) \<and>
     (\<exists>cs new. candidates c = cs @ new \<and> list_all2 candidate_moved (candidates a) cs \<and>
        (\<forall>c \<in> set new. (C_PROPOSED, c_state c) \<in> candidate_edges\<^sup>*))"
    by (intro conjI exI [of _ xs] exI [of _ "ys @ new'"]) auto
qed

lemma follows_graph_same:
  "tasks d' = tasks d \<Longrightarrow> candidates d' = candidates d \<Longrightarrow> follows_graph d d'"
  using follows_graph_refl [of d] by (simp add: follows_graph_def unique_rows_def)

lemma follows_graph_task:
  assumes "repo_transition_task i s d = Inr (d', a)" "s \<in> early_tasks \<union> late_tasks"
  shows "follows_graph d d'"
proof -
  from assms(1) obtain t where t: "find_task d i = Some t" "s \<in> set (TASK_TRANSITIONS (t_state t))"
    "d' = move_task i s d"
    by (auto simp: repo_transition_task_def bind_res_eq_Inr task_fsm.tr_eq_Inr split: option.splits)
  let ?f = "\<lambda>t. t\<lparr>t_state := s, t_version := t_version t + 1\<rparr>"
  have ts: "tasks d' = update_where (\<lambda>t. t_id t = i) ?f (tasks d)"
    by (simp add: t(3) move_task_def set_task_def)
  have "(t_state t, s) \<in> task_edges"
    using t(2) assms(2) by (auto simp: task_edges_def early_tasks_def late_tasks_def)
  then have m: "task_moved t (?f t)"
    unfolding task_moved_def by (intro exI [of _ s] exI [of _ "t_version t + 1"]) simp
  show ?thesis
  proof (rule follows_graphI [of _ _ "candidates d" "[]"])
    assume u: "unique_rows d"
    show "list_all2 task_moved (tasks d) (tasks d')"
      unfolding ts by (rule list_all2_update [of _ _ _ t])
        (use u t(1) m in \<open>simp_all add: unique_rows_def find_task_def\<close>)
    show "unique_rows d'"
      using u by (simp add: unique_rows_def ts map_update_where) (simp add: t(3))
  qed (simp_all add: t(3) list_all2_refl)
qed

lemma follows_graph_candidate:
  assumes "repo_transition_candidate i s d = Inr (d', a)"
    "s \<in> insert C_RELEASE_CANDIDATE early_candidates"
  shows "follows_graph d d'"
proof -
  from assms(1) obtain c where c: "find_candidate d i = Some c"
    "s \<in> set (CANDIDATE_TRANSITIONS (c_state c))" "d' = move_candidate i s d"
    by (auto simp: repo_transition_candidate_def bind_res_eq_Inr candidate_fsm.tr_eq_Inr
        split: option.splits)
  have cs: "candidates d' = update_where (\<lambda>c. c_id c = i) (\<lambda>c. c\<lparr>c_state := s\<rparr>) (candidates d)"
    by (simp add: c(3) move_candidate_def set_candidate_def)
  have "(c_state c, s) \<in> candidate_edges"
    using c(2) assms(2) by (auto simp: candidate_edges_def early_candidates_def happy_path_def)
  then have m: "candidate_moved c (c\<lparr>c_state := s\<rparr>)" by (auto simp: candidate_moved_def)
  show ?thesis
  proof (rule follows_graphI [of _ _ "candidates d'" "[]"])
    assume u: "unique_rows d"
    show "list_all2 candidate_moved (candidates d) (candidates d')"
      unfolding cs by (rule list_all2_update [of _ _ _ c])
        (use u c(1) m in \<open>simp_all add: unique_rows_def find_candidate_def\<close>)
    show "unique_rows d'"
      using u by (simp add: unique_rows_def cs map_update_where) (simp add: c(3))
  qed (simp_all add: c(3) list_all2_refl)
qed

lemma insert_candidate_effect:
  "insert_candidate q d = Inr (d', c) \<Longrightarrow>
   (d' = d \<and> find_candidate d (c_id q) = Some c) \<or>
   (d' = d\<lparr>candidates := candidates d @ [q]\<rparr> \<and> c = q \<and> find_candidate d (c_id q) = None)"
  by (auto simp: insert_candidate_def split: option.splits if_splits)

lemma candidate_row_state: "candidate_row i epoch r item = Inr q \<Longrightarrow> c_state q = C_PROPOSED"
  by (auto simp: candidate_row_def bind_res_eq_Inr)

lemma follows_graph_insert:
  assumes "insert_candidate q d = Inr (d', c)" "c_state q = C_PROPOSED"
  shows "follows_graph d d'"
  using insert_candidate_effect [OF assms(1)]
proof (elim disjE conjE)
  assume d': "d' = d\<lparr>candidates := candidates d @ [q]\<rparr>" and none: "find_candidate d (c_id q) = None"
  show ?thesis
  proof (rule follows_graphI [of _ _ "candidates d" "[q]"])
    assume "unique_rows d"
    with none show "unique_rows d'" by (auto simp: d' unique_rows_def find_candidate_def find_None_iff)
  qed (simp_all add: d' assms(2) list_all2_refl)
qed (simp add: follows_graph_refl)

lemma follows_graph_candidates:
  "create_candidates i epoch r items d = Inr (d', cs) \<Longrightarrow> follows_graph d d'"
proof (induction items arbitrary: d cs)
  case (Cons item items)
  then obtain q d1 c cs' where "candidate_row i epoch r item = Inr q" "insert_candidate q d = Inr (d1, c)"
    "create_candidates i epoch r items d1 = Inr (d', cs')" by (auto simp: bind_res_eq_Inr)
  with Cons.IH follows_graph_insert candidate_row_state follows_graph_trans show ?case by blast
qed (simp add: follows_graph_refl)


section \<open>What the recording operations change\<close>

lemma job_effect:
  "enqueue_job now i q d = Inr (d', row) \<Longrightarrow> d' = d \<or> d' = d\<lparr>jobs := jobs d @ [new_job now i q]\<rparr>"
  by (auto simp: enqueue_job_def Let_def split: option.splits if_splits)

lemma hotspot_effect: "record_hotspot h i epoch v d = Inr (d', a) \<Longrightarrow> \<exists>hs. d' = d\<lparr>hotspots := hs\<rparr>"
  by (auto simp: record_hotspot_def bind_res_eq_Inr split: if_splits)

lemma artifact_effect:
  "record_artifact h i cid v d = Inr (d', a) \<Longrightarrow> \<exists>new. d' = d\<lparr>artifacts := artifacts d @ new\<rparr>"
  by (auto simp: record_artifact_def bind_res_eq_Inr Let_def split: option.splits if_splits
      intro: exI [of _ "[]"])

lemma evaluation_effect:
  "record_evaluation C q d = Inr (d', r) \<Longrightarrow> \<exists>new. d' = d\<lparr>evaluations := evaluations d @ new\<rparr>"
  by (auto simp: record_evaluation_def Let_def split: option.splits if_splits intro: exI [of _ "[]"])

lemma candidates_effect:
  "create_candidates i epoch r items d = Inr (d', cs) \<Longrightarrow> \<exists>new. d' = d\<lparr>candidates := candidates d @ new\<rparr>"
proof (induction items arbitrary: d cs)
  case Nil
  then show ?case by (auto intro: exI [of _ "[]"])
next
  case (Cons item items)
  then obtain q d1 c cs' where "insert_candidate q d = Inr (d1, c)"
    "create_candidates i epoch r items d1 = Inr (d', cs')" by (auto simp: bind_res_eq_Inr)
  moreover from this(2) obtain new where "d' = d1\<lparr>candidates := candidates d1 @ new\<rparr>"
    using Cons.IH by blast
  ultimately show ?case
    using insert_candidate_effect [of q d d1 c] by (auto intro: exI [of _ "q # new"] exI [of _ new])
qed

lemma task_effect: "repo_transition_task i s d = Inr (d', a) \<Longrightarrow> d' = move_task i s d"
  and candidate_effect: "repo_transition_candidate i cs d = Inr (d', a) \<Longrightarrow> d' = move_candidate i cs d"
  by (auto simp: repo_transition_task_def repo_transition_candidate_def bind_res_eq_Inr
      split: option.splits)

lemma advanced_effect:
  "mark_job_advanced now i d = Inr (d', a) \<Longrightarrow>
   d' = set_jobs (\<lambda>j. j_id j = i) (\<lambda>j. j\<lparr>j_advanced_at := Some now\<rparr>) d"
  by (simp add: mark_job_advanced_def)

lemmas effects = job_effect hotspot_effect artifact_effect evaluation_effect candidates_effect
  task_effect candidate_effect advanced_effect

lemma follows_graph_effects:
  "enqueue_job now i q d = Inr (d', row) \<Longrightarrow> follows_graph d d'"
  "record_hotspot h i epoch v d = Inr (d', a) \<Longrightarrow> follows_graph d d'"
  "record_artifact h i cid v d = Inr (d', art) \<Longrightarrow> follows_graph d d'"
  "record_evaluation C q' d = Inr (d', run) \<Longrightarrow> follows_graph d d'"
  "mark_job_advanced now i d = Inr (d', a) \<Longrightarrow> follows_graph d d'"
  by (auto dest!: job_effect hotspot_effect artifact_effect evaluation_effect advanced_effect
      intro!: follows_graph_same)

interpretation graph_walk: coordinator_relation follows_graph
  by unfold_locales
    (blast intro: follows_graph_refl follows_graph_trans follows_graph_task follows_graph_candidate
      follows_graph_candidates follows_graph_effects)+

section \<open>The workflow leaves the queue and the records alone\<close>

definition job_kept :: "job \<Rightarrow> job \<Rightarrow> bool" where
  "job_kept j j' \<longleftrightarrow> (\<exists>a. j' = j\<lparr>j_advanced_at := a\<rparr>)"

definition queue_kept :: "db \<Rightarrow> db \<Rightarrow> bool" where
  "queue_kept d d' \<longleftrightarrow> resources d' = resources d \<and> workers d' = workers d \<and>
     (queue_inv d \<longrightarrow> queue_inv d') \<and>
     (\<exists>js new. jobs d' = js @ new \<and> list_all2 job_kept (jobs d) js \<and>
        (\<forall>j \<in> set new. j_state j = J_QUEUED \<and> j_attempts j = 0))"

definition records_kept :: "db \<Rightarrow> db \<Rightarrow> bool" where
  "records_kept d d' \<longleftrightarrow> baselines d' = baselines d \<and> stage0_reports d' = stage0_reports d \<and>
     (\<exists>new. evaluations d' = evaluations d @ new) \<and> (\<exists>new. artifacts d' = artifacts d @ new)"

lemma job_kept_refl [simp]: "job_kept j j"
  unfolding job_kept_def by (rule exI [of _ "j_advanced_at j"]) simp

lemma job_kept_trans: "job_kept a b \<Longrightarrow> job_kept b c \<Longrightarrow> job_kept a c"
  by (auto simp: job_kept_def)

lemma queue_keptI:
  assumes "resources d' = resources d" "workers d' = workers d" "queue_inv d \<Longrightarrow> queue_inv d'"
    and "jobs d' = js @ new" "list_all2 job_kept (jobs d) js"
    and "\<And>j. j \<in> set new \<Longrightarrow> j_state j = J_QUEUED \<and> j_attempts j = 0"
  shows "queue_kept d d'"
  unfolding queue_kept_def using assms by blast

lemma queue_kept_same:
  "jobs d' = jobs d \<Longrightarrow> resources d' = resources d \<Longrightarrow> workers d' = workers d \<Longrightarrow> queue_kept d d'"
  by (rule queue_keptI [of _ _ "jobs d" "[]"]) (simp_all add: queue_inv_def list_all2_refl)

lemma queue_kept_trans:
  assumes ab: "queue_kept a b" and bc: "queue_kept b c"
  shows "queue_kept a c"
proof -
  from ab obtain js new where AB: "jobs b = js @ new" "list_all2 job_kept (jobs a) js"
    "\<forall>j \<in> set new. j_state j = J_QUEUED \<and> j_attempts j = 0" by (auto simp: queue_kept_def)
  with bc obtain js' new' where BC: "jobs c = js' @ new'" "list_all2 job_kept (js @ new) js'"
    "\<forall>j \<in> set new'. j_state j = J_QUEUED \<and> j_attempts j = 0" by (auto simp: queue_kept_def)
  from BC(2) obtain xs ys where X: "js' = xs @ ys" "list_all2 job_kept js xs" "list_all2 job_kept new ys"
    by (auto simp: list_all2_append1)
  have old: "list_all2 job_kept (jobs a) xs" by (rule list_all2_trans [OF job_kept_trans AB(2) X(2)])
  have "j_state y = J_QUEUED \<and> j_attempts y = 0" if "y \<in> set ys" for y
  proof -
    from that X(3) obtain x where "x \<in> set new" "job_kept x y"
      by (metis in_set_conv_nth list_all2_conv_all_nth)
    with AB(3) show ?thesis by (auto simp: job_kept_def)
  qed
  with BC(1,3) X(1) old have "\<exists>js new. jobs c = js @ new \<and> list_all2 job_kept (jobs a) js \<and>
      (\<forall>j \<in> set new. j_state j = J_QUEUED \<and> j_attempts j = 0)"
    by (intro exI [of _ xs] exI [of _ "ys @ new'"]) auto
  with ab bc show ?thesis by (auto simp: queue_kept_def)
qed

lemma queue_kept_job:
  assumes "enqueue_job now i q d = Inr (d', row)" "job_create_valid q"
  shows "queue_kept d d'"
  using job_effect [OF assms(1)]
proof
  assume d': "d' = d\<lparr>jobs := jobs d @ [new_job now i q]\<rparr>"
  have "queue_inv d \<Longrightarrow> queue_inv d'"
    using enqueue_job_inv [OF _ _ assms(1)] assms(2) by (simp add: job_create_valid_def)
  then show ?thesis
    by (intro queue_keptI [of _ _ "jobs d" "[new_job now i q]"])
      (simp_all add: d' new_job_def list_all2_refl)
qed (simp add: queue_kept_same)

lemma queue_kept_advanced:
  assumes "mark_job_advanced now i d = Inr (d', a)"
  shows "queue_kept d d'"
proof -
  note d' = advanced_effect [OF assms]
  have "list_all2 job_kept js (update_where (\<lambda>j. j_id j = i) (\<lambda>j. j\<lparr>j_advanced_at := Some now\<rparr>) js)" for js
    by (induction js) (simp_all, simp add: job_kept_def, blast)
  moreover have "queue_inv d \<Longrightarrow> queue_inv d'" using mark_job_advanced_inv assms by blast
  ultimately show ?thesis
    by (intro queue_keptI [of _ _ "jobs d'" "[]"]) (simp_all add: d')
qed

lemma queue_kept_effects:
  "repo_transition_task i s d = Inr (d', a) \<Longrightarrow> queue_kept d d'"
  "repo_transition_candidate i cs d = Inr (d', a) \<Longrightarrow> queue_kept d d'"
  "record_hotspot h i epoch v d = Inr (d', a) \<Longrightarrow> queue_kept d d'"
  "create_candidates i epoch rid items d = Inr (d', rows) \<Longrightarrow> queue_kept d d'"
  "record_artifact h i epoch v d = Inr (d', art) \<Longrightarrow> queue_kept d d'"
  "record_evaluation C q' d = Inr (d', run) \<Longrightarrow> queue_kept d d'"
  by (auto dest!: task_effect candidate_effect hotspot_effect candidates_effect artifact_effect
      evaluation_effect intro!: queue_kept_same)

interpretation queue_walk: coordinator_relation queue_kept
  by unfold_locales
    (blast intro: queue_kept_same queue_kept_trans queue_kept_job queue_kept_advanced
      queue_kept_effects)+

lemma records_kept_effects:
  "repo_transition_task i s d = Inr (d', a) \<Longrightarrow> records_kept d d'"
  "repo_transition_candidate i cs d = Inr (d', a) \<Longrightarrow> records_kept d d'"
  "enqueue_job now i q d = Inr (d', row) \<Longrightarrow> records_kept d d'"
  "record_hotspot h i epoch v d = Inr (d', a) \<Longrightarrow> records_kept d d'"
  "create_candidates i epoch rid items d = Inr (d', rows) \<Longrightarrow> records_kept d d'"
  "record_artifact h i epoch v d = Inr (d', art) \<Longrightarrow> records_kept d d'"
  "record_evaluation C q' d = Inr (d', run) \<Longrightarrow> records_kept d d'"
  "mark_job_advanced now i d = Inr (d', a) \<Longrightarrow> records_kept d d'"
  by (auto dest!: effects simp: records_kept_def move_task_def move_candidate_def set_task_def
      set_candidate_def set_jobs_def)

interpretation records_walk: coordinator_relation records_kept
  by unfold_locales
    (auto simp: records_kept_def [of d d for d] intro: records_kept_effects, auto simp: records_kept_def)


section \<open>No release without its end-to-end evaluation\<close>

definition e2e_evaluated :: "uuid \<Rightarrow> uuid \<Rightarrow> db \<Rightarrow> bool" where
  "e2e_evaluated i cid d \<longleftrightarrow>
     (\<exists>e \<in> set (evaluations d). e_phase e = ''e2e'' \<and> e_task e = i \<and> e_candidate e = cid)"

definition release_ok :: "db \<Rightarrow> bool" where
  "release_ok d \<longleftrightarrow>
     (\<forall>c \<in> set (candidates d). c_state c = C_RELEASE_CANDIDATE \<longrightarrow> (\<exists>i. e2e_evaluated i (c_id c) d)) \<and>
     (\<forall>t \<in> set (tasks d). t_state t = T_AWAITING_SIGNOFF \<longrightarrow> (\<exists>cid. e2e_evaluated (t_id t) cid d))"

definition release_step :: "uuid \<Rightarrow> uuid \<Rightarrow> db \<Rightarrow> db \<Rightarrow> bool" where
  "release_step i cid d d' \<longleftrightarrow> (release_ok d \<longrightarrow> release_ok d') \<and>
     (release_ok d \<and> e2e_evaluated i cid d \<longrightarrow> e2e_evaluated i cid d')"

lemma e2e_mono:
  "set (evaluations d) \<subseteq> set (evaluations d') \<Longrightarrow> e2e_evaluated i cid d \<Longrightarrow> e2e_evaluated i cid d'"
  by (auto simp: e2e_evaluated_def)

text \<open>A step that adds evaluations at most, and moves no row into one of the two states.\<close>

lemma release_stepI:
  assumes ev: "set (evaluations d) \<subseteq> set (evaluations d')"
    and c: "\<And>c'. c' \<in> set (candidates d') \<Longrightarrow> c_state c' = C_RELEASE_CANDIDATE \<Longrightarrow>
      \<exists>c \<in> set (candidates d). c_id c = c_id c' \<and> c_state c = C_RELEASE_CANDIDATE"
    and t: "\<And>t'. t' \<in> set (tasks d') \<Longrightarrow> t_state t' = T_AWAITING_SIGNOFF \<Longrightarrow>
      \<exists>t \<in> set (tasks d). t_id t = t_id t' \<and> t_state t = T_AWAITING_SIGNOFF"
  shows "release_step i cid d d'"
proof -
  have "release_ok d'" if "release_ok d"
    unfolding release_ok_def
  proof (intro conjI ballI impI)
    fix x assume "x \<in> set (candidates d')" "c_state x = C_RELEASE_CANDIDATE"
    from c [OF this] that show "\<exists>i. e2e_evaluated i (c_id x) d'"
      unfolding release_ok_def using e2e_mono [OF ev] by metis
  next
    fix x assume "x \<in> set (tasks d')" "t_state x = T_AWAITING_SIGNOFF"
    from t [OF this] that show "\<exists>cid. e2e_evaluated (t_id x) cid d'"
      unfolding release_ok_def using e2e_mono [OF ev] by metis
  qed
  with e2e_mono [OF ev] show ?thesis by (auto simp: release_step_def)
qed

lemma release_step_same:
  "set (evaluations d) \<subseteq> set (evaluations d') \<Longrightarrow> candidates d' = candidates d \<Longrightarrow>
   tasks d' = tasks d \<Longrightarrow> release_step i cid d d'"
  by (rule release_stepI) auto

lemma release_step_task:
  assumes "repo_transition_task k s d = Inr (d', a)"
    and "s = T_AWAITING_SIGNOFF \<Longrightarrow> k = i \<and> e2e_evaluated i cid d"
  shows "release_step i cid d d'"
proof -
  have d': "d' = move_task k s d" by (rule task_effect [OF assms(1)])
  have ts: "tasks d' = update_where (\<lambda>t. t_id t = k)
      (\<lambda>t. t\<lparr>t_state := s, t_version := t_version t + 1\<rparr>) (tasks d)"
    by (simp add: d' move_task_def set_task_def)
  have same: "evaluations d' = evaluations d" "candidates d' = candidates d"
    by (simp_all add: d' move_task_def set_task_def)
  show ?thesis
  proof (cases "s = T_AWAITING_SIGNOFF")
    case False
    then show ?thesis
      by (intro release_stepI) (auto simp: same ts update_where_mem split: if_splits)
  next
    case True
    with assms(2) have k: "k = i" "e2e_evaluated i cid d" by simp_all
    have e: "e2e_evaluated x y d' = e2e_evaluated x y d" for x y
      by (simp add: e2e_evaluated_def same)
    have "release_ok d'" if "release_ok d"
      using that k unfolding release_ok_def e same ts
      by (auto simp: update_where_mem split: if_splits) blast
    then show ?thesis by (simp add: release_step_def e)
  qed
qed

lemma release_step_candidate:
  assumes "repo_transition_candidate k s d = Inr (d', a)"
    and "s = C_RELEASE_CANDIDATE \<Longrightarrow> k = cid \<and> e2e_evaluated i cid d"
  shows "release_step i cid d d'"
proof -
  have d': "d' = move_candidate k s d" by (rule candidate_effect [OF assms(1)])
  have cs: "candidates d' = update_where (\<lambda>c. c_id c = k) (\<lambda>c. c\<lparr>c_state := s\<rparr>) (candidates d)"
    by (simp add: d' move_candidate_def set_candidate_def)
  have same: "evaluations d' = evaluations d" "tasks d' = tasks d"
    by (simp_all add: d' move_candidate_def set_candidate_def)
  show ?thesis
  proof (cases "s = C_RELEASE_CANDIDATE")
    case False
    then show ?thesis
      by (intro release_stepI) (auto simp: same cs update_where_mem split: if_splits)
  next
    case True
    with assms(2) have k: "k = cid" "e2e_evaluated i cid d" by simp_all
    have e: "e2e_evaluated x y d' = e2e_evaluated x y d" for x y
      by (simp add: e2e_evaluated_def same)
    have "release_ok d'" if "release_ok d"
      using that k unfolding release_ok_def e same cs
      by (auto simp: update_where_mem split: if_splits) blast
    then show ?thesis by (simp add: release_step_def e)
  qed
qed

lemma created_proposed:
  assumes "create_candidates i epoch r items d = Inr (d', cs)" "c \<in> set (candidates d')"
  shows "c \<in> set (candidates d) \<or> c_state c = C_PROPOSED"
  using assms
proof (induction items arbitrary: d cs)
  case (Cons item items)
  from Cons.prems(1) obtain q d1 x cs' where "candidate_row i epoch r item = Inr q"
    "insert_candidate q d = Inr (d1, x)"
    "create_candidates i epoch r items d1 = Inr (d', cs')" by (auto simp: bind_res_eq_Inr)
  with Cons.IH [OF this(3) Cons.prems(2)] insert_candidate_effect [of q d d1 x]
    candidate_row_state show ?case by auto
qed simp

lemma release_step_candidates:
  assumes "create_candidates k epoch r items d = Inr (d', cs)"
  shows "release_step i cid d d'"
proof -
  from candidates_effect [OF assms] obtain new where d': "d' = d\<lparr>candidates := candidates d @ new\<rparr>" ..
  show ?thesis
  proof (rule release_stepI)
    fix c assume c: "c \<in> set (candidates d')" "c_state c = C_RELEASE_CANDIDATE"
    from created_proposed [OF assms c(1)] c(2) show "\<exists>x \<in> set (candidates d). c_id x = c_id c \<and>
        c_state x = C_RELEASE_CANDIDATE" by auto
  qed (auto simp: d')
qed

lemma release_step_effects:
  "enqueue_job now k q d = Inr (d', row) \<Longrightarrow> release_step i cid d d'"
  "record_hotspot h k epoch v d = Inr (d', a) \<Longrightarrow> release_step i cid d d'"
  "record_artifact h k cid' v d = Inr (d', art) \<Longrightarrow> release_step i cid d d'"
  "record_evaluation C q' d = Inr (d', run) \<Longrightarrow> release_step i cid d d'"
  "mark_job_advanced now k d = Inr (d', a) \<Longrightarrow> release_step i cid d d'"
  by (auto dest!: job_effect hotspot_effect artifact_effect evaluation_effect advanced_effect
      simp: set_jobs_def intro!: release_step_same)

lemma early_states: "s \<in> early_tasks \<Longrightarrow> s \<noteq> T_AWAITING_SIGNOFF"
  "cs \<in> early_candidates \<Longrightarrow> cs \<noteq> C_RELEASE_CANDIDATE"
  by (auto simp: early_tasks_def early_candidates_def happy_path_def)

interpretation release: early_relation "release_step i cid" for i cid
proof
  show "release_step i cid d d" for d by (simp add: release_step_def)
  show "release_step i cid a b \<Longrightarrow> release_step i cid b c \<Longrightarrow> release_step i cid a c" for a b c
    by (auto simp: release_step_def)
qed (blast intro: release_step_task release_step_candidate release_step_candidates
      release_step_effects dest: early_states)+


lemma evaluated_after:
  assumes "outcome (evaluate_phase E j E2E) d = Inr r" "payload_candidate j = Inr cid"
  shows "e2e_evaluated (j_task j) cid (after (evaluate_phase E j E2E) d)"
proof -
  from assms(1) obtain q d1 where q: "evaluation_run_of E j E2E d = Inr q"
    "record_evaluation (codec_of E) q d = Inr (d1, r)"
    by (auto simp: evaluate_phase_def outcome_bind_Inr)
  have row: "q_task q = j_task j" "q_candidate q = cid" "q_phase q = E2E"
    using q(1) assms(2)
    by (auto simp: evaluation_run_of_def Let_def bind_res_eq_Inr make_evaluation_def
        split: option.splits if_splits)
  have "\<exists>e \<in> set (evaluations d1). e_phase e = ''e2e'' \<and> e_task e = j_task j \<and> e_candidate e = cid"
    using q(2) row by (auto simp: record_evaluation_def Let_def evaluation_row_def same_evaluation_def
        split: option.splits if_splits)
  moreover have "after (evaluate_phase E j E2E) d = d1"
    by (simp add: evaluate_phase_def after_bind q(1)) (simp add: q(2))
  ultimately show ?thesis by (simp add: e2e_evaluated_def)
qed

text \<open>Once the end-to-end evaluation of the candidate is there, its last moves are safe.\<close>

definition late_step :: "uuid \<Rightarrow> uuid \<Rightarrow> db \<Rightarrow> db \<Rightarrow> bool" where
  "late_step i cid d d' \<longleftrightarrow>
     (release_ok d \<and> e2e_evaluated i cid d \<longrightarrow> release_ok d' \<and> e2e_evaluated i cid d')"

interpretation late: store_relation "late_step i cid" for i cid
  by unfold_locales (auto simp: late_step_def)

lemma late_task: "repo_transition_task i s d = Inr (d', x) \<Longrightarrow> late_step i cid d d'"
  using release_step_task [of i s d d' x i cid] by (auto simp: late_step_def release_step_def)

lemma late_candidate: "repo_transition_candidate cid s d = Inr (d', x) \<Longrightarrow> late_step i cid d d'"
  using release_step_candidate [of cid s d d' x cid i] by (auto simp: late_step_def release_step_def)

lemma late_sessions:
  "late.obeys i cid (ensure_task_state i t)" "late.obeys i cid (ensure_candidate_state cid s)"
  unfolding ensure_task_state_def ensure_candidate_state_def step_task_def step_candidate_def
  by (auto intro!: late.obeys_intros late.obeys_transact) (erule late_task late_candidate)+

lemma e2e_late:
  assumes "e2e_evaluated i cid d" "release_ok d"
    and "d' \<in> set (commits (act_then (ensure_candidate_state cid s) (ensure_task_state i t)) d)"
  shows "release_ok d'"
proof -
  have "late.obeys i cid (act_then (ensure_candidate_state cid s) (ensure_task_state i t))"
    by (rule late.obeys_then [OF late_sessions(2,1)])
  with assms(3) have "late_step i cid d d'" by (simp only: late.obeys_def)
  with assms(1,2) show ?thesis by (simp only: late_step_def)
qed

lemma e2e_handler:
  assumes "release_ok d" "d' \<in> set (commits (after_e2e E j) d)"
  shows "release_ok d'"
proof -
  let ?ev = "evaluate_phase E j E2E"
  from assms(2) obtain cid where cid: "payload_candidate j = Inr cid"
    by (auto simp: after_e2e_def Let_def commits_bind_mem)
  have ev: "release_ok x" if "x \<in> set (commits ?ev d)" for x
    using release.obeys_evaluate [of "[]" "[]" E j E2E] assms(1) that
    by (auto simp: release.obeys_def release_step_def)
  have ok: "release_ok (after ?ev d)" using after_mem [of ?ev d] ev assms(1) by auto
  from assms(2) consider "d' \<in> set (commits ?ev d)"
    | r s t where "outcome ?ev d = Inr r" "d' \<in> set (commits
        (act_then (ensure_candidate_state cid s) (ensure_task_state (j_task j) t)) (after ?ev d))"
    by (auto simp: after_e2e_def Let_def cid commits_bind_mem [of _ "fetch _"]
        commits_bind_mem [of _ ?ev] split: if_splits)
  then show ?thesis
    using ev e2e_late [OF evaluated_after [OF _ cid] ok] by cases blast+
qed

lemma release_every_commit:
  assumes "release_ok d" "d' \<in> set (commits (advance E j) d)"
  shows "release_ok d'"
proof -
  have h: "release_ok x" if "x \<in> set (commits (handler E j) d)" for x
  proof (cases "j_type j = JT_E2E")
    case True
    with that assms(1) show ?thesis by (auto simp: handler_def intro: e2e_handler)
  next
    case False
    from release.obeys_early_handler [OF this, of "[]" "[]" E] assms(1) that show ?thesis
      by (auto simp: release.obeys_def release_step_def)
  qed
  have "release_ok (after (handler E j) d)" using after_mem [of "handler E j" d] h assms(1) by auto
  with release_step_effects(5) assms(2) h show ?thesis
    by (fastforce simp: advance_def commits_bind_mem release_step_def split: if_splits)
qed


section \<open>Moving a candidate along the happy path\<close>

lemma repo_candidate_step:
  "find_candidate d i = Some c \<Longrightarrow> s \<in> set (CANDIDATE_TRANSITIONS (c_state c)) \<Longrightarrow>
   repo_transition_candidate i s d = Inr (move_candidate i s d, ())"
  by (simp add: repo_transition_candidate_def candidate_fsm.granted)

lemma each_candidate:
  "find_candidate d i = Some c \<Longrightarrow> run_transitions transition_candidate (c_state c) ss = Inr u \<Longrightarrow>
   outcome (each (step_candidate i) ss) d = Inr () \<and>
   find_candidate (after (each (step_candidate i) ss) d) i = Some (c\<lparr>c_state := u\<rparr>) \<and>
   length (commits (each (step_candidate i) ss) d) = length ss \<and>
   (\<forall>d' \<in> set (commits (each (step_candidate i) ss) d). \<exists>s \<in> set ss.
      find_candidate d' i = Some (c\<lparr>c_state := s\<rparr>)) \<and>
   (ss \<noteq> [] \<longrightarrow> hd (commits (each (step_candidate i) ss) d) = move_candidate i (hd ss) d)"
proof (induction ss arbitrary: d c)
  case Nil
  then show ?case by simp
next
  case (Cons s ss)
  from Cons.prems(2) have s: "s \<in> set (CANDIDATE_TRANSITIONS (c_state c))"
    "run_transitions transition_candidate s ss = Inr u"
    by (auto simp: bind_res_eq_Inr candidate_fsm.tr_eq_Inr)
  let ?d = "move_candidate i s d"
  have f: "find_candidate ?d i = Some (c\<lparr>c_state := s\<rparr>)"
    using Cons.prems(1) by (auto dest: find_SomeD'(5))
  note step = repo_candidate_step [OF Cons.prems(1) s(1)]
  from Cons.IH [OF f] s(2) show ?case
    by (simp add: step_candidate_def [of i s] outcome_bind after_bind commits_bind transact_eval step f
        del: find_candidate_move)
qed

lemma happy_runs:
  "list_all (\<lambda>s. list_all (\<lambda>t.
     index_of happy_path t \<le> index_of happy_path s \<or>
     run_transitions transition_candidate s (drop (Suc (index_of happy_path s))
       (take (Suc (index_of happy_path t)) happy_path)) = Inr t) happy_path) happy_path"
  by code_simp

lemma happy_run:
  "s \<in> set happy_path \<Longrightarrow> t \<in> set happy_path \<Longrightarrow> index_of happy_path s < index_of happy_path t \<Longrightarrow>
   run_transitions transition_candidate s (drop (Suc (index_of happy_path s))
     (take (Suc (index_of happy_path t)) happy_path)) = Inr t"
  using happy_runs unfolding list_all_iff by (metis not_less)

lemma index_inject: "index_of xs x = index_of xs y \<Longrightarrow> x \<in> set xs \<Longrightarrow> y \<in> set xs \<Longrightarrow> x = y"
  by (induction xs) (auto split: if_splits)

lemma ensure_candidate_moves:
  assumes c: "find_candidate d i = Some c" and s: "c_state c \<in> set happy_path" "t \<in> set happy_path"
    and lt: "index_of happy_path (c_state c) < index_of happy_path t"
  shows "ensure_candidate_state i t d =
    each (step_candidate i) (drop (Suc (index_of happy_path (c_state c)))
      (take (Suc (index_of happy_path t)) happy_path)) d"
proof -
  have "c_state c \<noteq> t" "t \<noteq> C_REJECTED" "c_state c \<notin> {C_REJECTED, C_BUILD_FAILED}"
    using s lt by (auto simp: happy_path_def)
  then show ?thesis
    using c s lt by (simp add: ensure_candidate_state_def act_bind_def fetch_def get_candidate_def
        happy_index_def)
qed

lemma ensure_candidate_stays:
  assumes c: "find_candidate d i = Some c"
    and s: "(c_state c \<in> set happy_path \<and> t \<in> set happy_path \<and>
        index_of happy_path t \<le> index_of happy_path (c_state c)) \<or>
      (c_state c \<in> {C_REJECTED, C_BUILD_FAILED} \<and> t \<noteq> C_REJECTED) \<or> c_state c = t"
  shows "ensure_candidate_state i t d = ([], Inr ())"
proof -
  have "t \<noteq> C_REJECTED" if "c_state c \<noteq> t" using s that by (auto simp: happy_path_def)
  then show ?thesis
    using c s by (auto simp: ensure_candidate_state_def act_bind_def fetch_def get_candidate_def
        happy_index_def ret_def)
qed

section \<open>Sessions that touch one table\<close>

definition only_tasks :: "db \<Rightarrow> db \<Rightarrow> bool" where
  "only_tasks d d' \<longleftrightarrow> (\<exists>ts. d' = d\<lparr>tasks := ts\<rparr>)"

definition only_jobs :: "db \<Rightarrow> db \<Rightarrow> bool" where
  "only_jobs d d' \<longleftrightarrow> (\<exists>js. d' = d\<lparr>jobs := js\<rparr>)"

definition only_candidate :: "uuid \<Rightarrow> db \<Rightarrow> db \<Rightarrow> bool" where
  "only_candidate i d d' \<longleftrightarrow> (\<exists>cs. d' = d\<lparr>candidates := cs\<rparr> \<and>
     list_all2 (\<lambda>c c'. c' = c \<or> (c_id c = i \<and> (\<exists>s. c' = c\<lparr>c_state := s\<rparr>))) (candidates d) cs)"

interpretation only_tasks: store_relation only_tasks
proof
  show "only_tasks d d" for d unfolding only_tasks_def by (rule exI [of _ "tasks d"]) simp
qed (auto simp: only_tasks_def)

interpretation only_jobs: store_relation only_jobs
proof
  show "only_jobs d d" for d unfolding only_jobs_def by (rule exI [of _ "jobs d"]) simp
qed (auto simp: only_jobs_def)

interpretation only_candidate: store_relation "only_candidate i" for i
proof
  show "only_candidate i d d" for d
    unfolding only_candidate_def
    by (rule exI [of _ "candidates d"]) (simp add: list_all2_refl)
  show "only_candidate i a c" if "only_candidate i a b" "only_candidate i b c" for a b c
  proof -
    let ?P = "\<lambda>c c'. c' = c \<or> (c_id c = i \<and> (\<exists>s. c' = c\<lparr>c_state := s\<rparr>))"
    from that obtain bs cs where "b = a\<lparr>candidates := bs\<rparr>" "list_all2 ?P (candidates a) bs"
      "c = a\<lparr>candidates := cs\<rparr>" "list_all2 ?P bs cs" by (auto simp: only_candidate_def)
    moreover from this(2,4) have "list_all2 ?P (candidates a) cs"
      by (rule list_all2_trans [rotated]) auto
    ultimately show ?thesis by (auto simp: only_candidate_def)
  qed
qed

lemma move_task_only: "only_tasks d (move_task i s d)"
  unfolding only_tasks_def move_task_def set_task_def by (rule exI) (rule refl)

lemma add_job_only: "only_jobs d (d\<lparr>jobs := js\<rparr>)"
  unfolding only_jobs_def by (rule exI) (rule refl)

lemma task_session_only: "only_tasks.obeys (ensure_task_state i t)"
  unfolding ensure_task_state_def step_task_def
  by (auto intro!: only_tasks.obeys_intros only_tasks.obeys_transact move_task_only
      dest!: task_effect)

lemma enqueue_only: "only_jobs.obeys (enqueue E q)"
  unfolding enqueue_def
  by (auto intro!: only_jobs.obeys_intros only_jobs.obeys_transact add_job_only only_jobs.rel_refl
      dest!: job_effect)

lemma candidate_session_only: "only_candidate.obeys i (ensure_candidate_state i t)"
proof -
  have "only_candidate i d (move_candidate i s d)" for s d
    unfolding only_candidate_def move_candidate_def set_candidate_def
    by (rule exI, rule conjI, rule refl) (auto simp: update_where_def list_all2_map2 intro!: list_all2_refl)
  then show ?thesis
    unfolding ensure_candidate_state_def step_candidate_def
    by (auto intro!: only_candidate.obeys_intros only_candidate.obeys_transact dest!: candidate_effect)
qed


section \<open>Finishing a round\<close>

definition round_winner :: "uuid \<Rightarrow> db \<Rightarrow> candidate option" where
  "round_winner i d =
     (let cs = list_candidates i d in
      if list_ex (\<lambda>c. \<not> round_terminal c) cs then None
      else argmin c_ordinal (round_winners cs))"

lemma argmin_sort_key: "argmin key xs = (case sort_key key xs of [] \<Rightarrow> None | x # _ \<Rightarrow> Some x)"
proof (induction xs)
  case (Cons a xs)
  show ?case
  proof (cases "sort_key key xs")
    case Nil
    then have "xs = []" by (metis length_0_conv length_sort)
    then show ?thesis by simp
  next
    case (Cons b bs)
    with Cons.IH show ?thesis by simp
  qed
qed simp

lemma maybe_finish_round_winner:
  "maybe_finish_round E i d =
     (case round_winner i d of
        None \<Rightarrow> ([], Inr ())
      | Some w \<Rightarrow> act_then (ensure_candidate_state (c_id w) C_E2E_RUNNING)
           (act_then (ensure_task_state i T_E2E_VALIDATING)
           (act_then (enqueue E (job_request i JT_E2E W_GPU SCOPE_EXCLUSIVE (c_id w @ '':e2e:v1'')
               (jobj [(''candidate_id'', JStr (c_id w)),
                  (''variant'', JStr (c_variant w)), (''synthetic'', JBool True)])))
            (ret ()))) d)"
  by (auto simp: maybe_finish_round_def round_winner_def Let_def argmin_sort_key round_winners_def
      act_bind_def [of "fetch _"] fetch_def ret_def split: list.split)

lemma round_winnerD:
  assumes "round_winner i d = Some w"
  shows "w \<in> set (candidates d)" "c_task w = i" "c_state w = C_ROUND_WAITING"
    "\<And>c. c \<in> set (candidates d) \<Longrightarrow> c_task c = i \<Longrightarrow> round_terminal c"
    "\<And>c. c \<in> set (candidates d) \<Longrightarrow> c_task c = i \<Longrightarrow> c_state c = C_ROUND_WAITING \<Longrightarrow> c_ordinal w \<le> c_ordinal c"
  using assms argmin_mem [of c_ordinal "round_winners (list_candidates i d)" w]
    argmin_le [of c_ordinal "round_winners (list_candidates i d)" w]
  by (auto simp: round_winner_def Let_def round_winners_def list_candidates_def list_ex_iff
      split: if_splits)


lemma winner_found: "unique_rows d \<Longrightarrow> round_winner i d = Some w \<Longrightarrow> find_candidate d (c_id w) = Some w"
  unfolding find_candidate_def unique_rows_def by (rule find_key_unique) (auto dest: round_winnerD)

lemma winner_moves:
  assumes "unique_rows d" "round_winner i d = Some w"
  shows "ensure_candidate_state (c_id w) C_E2E_RUNNING d =
    each (step_candidate (c_id w)) [C_MODEL_VALIDATING, C_STAGED, C_E2E_RUNNING] d"
  using ensure_candidate_moves [OF winner_found [OF assms], of C_E2E_RUNNING]
    round_winnerD(3) [OF assms(2)] by (simp add: happy_path_def)

lemma winner_run:
  "c_state w = C_ROUND_WAITING \<Longrightarrow> run_transitions transition_candidate (c_state w)
     [C_MODEL_VALIDATING, C_STAGED, C_E2E_RUNNING] = Inr C_E2E_RUNNING"
  by (simp add: transition_candidate_def transition_def)

lemma act_bind_cong: "m d = m' d \<Longrightarrow> act_bind m f d = act_bind m' f d"
  by (simp add: act_bind_def)

definition chosen :: "uuid \<Rightarrow> candidate \<Rightarrow> db \<Rightarrow> bool" where
  "chosen i w d \<longleftrightarrow> (\<exists>s \<in> {C_MODEL_VALIDATING, C_STAGED, C_E2E_RUNNING}.
     find_candidate d (c_id w) = Some (w\<lparr>c_state := s\<rparr>))"

lemma chosen_no_winner: "c_task w = i \<Longrightarrow> chosen i w d \<Longrightarrow> round_winner i d = None"
proof -
  assume w: "c_task w = i" and "chosen i w d"
  then obtain s where "w\<lparr>c_state := s\<rparr> \<in> set (candidates d)" "s \<notin> {C_ROUND_WAITING, C_REJECTED}"
    by (auto simp: chosen_def dest!: find_SomeD'(5))
  with w have "list_ex (\<lambda>c. \<not> round_terminal c) (list_candidates i d)"
    by (auto simp: list_ex_iff list_candidates_def round_terminal_def
        intro!: bexI [of _ "w\<lparr>c_state := s\<rparr>"])
  then show ?thesis by (simp add: round_winner_def Let_def)
qed

lemma finish_commits:
  assumes u: "unique_rows d" and w: "round_winner i d = Some w"
  shows "d' \<in> set (commits (maybe_finish_round E i) d) \<Longrightarrow> chosen i w d'"
    and "hd (commits (maybe_finish_round E i) d) = move_candidate (c_id w) C_MODEL_VALIDATING d"
    and "commits (maybe_finish_round E i) d \<noteq> []"
proof -
  let ?c = "each (step_candidate (c_id w)) [C_MODEL_VALIDATING, C_STAGED, C_E2E_RUNNING]"
  let ?t = "ensure_task_state i T_E2E_VALIDATING"
  let ?q = "job_request i JT_E2E W_GPU SCOPE_EXCLUSIVE (c_id w @ '':e2e:v1'')
     (jobj [(''candidate_id'', JStr (c_id w)), (''variant'', JStr (c_variant w)),
        (''synthetic'', JBool True)])"
  have m: "maybe_finish_round E i d = act_then ?c (act_then ?t (act_then (enqueue E ?q) (ret ()))) d"
    unfolding maybe_finish_round_winner w option.case
    by (rule act_bind_cong) (rule winner_moves [OF u w])
  note run = each_candidate [OF winner_found [OF u w] winner_run [OF round_winnerD(3) [OF w]]]
  have ch: "chosen i w x" if "x \<in> set (commits ?c d)" for x
    using run that by (auto simp: chosen_def)
  have fin: "chosen i w (after ?c d)" using run by (auto simp: chosen_def)
  have keep: "chosen i w x" if "x \<in> set (commits (act_then ?t (act_then (enqueue E ?q) (ret ()))) y)"
    "chosen i w y" for x y
  proof -
    have t: "chosen i w b" if "only_tasks a b" "chosen i w a" for a b
      using that by (auto simp: only_tasks_def chosen_def find_candidate_def)
    have j: "chosen i w b" if "only_jobs a b" "chosen i w a" for a b
      using that by (auto simp: only_jobs_def chosen_def find_candidate_def)
    have ty: "chosen i w (after ?t y)"
      using only_tasks.obeys_after [OF task_session_only] t that(2) by blast
    from that(1) consider "x \<in> set (commits ?t y)" | "x \<in> set (commits (enqueue E ?q) (after ?t y))"
      by (auto simp: commits_bind_mem)
    then show ?thesis
      using task_session_only enqueue_only t [OF _ that(2)] j [OF _ ty]
      unfolding only_tasks.obeys_def only_jobs.obeys_def by cases blast+
  qed
  show "chosen i w d'" if "d' \<in> set (commits (maybe_finish_round E i) d)"
  proof -
    have "d' \<in> set (commits (act_then ?c (act_then ?t (act_then (enqueue E ?q) (ret ())))) d)"
      using that by (simp only: commits_def m)
    then consider "d' \<in> set (commits ?c d)"
      | "d' \<in> set (commits (act_then ?t (act_then (enqueue E ?q) (ret ()))) (after ?c d))"
      by (rule iffD1 [OF commits_bind_mem, THEN disjE]) blast+
    then show ?thesis using ch keep [OF _ fin] by cases
  qed
  have "commits (maybe_finish_round E i) d =
      commits (act_then ?c (act_then ?t (act_then (enqueue E ?q) (ret ())))) d"
    by (simp only: commits_def m)
  moreover have "\<dots> = commits ?c d @ commits (act_then ?t (act_then (enqueue E ?q) (ret ()))) (after ?c d)"
    using run by (simp only: commits_bind [of ?c] sum.case)
  moreover have "length (commits ?c d) = 3"
    "hd (commits ?c d) = move_candidate (c_id w) C_MODEL_VALIDATING d"
    using run by simp_all
  ultimately show "hd (commits (maybe_finish_round E i) d) = move_candidate (c_id w) C_MODEL_VALIDATING d"
    "commits (maybe_finish_round E i) d \<noteq> []" by (cases "commits ?c d"; simp del: each.simps)+
qed


lemma enqueue_done:
  assumes "outcome (enqueue E q) d = Inr row"
  shows "row \<in> set (jobs (after (enqueue E q) d)) \<and> j_key row = jc_key q \<and> same_job q row"
proof -
  from assms obtain d' where e: "job_create_valid q"
    "enqueue_job (clock E (jc_key q)) (fresh E (jc_key q)) q d = Inr (d', row)"
    by (auto simp: enqueue_def outcome_bind_Inr)
  have a: "after (enqueue E q) d = d'"
    using e by (simp add: enqueue_def after_bind_Inr)
  have "row \<in> set (jobs d') \<and> j_key row = jc_key q \<and> same_job q row"
    using e(2)
    by (auto simp: enqueue_job_def find_job_key_def Let_def new_job_def same_job_def
        dest: find_SomeD split: option.splits if_splits)
  then show ?thesis unfolding a .
qed

lemma finish_after:
  assumes u: "unique_rows d" and w: "round_winner i d = Some w"
    and ok: "outcome (maybe_finish_round E i) d = Inr ()"
  shows "find_candidate (after (maybe_finish_round E i) d) (c_id w) = Some (w\<lparr>c_state := C_E2E_RUNNING\<rparr>) \<and>
    (\<exists>j \<in> set (jobs (after (maybe_finish_round E i) d)).
       j_key j = c_id w @ '':e2e:v1'' \<and> j_type j = JT_E2E \<and> j_task j = i)"
proof -
  let ?c = "ensure_candidate_state (c_id w) C_E2E_RUNNING"
  let ?t = "ensure_task_state i T_E2E_VALIDATING"
  let ?q = "job_request i JT_E2E W_GPU SCOPE_EXCLUSIVE (c_id w @ '':e2e:v1'')
     (jobj [(''candidate_id'', JStr (c_id w)), (''variant'', JStr (c_variant w)),
        (''synthetic'', JBool True)])"
  let ?d1 = "after ?c d" and ?d2 = "after ?t (after ?c d)"
  have m: "maybe_finish_round E i d = act_then ?c (act_then ?t (act_then (enqueue E ?q) (ret ()))) d"
    by (simp only: maybe_finish_round_winner w option.case)
  then have o: "outcome (maybe_finish_round E i) d =
      outcome (act_then ?c (act_then ?t (act_then (enqueue E ?q) (ret ())))) d"
    and a: "after (maybe_finish_round E i) d =
      after (act_then ?c (act_then ?t (act_then (enqueue E ?q) (ret ())))) d"
    by (simp_all only: outcome_def after_def commits_def)
  from ok obtain row where r: "outcome ?c d = Inr ()" "outcome ?t ?d1 = Inr ()"
    "outcome (enqueue E ?q) ?d2 = Inr row"
    unfolding o by (auto simp: outcome_bind_Inr)
  have fin: "after (maybe_finish_round E i) d = after (enqueue E ?q) ?d2"
    unfolding a
    by (simp only: after_bind_Inr [OF r(1)] after_bind_Inr [OF r(2)] after_bind_Inr [OF r(3)] ret_fetch)
  have "find_candidate ?d1 (c_id w) = Some (w\<lparr>c_state := C_E2E_RUNNING\<rparr>)"
    using each_candidate [OF winner_found [OF u w] winner_run [OF round_winnerD(3) [OF w]]]
      winner_moves [OF u w] by (simp only: after_def commits_def)
  moreover have "candidates ?d2 = candidates ?d1"
    using only_tasks.obeys_after [OF task_session_only, of ?d1 i T_E2E_VALIDATING]
    by (auto simp: only_tasks_def)
  moreover have "candidates (after (enqueue E ?q) ?d2) = candidates ?d2"
    using only_jobs.obeys_after [OF enqueue_only, of ?d2 E ?q] by (auto simp: only_jobs_def)
  ultimately have "find_candidate (after (enqueue E ?q) ?d2) (c_id w) = Some (w\<lparr>c_state := C_E2E_RUNNING\<rparr>)"
    by (simp add: find_candidate_def)
  moreover have "row \<in> set (jobs (after (enqueue E ?q) ?d2)) \<and> j_key row = c_id w @ '':e2e:v1'' \<and>
      j_type row = JT_E2E \<and> j_task row = i"
    using enqueue_done [OF r(3)] by (simp add: same_job_def job_request_def)
  ultimately show ?thesis unfolding fin by blast
qed

end
