(* ===== verification/WalkingReplay.thy ===== *)
theory WalkingReplay
  imports WalkingInv
begin

text \<open>
  Completion is replayable: a handler of the coordinator that returned can be run again on
  the store it left behind, with other fresh identifiers and another clock, and has nothing
  left to do. For each repository call there is a fact about the store that makes a repeat
  of the call return the same row and change nothing; the handlers put these facts together.
\<close>

lemma bind_InrE:
  assumes "outcome (act_bind m f) d = Inr b"
  obtains a where "outcome m d = Inr a" "outcome (f a) (after m d) = Inr b"
    "after (act_bind m f) d = after (f a) (after m d)"
  using assms by (auto simp: outcome_bind_Inr after_bind_Inr)

lemma commits_fetch_bind: "f d = Inr a \<Longrightarrow> act_bind (fetch f) g d = g a d"
  by (simp add: act_bind_def fetch_def)

section \<open>Jobs\<close>

definition job_done :: "job_create \<Rightarrow> db \<Rightarrow> bool" where
  "job_done q d \<longleftrightarrow> job_create_valid q \<and> (\<exists>row. find_job_key d (jc_key q) = Some row \<and> same_job q row)"

lemma enqueue_settled: "job_done q d \<Longrightarrow> settled (enqueue E q) d"
  unfolding enqueue_def job_done_def
  by (auto intro!: settled_bind settled_fetch settled_transact simp: enqueue_job_def)

lemma enqueue_job_done:
  assumes "outcome (enqueue E q) d = Inr row"
  shows "job_done q (after (enqueue E q) d)"
proof -
  from assms obtain d' where e: "job_create_valid q"
    "enqueue_job (clock E (jc_key q)) (fresh E (jc_key q)) q d = Inr (d', row)"
    by (auto simp: enqueue_def outcome_bind_Inr)
  have a: "after (enqueue E q) d = d'" using e by (simp add: enqueue_def after_bind_Inr)
  have "find_job_key d' (jc_key q) = Some row \<and> same_job q row"
    using e(2) by (auto simp: enqueue_job_def find_job_key_def find_append Let_def new_job_def
        same_job_def split: option.splits if_splits)
  with e(1) show ?thesis unfolding a job_done_def by blast
qed

lemma find_list_all2:
  "list_all2 R xs ys \<Longrightarrow> (\<And>x y. R x y \<Longrightarrow> P y = P x) \<Longrightarrow> find P xs = Some x \<Longrightarrow>
   \<exists>y. find P ys = Some y \<and> R x y"
  by (induction rule: list_all2_induct) (auto split: if_splits)

lemma job_done_kept:
  assumes "job_done q d" "queue_kept d d'"
  shows "job_done q d'"
proof -
  from assms(1) obtain row where r: "find (\<lambda>j. j_key j = jc_key q) (jobs d) = Some row" "same_job q row"
    by (auto simp: job_done_def find_job_key_def)
  from assms(2) obtain js new where q: "jobs d' = js @ new" "list_all2 job_kept (jobs d) js"
    by (auto simp: queue_kept_def)
  have "\<And>x y. job_kept x y \<Longrightarrow> (j_key y = jc_key q) = (j_key x = jc_key q)"
    by (auto simp: job_kept_def)
  from find_list_all2 [OF q(2) this r(1)] obtain row' where
    "find (\<lambda>j. j_key j = jc_key q) js = Some row'" "job_kept row row'" by blast
  with assms(1) r(2) show ?thesis
    by (auto simp: job_done_def find_job_key_def q(1) find_append job_kept_def same_job_def)
qed

lemma job_done_same: "job_done q d \<Longrightarrow> jobs d' = jobs d \<Longrightarrow> job_done q d'"
  by (simp add: job_done_def find_job_key_def)

section \<open>States\<close>

definition task_done :: "uuid \<Rightarrow> task_state \<Rightarrow> db \<Rightarrow> bool" where
  "task_done i target d \<longleftrightarrow>
     (\<exists>t. find_task d i = Some t \<and> (t_state t = target \<or> target < t_state t))"

definition candidate_done :: "uuid \<Rightarrow> candidate_state \<Rightarrow> db \<Rightarrow> bool" where
  "candidate_done i t d \<longleftrightarrow> (\<exists>c. find_candidate d i = Some c \<and>
     ((c_state c \<in> set happy_path \<and> t \<in> set happy_path \<and>
        index_of happy_path t \<le> index_of happy_path (c_state c)) \<or>
      (c_state c \<in> {C_REJECTED, C_BUILD_FAILED} \<and> t \<noteq> C_REJECTED) \<or> c_state c = t))"

lemma task_settled: "task_done i target d \<Longrightarrow> settled (ensure_task_state i target) d"
  unfolding ensure_task_state_def task_done_def
  by (auto intro!: settled_bind settled_fetch simp: get_task_def)

lemma candidate_settled: "candidate_done i t d \<Longrightarrow> settled (ensure_candidate_state i t) d"
  unfolding candidate_done_def
  by (elim exE conjE, drule (1) ensure_candidate_stays)
    (simp add: settled_def outcome_def commits_def)

lemma step_task_after:
  assumes "outcome (step_task i s) d = Inr ()"
  shows "\<exists>t. find_task (after (step_task i s) d) i = Some t \<and> t_state t = s"
proof -
  from assms obtain t where t: "find_task d i = Some t" "get_task i d = Inr t"
    by (auto simp: step_task_def outcome_bind_Inr get_task_def split: option.splits)
  show ?thesis
  proof (cases "t_state t = s")
    case True
    with t show ?thesis by (simp add: step_task_def after_bind_Inr)
  next
    case False
    with assms t obtain d' where d': "repo_transition_task i s d = Inr (d', ())"
      by (auto simp: step_task_def outcome_bind_Inr)
    have "after (step_task i s) d = d'"
      using t False d' by (simp add: step_task_def after_bind_Inr)
    with task_effect [OF d'] t(1) show ?thesis by (auto dest: find_SomeD'(1))
  qed
qed

lemma each_task_after:
  "outcome (each (step_task i) ss) d = Inr () \<Longrightarrow> ss \<noteq> [] \<Longrightarrow>
   \<exists>t. find_task (after (each (step_task i) ss) d) i = Some t \<and> t_state t = last ss"
proof (induction ss arbitrary: d)
  case (Cons s ss)
  from Cons.prems(1) have o: "outcome (step_task i s) d = Inr ()"
    "outcome (each (step_task i) ss) (after (step_task i s) d) = Inr ()"
    by (auto simp: outcome_bind_Inr)
  show ?case
  proof (cases "ss = []")
    case True
    with step_task_after [OF o(1)] o(1) show ?thesis by (simp add: after_bind_Inr)
  next
    case False
    with Cons.IH [OF o(2)] o(1) show ?thesis by (simp add: after_bind_Inr)
  qed
qed simp

lemma ensure_task_done:
  assumes "outcome (ensure_task_state i target) d = Inr ()"
  shows "task_done i target (after (ensure_task_state i target) d)"
proof -
  from assms obtain t where t: "find_task d i = Some t" "get_task i d = Inr t"
    by (auto simp: ensure_task_state_def outcome_bind_Inr get_task_def split: option.splits)
  show ?thesis
  proof (cases "t_state t = target \<or> target < t_state t")
    case True
    with t show ?thesis by (auto simp: ensure_task_state_def after_bind_Inr task_done_def)
  next
    case False
    with assms t obtain ss where ss: "task_path target = Inr ss"
      "outcome (each (step_task i) ss) d = Inr ()"
      by (auto simp: ensure_task_state_def outcome_bind_Inr)
    have l: "ss \<noteq> []" "last ss = target" using ss(1) by (cases target; auto)+
    have "after (ensure_task_state i target) d = after (each (step_task i) ss) d"
      using t False ss by (simp add: ensure_task_state_def after_bind_Inr)
    with each_task_after [OF ss(2) l(1)] l(2) show ?thesis by (auto simp: task_done_def)
  qed
qed

lemma ensure_candidate_done:
  assumes "outcome (ensure_candidate_state i t) d = Inr ()"
  shows "candidate_done i t (after (ensure_candidate_state i t) d)"
proof -
  from assms obtain c where c: "find_candidate d i = Some c" "get_candidate i d = Inr c"
    by (auto simp: ensure_candidate_state_def outcome_bind_Inr get_candidate_def split: option.splits)
  show ?thesis
  proof (cases "candidate_done i t d")
    case True
    with settled_after [OF candidate_settled [OF True]] show ?thesis by simp
  next
    case False
    show ?thesis
    proof (cases "t = C_REJECTED")
      case True
      with assms c False obtain d' where d': "repo_transition_candidate i t d = Inr (d', ())"
        by (auto simp: ensure_candidate_state_def outcome_bind_Inr step_candidate_def candidate_done_def)
      have "after (ensure_candidate_state i t) d = d'"
        using c True False d'
        by (auto simp: ensure_candidate_state_def after_bind_Inr step_candidate_def candidate_done_def)
      with candidate_effect [OF d'] c(1) show ?thesis
        by (auto simp: candidate_done_def dest: find_SomeD'(5))
    next
      case nr: False
      with False c have ne: "c_state c \<noteq> t" "c_state c \<notin> {C_REJECTED, C_BUILD_FAILED}"
        by (auto simp: candidate_done_def)
      with assms c nr have s: "c_state c \<in> set happy_path" "t \<in> set happy_path"
        by (auto simp: ensure_candidate_state_def outcome_bind_Inr happy_index_def split: if_splits)
      with False c have lt: "index_of happy_path (c_state c) < index_of happy_path t"
        by (auto simp: candidate_done_def)
      have "find_candidate (after (ensure_candidate_state i t) d) i = Some (c\<lparr>c_state := t\<rparr>)"
        using each_candidate [OF c(1) happy_run [OF s lt]] ensure_candidate_moves [OF c(1) s lt]
        by (simp add: after_def commits_def)
      then show ?thesis by (auto simp: candidate_done_def)
    qed
  qed
qed

lemma candidate_done_same: "candidate_done i t d \<Longrightarrow> candidates d' = candidates d \<Longrightarrow> candidate_done i t d'"
  by (simp add: candidate_done_def find_candidate_def)

lemma task_done_same: "task_done i t d \<Longrightarrow> tasks d' = tasks d \<Longrightarrow> task_done i t d'"
  by (simp add: task_done_def find_task_def)

lemma session_tables:
  "\<exists>ts. after (ensure_task_state i t) d = d\<lparr>tasks := ts\<rparr>"
  "\<exists>js. after (enqueue E q) d = d\<lparr>jobs := js\<rparr>"
  "\<exists>cs. after (ensure_candidate_state k s) d = d\<lparr>candidates := cs\<rparr>"
  using only_tasks.obeys_after [OF task_session_only, of d i t]
    only_jobs.obeys_after [OF enqueue_only, of d E q]
    only_candidate.obeys_after [OF candidate_session_only, of k d s]
  by (auto simp: only_tasks_def only_jobs_def only_candidate_def)

section \<open>Records\<close>

lemma map_where_all:
  assumes "list_ex P xs" "\<And>x. P x \<Longrightarrow> P (f x) \<and> Q (f x)"
  shows "list_ex P (map (\<lambda>x. if P x then f x else x) xs) \<and>
    (\<forall>x \<in> set (map (\<lambda>x. if P x then f x else x) xs). P x \<longrightarrow> Q x)"
  using assms by (induction xs) auto

lemma hotspot_again:
  assumes r: "record_hotspot h i epoch v d = Inr (d', x)" and k: "hotspots d2 = hotspots d'"
  shows "record_hotspot h' i epoch' v d2 = Inr (d2, ())"
proof -
  from r obtain symbol share score patch s where v: "jitem v ''symbol'' = Inr symbol"
      "jitem v ''share_ratio'' = Inr share" "jitem v ''opportunity_score'' = Inr score"
      "jitem v ''patchability'' = Inr patch" "text_column symbol = Inr s"
      "double_column share = Inr ()" "double_column score = Inr ()"
      "\<exists>y. text_column patch = Inr y"
    by (auto simp: record_hotspot_def bind_res_eq_Inr)
  let ?P = "\<lambda>x. h_task x = i \<and> h_symbol x = s"
  let ?f = "\<lambda>x. x\<lparr>h_evidence := v\<rparr>"
  have hs: "list_ex ?P (hotspots d') \<and> (\<forall>x \<in> set (hotspots d'). ?P x \<longrightarrow> h_evidence x = v)"
  proof (cases "list_ex ?P (hotspots d)")
    case True
    with r v have "d\<lparr>hotspots := update_where ?P ?f (hotspots d)\<rparr> = d'"
      by (elim exE) (simp add: record_hotspot_def)
    then have d': "hotspots d' = map (\<lambda>x. if ?P x then ?f x else x) (hotspots d)"
      by (rule subst) (simp add: update_where_def)
    show ?thesis unfolding d' by (rule map_where_all [OF True]) simp
  next
    case False
    with r v have "\<exists>b. hotspots d' = hotspots d @ [\<lparr>h_id = h, h_task = i, h_baseline = epoch,
              h_symbol = s, h_evidence = v\<rparr>]"
      by (auto simp: record_hotspot_def split: if_splits)
    with False show ?thesis by (auto simp: list_ex_iff)
  qed
  have "update_where ?P ?f (hotspots d2) = hotspots d2"
    unfolding update_where_def k by (rule map_idI) (use hs in auto)
  then have "d2\<lparr>hotspots := update_where ?P ?f (hotspots d2)\<rparr> = d2" by simp
  with v hs show ?thesis by (auto simp: record_hotspot_def k)
qed

lemma artifact_again:
  assumes r: "record_artifact h i cid v d = Inr (d', a)" and k: "artifacts d2 = artifacts d'"
  shows "record_artifact h' i cid v d2 = Inr (d2, a)"
proof -
  from r obtain kind uri hash k' u' s where v: "jitem v ''kind'' = Inr kind"
      "jitem v ''uri'' = Inr uri" "jitem v ''content_hash'' = Inr hash"
      "text_column kind = Inr k'" "text_column uri = Inr u'" "text_column hash = Inr s"
    by (auto simp: record_artifact_def bind_res_eq_Inr)
  have "find (\<lambda>a. a_candidate a = cid \<and> a_hash a = s) (artifacts d') = Some a"
  proof (cases "find (\<lambda>a. a_candidate a = cid \<and> a_hash a = s) (artifacts d)")
    case None
    with r v show ?thesis by (auto simp: record_artifact_def Let_def find_append split: if_splits)
  next
    case (Some b)
    with r v show ?thesis by (auto simp: record_artifact_def)
  qed
  with v k show ?thesis by (simp add: record_artifact_def)
qed

lemma evaluation_again:
  assumes "record_evaluation C q d = Inr (d', r)" "evaluations d2 = evaluations d'"
  shows "record_evaluation C (q\<lparr>q_id := k\<rparr>) d2 = Inr (d2, r)"
  using assms by (auto simp: record_evaluation_def Let_def evaluation_row_def same_evaluation_def
      find_append split: option.splits if_splits)

section \<open>Later stores\<close>

text \<open>What the calls after the first ones of a handler do to the facts above.\<close>

definition same_candidate :: "candidate \<Rightarrow> candidate \<Rightarrow> bool" where
  "same_candidate c c' \<longleftrightarrow> (\<exists>s. c' = c\<lparr>c_state := s\<rparr>)"

lemma same_candidate_refl: "same_candidate c c"
  unfolding same_candidate_def by (rule exI [of _ "c_state c"]) simp

lemma same_candidate_trans: "same_candidate a b \<Longrightarrow> same_candidate b c \<Longrightarrow> same_candidate a c"
  by (auto simp: same_candidate_def)

definition later :: "db \<Rightarrow> db \<Rightarrow> bool" where
  "later d d' \<longleftrightarrow> hotspots d' = hotspots d \<and> artifacts d' = artifacts d \<and>
     evaluations d' = evaluations d \<and> baselines d' = baselines d \<and>
     (\<forall>q. job_done q d \<longrightarrow> job_done q d') \<and>
     (\<forall>i t. candidate_done i t d \<longrightarrow> candidate_done i t d') \<and>
     (\<forall>i t. task_done i t d \<longrightarrow> task_done i t d') \<and>
     (\<forall>i c. find_candidate d i = Some c \<longrightarrow>
        (\<exists>c'. find_candidate d' i = Some c' \<and> same_candidate c c'))"

interpretation later: store_relation later
proof
  show "later d d" for d by (simp add: later_def same_candidate_refl)
  show "later a c" if "later a b" "later b c" for a b c
  proof -
    have "\<exists>c'. find_candidate c i = Some c' \<and> same_candidate x c'" if "find_candidate a i = Some x" for i x
    proof -
      from \<open>later a b\<close> that obtain y where
        y: "find_candidate b i = Some y" "same_candidate x y" unfolding later_def by blast
      from \<open>later b c\<close> y(1) obtain z where
        "find_candidate c i = Some z" "same_candidate y z" unfolding later_def by blast
      with y(2) show ?thesis by (blast intro: same_candidate_trans)
    qed
    then show ?thesis using that by (simp add: later_def)
  qed
qed

lemma step_task_mono:
  assumes "find_task d i = Some t" "t_state t \<le> s"
  shows "\<exists>t'. find_task (after (step_task i s) d) i = Some t' \<and> t_state t \<le> t_state t' \<and> t_state t' \<le> s"
proof (cases "t_state t = s \<or> (\<exists>e. repo_transition_task i s d = Inl e)")
  case True
  with assms show ?thesis by (auto simp: step_task_def after_bind get_task_def)
next
  case False
  then obtain d' where d': "repo_transition_task i s d = Inr (d', ())"
    by (cases "repo_transition_task i s d") auto
  with False assms(1) have "after (step_task i s) d = d'"
    by (simp add: step_task_def after_bind get_task_def)
  with task_effect [OF d'] assms show ?thesis by (auto dest: find_SomeD'(1))
qed

lemma each_task_mono:
  "find_task d i = Some t \<Longrightarrow> sorted ss \<Longrightarrow> (\<forall>s \<in> set ss. t_state t \<le> s) \<Longrightarrow>
   \<exists>t'. find_task (after (each (step_task i) ss) d) i = Some t' \<and> t_state t \<le> t_state t'"
proof (induction ss arbitrary: d t)
  case (Cons s ss)
  from step_task_mono [OF Cons.prems(1), of s] Cons.prems(3) obtain t1 where
    t1: "find_task (after (step_task i s) d) i = Some t1" "t_state t \<le> t_state t1" "t_state t1 \<le> s" by auto
  show ?case
  proof (cases "outcome (step_task i s) d")
    case (Inl e)
    with t1 show ?thesis by (auto simp: after_bind)
  next
    case (Inr a)
    have "\<forall>r \<in> set ss. t_state t1 \<le> r" using Cons.prems(2) t1(3) by (auto intro: order_trans)
    from Cons.IH [OF t1(1) _ this] Cons.prems(2) obtain t' where
      "find_task (after (each (step_task i) ss) (after (step_task i s) d)) i = Some t'"
      "t_state t1 \<le> t_state t'" by auto
    with Inr t1(2) show ?thesis by (auto simp: after_bind intro: order_trans)
  qed
qed simp

lemma task_paths_sorted:
  "list_all (\<lambda>t. case task_path t of Inl e \<Rightarrow> True
     | Inr ss \<Rightarrow> list_all (\<lambda>a. a < t \<longrightarrow> sorted ss \<and> list_all (\<lambda>s. a \<le> s) ss) task_states) task_states"
  by code_simp

lemma task_path_sorted: "task_path target = Inr ss \<Longrightarrow> a < target \<Longrightarrow> sorted ss \<and> (\<forall>s \<in> set ss. a \<le> s)"
proof -
  assume "task_path target = Inr ss" "a < target"
  moreover have "target \<in> set task_states" "a \<in> set task_states" by (rule task_states_complete)+
  ultimately show ?thesis using task_paths_sorted by (fastforce simp: list_all_iff)
qed

definition other_task :: "uuid \<Rightarrow> uuid \<Rightarrow> db \<Rightarrow> db \<Rightarrow> bool" where
  "other_task k i d d' \<longleftrightarrow> (k \<noteq> i \<longrightarrow> find_task d' k = find_task d k)"

interpretation other_task: store_relation "other_task k i" for k i
  by unfold_locales (auto simp: other_task_def)

lemma other_task_obeys: "other_task.obeys k i (ensure_task_state i target)"
proof -
  have "other_task k i d (move_task i s d)" for d s
    by (cases "find_task d k") (auto simp: other_task_def dest: find_SomeD'(1))
  then show ?thesis
    unfolding ensure_task_state_def step_task_def
    by (auto intro!: other_task.obeys_intros other_task.obeys_transact dest!: task_effect)
qed

lemma later_task: "later d (after (ensure_task_state i target) d)"
proof -
  let ?d = "after (ensure_task_state i target) d"
  have o: "only_tasks d ?d" by (rule only_tasks.obeys_after [OF task_session_only])
  have "task_done k s ?d" if dn: "task_done k s d" for k s
  proof (cases "k = i")
    case True
    from dn obtain t where t: "find_task d i = Some t" "t_state t = s \<or> s < t_state t"
      by (auto simp: task_done_def True)
    have "\<exists>t'. find_task ?d i = Some t' \<and> t_state t \<le> t_state t'"
    proof (cases "(t_state t = target \<or> target < t_state t) \<or> (\<exists>e. task_path target = Inl e)")
      case True
      with t(1) show ?thesis by (auto simp: ensure_task_state_def after_bind get_task_def)
    next
      case False
      then obtain ss where ss: "task_path target = Inr ss" "t_state t < target"
        by (cases "task_path target") auto
      with each_task_mono [OF t(1)] task_path_sorted [OF ss] False t(1) show ?thesis
        by (auto simp: ensure_task_state_def after_bind get_task_def)
    qed
    with t(2) show ?thesis unfolding task_done_def True by (auto intro: less_le_trans)
  next
    case False
    then have "find_task ?d k = find_task d k"
      using other_task.obeys_after [OF other_task_obeys] by (simp add: other_task_def)
    with dn show ?thesis by (simp add: task_done_def)
  qed
  with o show ?thesis
    by (auto simp: only_tasks_def later_def job_done_def find_job_key_def candidate_done_def
      find_candidate_def same_candidate_refl)
qed

lemma later_enqueue: "later d (after (enqueue E q) d)"
proof -
  have "only_jobs d (after (enqueue E q) d)" by (rule only_jobs.obeys_after [OF enqueue_only])
  moreover have "queue_kept d (after (enqueue E q) d)"
    by (rule queue_walk.obeys_after [OF queue_walk.obeys_enqueue])
  ultimately show ?thesis
    by (auto simp: only_jobs_def later_def candidate_done_def find_candidate_def
        same_candidate_refl task_done_def find_task_def dest: job_done_kept)
qed

lemma find_only_candidate:
  assumes "only_candidate k d d'" "find_candidate d i = Some c"
  shows "\<exists>c'. find_candidate d' i = Some c' \<and> (c' = c \<or> (c_id c = k \<and> same_candidate c c'))"
proof -
  let ?R = "\<lambda>c c'. c' = c \<or> (c_id c = k \<and> same_candidate c c')"
  from assms(1) have l: "list_all2 ?R (candidates d) (candidates d')"
    by (auto simp: only_candidate_def same_candidate_def elim!: list_all2_mono)
  have "\<And>x y. ?R x y \<Longrightarrow> (c_id y = i) = (c_id x = i)" by (auto simp: same_candidate_def)
  from find_list_all2 [OF l, of "\<lambda>c. c_id c = i", OF this] assms(2)
  show ?thesis unfolding find_candidate_def by blast
qed

lemma ensure_candidate_effect:
  assumes "target \<in> set happy_path"
  shows "after (ensure_candidate_state k target) d = d \<or>
    (\<exists>c. find_candidate d k = Some c \<and> c_state c \<in> set happy_path \<and>
       index_of happy_path (c_state c) < index_of happy_path target \<and>
       find_candidate (after (ensure_candidate_state k target) d) k = Some (c\<lparr>c_state := target\<rparr>))"
proof (cases "find_candidate d k")
  case None
  then show ?thesis
    by (simp add: ensure_candidate_state_def after_bind get_candidate_def)
next
  case (Some c)
  show ?thesis
  proof (cases "c_state c \<in> set happy_path")
    case True
    show ?thesis
    proof (cases "index_of happy_path (c_state c) < index_of happy_path target")
      case lt: True
      have "find_candidate (after (ensure_candidate_state k target) d) k = Some (c\<lparr>c_state := target\<rparr>)"
        using each_candidate [OF Some happy_run [OF True assms lt]]
          ensure_candidate_moves [OF Some True assms lt]
        by (simp add: after_def commits_def)
      with Some True lt show ?thesis by blast
    next
      case False
      with True assms have "ensure_candidate_state k target d = ([], Inr ())"
        by (intro ensure_candidate_stays [OF Some]) auto
      then show ?thesis by (simp add: after_def commits_def)
    qed
  next
    case False
    with assms have "c_state c \<noteq> target" "target \<noteq> C_REJECTED" by (auto simp: happy_path_def)
    with Some False show ?thesis
      by (simp add: ensure_candidate_state_def after_bind get_candidate_def happy_index_def)
  qed
qed

lemma ensure_rejected_effect:
  "after (ensure_candidate_state k C_REJECTED) d = d \<or>
    (\<exists>c. find_candidate d k = Some c \<and>
       find_candidate (after (ensure_candidate_state k C_REJECTED) d) k = Some (c\<lparr>c_state := C_REJECTED\<rparr>))"
proof (cases "\<exists>d'. repo_transition_candidate k C_REJECTED d = Inr (d', ())")
  case True
  then obtain d' where d': "repo_transition_candidate k C_REJECTED d = Inr (d', ())" ..
  then obtain c where c: "find_candidate d k = Some c"
    by (auto simp: repo_transition_candidate_def split: option.splits)
  show ?thesis
  proof (cases "c_state c = C_REJECTED")
    case True
    with c show ?thesis by (simp add: ensure_candidate_state_def after_bind get_candidate_def)
  next
    case False
    with c d' have "after (ensure_candidate_state k C_REJECTED) d = d'"
      by (simp add: ensure_candidate_state_def step_candidate_def after_bind get_candidate_def)
    with candidate_effect [OF d'] c show ?thesis by (auto dest: find_SomeD'(5))
  qed
next
  case False
  then obtain e where "repo_transition_candidate k C_REJECTED d = Inl e"
    by (cases "repo_transition_candidate k C_REJECTED d") auto
  then show ?thesis
    by (auto simp: ensure_candidate_state_def step_candidate_def after_bind get_candidate_def
        split: option.split)
qed

lemma happy_not_rejected: "C_REJECTED \<notin> set happy_path" "C_BUILD_FAILED \<notin> set happy_path"
  by (simp_all add: happy_path_def)

lemma candidate_done_moves:
  assumes "target = C_REJECTED \<or> target \<in> set happy_path" "candidate_done k t d"
  shows "candidate_done k t (after (ensure_candidate_state k target) d)"
  using assms(1)
proof
  assume "target = C_REJECTED"
  with ensure_rejected_effect [of k d] assms(2) show ?thesis
    by (auto simp: candidate_done_def)
next
  assume t: "target \<in> set happy_path"
  from ensure_candidate_effect [OF t, of k d] show ?thesis
  proof (elim disjE exE conjE)
    fix b assume b: "find_candidate d k = Some b" "c_state b \<in> set happy_path"
      "index_of happy_path (c_state b) < index_of happy_path target"
      "find_candidate (after (ensure_candidate_state k target) d) k = Some (b\<lparr>c_state := target\<rparr>)"
    with happy_not_rejected have "c_state b \<notin> {C_REJECTED, C_BUILD_FAILED}" by auto
    with assms(2) b t show ?thesis by (auto simp: candidate_done_def)
  qed (simp add: assms(2))
qed

lemma later_candidate:
  assumes t: "target = C_REJECTED \<or> target \<in> set happy_path"
  shows "later d (after (ensure_candidate_state k target) d)"
proof -
  let ?d = "after (ensure_candidate_state k target) d"
  have o: "only_candidate k d ?d" by (rule only_candidate.obeys_after [OF candidate_session_only])
  have "candidate_done i s ?d" if cd: "candidate_done i s d" for i s
  proof (cases "i = k")
    case True
    with candidate_done_moves [OF t] cd show ?thesis by blast
  next
    case False
    from cd obtain c where c: "find_candidate d i = Some c" by (auto simp: candidate_done_def)
    from find_only_candidate [OF o c] obtain c' where c': "find_candidate ?d i = Some c'"
      "c' = c \<or> c_id c = k" by blast
    from c have "c_id c = i" by (auto dest: find_SomeD'(5))
    with False c' have "c' = c" by auto
    with c'(1) c cd show ?thesis by (simp add: candidate_done_def)
  qed
  moreover have "\<exists>c'. find_candidate ?d i = Some c' \<and> same_candidate c c'"
    if "find_candidate d i = Some c" for i c
    using find_only_candidate [OF o that] same_candidate_refl by blast
  ultimately show ?thesis using o
    by (auto simp: later_def only_candidate_def job_done_def find_job_key_def task_done_def find_task_def)
qed

lemma laterD:
  assumes "later d d'"
  shows "hotspots d' = hotspots d" "artifacts d' = artifacts d" "evaluations d' = evaluations d"
    "baselines d' = baselines d" "job_done q d \<Longrightarrow> job_done q d'"
    "candidate_done i s d \<Longrightarrow> candidate_done i s d'" "task_done i t d \<Longrightarrow> task_done i t d'"
    "find_candidate d i = Some c \<Longrightarrow> \<exists>c'. find_candidate d' i = Some c' \<and> same_candidate c c'"
  using assms by (auto simp: later_def)

section \<open>Sessions that can be repeated\<close>

text \<open>
  \<open>goes m\<close>: what \<open>m\<close> leaves behind is later than what it found. \<open>replays Q m m'\<close>: when
  \<open>m\<close> returned, \<open>m'\<close> has nothing left to do on any store that is later than the one
  \<open>m\<close> left behind, and its value is related by \<open>Q\<close> to that of \<open>m\<close>.
\<close>

definition goes :: "(db, 'a) session \<Rightarrow> bool" where
  "goes m \<longleftrightarrow> (\<forall>d. later d (after m d))"

definition replays :: "('a \<Rightarrow> 'b \<Rightarrow> bool) \<Rightarrow> (db, 'a) session \<Rightarrow> (db, 'b) session \<Rightarrow> bool" where
  "replays Q m m' \<longleftrightarrow> (\<forall>d d2 a. outcome m d = Inr a \<longrightarrow> later (after m d) d2 \<longrightarrow>
     (\<exists>a'. outcome m' d2 = Inr a' \<and> set (commits m' d2) \<subseteq> {d2} \<and> Q a a'))"

lemma goes_ret: "goes (ret a)"
  and goes_fetch: "goes (fetch f)"
  and goes_task: "goes (ensure_task_state i t)"
  and goes_candidate: "s = C_REJECTED \<or> s \<in> set happy_path \<Longrightarrow> goes (ensure_candidate_state k s)"
  and goes_enqueue: "goes (enqueue E q)"
  by (simp_all add: goes_def later.rel_refl later_task later_candidate later_enqueue)

lemma goes_bind: "goes m \<Longrightarrow> (\<And>a. goes (f a)) \<Longrightarrow> goes (act_bind m f)"
  by (auto simp: goes_def after_bind split: sum.split intro: later.rel_trans)

lemma goes_each: "(\<And>x. goes (f x)) \<Longrightarrow> goes (each f xs)"
  by (induction xs) (auto intro: goes_ret goes_bind)

lemma goes_finish: "goes (maybe_finish_round E i)"
  unfolding maybe_finish_round_def
  by (auto intro!: goes_bind goes_fetch goes_ret goes_candidate goes_task goes_enqueue
      simp: happy_path_def split: list.split)

lemmas goes_intros = goes_ret goes_fetch goes_task goes_candidate goes_enqueue goes_bind goes_each goes_finish

lemma replays_bind:
  assumes m: "replays Q m m'" and g: "\<And>a. goes (f a)"
    and f: "\<And>a a'. Q a a' \<Longrightarrow> replays P (f a) (f' a')"
  shows "replays P (act_bind m f) (act_bind m' f')"
  unfolding replays_def
proof (intro allI impI)
  fix d d2 b assume o: "outcome (act_bind m f) d = Inr b" and l: "later (after (act_bind m f) d) d2"
  from o obtain a where a: "outcome m d = Inr a" "outcome (f a) (after m d) = Inr b"
    by (auto simp: outcome_bind_Inr)
  from l a have l': "later (after (f a) (after m d)) d2" by (simp add: after_bind_Inr)
  with g have "later (after m d) d2" unfolding goes_def by (blast intro: later.rel_trans)
  with m a(1) obtain a' where a': "outcome m' d2 = Inr a'" "set (commits m' d2) \<subseteq> {d2}" "Q a a'"
    unfolding replays_def by blast
  then have e: "after m' d2 = d2" using after_mem [of m' d2] by auto
  from f [OF a'(3)] a(2) l' obtain b' where "outcome (f' a') d2 = Inr b'"
    "set (commits (f' a') d2) \<subseteq> {d2}" "P b b'" unfolding replays_def by blast
  with a' e show "\<exists>b'. outcome (act_bind m' f') d2 = Inr b' \<and>
      set (commits (act_bind m' f') d2) \<subseteq> {d2} \<and> P b b'"
    by (auto simp: outcome_bind_Inr commits_bind)
qed

lemma replays_ret: "Q a a' \<Longrightarrow> replays Q (ret a) (ret a')"
  by (simp add: replays_def)

lemma replays_const: "replays (=) (fetch (\<lambda>_. r)) (fetch (\<lambda>_. r))"
  by (simp add: replays_def)

lemma replays_candidate: "replays same_candidate (fetch (get_candidate k)) (fetch (get_candidate k))"
  unfolding replays_def
  by (auto simp: get_candidate_def split: option.splits dest: laterD(8))

lemma replays_transact:
  "(\<And>d d' a d2. m d = Inr (d', a) \<Longrightarrow> later d' d2 \<Longrightarrow> \<exists>a'. m' d2 = Inr (d2, a') \<and> Q a a') \<Longrightarrow>
   replays Q (transact m) (transact m')"
  unfolding replays_def by fastforce

lemma replays_done:
  assumes "\<And>d a. outcome m d = Inr a \<Longrightarrow> F (after m d)" "\<And>d d'. F d \<Longrightarrow> later d d' \<Longrightarrow> F d'"
    "\<And>d. F d \<Longrightarrow> settled m' d"
  shows "replays (\<lambda>_ _. True) m m'"
  unfolding replays_def
proof (intro allI impI)
  fix d d2 a assume "outcome m d = Inr a" "later (after m d) d2"
  with assms(1,2) have "F d2" by blast
  from assms(3) [OF this] show "\<exists>a'. outcome m' d2 = Inr a' \<and> set (commits m' d2) \<subseteq> {d2} \<and> True"
    by (auto simp: settled_def)
qed

lemma replays_task: "replays (\<lambda>_ _. True) (ensure_task_state i t) (ensure_task_state i t)"
  by (rule replays_done [of _ "task_done i t"])
    (auto intro: ensure_task_done task_settled dest: laterD)

lemma replays_state: "replays (\<lambda>_ _. True) (ensure_candidate_state k s) (ensure_candidate_state k s)"
  by (rule replays_done [of _ "candidate_done k s"])
    (auto intro: ensure_candidate_done candidate_settled dest: laterD)

lemma replays_enqueue: "replays (\<lambda>_ _. True) (enqueue E q) (enqueue E' q)"
  by (rule replays_done [of _ "job_done q"])
    (auto intro: enqueue_job_done enqueue_settled dest: laterD)

lemma replays_hotspot:
  "replays (\<lambda>_ _. True) (transact (record_hotspot h i epoch v)) (transact (record_hotspot h' i epoch' v))"
  by (rule replays_transact) (blast intro: hotspot_again laterD(1))

lemma replays_artifact:
  "replays (\<lambda>_ _. True) (transact (record_artifact h i cid v)) (transact (record_artifact h' i cid v))"
  by (rule replays_transact) (blast intro: artifact_again laterD(2))

lemma replays_each:
  assumes "list_all2 Q xs ys" "\<And>x. goes (f x)"
    "\<And>x y. Q x y \<Longrightarrow> replays (\<lambda>_ _. True) (f x) (f' y)"
  shows "replays (\<lambda>_ _. True) (each f xs) (each f' ys)"
  using assms(1)
proof (induction rule: list_all2_induct)
  case Nil
  show ?case by (simp add: replays_ret)
next
  case (Cons x xs y ys)
  then show ?case
    by (auto intro!: replays_bind [where Q = "\<lambda>_ _. True"] goes_each assms(2,3))
qed

section \<open>Evaluations and candidates again\<close>

definition evaluation_key :: "job \<Rightarrow> phase \<Rightarrow> string" where
  "evaluation_key j ph = ''job:'' @ j_id j @ '':evaluation:'' @ phase_value ph"

text \<open>
  Two environments read the measurement of a result alike: a series that names its
  identifier and its time of creation does not depend on fresh ones.
\<close>

definition reads_alike :: "env \<Rightarrow> env \<Rightarrow> job \<Rightarrow> bool" where
  "reads_alike E E' j \<longleftrightarrow> codec_of E' = codec_of E \<and>
     (\<forall>ph \<in> {CORRECTNESS, PERFORMANCE, E2E}.
        load_measurement E' (evaluation_key j ph) (result_of j) =
        load_measurement E (evaluation_key j ph) (result_of j))"

lemma make_evaluation_id:
  "make_evaluation q = Inr q' \<Longrightarrow> make_evaluation (q\<lparr>q_id := k\<rparr>) = Inr (q'\<lparr>q_id := k\<rparr>)"
  by (auto simp: make_evaluation_def evaluation_fields_def validate_evaluation_def bind_res_eq_Inr
      split: if_splits option.splits)

lemma evaluation_run_again:
  assumes q: "evaluation_run_of E j ph d = Inr q" and l: "later d d2" and e: "reads_alike E E' j"
  shows "evaluation_run_of E' j ph d2 = Inr (q\<lparr>q_id := fresh E' (evaluation_key j ph)\<rparr>)"
proof -
  note U = evaluation_run_of_def Let_def evaluation_key_def [symmetric]
  from q obtain cid c where v: "payload_candidate j = Inr cid" "get_candidate cid d = Inr c"
    unfolding U by (auto simp only: bind_res_eq_Inr)
  from q obtain b where b: "get_baseline (j_task j) d = Some b"
    unfolding U v bind_res_simps by (cases "get_baseline (j_task j) d") simp_all
  from v(2) have "find_candidate d cid = Some c" by (auto simp: get_candidate_def split: option.splits)
  from laterD(8) [OF l this] obtain c' where c': "get_candidate cid d2 = Inr c'" "same_candidate c c'"
    by (auto simp: get_candidate_def)
  have b2: "get_baseline (j_task j) d2 = Some b" using b laterD(4) [OF l] by (simp add: get_baseline_def)
  have c2: "c_round c' = c_round c" "c_baseline c' = c_baseline c"
    using c'(2) by (auto simp: same_candidate_def)
  have m: "load_measurement E' (evaluation_key j ph) (result_of j) =
      load_measurement E (evaluation_key j ph) (result_of j)" "codec_of E' = codec_of E"
    using e by (cases ph; simp add: reads_alike_def)+
  have again: "make_evaluation (r\<lparr>q_id := k\<rparr>) = Inr (x\<lparr>q_id := k\<rparr>)"
    if "make_evaluation r = Inr x" for r x k using that by (rule make_evaluation_id)
  show ?thesis
    using q unfolding U v b c' b2 c2 m bind_res_simps option.case bind_res_eq_Inr
    by - (elim exE conjE, intro exI conjI, assumption+, drule again, simp only: evaluation.simps)
qed

lemma replays_evaluate:
  assumes "reads_alike E E' j"
  shows "replays (\<lambda>_ _. True) (evaluate_phase E j ph) (evaluate_phase E' j ph)"
  unfolding replays_def
proof (intro allI impI)
  fix d d2 r
  assume o: "outcome (evaluate_phase E j ph) d = Inr r" and l: "later (after (evaluate_phase E j ph) d) d2"
  from o obtain q d' where q: "evaluation_run_of E j ph d = Inr q"
    "record_evaluation (codec_of E) q d = Inr (d', r)"
    by (auto simp: evaluate_phase_def outcome_bind_Inr)
  then have l': "later d' d2" using l by (simp add: evaluate_phase_def after_bind_Inr)
  from evaluation_effect [OF q(2)] obtain new where d': "d' = d\<lparr>evaluations := evaluations d @ new\<rparr>" ..
  have q0: "evaluation_run_of E j ph d' = Inr q"
    using q(1) unfolding d' evaluation_run_of_def get_candidate_def find_candidate_def get_baseline_def by simp
  note q2 = evaluation_run_again [OF q0 l' assms]
  have "codec_of E' = codec_of E" using assms by (simp add: reads_alike_def)
  with evaluation_again [OF q(2) laterD(3) [OF l']] q2
  show "\<exists>a'. outcome (evaluate_phase E' j ph) d2 = Inr a' \<and>
      set (commits (evaluate_phase E' j ph) d2) \<subseteq> {d2} \<and> True"
    by (simp add: evaluate_phase_def outcome_bind_Inr commits_bind)
qed

lemma insert_finds: "insert_candidate q d = Inr (d1, c) \<Longrightarrow> find_candidate d1 (c_id q) = Some c"
  using insert_candidate_effect [of q d d1 c] by (auto simp: find_candidate_def find_append)

lemma candidates_again:
  "create_candidates i epoch r items d = Inr (d', cs) \<Longrightarrow>
   (\<And>k c. find_candidate d' k = Some c \<Longrightarrow> \<exists>c'. find_candidate d2 k = Some c' \<and> same_candidate c c') \<Longrightarrow>
   \<exists>cs'. create_candidates i epoch r items d2 = Inr (d2, cs') \<and> list_all2 same_candidate cs cs'"
proof (induction items arbitrary: d cs)
  case (Cons item items)
  from Cons.prems(1) obtain q d1 c cs0 where q: "candidate_row i epoch r item = Inr q"
    "insert_candidate q d = Inr (d1, c)" "create_candidates i epoch r items d1 = Inr (d', cs0)"
    "cs = c # cs0"
    by (auto simp: bind_res_eq_Inr)
  from candidates_effect [OF q(3)] obtain new where "d' = d1\<lparr>candidates := candidates d1 @ new\<rparr>" ..
  with insert_finds [OF q(2)] have "find_candidate d' (c_id q) = Some c"
    by (simp add: find_candidate_def find_append)
  from Cons.prems(2) [OF this] obtain c' where "find_candidate d2 (c_id q) = Some c'"
    "same_candidate c c'" by blast
  moreover from Cons.IH [OF q(3) Cons.prems(2)] obtain cs' where
    "create_candidates i epoch r items d2 = Inr (d2, cs')" "list_all2 same_candidate cs0 cs'" by blast
  ultimately show ?case using q(1,4) by (simp add: insert_candidate_def)
qed simp

lemma replays_candidates:
  "replays (list_all2 same_candidate) (transact (create_candidates i epoch r items))
     (transact (create_candidates i epoch r items))"
  by (rule replays_transact) (blast intro: candidates_again laterD(8))

lemma goes_start_build: "goes (start_build E i c)"
  unfolding start_build_def
  by (auto intro!: goes_intros simp: happy_path_def)

lemma replays_start_build:
  assumes "same_candidate c c'"
  shows "replays (\<lambda>_ _. True) (start_build E i c) (start_build E' i c')"
proof -
  have "start_build E' i c' = start_build E' i c"
    using assms by (auto simp: same_candidate_def start_build_def)
  then show ?thesis
    unfolding start_build_def
    by (auto intro!: replays_bind [OF replays_state] replays_bind [OF replays_enqueue] goes_intros replays_ret)
qed

section \<open>The handlers again\<close>

abbreviation again :: "(db, 'a) session \<Rightarrow> (db, 'b) session \<Rightarrow> bool" where
  "again \<equiv> replays (\<lambda>_ _. True)"

lemma replays_known:
  "(\<And>a. r = Inr a \<Longrightarrow> replays P (f a) (f' a)) \<Longrightarrow>
   replays P (act_bind (fetch (\<lambda>_. r)) f) (act_bind (fetch (\<lambda>_. r)) f')"
  by (cases r) (auto simp: replays_def outcome_bind commits_bind after_bind)

lemma again_ret: "again (ret ()) (ret ())"
  by (rule replays_ret) simp

lemmas again_intros = replays_known again_ret replays_task replays_state
  replays_bind [OF replays_hotspot] replays_bind [OF replays_artifact] replays_bind [OF replays_task]
  replays_bind [OF replays_state] replays_bind [OF replays_enqueue] replays_bind [OF replays_candidates]
  replays_each [OF _ goes_start_build replays_start_build]

lemma profile_again: "again (after_profile E j) (after_profile E' j)"
  unfolding after_profile_def Let_def by (intro again_intros goes_intros)

lemma generate_again: "again (after_candidate_generate E j) (after_candidate_generate E' j)"
  unfolding after_candidate_generate_def Let_def
  by (intro again_intros goes_intros goes_start_build)

lemma build_again: "again (after_build E j) (after_build E' j)"
proof -
  have q: "again
      (act_then (enqueue E (f c)) (ret ())) (act_then (enqueue E' (f c')) (ret ()))"
    if "f c = f c'" for f :: "candidate \<Rightarrow> job_create" and c c'
    unfolding that by (intro again_intros goes_intros)
  show ?thesis
    unfolding after_build_def Let_def
    by (intro again_intros goes_intros replays_bind [OF replays_candidate] q)
      (auto simp: same_candidate_def happy_path_def)
qed

lemma e2e_again: "reads_alike E E' j \<Longrightarrow> again (after_e2e E j) (after_e2e E' j)"
  unfolding after_e2e_def Let_def
  by (rule replays_known, rule replays_bind [OF replays_evaluate])
    (auto intro!: again_intros goes_intros simp: happy_path_def)

text \<open>The two handlers that end with an attempt to finish the round.\<close>

lemma act_assoc: "act_bind (act_bind m f) g = act_bind m (\<lambda>a. act_bind (f a) g)"
  by (rule ext) (auto simp: act_bind_def Let_def final_append split: sum.split prod.split)

definition correctness_part :: "env \<Rightarrow> job \<Rightarrow> (db, unit) session" where
  "correctness_part E j =
     act_bind (fetch (\<lambda>_. payload_candidate j)) (\<lambda>cid.
     act_then (evaluate_phase E j CORRECTNESS)
     (act_bind (fetch (\<lambda>_. jitem (result_of j) ''passed'')) (\<lambda>passed.
        if truthy passed
        then act_then (ensure_candidate_state cid C_PERFORMANCE_RUNNING)
          (act_bind (fetch (\<lambda>_. jitem (j_payload j) ''round_id'')) (\<lambda>round_id.
           act_bind (fetch (\<lambda>_. jitem (j_payload j) ''variant'')) (\<lambda>variant.
           act_then (enqueue E (job_request (j_task j) JT_PERFORMANCE W_GPU SCOPE_EXCLUSIVE
               (cid @ '':performance:v1'')
               (jobj [(''candidate_id'', JStr cid), (''round_id'', round_id),
                  (''variant'', variant), (''synthetic'', JBool True)])))
             (ret ()))))
        else ensure_candidate_state cid C_REJECTED)))"

definition performance_part :: "env \<Rightarrow> job \<Rightarrow> (db, unit) session" where
  "performance_part E j =
     act_bind (fetch (\<lambda>_. payload_candidate j)) (\<lambda>cid.
     act_then (evaluate_phase E j PERFORMANCE)
     (act_bind (fetch (\<lambda>_. jitem (result_of j) ''passed'')) (\<lambda>passed.
        ensure_candidate_state cid (if truthy passed then C_ROUND_WAITING else C_REJECTED))))"

lemma ending_parts:
  "after_correctness E j = act_then (correctness_part E j) (maybe_finish_round E (j_task j))"
  "after_performance E j = act_then (performance_part E j) (maybe_finish_round E (j_task j))"
  by (simp_all add: after_correctness_def correctness_part_def after_performance_def
      performance_part_def Let_def act_assoc)

lemma parts_again:
  assumes "reads_alike E E' j"
  shows "again (correctness_part E j) (correctness_part E' j)"
    and "again (performance_part E j) (performance_part E' j)"
  unfolding correctness_part_def performance_part_def
  by (rule replays_known, rule replays_bind [OF replays_evaluate [OF assms]];
      auto intro!: again_intros goes_intros simp: happy_path_def)+

lemma parts_unique:
  "unique_rows d \<Longrightarrow> unique_rows (after (correctness_part E j) d)"
  "unique_rows d \<Longrightarrow> unique_rows (after (performance_part E j) d)"
proof -
  have "graph_walk.obeys (correctness_part E j)" "graph_walk.obeys (performance_part E j)"
    unfolding correctness_part_def performance_part_def
    by (auto intro!: graph_walk.obeys_intros graph_walk.obeys_evaluate graph_walk.obeys_any_candidate
        graph_walk.obeys_enqueue)
  from this [THEN graph_walk.obeys_after, of d]
  show "unique_rows d \<Longrightarrow> unique_rows (after (correctness_part E j) d)"
    "unique_rows d \<Longrightarrow> unique_rows (after (performance_part E j) d)"
    by (simp_all add: follows_graph_def)
qed

lemma finish_settled:
  assumes u: "unique_rows d" and o: "outcome (maybe_finish_round E i) d = Inr ()"
  shows "settled (maybe_finish_round E' i) (after (maybe_finish_round E i) d)"
proof -
  have "maybe_finish_round E' i (after (maybe_finish_round E i) d) = ([], Inr ())"
  proof (cases "round_winner i d")
    case None
    then have "after (maybe_finish_round E i) d = d"
      by (simp add: after_def commits_def maybe_finish_round_winner)
    with None show ?thesis by (simp add: maybe_finish_round_winner)
  next
    case (Some w)
    have "after (maybe_finish_round E i) d \<in> set (commits (maybe_finish_round E i) d)"
      using finish_commits(3) [OF u Some] by (simp add: after_def final_mem)
    from chosen_no_winner [OF round_winnerD(2) [OF Some] finish_commits(1) [OF u Some this]]
    show ?thesis by (simp add: maybe_finish_round_winner)
  qed
  then show ?thesis by (simp add: settled_def outcome_def commits_def)
qed

lemma again_settled: "again m m' \<Longrightarrow> outcome m d = Inr () \<Longrightarrow> settled m' (after m d)"
  unfolding replays_def settled_def using later.rel_refl by blast

lemma again_then_finish:
  assumes p: "again p p'" and u: "unique_rows (after p d)"
    and o: "outcome (act_then p (maybe_finish_round E i)) d = Inr ()"
  shows "settled (act_then p' (maybe_finish_round E' i)) (after (act_then p (maybe_finish_round E i)) d)"
proof -
  let ?d = "after (maybe_finish_round E i) (after p d)"
  from o obtain a where a: "outcome p d = Inr a" "outcome (maybe_finish_round E i) (after p d) = Inr ()"
    by (auto simp: outcome_bind_Inr)
  have "later (after p d) ?d" using goes_finish by (simp add: goes_def)
  with p a(1) have "settled p' ?d" unfolding replays_def settled_def by blast
  moreover have "settled (maybe_finish_round E' i) ?d" by (rule finish_settled [OF u a(2)])
  ultimately have "settled (act_then p' (maybe_finish_round E' i)) ?d" by (blast intro: settled_bind)
  then show ?thesis using a(1) by (simp add: after_bind_Inr)
qed

lemma handler_settled:
  assumes u: "unique_rows d" and o: "outcome (handler E j) d = Inr ()" and e: "reads_alike E E' j"
  shows "settled (handler E' j) (after (handler E j) d)"
  using o again_settled [OF profile_again] again_settled [OF generate_again]
    again_settled [OF build_again] again_settled [OF e2e_again [OF e]]
    again_then_finish [OF parts_again(1) [OF e] parts_unique(1) [OF u], of E "j_task j" E']
    again_then_finish [OF parts_again(2) [OF e] parts_unique(2) [OF u], of E "j_task j" E']
  unfolding handler_def by (cases "j_type j") (simp_all add: ending_parts)

end
