(* ===== verification/WalkingProps.thy ===== *)
theory WalkingProps
  imports WalkingReplay
begin

text \<open>
  The properties of the optimization workflow of src/src/hcuopt/orchestrator/walking.py, each
  with a witness on a small concrete store.
\<close>

section \<open>A sample workflow\<close>

definition sample_provenance :: provenance where
  "sample_provenance = \<lparr>pv_profile = ''fake'', pv_capability = ''run'', pv_adapter = ''Fake'',
     pv_version = ''1'', pv_kind = FAKE_ADAPTER, pv_commit = None\<rparr>"

definition sample_env :: env where
  "sample_env = \<lparr>fresh = (\<lambda>s. ''id:'' @ s), clock = (\<lambda>_. 10),
     codec_of = \<lparr>read_provenance = (\<lambda>_. Inr sample_provenance), read_series = (\<lambda>_ _ _. Inl TypeError),
       dump_provenance = (\<lambda>p. JStr (pv_profile p)), dump_series = (\<lambda>m. JStr (ms_id m)),
       sha256_json = (\<lambda>_. ''00'')\<rparr>\<rparr>"

definition walking_candidate :: "uuid \<Rightarrow> int \<Rightarrow> candidate_state \<Rightarrow> candidate" where
  "walking_candidate i n s =
     \<lparr>c_id = i, c_task = ''task-1'', c_round = ''round-0'', c_baseline = ''base-1'',
      c_source_hash = i, c_variant = ''fake'', c_state = s, c_ordinal = n, c_metadata = jobj [],
      c_track = None, c_release_mode = None, c_kind = None, c_intent = None, c_point = None,
      c_key = None, c_hotspot = None\<rparr>"

definition walking_job :: job where
  "walking_job =
     (new_job 1 ''job-p'' (job_request ''task-1'' JT_PERFORMANCE W_GPU SCOPE_EXCLUSIVE
        ''cand-a:performance:v1'' (jobj [(''candidate_id'', JStr ''cand-a'')])))
     \<lparr>j_state := J_SUCCEEDED, j_attempts := 1,
      j_result := Some (jobj [(''adapter_provenance'', JArr [JNull]), (''synthetic'', JBool True),
        (''passed'', JBool True)])\<rparr>"

text \<open>The last of two candidates has been measured; the other one waits.\<close>

definition walking_db :: db where
  "walking_db = empty_db\<lparr>tasks := [sample_task], jobs := [walking_job],
     baselines := [\<lparr>b_id = ''base-1'', b_task = ''task-1'', b_hardware = ''h'', b_software = ''s'',
       b_workload = ''w'', b_configuration = ''c''\<rparr>],
     candidates := [walking_candidate ''cand-a'' 0 C_PERFORMANCE_RUNNING,
       walking_candidate ''cand-b'' 1 C_ROUND_WAITING]\<rparr>"

definition walking_waiting :: db where
  "walking_waiting = walking_db\<lparr>candidates := [walking_candidate ''cand-a'' 0 C_ROUND_WAITING,
       walking_candidate ''cand-b'' 1 C_ROUND_WAITING]\<rparr>"

lemma walking_unique: "unique_rows walking_db" "unique_rows walking_waiting"
  by (simp_all add: unique_rows_def walking_db_def walking_waiting_def empty_db_def walking_candidate_def)

lemma walking_finished:
  "map c_state (candidates (after (advance sample_env walking_job) walking_db)) =
     [C_E2E_RUNNING, C_ROUND_WAITING]"
  "map t_state (tasks (after (advance sample_env walking_job) walking_db)) = [T_E2E_VALIDATING]"
  "commits (advance sample_env walking_job) walking_db \<noteq> []"
  by code_simp+

lemma walking_after:
  "after (advance sample_env walking_job) walking_db \<in> set (commits (advance sample_env walking_job) walking_db)"
  using walking_finished(3) by (simp add: after_def final_mem)

section \<open>Properties\<close>

text \<open>
  C25. The coordinator follows the state machines: whatever a handler commits, and wherever
  it is cut short, every task and every candidate keeps its fields and moves along the
  edges of its transition graph only, candidates are added in the state proposed and
  never removed, and no task becomes completed and no candidate accepted, which is left to
  the sign-off.
\<close>

theorem coordinator_follows_the_graph:
  assumes "unique_rows d" "d' \<in> set (commits (advance E j) d)"
  shows "list_all2 task_moved (tasks d) (tasks d') \<and>
    (\<exists>cs new. candidates d' = cs @ new \<and> list_all2 candidate_moved (candidates d) cs \<and>
       (\<forall>c \<in> set new. (C_PROPOSED, c_state c) \<in> candidate_edges\<^sup>*)) \<and>
    (\<forall>t' \<in> set (tasks d'). t_state t' = T_COMPLETED \<longrightarrow>
       (\<exists>t \<in> set (tasks d). t_id t = t_id t' \<and> t_state t = T_COMPLETED))"
proof -
  have f: "follows_graph d d'" by (rule graph_walk.every_commit [OF assms(2)])
  have nc: "t_state t = T_COMPLETED" if "task_moved t t'" "t_state t' = T_COMPLETED" for t t'
  proof -
    from that have "(t_state t, T_COMPLETED) \<in> task_edges\<^sup>*" by (auto simp: task_moved_def)
    then show ?thesis by (cases rule: rtranclE) (auto simp: task_edges_def)
  qed
  have "\<exists>t \<in> set (tasks d). t_id t = t_id t' \<and> t_state t = T_COMPLETED"
    if t': "t' \<in> set (tasks d')" "t_state t' = T_COMPLETED" for t'
  proof -
    from f assms(1) have "list_all2 task_moved (tasks d) (tasks d')" by (simp add: follows_graph_def)
    with t'(1) obtain t where "t \<in> set (tasks d)" "task_moved t t'"
      by (metis in_set_conv_nth list_all2_conv_all_nth)
    moreover from this(2) have "t_id t = t_id t'" by (auto simp: task_moved_def)
    ultimately show ?thesis using nc t'(2) by blast
  qed
  with f assms(1) show ?thesis by (simp add: follows_graph_def)
qed

theorem coordinator_graph_witness:
  "list_all2 task_moved (tasks walking_db) (tasks (after (advance sample_env walking_job) walking_db))"
  using coordinator_follows_the_graph [OF walking_unique(1) walking_after] by blast

text \<open>
  C29. The coordinator never disturbs the queue or the records: through everything a handler
  commits, the jobs that exist keep all their fields but the mark that they were advanced,
  new jobs are queued and unclaimed, resources and workers are untouched and the invariant
  of the queue holds; the frozen baselines stay as they are and evaluations and artifacts
  are only appended.
\<close>

theorem coordinator_keeps_the_queue:
  assumes "queue_inv d" "d' \<in> set (commits (advance E j) d)"
  shows "queue_inv d' \<and> resources d' = resources d \<and> workers d' = workers d \<and>
    baselines d' = baselines d \<and>
    (\<exists>js new. jobs d' = js @ new \<and> list_all2 job_kept (jobs d) js \<and>
       (\<forall>j \<in> set new. j_state j = J_QUEUED \<and> j_attempts j = 0)) \<and>
    (\<exists>new. evaluations d' = evaluations d @ new) \<and> (\<exists>new. artifacts d' = artifacts d @ new)"
  using queue_walk.every_commit [OF assms(2)] records_walk.every_commit [OF assms(2)] assms(1)
  by (simp add: queue_kept_def records_kept_def)

theorem coordinator_queue_witness:
  "queue_inv (after (advance sample_env walking_job) walking_db)"
proof -
  have "queue_inv walking_db"
    by (simp add: queue_inv_def queue_ok_def walking_db_def empty_db_def walking_job_def new_job_def
        job_request_def job_ok_def)
  from coordinator_keeps_the_queue [OF this walking_after] show ?thesis by blast
qed






text \<open>
  Moving a candidate forward: along the happy path a candidate always reaches the state
  asked for, one transaction per state in between, or stays where it is when it is further
  along; a rejected candidate or one whose build failed is left alone unless it is
  rejected.
\<close>

theorem candidate_moves_forward:
  assumes "find_candidate d i = Some c"
  shows "(c_state c \<in> set happy_path \<and> target \<in> set happy_path \<longrightarrow>
      outcome (ensure_candidate_state i target) d = Inr () \<and>
      length (commits (ensure_candidate_state i target) d) =
        index_of happy_path target - index_of happy_path (c_state c) \<and>
      find_candidate (after (ensure_candidate_state i target) d) i =
        Some (c\<lparr>c_state := happy_path ! max (index_of happy_path (c_state c)) (index_of happy_path target)\<rparr>)) \<and>
    (c_state c \<in> {C_REJECTED, C_BUILD_FAILED} \<and> target \<noteq> C_REJECTED \<longrightarrow>
      ensure_candidate_state i target d = ([], Inr ()))"
proof -
  have nth: "happy_path ! index_of happy_path s = s" if "s \<in> set happy_path" for s
    using that by (auto simp: happy_path_def)
  have fwd: "outcome (ensure_candidate_state i target) d = Inr () \<and>
      length (commits (ensure_candidate_state i target) d) =
        index_of happy_path target - index_of happy_path (c_state c) \<and>
      find_candidate (after (ensure_candidate_state i target) d) i =
        Some (c\<lparr>c_state := happy_path ! max (index_of happy_path (c_state c)) (index_of happy_path target)\<rparr>)"
    if s: "c_state c \<in> set happy_path" "target \<in> set happy_path"
  proof (cases "index_of happy_path (c_state c) < index_of happy_path target")
    case True
    note each_candidate [OF assms happy_run [OF s True]]
    moreover have "length (drop (Suc (index_of happy_path (c_state c)))
        (take (Suc (index_of happy_path target)) happy_path)) =
      index_of happy_path target - index_of happy_path (c_state c)"
      using index_of_bound [OF s(2)] by simp
    moreover have "max (index_of happy_path (c_state c)) (index_of happy_path target) =
        index_of happy_path target" using True by simp
    ultimately show ?thesis
      using nth [OF s(2)] ensure_candidate_moves [OF assms s True]
      by (simp add: outcome_def commits_def after_def)
  next
    case False
    then have "ensure_candidate_state i target d = ([], Inr ())"
      using s by (intro ensure_candidate_stays [OF assms]) auto
    moreover have "max (index_of happy_path (c_state c)) (index_of happy_path target) =
        index_of happy_path (c_state c)" using False by simp
    ultimately show ?thesis
      using False nth [OF s(1)] assms by (simp add: outcome_def commits_def after_def)
  qed
  then show ?thesis using ensure_candidate_stays [OF assms] by blast
qed

theorem candidate_moves_forward_witness:
  "length (commits (ensure_candidate_state ''cand-b'' C_E2E_RUNNING) walking_db) = 3"
proof -
  have "find_candidate walking_db ''cand-b'' = Some (walking_candidate ''cand-b'' 1 C_ROUND_WAITING)"
    by (simp add: find_candidate_def walking_db_def empty_db_def walking_candidate_def)
  from candidate_moves_forward [OF this, of C_E2E_RUNNING] show ?thesis
    by (simp add: happy_path_def walking_candidate_def)
qed



text \<open>
  C28. A round is finished at most once, and a crash in the middle loses its end-to-end job:
  after any commit of the session that finishes a round, a retry does nothing and returns;
  and its first commit moves the winner on without having queued a job, so a process that
  dies there leaves a round that no retry carries further.
\<close>

theorem finishing_is_not_resumed:
  assumes "unique_rows d" "round_winner i d = Some w"
  shows "(\<forall>d' \<in> set (commits (maybe_finish_round E i) d). maybe_finish_round E' i d' = ([], Inr ())) \<and>
    (\<exists>d1. d1 = hd (commits (maybe_finish_round E i) d) \<and> jobs d1 = jobs d \<and>
       maybe_finish_round E' i d1 = ([], Inr ()))"
proof -
  have none: "maybe_finish_round E' i d' = ([], Inr ())"
    if "d' \<in> set (commits (maybe_finish_round E i) d)" for d'
    using chosen_no_winner [OF round_winnerD(2) [OF assms(2)] finish_commits(1) [OF assms that]]
    by (simp add: maybe_finish_round_winner)
  have "jobs (hd (commits (maybe_finish_round E i) d)) = jobs d"
    using finish_commits(2) [OF assms] by simp
  with none finish_commits(3) [OF assms] show ?thesis by simp
qed

theorem finishing_is_not_resumed_witness:
  "\<exists>d1. d1 = hd (commits (maybe_finish_round sample_env ''task-1'') walking_waiting) \<and>
     jobs d1 = jobs walking_waiting \<and> maybe_finish_round sample_env ''task-1'' d1 = ([], Inr ())"
proof -
  have "map_option c_id (round_winner ''task-1'' walking_waiting) = Some ''cand-a''" by code_simp
  then obtain w where "round_winner ''task-1'' walking_waiting = Some w" by auto
  from finishing_is_not_resumed [OF walking_unique(2) this] show ?thesis by blast
qed




end
