(* ===== verification/RoundBudget.thy ===== *)
theory RoundBudget
  imports SearchRound
begin

text \<open>
  The budget of an M2a round: the usage arithmetic and the ledger rules of
  src/src/hcuopt/contracts/m2.py, and the two operations of
  src/src/hcuopt/storage/repository.py that reserve budget before a job attempt and close
  a reservation with exactly one terminal ledger entry.
\<close>

section \<open>Usage\<close>

definition usage_valid :: "usage \<Rightarrow> bool" where
  "usage_valid u \<longleftrightarrow>
     0 \<le> u_candidates u \<and> 0 \<le> u_builds u \<and> 0 \<le> u_correctness u \<and> 0 \<le> u_search u \<and>
     0 \<le> u_holdout u \<and> \<not> is_negative (u_wall u) \<and> u_wall u \<noteq> NaN \<and>
     \<not> is_negative (u_lease u) \<and> u_lease u \<noteq> NaN"

definition zero_usage :: usage where
  "zero_usage = \<lparr>u_candidates = 0, u_builds = 0, u_correctness = 0, u_search = 0,
     u_holdout = 0, u_wall = Fin 0, u_lease = Fin 0\<rparr>"

definition is_zero :: "usage \<Rightarrow> bool" where
  "is_zero u \<longleftrightarrow> u = zero_usage"

definition plus_usage :: "usage \<Rightarrow> usage \<Rightarrow> usage" where
  "plus_usage u v =
     \<lparr>u_candidates = u_candidates u + u_candidates v, u_builds = u_builds u + u_builds v,
      u_correctness = u_correctness u + u_correctness v, u_search = u_search u + u_search v,
      u_holdout = u_holdout u + u_holdout v, u_wall = fadd (u_wall u) (u_wall v),
      u_lease = fadd (u_lease u) (u_lease v)\<rparr>"

text \<open>The first limit that is exceeded, in the order of the fields.\<close>

definition round_budget_violation :: "round_budget \<Rightarrow> usage \<Rightarrow> string option" where
  "round_budget_violation b u =
     map_option fst (find snd
       [(''candidates'', rb_candidates b < u_candidates u),
        (''build_attempts'', rb_builds b < u_builds u),
        (''correctness_attempts'', rb_correctness b < u_correctness u),
        (''search_samples'', rb_search b < u_search u),
        (''holdout_samples'', rb_holdout b < u_holdout u),
        (''wall_seconds'', fless (of_py_int (rb_wall b)) (u_wall u)),
        (''exclusive_lease_seconds'', fless (of_py_int (rb_lease b)) (u_lease u))])"

section \<open>Ledger entries\<close>

text \<open>
  \<open>math.isclose(a, b, rel_tol=1e-12, abs_tol=1e-12)\<close>: equal values are close, an
  infinity is close to nothing else, and otherwise the rounded difference is compared with
  the rounded relative bound or the absolute one.
\<close>

definition tolerance :: rat where
  "tolerance = (case double (1 / 10 ^ 12) of Fin q \<Rightarrow> q | _ \<Rightarrow> 0)"

fun isclose :: "pyfloat \<Rightarrow> pyfloat \<Rightarrow> bool" where
  "isclose (Fin a) (Fin b) =
     (a = b \<or>
      (let diff = double \<bar>b - a\<bar> in
         \<not> fless (double (tolerance * \<bar>b\<bar>)) diff \<or> \<not> fless (double (tolerance * \<bar>a\<bar>)) diff \<or>
         \<not> fless (Fin tolerance) diff))"
| "isclose PosInf PosInf = True"
| "isclose NegInf NegInf = True"
| "isclose _ _ = False"

definition ledger_entry_fields :: "ledger_entry \<Rightarrow> bool" where
  "ledger_entry_fields g \<longleftrightarrow>
     usage_valid (g_reserved g) \<and> usage_valid (g_actual g) \<and>
     \<not> is_negative (g_held g) \<and> g_held g \<noteq> NaN \<and> \<not> is_negative (g_active g) \<and> g_active g \<noteq> NaN \<and>
     is_sha256 (g_evidence g) \<and> text_between 8 300 (g_key g)"

definition require_valid_ledger_semantics :: "ledger_entry \<Rightarrow> error + unit" where
  "require_valid_ledger_semantics g =
     (if fless (g_held g) (g_active g)
      then Inl (ValueError ''Harness active time cannot exceed Lease held time'')
      else if g_type g = BE_SETTLE \<and> \<not> isclose (u_lease (g_actual g)) (g_held g)
      then Inl (ValueError ''settle actual Lease charge must equal Lease held time'')
      else if g_type g = BE_RELEASE \<and> \<not> is_zero (g_actual g)
      then Inl (ValueError ''release entry cannot report actual consumption'')
      else if g_type g = BE_RESERVE \<and> \<not> is_zero (g_actual g)
      then Inl (ValueError ''reserve entry cannot report actual consumption'')
      else if g_type g \<noteq> BE_SETTLE \<and> (g_held g \<noteq> Fin 0 \<or> g_active g \<noteq> Fin 0)
      then Inl (ValueError ''reserve/release entries cannot report runtime seconds'')
      else Inr ())"

definition reservation_fields :: "reservation \<Rightarrow> bool" where
  "reservation_fields v \<longleftrightarrow> 1 \<le> v_attempt v \<and> usage_valid (v_planned v) \<and> text_between 8 300 (v_key v)"

text \<open>The unique constraints of the ledger; a violation rolls the transaction back.\<close>

definition ledger_clash :: "ledger_entry \<Rightarrow> ledger_entry \<Rightarrow> bool" where
  "ledger_clash g h \<longleftrightarrow>
     g_id h = g_id g \<or> (g_reservation h = g_reservation g \<and> g_type h = g_type g) \<or>
     (g_round h = g_round g \<and> g_key h = g_key g) \<or>
     (g_reservation h = g_reservation g \<and> g_type g \<noteq> BE_RESERVE \<and> g_type h \<noteq> BE_RESERVE)"

definition insert_ledger :: "ledger_entry \<Rightarrow> m2_db \<Rightarrow> error + m2_db" where
  "insert_ledger g d =
     (if list_ex (ledger_clash g) (ledger d)
      then Inl (DatabaseError ''round_budget_ledger'')
      else Inr (d\<lparr>ledger := ledger d @ [g]\<rparr>))"

section \<open>Reserving\<close>

definition reservation_clash :: "reservation \<Rightarrow> reservation \<Rightarrow> bool" where
  "reservation_clash q v \<longleftrightarrow>
     v_id v = v_id q \<or> v_key v = v_key q \<or> (v_job v = v_job q \<and> v_attempt v = v_attempt q)"

definition same_reservation :: "reservation \<Rightarrow> reservation \<Rightarrow> bool" where
  "same_reservation q v \<longleftrightarrow>
     v_id v = v_id q \<and> v_round v = v_round q \<and> v_job v = v_job q \<and> v_attempt v = v_attempt q \<and>
     v_candidate v = v_candidate q \<and> v_phase v = v_phase q \<and> v_planned v = v_planned q \<and>
     v_key v = v_key q"

definition reserve_entry_of :: "m2_db \<Rightarrow> uuid \<Rightarrow> ledger_entry option" where
  "reserve_entry_of d i = find (\<lambda>g. g_reservation g = i \<and> g_type g = BE_RESERVE) (ledger d)"

text \<open>What the round has used: its members, the open reservations and the settled actuals.\<close>

definition outstanding :: "m2_db \<Rightarrow> uuid \<Rightarrow> usage list" where
  "outstanding d i =
     map v_planned (filter (\<lambda>v. v_round v = i \<and> v_state v = BR_RESERVED) (reservations d))"

definition settled :: "m2_db \<Rightarrow> uuid \<Rightarrow> usage list" where
  "settled d i = map g_actual (filter (\<lambda>g. g_round g = i \<and> g_type g = BE_SETTLE) (ledger d))"

definition round_usage :: "m2_db \<Rightarrow> uuid \<Rightarrow> usage" where
  "round_usage d i =
     foldl plus_usage (zero_usage\<lparr>u_candidates := int (length (round_members d i))\<rparr>)
       (outstanding d i @ settled d i)"

definition job_reservable :: "reservation \<Rightarrow> search_round \<Rightarrow> db \<Rightarrow> bool" where
  "job_reservable q r b =
     (case find_job b (v_job q) of
        None \<Rightarrow> False
      | Some j \<Rightarrow> j_task j = sr_task r \<and> j_state j = J_QUEUED \<and> v_attempt q = j_attempts j + 1)"

definition reserve_round_budget ::
    "reservation \<Rightarrow> ledger_entry \<Rightarrow> m2_db \<Rightarrow> error + (m2_db \<times> (reservation \<times> ledger_entry))" where
  "reserve_round_budget q g d =
     (if v_state q \<noteq> BR_RESERVED
      then Inl (Conflict ''new M2a Budget reservation must start reserved'')
      else if is_zero (v_planned q)
      then Inl (Conflict ''M2a Budget reservation cannot be empty'')
      else if g_type g \<noteq> BE_RESERVE \<or> g_reservation g \<noteq> v_id q \<or> g_round g \<noteq> v_round q \<or>
              g_reserved g \<noteq> v_planned q
      then Inl (Conflict ''M2a Budget reserve entry does not match its reservation'')
      else case find_round d (v_round q) of
        None \<Rightarrow> Inl (NotFound ''M2a SearchRound not found'')
      | Some r \<Rightarrow>
          (case find (reservation_clash q) (reservations d) of
             Some v \<Rightarrow>
               if \<not> same_reservation q v
               then Inl (Conflict ''M2a Budget reservation identity belongs to other inputs'')
               else (case reserve_entry_of d (v_id q) of
                       None \<Rightarrow> Inl (Conflict
                         ''M2a Budget reservation is missing its reserve ledger event'')
                     | Some h \<Rightarrow>
                         if h \<noteq> g
                         then Inl (Conflict
                           ''M2a Budget reserve event was replayed with other inputs'')
                         else Inr (d, (v, h)))
           | None \<Rightarrow>
               if sr_state r \<in> {R_INTAKE_OPEN, R_SCRIPTED_COMPLETED, R_COMPLETED, R_REJECTED,
                    R_CANCELLED}
               then Inl (Conflict ''M2a Round is not accepting new Budget reservations'')
               else if \<not> job_reservable q r (base d)
               then Inl (Conflict ''M2a Budget reservation Job binding is not reservable'')
               else if (case v_candidate q of None \<Rightarrow> False
                        | Some c \<Rightarrow> \<not> list_ex (\<lambda>m. mb_round m = v_round q \<and> mb_candidate m = c)
                            (members d))
               then Inl (Conflict ''M2a Budget reservation Candidate is not a Round member'')
               else
                 let proposed = plus_usage (round_usage d (v_round q)) (v_planned q)
                 in if round_budget_violation (sr_budget r) proposed \<noteq> None
                    then Inl (Conflict ''M2a Round Budget exhausted'')
                    else bind_res (insert_ledger g (d\<lparr>reservations := reservations d @ [q]\<rparr>))
                      (\<lambda>d1. Inr (in_base (log_task (sr_task r) ''m2_round_budget_reserved''
                         (jobj [(''round_id'', JStr (v_round q)),
                            (''reservation_id'', JStr (v_id q)), (''job_id'', JStr (v_job q)),
                            (''attempt'', JInt (v_attempt q))])) d1, (q, g)))))"

section \<open>Closing a reservation\<close>

definition terminal_entry_of :: "m2_db \<Rightarrow> uuid \<Rightarrow> ledger_entry option" where
  "terminal_entry_of d i =
     find (\<lambda>g. g_reservation g = i \<and> g_type g \<in> {BE_SETTLE, BE_RELEASE}) (ledger d)"

definition entry_type_value :: "budget_entry_type \<Rightarrow> string" where
  "entry_type_value ty = (case ty of BE_RESERVE \<Rightarrow> ''reserve'' | BE_SETTLE \<Rightarrow> ''settle''
     | BE_RELEASE \<Rightarrow> ''release'')"

definition finalize_round_budget ::
    "ledger_entry \<Rightarrow> m2_db \<Rightarrow> error + (m2_db \<times> (reservation \<times> ledger_entry))" where
  "finalize_round_budget g d =
     (if g_type g \<notin> {BE_SETTLE, BE_RELEASE}
      then Inl (Conflict ''M2a Budget terminal event must settle or release'')
      else
        let terminal_state = (if g_type g = BE_SETTLE then BR_SETTLED else BR_RELEASED) in
        case find_round d (g_round g) of
          None \<Rightarrow> Inl (NotFound ''M2a SearchRound not found'')
        | Some r \<Rightarrow>
            (case find (\<lambda>v. v_id v = g_reservation g) (reservations d) of
               None \<Rightarrow> Inl (Conflict ''M2a Budget terminal event has no matching reservation'')
             | Some v \<Rightarrow>
                 if v_round v \<noteq> g_round g
                 then Inl (Conflict ''M2a Budget terminal event has no matching reservation'')
                 else (case terminal_entry_of d (g_reservation g) of
                   Some h \<Rightarrow>
                     if h \<noteq> g
                     then Inl (Conflict
                       ''M2a Budget reservation already has another terminal event'')
                     else Inr (d, (v, h))
                 | None \<Rightarrow>
                     if v_state v \<noteq> BR_RESERVED
                     then Inl (Conflict ''M2a Budget reservation is already terminal'')
                     else if v_planned v \<noteq> g_reserved g
                     then Inl (Conflict ''M2a Budget terminal event changed the reserved amount'')
                     else bind_res (insert_ledger g d) (\<lambda>d1.
                       let f = (\<lambda>x. x\<lparr>v_state := terminal_state\<rparr>);
                           d2 = d1\<lparr>reservations := update_where (\<lambda>x. v_id x = g_reservation g) f
                                  (reservations d1)\<rparr>
                       in Inr (in_base (log_task (sr_task r)
                            (''m2_round_budget_'' @ entry_type_value (g_type g))
                            (jobj [(''round_id'', JStr (g_round g)),
                               (''reservation_id'', JStr (g_reservation g)),
                               (''ledger_entry_id'', JStr (g_id g))])) d2, (f v, g))))))"

end
