(* ===== verification/RoundInv.thy ===== *)
theory RoundInv
  imports RoundBudget
begin

text \<open>
  The invariant of the M2a round authority and its preservation by the operations of
  SearchRound and RoundBudget: the frozen families, the complete and ordered membership of
  a closed round, and the ledger that reconciles with its reservations.
\<close>

section \<open>Membership and families\<close>

text \<open>
  What a frozen artifact family keeps of a member: everything but its state, which the
  barriers move on.
\<close>

definition artifact_part :: "member \<Rightarrow> member" where
  "artifact_part m = m\<lparr>mb_state := RC_BUILT\<rparr>"

definition frozen_artifacts :: "(json \<Rightarrow> string) \<Rightarrow> member list \<Rightarrow> search_round \<Rightarrow> string \<Rightarrow> bool" where
  "frozen_artifacts digest ms r h \<longleftrightarrow>
     (\<exists>ms0. map artifact_part ms0 = map artifact_part ms \<and> artifact_family_hash digest r ms0 = Inr h)"

definition family_ok :: "(json \<Rightarrow> string) \<Rightarrow> member list \<Rightarrow> search_round \<Rightarrow> bool" where
  "family_ok digest ms r \<longleftrightarrow>
     (case sr_family r of
        None \<Rightarrow> sr_state r \<in> {R_INTAKE_OPEN, R_CANCELLED} \<and> sr_artifacts r = None
      | Some h \<Rightarrow> sr_state r \<noteq> R_INTAKE_OPEN \<and>
          sr_closed r \<noteq> None \<and> int (length ms) = sr_declared r \<and>
          h = candidate_family_hash digest r ms) \<and>
     (case sr_artifacts r of
        None \<Rightarrow> sr_state r \<in> {R_INTAKE_OPEN, R_INTAKE_CLOSED, R_BUILDING, R_CANCELLED}
      | Some h \<Rightarrow> sr_state r \<notin> {R_INTAKE_OPEN, R_INTAKE_CLOSED, R_BUILDING} \<and>
          frozen_artifacts digest ms r h)"

definition member_slot :: "member \<Rightarrow> uuid \<times> int" where
  "member_slot m = (mb_round m, mb_ordinal m)"

definition rounds_inv :: "(json \<Rightarrow> string) \<Rightarrow> m2_db \<Rightarrow> bool" where
  "rounds_inv digest d \<longleftrightarrow>
     distinct (map sr_id (rounds d)) \<and> distinct (map mb_id (members d)) \<and>
     distinct (map member_slot (members d)) \<and>
     (\<forall>m \<in> set (members d). \<exists>r \<in> set (rounds d). sr_id r = mb_round m \<and>
        0 \<le> mb_ordinal m \<and> mb_ordinal m < sr_declared r) \<and>
     (\<forall>r \<in> set (rounds d). family_ok digest (round_members d (sr_id r)) r \<and>
        sr_mode r = RM_SCRIPTED \<and> round_budget_valid (sr_budget r) \<and>
        rb_candidates (sr_budget r) = sr_declared r)"

lemma find_roundD: "find_round d i = Some r \<Longrightarrow> r \<in> set (rounds d) \<and> sr_id r = i"
  by (auto simp: find_round_def dest: find_SomeD)

lemma find_round_unique:
  "rounds_inv digest d \<Longrightarrow> r \<in> set (rounds d) \<Longrightarrow> find_round d (sr_id r) = Some r"
  by (auto simp: find_round_def rounds_inv_def intro: find_key_unique)

lemma in_base_tables [simp]:
  "rounds (in_base f d) = rounds d" "members (in_base f d) = members d"
  "reservations (in_base f d) = reservations d" "ledger (in_base f d) = ledger d"
  "round_members (in_base f d) i = round_members d i" "find_round (in_base f d) i = find_round d i"
  "baseline_sources (in_base f d) = baseline_sources d" "authorities (in_base f d) = authorities d"
  by (simp_all add: in_base_def round_members_def find_round_def)

lemma set_round_tables [simp]:
  "rounds (set_round i f d) = update_where (\<lambda>q. sr_id q = i) f (rounds d)"
  "members (set_round i f d) = members d" "reservations (set_round i f d) = reservations d"
  "ledger (set_round i f d) = ledger d" "base (set_round i f d) = base d"
  "round_members (set_round i f d) j = round_members d j"
  by (simp_all add: set_round_def round_members_def)

lemma round_members_cong: "members d' = members d \<Longrightarrow> round_members d' i = round_members d i"
  by (simp add: round_members_def)

text \<open>The family hashes read only columns that a freeze or a build terminal leaves alone.\<close>

lemma family_hash_simps [simp]:
  "candidate_family_hash digest (r\<lparr>sr_state := s\<rparr>) ms = candidate_family_hash digest r ms"
  "candidate_family_hash digest (r\<lparr>sr_family := h\<rparr>) ms = candidate_family_hash digest r ms"
  "candidate_family_hash digest (r\<lparr>sr_artifacts := h\<rparr>) ms = candidate_family_hash digest r ms"
  "candidate_family_hash digest (r\<lparr>sr_closed := t\<rparr>) ms = candidate_family_hash digest r ms"
  "candidate_family_hash digest (r\<lparr>sr_version := v\<rparr>) ms = candidate_family_hash digest r ms"
  by (simp_all add: candidate_family_hash_def member_document_def [abs_def])

lemma artifact_hash_simps [simp]:
  "artifact_family_hash digest (r\<lparr>sr_state := s\<rparr>) ms = artifact_family_hash digest r ms"
  "artifact_family_hash digest (r\<lparr>sr_artifacts := h\<rparr>) ms = artifact_family_hash digest r ms"
  "artifact_family_hash digest (r\<lparr>sr_version := v\<rparr>) ms = artifact_family_hash digest r ms"
  by (simp_all add: artifact_family_hash_def split: option.split)

lemma frozen_artifacts_simps [simp]:
  "frozen_artifacts digest ms (r\<lparr>sr_state := s\<rparr>) h = frozen_artifacts digest ms r h"
  "frozen_artifacts digest ms (r\<lparr>sr_artifacts := a\<rparr>) h = frozen_artifacts digest ms r h"
  "frozen_artifacts digest ms (r\<lparr>sr_version := v\<rparr>) h = frozen_artifacts digest ms r h"
  by (simp_all add: frozen_artifacts_def)

lemma frozen_artifactsI: "artifact_family_hash digest r ms = Inr h \<Longrightarrow> frozen_artifacts digest ms r h"
  by (auto simp: frozen_artifacts_def)

text \<open>A build terminal changes no column of a member that identifies it.\<close>

definition keeps_identity :: "(member \<Rightarrow> member) \<Rightarrow> bool" where
  "keeps_identity f \<longleftrightarrow> (\<forall>m. same_identity m (f m))"

lemma insort_key_map:
  "(\<And>x. k (f x) = k x) \<Longrightarrow> insort_key k (f x) (map f xs) = map f (insort_key k x xs)"
  by (induction xs) auto

lemma sort_key_map:
  "(\<And>x. k (f x) = k x) \<Longrightarrow> sort_key k (map f xs) = map f (sort_key k xs)"
  by (induction xs) (auto simp: insort_key_map)

lemma round_members_map:
  assumes "members d' = map f (members d)" "keeps_identity f"
  shows "round_members d' i = map f (round_members d i)"
proof -
  have "mb_round (f m) = mb_round m" "mb_ordinal (f m) = mb_ordinal m" for m
    using assms(2) by (simp_all add: keeps_identity_def same_identity_def)
  then show ?thesis by (simp add: round_members_def assms(1) filter_map o_def sort_key_map)
qed

lemma family_hash_map:
  assumes "keeps_identity f"
  shows "candidate_family_hash digest r (map f ms) = candidate_family_hash digest r ms"
proof -
  have "mb_ordinal (f m) = mb_ordinal m" "member_document r (f m) = member_document r m" for m
    using assms by (simp_all add: keeps_identity_def same_identity_def member_document_def)
  then show ?thesis by (simp add: candidate_family_hash_def sort_key_map o_def)
qed

lemma artifact_documents_terminal:
  "artifact_documents os cs is ms = Inr docs \<Longrightarrow> m \<in> set ms \<Longrightarrow> mb_state m \<in> set BUILD_TERMINAL_STATES"
  by (induction os cs "is" ms arbitrary: docs rule: artifact_documents.induct)
    (auto simp: bind_res_eq_Inr artifact_member_document_def Let_def split: if_splits)

lemma artifact_family_terminal:
  assumes "artifact_family_hash digest r ms = Inr h" "m \<in> set ms"
  shows "mb_state m \<in> set BUILD_TERMINAL_STATES"
  using assms
  by (auto simp: artifact_family_hash_def bind_res_eq_Inr split: option.splits if_splits
      dest: artifact_documents_terminal)

section \<open>Effects of the operations\<close>

lemma insert_round_candidate_tables:
  "insert_round_candidate c d = Inr d' \<Longrightarrow> rounds d' = rounds d \<and> members d' = members d \<and>
   reservations d' = reservations d \<and> ledger d' = ledger d"
  by (auto simp: insert_round_candidate_def split: if_splits option.splits)

lemma create_effect:
  assumes "create_search_round q d = Inr (d', r)"
  shows "members d' = members d" "reservations d' = reservations d" "ledger d' = ledger d"
    "(rounds d' = rounds d \<and> r \<in> set (rounds d)) \<or>
     (rounds d' = rounds d @ [q] \<and> r = q \<and> sr_id q \<notin> sr_id ` set (rounds d) \<and>
      sr_state q = R_INTAKE_OPEN \<and> sr_family q = None \<and> sr_artifacts q = None \<and>
      sr_mode q = RM_SCRIPTED \<and>
      (\<forall>x \<in> set (rounds d). sr_task x = sr_task q \<longrightarrow> \<not> active_round x))"
proof -
  from assms obtain a d1 t d2 where ins: "insert_round_task q a d = (d1, t)"
    and rd: "insert_round q d1 = Inr (d2, r)" and d': "d' = log_created_once q d2"
    and q: "sr_state q = R_INTAKE_OPEN" "sr_family q = None" "sr_artifacts q = None" "sr_mode q = RM_SCRIPTED"
    by (auto simp: create_search_round_def Let_def bind_res_eq_Inr
        split: if_splits option.splits prod.splits)
  have d1: "rounds d1 = rounds d" "members d1 = members d" "reservations d1 = reservations d" "ledger d1 = ledger d"
    using ins by (auto simp: insert_round_task_def split: option.splits)
  have tab: "rounds d' = rounds d2" "members d' = members d2" "reservations d' = reservations d2" "ledger d' = ledger d2"
    by (simp_all add: d' log_created_once_def)
  have d2: "members d2 = members d1 \<and> reservations d2 = reservations d1 \<and> ledger d2 = ledger d1"
    using rd by (auto simp: insert_round_def split: if_splits option.splits)
  then show "members d' = members d" "reservations d' = reservations d" "ledger d' = ledger d"
    by (simp_all add: d1 tab)
  have act: "active_round q" by (simp add: active_round_def q)
  show "(rounds d' = rounds d \<and> r \<in> set (rounds d)) \<or>
     (rounds d' = rounds d @ [q] \<and> r = q \<and> sr_id q \<notin> sr_id ` set (rounds d) \<and>
      sr_state q = R_INTAKE_OPEN \<and> sr_family q = None \<and> sr_artifacts q = None \<and>
      sr_mode q = RM_SCRIPTED \<and>
      (\<forall>x \<in> set (rounds d). sr_task x = sr_task q \<longrightarrow> \<not> active_round x))"
  proof (cases "list_ex (\<lambda>r. sr_id r = sr_id q \<or> sr_key r = sr_key q \<or>
        (sr_task r = sr_task q \<and> active_round r \<and> active_round q)) (rounds d)")
    case True
    with rd have "d2 = d1" "find (\<lambda>r. sr_id r = sr_id q \<or> sr_key r = sr_key q) (rounds d) = Some r"
      unfolding insert_round_def d1(1) if_P [OF True] by (simp_all split: option.splits)
    then show ?thesis by (auto simp: tab d1 dest: find_SomeD)
  next
    case False
    then have new: "d2 = d1\<lparr>rounds := rounds d1 @ [q]\<rparr>" "r = q"
      using rd unfolding insert_round_def d1(1) if_not_P [OF False] by auto
    from False show ?thesis unfolding tab new by (auto simp: d1 q act list_ex_iff)
  qed
qed

lemma add_effect:
  assumes "add_round_candidate q d = Inr (d', m)"
  shows "rounds d' = rounds d" "reservations d' = reservations d" "ledger d' = ledger d"
    "(members d' = members d \<and> m \<in> set (members d) \<and> same_identity q m) \<or>
     (members d' = members d @ [q] \<and> m = q \<and> find (member_clash q) (members d) = None \<and>
      mb_state q = RC_INTAKE_ACCEPTED \<and>
      (\<exists>r. find_round d (mb_round q) = Some r \<and> sr_state r = R_INTAKE_OPEN \<and>
         mb_ordinal q < sr_declared r))"
  using assms
  by (auto simp: add_round_candidate_def Let_def bind_res_eq_Inr
      split: if_splits option.splits dest!: insert_round_candidate_tables)

lemma close_effect:
  assumes "close_search_round_intake digest now i d = Inr (d', r')"
  shows "members d' = members d" "reservations d' = reservations d" "ledger d' = ledger d"
    "d' = d \<or> (\<exists>r. find_round d i = Some r \<and> sr_state r = R_INTAKE_OPEN \<and>
       int (length (round_members d i)) = sr_declared r \<and>
       rounds d' = update_where (\<lambda>q. sr_id q = i)
         (\<lambda>q. q\<lparr>sr_state := R_INTAKE_CLOSED,
            sr_family := Some (candidate_family_hash digest r (round_members d i)),
            sr_closed := Some now, sr_version := sr_version q + 1\<rparr>) (rounds d))"
  using assms
  by (auto simp: close_search_round_intake_def Let_def split: if_splits option.splits)

lemma build_effect:
  assumes "record_round_candidate_build q d = Inr (d', m')"
  shows "reservations d' = reservations d" "ledger d' = ledger d"
    "d' = d \<or> (\<exists>r m. find_round d (bt_round q) = Some r \<and>
       find (\<lambda>m. mb_id m = bt_member q) (members d) = Some m \<and> mb_round m = bt_round q \<and>
       mb_state m \<notin> set BUILD_TERMINAL_STATES \<and> sr_family r \<noteq> None \<and> sr_artifacts r = None \<and>
       sr_state r \<in> {R_INTAKE_CLOSED, R_BUILDING} \<and>
       members d' = update_where (\<lambda>x. mb_id x = bt_member q)
         (\<lambda>x. x\<lparr>mb_state := bt_state q, mb_artifact := bt_artifact q,
            mb_artifact_hash := bt_artifact_hash q, mb_failure := bt_failure q,
            mb_failure_hash := bt_failure_hash q\<rparr>) (members d) \<and>
       rounds d' = update_where (\<lambda>x. sr_id x = bt_round q)
         (\<lambda>x. x\<lparr>sr_state := R_BUILDING, sr_version := sr_version x + 1\<rparr>) (rounds d))"
  using assms
  by (auto simp: record_round_candidate_build_def Let_def BUILD_TERMINAL_STATES_def
      split: if_splits option.splits)

lemma freeze_effect:
  assumes "freeze_search_round_artifact_family digest i family expected d = Inr (d', r')"
  shows "members d' = members d" "reservations d' = reservations d" "ledger d' = ledger d"
    "d' = d \<or> (\<exists>r h. find_round d i = Some r \<and> sr_family r = Some family \<and>
       sr_artifacts r = None \<and> sr_state r = R_BUILDING \<and>
       artifact_family_hash digest r (round_members d i) = Inr h \<and>
       rounds d' = update_where (\<lambda>q. sr_id q = i)
         (\<lambda>q. q\<lparr>sr_state := R_CORRECTNESS, sr_artifacts := Some h,
            sr_version := sr_version q + 1\<rparr>) (rounds d))"
  using assms
  by (auto simp: freeze_search_round_artifact_family_def Let_def
      split: if_splits option.splits sum.splits)

lemma insert_ledger_tables:
  "insert_ledger g d = Inr d' \<Longrightarrow> d' = d\<lparr>ledger := ledger d @ [g]\<rparr> \<and>
   (\<forall>h \<in> set (ledger d). \<not> ledger_clash g h)"
  by (auto simp: insert_ledger_def list_ex_iff split: if_splits)

lemma reserve_effect:
  assumes "reserve_round_budget q g d = Inr (d', res)"
  shows "rounds d' = rounds d" "members d' = members d"
    "(d' = d) \<or>
     (reservations d' = reservations d @ [q] \<and> ledger d' = ledger d @ [g] \<and>
      v_state q = BR_RESERVED \<and> g_type g = BE_RESERVE \<and> g_reservation g = v_id q \<and>
      g_round g = v_round q \<and> g_reserved g = v_planned q \<and>
      (\<forall>v \<in> set (reservations d). \<not> reservation_clash q v) \<and>
      (\<forall>h \<in> set (ledger d). \<not> ledger_clash g h) \<and>
      (\<exists>r. find_round d (v_round q) = Some r \<and> sr_state r \<noteq> R_INTAKE_OPEN \<and>
         round_budget_violation (sr_budget r)
           (plus_usage (round_usage d (v_round q)) (v_planned q)) = None))"
  using assms
  by (auto simp: reserve_round_budget_def Let_def bind_res_eq_Inr find_None_iff
      split: if_splits option.splits dest!: insert_ledger_tables)

lemma finalize_effect:
  assumes "finalize_round_budget g d = Inr (d', res)"
  shows "rounds d' = rounds d" "members d' = members d"
    "(d' = d) \<or>
     (\<exists>v. v \<in> set (reservations d) \<and> v_id v = g_reservation g \<and> v_round v = g_round g \<and>
        v_state v = BR_RESERVED \<and> v_planned v = g_reserved g \<and> g_type g \<in> {BE_SETTLE, BE_RELEASE} \<and>
        terminal_entry_of d (g_reservation g) = None \<and>
        ledger d' = ledger d @ [g] \<and> (\<forall>h \<in> set (ledger d). \<not> ledger_clash g h) \<and>
        reservations d' = update_where (\<lambda>x. v_id x = g_reservation g)
          (\<lambda>x. x\<lparr>v_state := (if g_type g = BE_SETTLE then BR_SETTLED else BR_RELEASED)\<rparr>)
          (reservations d))"
  using assms
  by (auto simp: finalize_round_budget_def Let_def bind_res_eq_Inr
      split: if_splits option.splits dest!: insert_ledger_tables find_SomeD)

section \<open>Preservation\<close>

lemma rounds_invD:
  assumes "rounds_inv digest d"
  shows "distinct (map sr_id (rounds d))" "distinct (map mb_id (members d))"
    "distinct (map member_slot (members d))"
    "m \<in> set (members d) \<Longrightarrow> \<exists>r \<in> set (rounds d). sr_id r = mb_round m \<and>
        0 \<le> mb_ordinal m \<and> mb_ordinal m < sr_declared r"
    "r \<in> set (rounds d) \<Longrightarrow> family_ok digest (round_members d (sr_id r)) r"
    "r \<in> set (rounds d) \<Longrightarrow> sr_mode r = RM_SCRIPTED"
    "r \<in> set (rounds d) \<Longrightarrow> round_budget_valid (sr_budget r)"
    "r \<in> set (rounds d) \<Longrightarrow> rb_candidates (sr_budget r) = sr_declared r"
  using assms unfolding rounds_inv_def by blast+

lemma rounds_inv_cong:
  "rounds d' = rounds d \<Longrightarrow> members d' = members d \<Longrightarrow> rounds_inv digest d' = rounds_inv digest d"
  by (simp add: rounds_inv_def round_members_def)

text \<open>A new round starts empty.\<close>

lemma no_members:
  assumes "rounds_inv digest d" "i \<notin> sr_id ` set (rounds d)"
  shows "round_members d i = []"
proof -
  have "mb_round m \<noteq> i" if "m \<in> set (members d)" for m
    using rounds_invD(4) [OF assms(1) that] assms(2) by force
  then show ?thesis by (simp add: round_members_def filter_False)
qed

lemma create_inv:
  assumes inv: "rounds_inv digest d" and c: "create_search_round q d = Inr (d', r)"
    and q: "search_round_fields q" "require_safe_mode_and_limits q = Inr ()"
  shows "rounds_inv digest d'"
proof -
  note E = create_effect [OF c]
  from E(4) show ?thesis
  proof
    assume "rounds d' = rounds d \<and> r \<in> set (rounds d)"
    with E(1) inv show ?thesis using rounds_inv_cong by blast
  next
    assume new: "rounds d' = rounds d @ [q] \<and> r = q \<and> sr_id q \<notin> sr_id ` set (rounds d) \<and>
      sr_state q = R_INTAKE_OPEN \<and> sr_family q = None \<and> sr_artifacts q = None \<and>
      sr_mode q = RM_SCRIPTED \<and>
      (\<forall>x \<in> set (rounds d). sr_task x = sr_task q \<longrightarrow> \<not> active_round x)"
    have budget: "round_budget_valid (sr_budget q)" "rb_candidates (sr_budget q) = sr_declared q"
      using q by (auto simp: search_round_fields_def require_safe_mode_and_limits_def Let_def
          split: if_splits)
    have ms: "round_members d' i = round_members d i" for i by (rule round_members_cong [OF E(1)])
    note D = rounds_invD [OF inv]
    have "family_ok digest (round_members d (sr_id q)) q" using new by (simp add: family_ok_def)
    moreover have "\<exists>r \<in> set (rounds d'). sr_id r = mb_round m \<and> 0 \<le> mb_ordinal m \<and>
        mb_ordinal m < sr_declared r" if "m \<in> set (members d)" for m
      using D(4) [OF that] new by auto
    ultimately show ?thesis
      unfolding rounds_inv_def ms E(1) using new budget D(1-3,5-8) by auto
  qed
qed

lemma add_inv:
  assumes inv: "rounds_inv digest d" and c: "add_round_candidate q d = Inr (d', m)"
    and q: "round_candidate_fields q"
  shows "rounds_inv digest d'"
proof -
  note E = add_effect [OF c]
  from E(4) show ?thesis
  proof
    assume "members d' = members d \<and> m \<in> set (members d) \<and> same_identity q m"
    with E(1) inv show ?thesis using rounds_inv_cong by blast
  next
    assume new: "members d' = members d @ [q] \<and> m = q \<and>
      find (member_clash q) (members d) = None \<and> mb_state q = RC_INTAKE_ACCEPTED \<and>
      (\<exists>r. find_round d (mb_round q) = Some r \<and> sr_state r = R_INTAKE_OPEN \<and>
         mb_ordinal q < sr_declared r)"
    then obtain r where r: "r \<in> set (rounds d)" "sr_id r = mb_round q" "sr_state r = R_INTAKE_OPEN"
      "mb_ordinal q < sr_declared r" by (auto dest!: find_roundD)
    note D = rounds_invD [OF inv]
    have "\<not> member_clash q x" if "x \<in> set (members d)" for x
      using new that by (auto simp: find_None_iff)
    then have fresh: "mb_id q \<notin> mb_id ` set (members d)" "member_slot q \<notin> member_slot ` set (members d)"
      by (force simp: member_clash_def member_slot_def)+
    have other: "round_members d' (sr_id x) = round_members d (sr_id x)"
      if "x \<in> set (rounds d)" "sr_id x \<noteq> mb_round q" for x
      using new that(2) by (simp add: round_members_def)
    have fam: "family_ok digest (round_members d' (sr_id x)) x" if x: "x \<in> set (rounds d)" for x
    proof (cases "sr_id x = mb_round q")
      case True
      then have "x = r" using key_unique [OF D(1) x r(1)] r(2) by simp
      with D(5) [OF x] r(3) show ?thesis by (auto simp: family_ok_def split: option.splits)
    next
      case False
      with D(5) [OF x] other [OF x] show ?thesis by simp
    qed
    have "0 \<le> mb_ordinal q" using q by (simp add: round_candidate_fields_def)
    then show ?thesis
      unfolding rounds_inv_def E(1) using new fresh fam r D by auto
  qed
qed

text \<open>One round is rewritten without touching its members or what the invariant fixes.\<close>

lemma set_round_inv:
  assumes inv: "rounds_inv digest d" and ms: "members d' = members d"
    and rs: "rounds d' = update_where (\<lambda>q. sr_id q = i) f (rounds d)" and r: "find_round d i = Some r"
    and f: "\<And>q. sr_id (f q) = sr_id q" "\<And>q. sr_declared (f q) = sr_declared q"
      "\<And>q. sr_mode (f q) = sr_mode q" "\<And>q. sr_budget (f q) = sr_budget q"
      "family_ok digest (round_members d i) (f r)"
  shows "rounds_inv digest d'"
proof -
  note D = rounds_invD [OF inv]
  have m: "round_members d' j = round_members d j" for j by (rule round_members_cong [OF ms])
  from r have ri: "r \<in> set (rounds d)" "sr_id r = i" by (auto dest: find_roundD)
  have mem: "x \<in> set (rounds d') \<longleftrightarrow> x = f r \<or> (x \<in> set (rounds d) \<and> x \<noteq> r)" for x
    unfolding rs by (rule mem_update_unique [OF D(1) ri(1)]) (use ri in simp_all)
  have ids: "map sr_id (rounds d') = map sr_id (rounds d)"
    unfolding rs using f(1) by (simp add: row_simps)
  have "\<exists>r' \<in> set (rounds d'). sr_id r' = mb_round x \<and> 0 \<le> mb_ordinal x \<and>
      mb_ordinal x < sr_declared r'" if x: "x \<in> set (members d)" for x
  proof -
    from D(4) [OF x] obtain y where "y \<in> set (rounds d)" "sr_id y = mb_round x"
      "0 \<le> mb_ordinal x" "mb_ordinal x < sr_declared y" by blast
    moreover have "(if sr_id y = i then f y else y) \<in> set (rounds d')"
      unfolding rs set_update_where using calculation(1) by (rule imageI)
    ultimately show ?thesis using f(1,2) by (metis (full_types))
  qed
  then show ?thesis
    unfolding rounds_inv_def m ms ids using D mem f ri by auto
qed

lemma close_inv:
  assumes inv: "rounds_inv digest d" and c: "close_search_round_intake digest now i d = Inr (d', r')"
  shows "rounds_inv digest d'"
proof -
  note E = close_effect [OF c]
  from E(4) show ?thesis
  proof
    assume "\<exists>r. find_round d i = Some r \<and> sr_state r = R_INTAKE_OPEN \<and>
       int (length (round_members d i)) = sr_declared r \<and>
       rounds d' = update_where (\<lambda>q. sr_id q = i)
         (\<lambda>q. q\<lparr>sr_state := R_INTAKE_CLOSED,
            sr_family := Some (candidate_family_hash digest r (round_members d i)),
            sr_closed := Some now, sr_version := sr_version q + 1\<rparr>) (rounds d)"
    then obtain r where r: "find_round d i = Some r" "sr_state r = R_INTAKE_OPEN"
      "int (length (round_members d i)) = sr_declared r"
      and rs: "rounds d' = update_where (\<lambda>q. sr_id q = i)
         (\<lambda>q. q\<lparr>sr_state := R_INTAKE_CLOSED,
            sr_family := Some (candidate_family_hash digest r (round_members d i)),
            sr_closed := Some now, sr_version := sr_version q + 1\<rparr>) (rounds d)" by blast
    from r(1) have ri: "r \<in> set (rounds d)" "sr_id r = i" by (auto dest: find_roundD)
    have "sr_artifacts r = None"
      using rounds_invD(5) [OF inv ri(1)] r(2) by (auto simp: family_ok_def split: option.splits)
    then have fam: "family_ok digest (round_members d i) (r\<lparr>sr_state := R_INTAKE_CLOSED,
            sr_family := Some (candidate_family_hash digest r (round_members d i)),
            sr_closed := Some now, sr_version := sr_version r + 1\<rparr>)"
      using r(3) by (simp add: family_ok_def)
    show ?thesis
      by (rule set_round_inv [OF inv E(1) rs r(1)]) (use fam in simp_all)
  qed (use inv in simp)
qed

lemma freeze_inv:
  assumes inv: "rounds_inv digest d"
    and c: "freeze_search_round_artifact_family digest i family expected d = Inr (d', r')"
  shows "rounds_inv digest d'"
proof -
  note E = freeze_effect [OF c]
  from E(4) show ?thesis
  proof
    assume "\<exists>r h. find_round d i = Some r \<and> sr_family r = Some family \<and>
       sr_artifacts r = None \<and> sr_state r = R_BUILDING \<and>
       artifact_family_hash digest r (round_members d i) = Inr h \<and>
       rounds d' = update_where (\<lambda>q. sr_id q = i)
         (\<lambda>q. q\<lparr>sr_state := R_CORRECTNESS, sr_artifacts := Some h,
            sr_version := sr_version q + 1\<rparr>) (rounds d)"
    then obtain r h where r: "find_round d i = Some r" "sr_family r = Some family"
      "sr_state r = R_BUILDING" "artifact_family_hash digest r (round_members d i) = Inr h"
      and rs: "rounds d' = update_where (\<lambda>q. sr_id q = i)
         (\<lambda>q. q\<lparr>sr_state := R_CORRECTNESS, sr_artifacts := Some h,
            sr_version := sr_version q + 1\<rparr>) (rounds d)" by blast
    from r(1) have ri: "r \<in> set (rounds d)" "sr_id r = i" by (auto dest: find_roundD)
    have fam: "family_ok digest (round_members d i) (r\<lparr>sr_state := R_CORRECTNESS,
        sr_artifacts := Some h, sr_version := sr_version r + 1\<rparr>)"
      using rounds_invD(5) [OF inv ri(1)] r ri(2) frozen_artifactsI [of digest r]
      by (simp add: family_ok_def)
    show ?thesis
      by (rule set_round_inv [OF inv E(1) rs r(1)]) (use fam in simp_all)
  qed (use inv in simp)
qed

definition end_build :: "build_terminal \<Rightarrow> member \<Rightarrow> member" where
  "end_build q x = x\<lparr>mb_state := bt_state q, mb_artifact := bt_artifact q,
     mb_artifact_hash := bt_artifact_hash q, mb_failure := bt_failure q,
     mb_failure_hash := bt_failure_hash q\<rparr>"

lemma build_members:
  assumes ms: "members d' = update_where (\<lambda>x. mb_id x = bt_member q) (end_build q) (members d)"
    and dis: "distinct (map mb_id (members d))"
    and m: "m \<in> set (members d)" "mb_id m = bt_member q" "mb_round m = bt_round q"
  shows "keeps_identity (\<lambda>x. if mb_id x = bt_member q then end_build q x else x)"
    and "round_members d' i = map (\<lambda>x. if mb_id x = bt_member q then end_build q x else x) (round_members d i)"
    and "i \<noteq> bt_round q \<Longrightarrow> round_members d' i = round_members d i"
proof -
  let ?F = "\<lambda>x. if mb_id x = bt_member q then end_build q x else x"
  show keep: "keeps_identity ?F" by (simp add: keeps_identity_def same_identity_def end_build_def)
  show rm: "round_members d' i = map ?F (round_members d i)"
    by (rule round_members_map [OF _ keep]) (simp add: ms update_where_def)
  have "?F x = x" if "x \<in> set (round_members d i)" "i \<noteq> bt_round q" for x
  proof -
    from that have x: "x \<in> set (members d)" "mb_round x = i" by (simp_all add: round_members_def)
    have "mb_id x \<noteq> bt_member q"
      using key_unique [OF dis x(1) m(1)] x(2) m(2,3) that(2) by auto
    then show ?thesis by simp
  qed
  then show "i \<noteq> bt_round q \<Longrightarrow> round_members d' i = round_members d i"
    unfolding rm by (simp add: map_idI)
qed

lemma build_inv:
  assumes inv: "rounds_inv digest d" and c: "record_round_candidate_build q d = Inr (d', m')"
  shows "rounds_inv digest d'"
proof -
  let ?g = "\<lambda>x. x\<lparr>sr_state := R_BUILDING, sr_version := sr_version x + 1\<rparr>"
  note E = build_effect [OF c]
  show ?thesis
  proof (cases "d' = d")
    case False
    with E(3) obtain r m where r: "find_round d (bt_round q) = Some r"
      and m: "find (\<lambda>m. mb_id m = bt_member q) (members d) = Some m" "mb_round m = bt_round q"
      and st: "sr_family r \<noteq> None" "sr_artifacts r = None" "sr_state r \<in> {R_INTAKE_CLOSED, R_BUILDING}"
      and ms: "members d' = update_where (\<lambda>x. mb_id x = bt_member q) (end_build q) (members d)"
      and rs: "rounds d' = update_where (\<lambda>x. sr_id x = bt_round q) ?g (rounds d)"
      unfolding end_build_def [abs_def] by blast
    note D = rounds_invD [OF inv]
    from r have ri: "r \<in> set (rounds d)" "sr_id r = bt_round q" by (auto dest: find_roundD)
    from m(1) have mi: "m \<in> set (members d)" "mb_id m = bt_member q" by (auto dest: find_SomeD)
    let ?d = "d\<lparr>members := members d'\<rparr>"
    have ms': "members ?d = update_where (\<lambda>x. mb_id x = bt_member q) (end_build q) (members d)"
      by (simp add: ms)
    note B = build_members [OF ms' D(2) mi m(2)]
    have fam: "family_ok digest (round_members ?d (sr_id x)) x" if x: "x \<in> set (rounds d)" for x
    proof (cases "sr_id x = bt_round q")
      case True
      then have "x = r" using key_unique [OF D(1) x ri(1)] ri(2) by simp
      with D(5) [OF x] st show ?thesis
        by (auto simp: family_ok_def B(2) family_hash_map [OF B(1)])
    next
      case False
      with D(5) [OF x] show ?thesis by (simp add: B(3))
    qed
    have slots: "map mb_id (members ?d) = map mb_id (members d)"
      "map member_slot (members ?d) = map member_slot (members d)"
      unfolding ms' by (simp_all add: row_simps member_slot_def end_build_def)
    have "\<exists>r \<in> set (rounds d). sr_id r = mb_round x \<and> 0 \<le> mb_ordinal x \<and>
        mb_ordinal x < sr_declared r" if "x \<in> set (members ?d)" for x
      using that D(4) unfolding ms' by (auto simp: update_where_mem end_build_def split: if_splits)
    then have mid: "rounds_inv digest ?d"
      unfolding rounds_inv_def slots using D(1-3,6-8) fam by auto
    have famr: "family_ok digest (round_members ?d (bt_round q)) (?g r)"
      using fam [OF ri(1)] ri(2) st by (auto simp: family_ok_def split: option.splits)
    show ?thesis
      by (rule set_round_inv [OF mid, where f = ?g and i = "bt_round q" and r = r])
        (use r rs famr in \<open>simp_all add: find_round_def\<close>)
  qed (use inv in simp)
qed

section \<open>The ledger\<close>

text \<open>
  The ledger reconciles: every reservation has its reserve entry with the planned amount;
  it is open exactly while it has no terminal entry, and a terminal entry repeats the
  reserved amount and agrees with the state.
\<close>

definition reservation_ok :: "search_round list \<Rightarrow> ledger_entry list \<Rightarrow> reservation \<Rightarrow> bool" where
  "reservation_ok rs gs v \<longleftrightarrow>
     (\<exists>r \<in> set rs. sr_id r = v_round v) \<and> usage_valid (v_planned v) \<and>
     (\<exists>g \<in> set gs. g_type g = BE_RESERVE \<and> g_reservation g = v_id v \<and> g_reserved g = v_planned v) \<and>
     (case v_state v of
        BR_RESERVED \<Rightarrow> \<forall>g \<in> set gs. g_reservation g = v_id v \<longrightarrow> g_type g = BE_RESERVE
      | BR_SETTLED \<Rightarrow> \<exists>g \<in> set gs. g_type g = BE_SETTLE \<and> g_reservation g = v_id v \<and>
          g_reserved g = v_planned v
      | BR_RELEASED \<Rightarrow> \<exists>g \<in> set gs. g_type g = BE_RELEASE \<and> g_reservation g = v_id v \<and>
          g_reserved g = v_planned v)"

definition entry_ok :: "reservation list \<Rightarrow> ledger_entry \<Rightarrow> bool" where
  "entry_ok vs g \<longleftrightarrow> (\<exists>v \<in> set vs. v_id v = g_reservation g \<and> v_round v = g_round g)"

definition entry_slot :: "ledger_entry \<Rightarrow> uuid \<times> bool" where
  "entry_slot g = (g_reservation g, g_type g = BE_RESERVE)"

definition ledger_inv :: "m2_db \<Rightarrow> bool" where
  "ledger_inv d \<longleftrightarrow>
     distinct (map v_id (reservations d)) \<and> distinct (map entry_slot (ledger d)) \<and>
     (\<forall>v \<in> set (reservations d). reservation_ok (rounds d) (ledger d) v) \<and>
     (\<forall>g \<in> set (ledger d). entry_ok (reservations d) g)"

lemma ledger_invD:
  assumes "ledger_inv d"
  shows "distinct (map v_id (reservations d))" "distinct (map entry_slot (ledger d))"
    "v \<in> set (reservations d) \<Longrightarrow> reservation_ok (rounds d) (ledger d) v"
    "g \<in> set (ledger d) \<Longrightarrow> entry_ok (reservations d) g"
  using assms unfolding ledger_inv_def by blast+

lemma reservation_ok_append:
  "reservation_ok rs gs v \<Longrightarrow> v_id v \<noteq> g_reservation g \<Longrightarrow> reservation_ok rs (gs @ [g]) v"
  by (auto simp: reservation_ok_def split: reservation_state.splits)

lemma reservation_ok_close:
  "reservation_ok rs gs v \<Longrightarrow> v_id v = g_reservation g \<Longrightarrow> v_planned v = g_reserved g \<Longrightarrow>
   (g_type g = BE_SETTLE \<and> s = BR_SETTLED) \<or> (g_type g = BE_RELEASE \<and> s = BR_RELEASED) \<Longrightarrow>
   reservation_ok rs (gs @ [g]) (v\<lparr>v_state := s\<rparr>)"
  by (auto simp: reservation_ok_def)

lemma entry_ok_update:
  "entry_ok vs g \<Longrightarrow> entry_ok (update_where P (\<lambda>x. x\<lparr>v_state := s\<rparr>) vs) g"
proof -
  assume "entry_ok vs g"
  then obtain v where v: "v \<in> set vs" "v_id v = g_reservation g" "v_round v = g_round g"
    by (auto simp: entry_ok_def)
  have "(if P v then v\<lparr>v_state := s\<rparr> else v) \<in> set (update_where P (\<lambda>x. x\<lparr>v_state := s\<rparr>) vs)"
    unfolding set_update_where using v(1) by (rule imageI)
  with v(2,3) show ?thesis unfolding entry_ok_def by (metis reservation.select_convs(1,2)
    reservation.update_convs(8) reservation.surjective)
qed

lemma ledger_inv_cong:
  assumes "ledger_inv d" "reservations d' = reservations d" "ledger d' = ledger d"
    "sr_id ` set (rounds d) \<subseteq> sr_id ` set (rounds d')"
  shows "ledger_inv d'"
proof -
  have "\<exists>r \<in> set (rounds d'). sr_id r = i" if "\<exists>r \<in> set (rounds d). sr_id r = i" for i
  proof -
    from that have "i \<in> sr_id ` set (rounds d)" by blast
    with assms(4) have "i \<in> sr_id ` set (rounds d')" by blast
    then show ?thesis by blast
  qed
  then have "reservation_ok (rounds d') gs v" if "reservation_ok (rounds d) gs v" for gs v
    using that unfolding reservation_ok_def by blast
  then show ?thesis
    using assms(1) unfolding ledger_inv_def assms(2,3) by blast
qed

lemma reserve_ledger_inv:
  assumes inv: "ledger_inv d" and q: "reservation_fields q"
    and c: "reserve_round_budget q g d = Inr (d', res)"
  shows "ledger_inv d'"
proof -
  note E = reserve_effect [OF c]
  note D = ledger_invD [OF inv]
  show ?thesis
  proof (cases "d' = d")
    case False
    with E(3) have N: "reservations d' = reservations d @ [q]" "ledger d' = ledger d @ [g]"
      "v_state q = BR_RESERVED" "g_type g = BE_RESERVE" "g_reservation g = v_id q"
      "g_round g = v_round q" "g_reserved g = v_planned q"
      "\<forall>v \<in> set (reservations d). \<not> reservation_clash q v"
      "\<exists>r. find_round d (v_round q) = Some r" by auto
    from N(8) have fresh: "v_id v \<noteq> v_id q" if "v \<in> set (reservations d)" for v
      using that by (auto simp: reservation_clash_def)
    have old: "g_reservation h \<noteq> v_id q" if "h \<in> set (ledger d)" for h
      using D(4) [OF that] fresh by (auto simp: entry_ok_def)
    have newq: "reservation_ok (rounds d) (ledger d @ [g]) q"
      using N q old by (auto simp: reservation_ok_def reservation_fields_def dest: find_roundD)
    have oldv: "reservation_ok (rounds d) (ledger d @ [g]) v" if "v \<in> set (reservations d)" for v
      using reservation_ok_append [OF D(3) [OF that], of g] fresh [OF that] N(5) by simp
    have slot: "entry_slot g \<notin> entry_slot ` set (ledger d)"
    proof
      assume "entry_slot g \<in> entry_slot ` set (ledger d)"
      then obtain h where "h \<in> set (ledger d)" "g_reservation h = g_reservation g"
        by (auto simp: entry_slot_def)
      with old N(5) show False by simp
    qed
    have ent: "entry_ok (reservations d') h" if "h \<in> set (ledger d')" for h
      using that D(4) N(1,2,5,6) by (auto simp: entry_ok_def)
    have idq: "v_id q \<notin> v_id ` set (reservations d)" by (auto dest: fresh)
    show ?thesis
      unfolding ledger_inv_def E(1)
    proof (intro conjI ballI)
      show "distinct (map v_id (reservations d'))" using D(1) idq by (simp add: N(1))
      show "distinct (map entry_slot (ledger d'))" using D(2) slot by (simp add: N(2))
      show "reservation_ok (rounds d) (ledger d') v" if "v \<in> set (reservations d')" for v
        using that newq oldv by (auto simp: N(1,2))
    qed (rule ent)
  qed (use inv in simp)
qed

lemma finalize_ledger_inv:
  assumes inv: "ledger_inv d" and c: "finalize_round_budget g d = Inr (d', res)"
  shows "ledger_inv d'"
proof -
  note E = finalize_effect [OF c]
  note D = ledger_invD [OF inv]
  show ?thesis
  proof (cases "d' = d")
    case False
    let ?s = "if g_type g = BE_SETTLE then BR_SETTLED else BR_RELEASED"
    from False E(3) obtain v where v: "v \<in> set (reservations d)" "v_id v = g_reservation g"
      "v_round v = g_round g" "v_state v = BR_RESERVED" "v_planned v = g_reserved g"
      and g: "g_type g \<in> {BE_SETTLE, BE_RELEASE}"
      and N: "ledger d' = ledger d @ [g]" "reservations d' =
        update_where (\<lambda>x. v_id x = g_reservation g) (\<lambda>x. x\<lparr>v_state := ?s\<rparr>) (reservations d)"
      by blast
    have mem: "x \<in> set (reservations d') \<longleftrightarrow>
        x = v\<lparr>v_state := ?s\<rparr> \<or> (x \<in> set (reservations d) \<and> x \<noteq> v)" for x
      unfolding N(2) by (rule mem_update_unique [OF D(1) v(1)]) (simp_all add: v)
    have "map v_id (reservations d') = map v_id (reservations d)"
      unfolding N(2) by (simp add: row_simps)
    moreover have "g_type h = BE_RESERVE"
      if "h \<in> set (ledger d)" "g_reservation h = g_reservation g" for h
      using D(3) [OF v(1)] v that by (simp add: reservation_ok_def)
    then have "entry_slot g \<notin> entry_slot ` set (ledger d)"
      using g by (auto simp: entry_slot_def)
    moreover have "entry_ok (reservations d') h" if "h \<in> set (ledger d')" for h
      using that D(4) v(1-3) unfolding N by (auto intro!: entry_ok_update) (auto simp: entry_ok_def)
    moreover have "reservation_ok (rounds d) (ledger d') (v\<lparr>v_state := ?s\<rparr>)"
      unfolding N(1) by (rule reservation_ok_close [OF D(3) [OF v(1)] v(2,5)]) (use g in auto)
    moreover have "reservation_ok (rounds d) (ledger d') x" if "x \<in> set (reservations d)" "x \<noteq> v" for x
      unfolding N(1) using reservation_ok_append [OF D(3) [OF that(1)]]
        key_unique [OF D(1) that(1) v(1)] that(2) v(2) by fastforce
    ultimately show ?thesis
      unfolding ledger_inv_def E(1) using N(1) D(1,2) mem by auto
  qed (use inv in simp)
qed

end
