(* ===== verification/RoundProps.thy ===== *)
theory RoundProps
  imports RoundInv QueueProps
begin

text \<open>
  The M2a authority as a transition system on top of the job queue, and its properties.
  A history interleaves the operations of the round authority with any operation of the
  queue, as the server does.
\<close>

section \<open>Operations and histories\<close>

datatype m2_op =
    M_create search_round
  | M_add member
  | M_close time uuid
  | M_build build_terminal
  | M_freeze uuid string string
  | M_reserve reservation ledger_entry
  | M_finalize ledger_entry
  | M_queue queue_op

definition m2_state :: "error + (m2_db \<times> 'r) \<Rightarrow> error + m2_db" where
  "m2_state m = bind_res m (\<lambda>(d, _). Inr d)"

lemma m2_state_Inr [simp]: "m2_state m = Inr d \<longleftrightarrow> (\<exists>r. m = Inr (d, r))"
  by (auto simp: m2_state_def bind_res_eq_Inr)

fun m2_step :: "(json \<Rightarrow> string) \<Rightarrow> m2_op \<Rightarrow> m2_db \<Rightarrow> error + m2_db" where
  "m2_step digest (M_create q) d = m2_state (create_search_round q d)"
| "m2_step digest (M_add q) d = m2_state (add_round_candidate q d)"
| "m2_step digest (M_close now i) d = m2_state (close_search_round_intake digest now i d)"
| "m2_step digest (M_build q) d = m2_state (record_round_candidate_build q d)"
| "m2_step digest (M_freeze i family expected) d =
     m2_state (freeze_search_round_artifact_family digest i family expected d)"
| "m2_step digest (M_reserve q g) d = m2_state (reserve_round_budget q g d)"
| "m2_step digest (M_finalize g) d = m2_state (finalize_round_budget g d)"
| "m2_step digest (M_queue p) d = bind_res (queue_step p (base d)) (\<lambda>b. Inr (d\<lparr>base := b\<rparr>))"

text \<open>The requests that the contract models accept.\<close>

fun m2_valid :: "m2_op \<Rightarrow> bool" where
  "m2_valid (M_create q) =
     (search_round_fields q \<and> require_safe_mode_and_limits q = Inr ())"
| "m2_valid (M_add q) =
     (round_candidate_fields q \<and> require_artifact_or_failure_pairs q = Inr ())"
| "m2_valid (M_build q) = (require_one_build_terminal q = Inr ())"
| "m2_valid (M_reserve q g) =
     (reservation_fields q \<and> ledger_entry_fields g \<and> require_valid_ledger_semantics g = Inr ())"
| "m2_valid (M_finalize g) =
     (ledger_entry_fields g \<and> require_valid_ledger_semantics g = Inr ())"
| "m2_valid (M_queue p) = valid_op p"
| "m2_valid _ = True"

definition m2_inv :: "(json \<Rightarrow> string) \<Rightarrow> m2_db \<Rightarrow> bool" where
  "m2_inv digest d \<longleftrightarrow> rounds_inv digest d \<and> ledger_inv d"

lemma set_round_ids:
  "(\<And>q. sr_id (f q) = sr_id q) \<Longrightarrow> sr_id ` set (update_where P f rs) = sr_id ` set rs"
  by (metis map_update_where list.set_map)

lemma m2_step_inv:
  assumes "m2_valid p" "m2_inv digest d" "m2_step digest p d = Inr d'"
  shows "m2_inv digest d'"
proof (cases p)
  case (M_create q)
  with assms obtain r where c: "create_search_round q d = Inr (d', r)" by auto
  note E = create_effect [OF c]
  have "sr_id ` set (rounds d) \<subseteq> sr_id ` set (rounds d')" using E(4) by auto
  with ledger_inv_cong [OF _ E(2,3)] create_inv [OF _ c] M_create assms(1,2)
  show ?thesis by (simp add: m2_inv_def)
next
  case (M_add q)
  with assms obtain r where c: "add_round_candidate q d = Inr (d', r)" by auto
  note E = add_effect [OF c]
  from ledger_inv_cong [OF _ E(2,3)] E(1) add_inv [OF _ c] M_add assms(1,2)
  show ?thesis by (simp add: m2_inv_def)
next
  case (M_close now i)
  with assms obtain r where c: "close_search_round_intake digest now i d = Inr (d', r)" by auto
  note E = close_effect [OF c]
  have "sr_id ` set (rounds d') = sr_id ` set (rounds d)" 
    using E(4) by (elim disjE exE conjE) (simp_all add: set_round_ids)
  with ledger_inv_cong [OF _ E(2,3)] close_inv [OF _ c] assms(2)
  show ?thesis by (simp add: m2_inv_def)
next
  case (M_build q)
  with assms obtain r where c: "record_round_candidate_build q d = Inr (d', r)" by auto
  note E = build_effect [OF c]
  have "sr_id ` set (rounds d') = sr_id ` set (rounds d)" 
    using E(3) by (elim disjE exE conjE) (simp_all add: set_round_ids)
  with ledger_inv_cong [OF _ E(1,2)] build_inv [OF _ c] assms(2)
  show ?thesis by (simp add: m2_inv_def)
next
  case (M_freeze i family expected)
  with assms obtain r where
    c: "freeze_search_round_artifact_family digest i family expected d = Inr (d', r)" by auto
  note E = freeze_effect [OF c]
  have "sr_id ` set (rounds d') = sr_id ` set (rounds d)" 
    using E(4) by (elim disjE exE conjE) (simp_all add: set_round_ids)
  with ledger_inv_cong [OF _ E(2,3)] freeze_inv [OF _ c] assms(2)
  show ?thesis by (simp add: m2_inv_def)
next
  case (M_reserve q g)
  with assms obtain r where c: "reserve_round_budget q g d = Inr (d', r)" by auto
  have "rounds_inv digest d' = rounds_inv digest d"
    by (rule rounds_inv_cong [OF reserve_effect(1,2) [OF c]])
  with reserve_ledger_inv [OF _ _ c] M_reserve assms(1,2) show ?thesis by (simp add: m2_inv_def)
next
  case (M_finalize g)
  with assms obtain r where c: "finalize_round_budget g d = Inr (d', r)" by auto
  have "rounds_inv digest d' = rounds_inv digest d"
    by (rule rounds_inv_cong [OF finalize_effect(1,2) [OF c]])
  with finalize_ledger_inv [OF _ c] assms(2) show ?thesis by (simp add: m2_inv_def)
next
  case (M_queue p)
  with assms show ?thesis
    by (auto simp: m2_inv_def bind_res_eq_Inr rounds_inv_def ledger_inv_def round_members_def)
qed

interpretation m2_tx: transactional "m2_step digest" m2_valid "m2_inv digest" for digest
  by unfold_locales (rule m2_step_inv)

definition empty_m2 :: "m2_db \<Rightarrow> bool" where
  "empty_m2 d \<longleftrightarrow> rounds d = [] \<and> members d = [] \<and> reservations d = [] \<and> ledger d = []"

lemma empty_m2_inv: "empty_m2 d \<Longrightarrow> m2_inv digest d"
  by (simp add: empty_m2_def m2_inv_def rounds_inv_def ledger_inv_def)

section \<open>What one step does to a frozen round\<close>

definition identity_of :: "member \<Rightarrow> member" where
  "identity_of m = m\<lparr>mb_artifact := None, mb_artifact_hash := None, mb_failure := None,
     mb_failure_hash := None, mb_state := RC_INTAKE_ACCEPTED\<rparr>"

definition round_kept :: "m2_db \<Rightarrow> m2_db \<Rightarrow> uuid \<Rightarrow> search_round \<Rightarrow> bool" where
  "round_kept d d' i r \<longleftrightarrow>
     (\<exists>r'. find_round d' i = Some r' \<and> sr_family r' = sr_family r \<and>
        sr_declared r' = sr_declared r \<and> sr_budget r' = sr_budget r \<and>
        map identity_of (round_members d' i) = map identity_of (round_members d i) \<and>
        (sr_artifacts r \<noteq> None \<longrightarrow>
           sr_artifacts r' = sr_artifacts r \<and> round_members d' i = round_members d i))"

lemma find_set_round:
  assumes "rounds d' = update_where (\<lambda>q. sr_id q = k) f (rounds d)" "\<And>q. sr_id (f q) = sr_id q"
  shows "find_round d' i = map_option (\<lambda>q. if sr_id q = k then f q else q) (find_round d i)"
  using assms(2) by (simp add: find_round_def assms(1) find_update_where)

lemma round_kept_refl:
  "find_round d i = Some r \<Longrightarrow> find_round d' i = Some r \<Longrightarrow> round_members d' i = round_members d i \<Longrightarrow>
   round_kept d d' i r"
  by (simp add: round_kept_def)

lemma step_round_kept:
  assumes inv: "m2_inv digest d" and r: "find_round d i = Some r" "sr_family r \<noteq> None"
    and s: "m2_step digest p d = Inr d'"
  shows "round_kept d d' i r"
proof -
  have rinv: "rounds_inv digest d" using inv by (simp add: m2_inv_def)
  from r(1) have ri: "r \<in> set (rounds d)" "sr_id r = i" by (auto dest: find_roundD)
  note D = rounds_invD [OF rinv]
  have fam: "sr_state r \<noteq> R_INTAKE_OPEN" "sr_artifacts r \<noteq> None \<Longrightarrow> sr_state r \<noteq> R_BUILDING"
    using D(5) [OF ri(1)] r(2) by (auto simp: family_ok_def split: option.splits)
  show ?thesis
  proof (cases p)
    case (M_create q)
    with s obtain x where c: "create_search_round q d = Inr (d', x)" by auto
    note E = create_effect [OF c]
    from E(4) r(1) have "find_round d' i = Some r" by (auto simp: find_round_def find_append)
    with r(1) round_members_cong [OF E(1)] show ?thesis by (blast intro: round_kept_refl)
  next
    case (M_add q)
    with s obtain x where c: "add_round_candidate q d = Inr (d', x)" by auto
    note E = add_effect [OF c]
    have "mb_round q = i \<Longrightarrow> members d' = members d" using E(4) r(1) fam(1) by auto
    then have "round_members d' i = round_members d i"
      using E(4) by (auto simp: round_members_def)
    with r(1) E(1) show ?thesis by (intro round_kept_refl) (auto simp: find_round_def)
  next
    case (M_close now k)
    with s obtain x where c: "close_search_round_intake digest now k d = Inr (d', x)" by auto
    note E = close_effect [OF c]
    have "find_round d' i = Some r"
      using E(4) r(1) fam(1) ri(2) by (auto simp: find_set_round)
    with r(1) round_members_cong [OF E(1)] show ?thesis by (blast intro: round_kept_refl)
  next
    case (M_build q)
    with s obtain x where c: "record_round_candidate_build q d = Inr (d', x)" by auto
    note E = build_effect [OF c]
    show ?thesis
    proof (cases "d' = d")
      case False
      with E(3) obtain x m where x: "find_round d (bt_round q) = Some x" "sr_artifacts x = None"
        and m: "find (\<lambda>m. mb_id m = bt_member q) (members d) = Some m" "mb_round m = bt_round q"
        and ms: "members d' = update_where (\<lambda>x. mb_id x = bt_member q) (end_build q) (members d)"
        and rs: "rounds d' = update_where (\<lambda>x. sr_id x = bt_round q)
           (\<lambda>x. x\<lparr>sr_state := R_BUILDING, sr_version := sr_version x + 1\<rparr>) (rounds d)"
        unfolding end_build_def [abs_def] by blast
      from m(1) have mi: "m \<in> set (members d)" "mb_id m = bt_member q" by (auto dest: find_SomeD)
      note B = build_members [OF ms D(2) mi m(2)]
      have "identity_of (if mb_id y = bt_member q then end_build q y else y) = identity_of y" for y
        by (simp add: identity_of_def end_build_def)
      then have ids: "map identity_of (round_members d' i) = map identity_of (round_members d i)"
        unfolding B(2) map_map by (intro map_cong) simp_all
      have art: "round_members d' i = round_members d i" if "sr_artifacts r \<noteq> None"
      proof (rule B(3))
        show "i \<noteq> bt_round q" using x r(1) that by auto
      qed
      have "find_round d' i = Some (if sr_id r = bt_round q
          then r\<lparr>sr_state := R_BUILDING, sr_version := sr_version r + 1\<rparr> else r)"
        using find_set_round [OF rs, of i] r(1) by simp
      then show ?thesis
        by (cases "sr_id r = bt_round q") (simp_all add: round_kept_def ids art)
    qed (use r in \<open>simp add: round_kept_def\<close>)
  next
    case (M_freeze k family expected)
    with s obtain x where
      c: "freeze_search_round_artifact_family digest k family expected d = Inr (d', x)" by auto
    note E = freeze_effect [OF c]
    have "\<exists>r'. find_round d' i = Some r' \<and> sr_family r' = sr_family r \<and>
        sr_declared r' = sr_declared r \<and> sr_budget r' = sr_budget r \<and>
        (sr_artifacts r \<noteq> None \<longrightarrow> sr_artifacts r' = sr_artifacts r)"
      using E(4) r(1) ri(2) by (auto simp: find_set_round)
    with round_members_cong [OF E(1)] show ?thesis by (auto simp: round_kept_def)
  next
    case (M_reserve q g)
    with s obtain x where c: "reserve_round_budget q g d = Inr (d', x)" by auto
    note E = reserve_effect [OF c]
    have "find_round d' i = Some r" using r(1) by (simp add: find_round_def E(1))
    with r(1) round_members_cong [OF E(2)] show ?thesis by (blast intro: round_kept_refl)
  next
    case (M_finalize g)
    with s obtain x where c: "finalize_round_budget g d = Inr (d', x)" by auto
    note E = finalize_effect [OF c]
    have "find_round d' i = Some r" using r(1) by (simp add: find_round_def E(1))
    with r(1) round_members_cong [OF E(2)] show ?thesis by (blast intro: round_kept_refl)
  next
    case (M_queue q)
    with s r(1) show ?thesis
      by (auto simp: bind_res_eq_Inr find_round_def round_members_def intro: round_kept_refl)
  qed
qed

section \<open>The budget\<close>

definition int_dims :: "((usage \<Rightarrow> int) \<times> (round_budget \<Rightarrow> int)) list" where
  "int_dims = [(u_candidates, rb_candidates), (u_builds, rb_builds),
     (u_correctness, rb_correctness), (u_search, rb_search), (u_holdout, rb_holdout)]"

text \<open>A settlement is honest when no counted dimension exceeds what was reserved for it.\<close>

fun honest :: "m2_op \<Rightarrow> bool" where
  "honest (M_finalize g) =
     list_all (\<lambda>(dm, bound). dm (g_actual g) \<le> dm (g_reserved g)) int_dims"
| "honest _ = True"

definition budget_inv :: "m2_db \<Rightarrow> bool" where
  "budget_inv d \<longleftrightarrow> (\<forall>r \<in> set (rounds d).
     (sr_state r = R_INTAKE_OPEN \<longrightarrow> (\<forall>v \<in> set (reservations d). v_round v \<noteq> sr_id r)) \<and>
     (\<forall>(dm, bound) \<in> set int_dims. dm (round_usage d (sr_id r)) \<le> bound (sr_budget r)))"

definition additive :: "(usage \<Rightarrow> int) \<Rightarrow> bool" where
  "additive dm \<longleftrightarrow> (\<forall>u v. dm (plus_usage u v) = dm u + dm v)"

lemma int_dims_additive: "(dm, bound) \<in> set int_dims \<Longrightarrow> additive dm"
  by (auto simp: int_dims_def additive_def plus_usage_def)

lemma int_dims_nonneg: "(dm, bound) \<in> set int_dims \<Longrightarrow> usage_valid u \<Longrightarrow> 0 \<le> dm u"
  by (auto simp: int_dims_def usage_valid_def)

lemma int_dims_limit:
  "(dm, bound) \<in> set int_dims \<Longrightarrow> round_budget_violation b u = None \<Longrightarrow> dm u \<le> bound b"
  by (auto simp: int_dims_def round_budget_violation_def split: if_splits)

lemma int_dims_zero:
  "(dm, bound) \<in> set int_dims \<Longrightarrow> round_budget_valid b \<Longrightarrow> n \<le> rb_candidates b \<Longrightarrow>
   dm (zero_usage\<lparr>u_candidates := n\<rparr>) \<le> bound b"
  by (auto simp: int_dims_def round_budget_valid_def zero_usage_def)

lemma foldl_plus: "additive dm \<Longrightarrow> dm (foldl plus_usage z us) = dm z + sum_list (map dm us)"
  by (induction us arbitrary: z) (auto simp: additive_def)

lemma dim_round_usage:
  "additive dm \<Longrightarrow> dm (round_usage d i) =
     dm (zero_usage\<lparr>u_candidates := int (length (round_members d i))\<rparr>) +
     sum_list (map dm (outstanding d i)) + sum_list (map dm (settled d i))"
  by (simp add: round_usage_def foldl_plus)

lemma round_usage_cong:
  "length (round_members d' i) = length (round_members d i) \<Longrightarrow> reservations d' = reservations d \<Longrightarrow>
   ledger d' = ledger d \<Longrightarrow> round_usage d' i = round_usage d i"
  by (simp add: round_usage_def outstanding_def settled_def)

lemma sum_filter_update:
  fixes h :: "'a \<Rightarrow> int"
  assumes "distinct (map key xs)" "v \<in> set xs" "P v" "\<not> P (f v)"
  shows "sum_list (map h (filter P (update_where (\<lambda>x. key x = key v) f xs))) =
    sum_list (map h (filter P xs)) - h v"
  using assms
proof (induction xs)
  case (Cons a xs)
  show ?case
  proof (cases "a = v")
    case True
    with Cons.prems(1) have "update_where (\<lambda>x. key x = key v) f xs = xs"
      using head_key [OF Cons.prems(1)] by (intro update_where_id) auto
    with True Cons.prems show ?thesis by simp
  next
    case False
    with Cons.prems have "key a \<noteq> key v" by (metis image_eqI list.set_map list.simps(9)
      distinct.simps(2) set_ConsD)
    with False Cons show ?thesis by auto
  qed
qed simp

lemma filter_update_other:
  assumes "\<And>x. x \<in> set xs \<Longrightarrow> Q x \<Longrightarrow> \<not> P x \<and> \<not> P (f x)"
  shows "filter P (update_where Q f xs) = filter P xs"
  using assms by (induction xs) auto

text \<open>The members of a round never outnumber the family it declared.\<close>

lemma members_bound:
  assumes "rounds_inv digest d" "r \<in> set (rounds d)"
  shows "int (length (round_members d (sr_id r))) \<le> sr_declared r"
    and "distinct (map mb_ordinal (round_members d (sr_id r)))"
    and "set (map mb_ordinal (round_members d (sr_id r))) \<subseteq> {0..<sr_declared r}"
proof -
  note D = rounds_invD [OF assms(1)]
  let ?ms = "filter (\<lambda>m. mb_round m = sr_id r) (members d)"
  have "inj_on mb_ordinal (set ?ms)"
    using D(3) by (auto simp: distinct_map inj_on_def member_slot_def)
  moreover have "distinct ?ms" using D(2) by (simp add: distinct_map)
  ultimately have dis: "distinct (map mb_ordinal ?ms)" by (simp add: distinct_map)
  have rng: "set (map mb_ordinal ?ms) \<subseteq> {0..<sr_declared r}"
    using D(4) key_unique [OF D(1) _ assms(2)] by fastforce
  have "card (set (map mb_ordinal ?ms)) \<le> nat (sr_declared r)"
    using card_mono [OF _ rng] by simp
  then have len: "length ?ms \<le> nat (sr_declared r)"
    using distinct_card [OF dis] by simp
  have "0 \<le> sr_declared r"
    using D(7,8) [OF assms(2)] by (simp add: round_budget_valid_def)
  with len show "int (length (round_members d (sr_id r))) \<le> sr_declared r"
    by (simp add: round_members_def)
  show "distinct (map mb_ordinal (round_members d (sr_id r)))"
    using dis by (simp add: round_members_def distinct_map)
  show "set (map mb_ordinal (round_members d (sr_id r))) \<subseteq> {0..<sr_declared r}"
    using rng by (simp add: round_members_def)
qed

lemma no_reservation_usage:
  assumes "ledger_inv d" "\<forall>v \<in> set (reservations d). v_round v \<noteq> i"
  shows "outstanding d i = []" "settled d i = []"
  using assms ledger_invD(4) [OF assms(1)]
  by (auto simp: outstanding_def settled_def filter_empty_conv entry_ok_def)

lemma budget_invD:
  "budget_inv d \<Longrightarrow> r \<in> set (rounds d) \<Longrightarrow> (dm, bound) \<in> set int_dims \<Longrightarrow>
   dm (round_usage d (sr_id r)) \<le> bound (sr_budget r)"
  "budget_inv d \<Longrightarrow> r \<in> set (rounds d) \<Longrightarrow> sr_state r = R_INTAKE_OPEN \<Longrightarrow>
   v \<in> set (reservations d) \<Longrightarrow> v_round v \<noteq> sr_id r"
  by (auto simp: budget_inv_def)

text \<open>Steps that leave the reservations, the ledger and the number of members alone.\<close>

lemma budget_inv_rounds:
  assumes inv: "budget_inv d" and t: "reservations d' = reservations d" "ledger d' = ledger d"
    and len: "\<And>i. length (round_members d' i) = length (round_members d i)"
    and r: "\<And>r'. r' \<in> set (rounds d') \<Longrightarrow> \<exists>r \<in> set (rounds d). sr_id r' = sr_id r \<and>
      sr_budget r' = sr_budget r \<and> (sr_state r' = R_INTAKE_OPEN \<longrightarrow> sr_state r = R_INTAKE_OPEN)"
  shows "budget_inv d'"
  unfolding budget_inv_def
proof (intro ballI conjI impI)
  fix r' assume r': "r' \<in> set (rounds d')"
  from r [OF this] obtain r0 where r0: "r0 \<in> set (rounds d)" "sr_id r' = sr_id r0"
    "sr_budget r' = sr_budget r0" "sr_state r' = R_INTAKE_OPEN \<longrightarrow> sr_state r0 = R_INTAKE_OPEN"
    by blast
  show "v_round v \<noteq> sr_id r'" if "sr_state r' = R_INTAKE_OPEN" "v \<in> set (reservations d')" for v
    using budget_invD(2) [OF inv r0(1)] r0 that t(1) by auto
  show "case x of (dm, bound) \<Rightarrow> dm (round_usage d' (sr_id r')) \<le> bound (sr_budget r')"
    if "x \<in> set int_dims" for x
    using budget_invD(1) [OF inv r0(1)] that r0(2,3) round_usage_cong [OF len t]
    by (auto split: prod.split)
qed

lemma update_round_rows:
  assumes "rounds d' = update_where P f (rounds d)" "\<And>q. sr_id (f q) = sr_id q"
    "\<And>q. sr_budget (f q) = sr_budget q" "\<And>q. sr_state (f q) \<noteq> R_INTAKE_OPEN" "r' \<in> set (rounds d')"
  shows "\<exists>r \<in> set (rounds d). sr_id r' = sr_id r \<and>
      sr_budget r' = sr_budget r \<and> (sr_state r' = R_INTAKE_OPEN \<longrightarrow> sr_state r = R_INTAKE_OPEN)"
proof -
  from assms(1,5) obtain r where r: "r \<in> set (rounds d)" "r' = (if P r then f r else r)"
    by (auto simp: update_where_mem)
  show ?thesis by (rule bexI [OF _ r(1)]) (use assms(2-4) r(2) in auto)
qed

lemma reserve_budget_inv:
  assumes inv: "m2_inv digest d" "budget_inv d" and c: "reserve_round_budget q g d = Inr (d', res)"
  shows "budget_inv d'"
proof -
  note E = reserve_effect [OF c]
  show ?thesis
  proof (cases "d' = d")
    case False
    with E(3) obtain r where N: "reservations d' = reservations d @ [q]" "ledger d' = ledger d @ [g]"
      "v_state q = BR_RESERVED" "g_type g = BE_RESERVE"
      and r: "find_round d (v_round q) = Some r" "sr_state r \<noteq> R_INTAKE_OPEN"
        "round_budget_violation (sr_budget r)
           (plus_usage (round_usage d (v_round q)) (v_planned q)) = None" by blast
    from r(1) have ri: "r \<in> set (rounds d)" "sr_id r = v_round q" by (auto dest: find_roundD)
    have D: "distinct (map sr_id (rounds d))" using inv(1) by (simp add: m2_inv_def rounds_inv_def)
    have m: "round_members d' i = round_members d i" for i by (rule round_members_cong [OF E(2)])
    have use: "dm (round_usage d' i) =
        dm (round_usage d i) + (if i = v_round q then dm (v_planned q) else 0)"
      if "additive dm" for dm i
      using that N by (simp add: dim_round_usage outstanding_def settled_def m)
    have x: "x = r" if "x \<in> set (rounds d)" "sr_id x = v_round q" for x
      using key_unique [OF D that(1) ri(1)] that(2) ri(2) by simp
    have "dm (round_usage d' (sr_id x)) \<le> bound (sr_budget x)"
      if "x \<in> set (rounds d)" "(dm, bound) \<in> set int_dims" for x dm bound
    proof (cases "sr_id x = v_round q")
      case True
      have "dm (plus_usage (round_usage d (v_round q)) (v_planned q)) \<le> bound (sr_budget r)"
        by (rule int_dims_limit [OF that(2) r(3)])
      with True x [OF that(1) True] use [OF int_dims_additive [OF that(2)]]
        int_dims_additive [OF that(2)] show ?thesis by (simp add: additive_def)
    next
      case False
      with use [OF int_dims_additive [OF that(2)]] budget_invD(1) [OF inv(2) that] show ?thesis by simp
    qed
    moreover have "v_round v \<noteq> sr_id x"
      if "x \<in> set (rounds d)" "sr_state x = R_INTAKE_OPEN" "v \<in> set (reservations d')" for x v
      using budget_invD(2) [OF inv(2) that(1,2)] that(3) N(1) r(2) x [OF that(1)] that(2) by force
    ultimately show ?thesis unfolding budget_inv_def E(1) by auto
  qed (use inv in simp)
qed

lemma finalize_budget_inv:
  assumes inv: "m2_inv digest d" "budget_inv d" and c: "finalize_round_budget g d = Inr (d', res)"
    and h: "honest (M_finalize g)"
  shows "budget_inv d'"
proof -
  note E = finalize_effect [OF c]
  show ?thesis
  proof (cases "d' = d")
    case False
    let ?s = "if g_type g = BE_SETTLE then BR_SETTLED else BR_RELEASED"
    from False E(3) obtain v where v: "v \<in> set (reservations d)" "v_id v = g_reservation g"
      "v_round v = g_round g" "v_state v = BR_RESERVED" "v_planned v = g_reserved g"
      and g: "g_type g \<in> {BE_SETTLE, BE_RELEASE}"
      and N: "ledger d' = ledger d @ [g]" "reservations d' =
        update_where (\<lambda>x. v_id x = v_id v) (\<lambda>x. x\<lparr>v_state := ?s\<rparr>) (reservations d)"
      by auto
    have D: "distinct (map v_id (reservations d))" "usage_valid (v_planned v)"
      using inv(1) v(1) by (auto simp: m2_inv_def ledger_inv_def reservation_ok_def)
    have m: "round_members d' i = round_members d i" for i by (rule round_members_cong [OF E(2)])
    have out: "sum_list (map dm (outstanding d' i)) = sum_list (map dm (outstanding d i)) -
        (if i = g_round g then dm (v_planned v) else 0)" for dm :: "usage \<Rightarrow> int" and i
    proof (cases "i = g_round g")
      case True
      have "sum_list (map (\<lambda>x. dm (v_planned x)) (filter (\<lambda>x. v_round x = i \<and> v_state x = BR_RESERVED)
          (update_where (\<lambda>x. v_id x = v_id v) (\<lambda>x. x\<lparr>v_state := ?s\<rparr>) (reservations d)))) =
        sum_list (map (\<lambda>x. dm (v_planned x)) (filter (\<lambda>x. v_round x = i \<and> v_state x = BR_RESERVED)
          (reservations d))) - dm (v_planned v)"
        by (rule sum_filter_update [OF D(1) v(1)]) (use True v in simp_all)
      with True show ?thesis by (simp add: outstanding_def N(2) o_def)
    next
      case False
      have "filter (\<lambda>x. v_round x = i \<and> v_state x = BR_RESERVED)
          (update_where (\<lambda>x. v_id x = v_id v) (\<lambda>x. x\<lparr>v_state := ?s\<rparr>) (reservations d)) =
        filter (\<lambda>x. v_round x = i \<and> v_state x = BR_RESERVED) (reservations d)"
        by (rule filter_update_other) (use False v key_unique [OF D(1) _ v(1)] in force)
      with False show ?thesis by (simp add: outstanding_def N(2))
    qed
    have use: "dm (round_usage d' i) = dm (round_usage d i) + (if i = g_round g
        then (if g_type g = BE_SETTLE then dm (g_actual g) else 0) - dm (v_planned v) else 0)"
      if "additive dm" for dm i
      using that by (simp add: dim_round_usage out m settled_def N(1))
    have "dm (round_usage d' i) \<le> dm (round_usage d i)" if "(dm, bound) \<in> set int_dims" for dm bound i
    proof -
      have "dm (g_actual g) \<le> dm (v_planned v)" using h that v(5) by (auto simp: list_all_iff)
      then show ?thesis
        using use [OF int_dims_additive [OF that]] int_dims_nonneg [OF that D(2)] by auto
    qed
    then have "dm (round_usage d' (sr_id x)) \<le> bound (sr_budget x)"
      if "x \<in> set (rounds d)" "(dm, bound) \<in> set int_dims" for x dm bound
      using budget_invD(1) [OF inv(2) that] that(2) order_trans by blast
    moreover have "v_round w \<noteq> sr_id x"
      if "x \<in> set (rounds d)" "sr_state x = R_INTAKE_OPEN" "w \<in> set (reservations d')" for x w
      using budget_invD(2) [OF inv(2) that(1,2)] that(3) by (auto simp: N(2) update_where_mem split: if_splits)
    ultimately show ?thesis unfolding budget_inv_def E(1) by auto
  qed (use inv in simp)
qed

lemma create_budget_inv:
  assumes inv: "m2_inv digest d" "budget_inv d" and c: "create_search_round q d = Inr (d', r)"
    and q: "m2_valid (M_create q)"
  shows "budget_inv d'"
proof -
  note E = create_effect [OF c]
  have m: "round_members d' i = round_members d i" for i by (rule round_members_cong [OF E(1)])
  show ?thesis
  proof (cases "rounds d' = rounds d")
    case True
    show ?thesis by (rule budget_inv_rounds [OF inv(2) E(2,3)]) (auto simp: m True)
  next
    case False
    with E(4) have N: "rounds d' = rounds d @ [q]" "sr_id q \<notin> sr_id ` set (rounds d)" by auto
    have budget: "round_budget_valid (sr_budget q)"
      using q by (simp add: search_round_fields_def)
    have none: "\<forall>v \<in> set (reservations d). v_round v \<noteq> sr_id q"
    proof
      fix v assume "v \<in> set (reservations d)"
      with inv(1) obtain x where "x \<in> set (rounds d)" "sr_id x = v_round v"
        by (auto simp: m2_inv_def ledger_inv_def reservation_ok_def)
      with N(2) show "v_round v \<noteq> sr_id q" by (metis image_eqI)
    qed
    have lin: "ledger_inv d" "rounds_inv digest d" using inv(1) by (simp_all add: m2_inv_def)
    have "round_usage d' (sr_id q) = zero_usage\<lparr>u_candidates := 0\<rparr>"
      using no_reservation_usage [OF lin(1) none] no_members [OF lin(2) N(2)]
      by (simp add: round_usage_def m outstanding_def settled_def E(2,3))
    then have "dm (round_usage d' (sr_id q)) \<le> bound (sr_budget q)"
      if "(dm, bound) \<in> set int_dims" for dm bound
      using int_dims_zero [OF that budget, of 0] budget by (simp add: round_budget_valid_def)
    moreover have "round_usage d' i = round_usage d i" for i
      by (rule round_usage_cong [OF _ E(2,3)]) (simp add: m)
    ultimately show ?thesis
      using inv(2) none unfolding budget_inv_def N(1) E(2) by auto
  qed
qed

lemma add_budget_inv:
  assumes inv: "m2_inv digest d" "budget_inv d" and c: "add_round_candidate q d = Inr (d', m)"
    and q: "m2_valid (M_add q)"
  shows "budget_inv d'"
proof -
  note E = add_effect [OF c]
  have inv': "rounds_inv digest d'"
    using add_inv [OF _ c] inv(1) q by (simp add: m2_inv_def)
  show ?thesis
  proof (cases "members d' = members d")
    case True
    then have "round_members d' i = round_members d i" for i by (rule round_members_cong)
    then show ?thesis by (intro budget_inv_rounds [OF inv(2) E(2,3)]) (auto simp: E(1))
  next
    case False
    with E(4) obtain r where N: "members d' = members d @ [q]"
      and r: "find_round d (mb_round q) = Some r" "sr_state r = R_INTAKE_OPEN" by blast
    from r(1) have ri: "r \<in> set (rounds d)" "sr_id r = mb_round q" by (auto dest: find_roundD)
    have D: "distinct (map sr_id (rounds d))" using inv(1) by (simp add: m2_inv_def rounds_inv_def)
    have none: "\<forall>v \<in> set (reservations d). v_round v \<noteq> sr_id r"
      using budget_invD(2) [OF inv(2) ri(1) r(2)] by blast
    have "dm (round_usage d' (sr_id x)) \<le> bound (sr_budget x)"
      if x: "x \<in> set (rounds d)" "(dm, bound) \<in> set int_dims" for x dm bound
    proof (cases "sr_id x = mb_round q")
      case True
      then have "x = r" using key_unique [OF D x(1) ri(1)] ri(2) by simp
      have r': "r \<in> set (rounds d')" using ri(1) E(1) by simp
      note R = rounds_invD [OF inv']
      have "round_usage d' (sr_id r) =
          zero_usage\<lparr>u_candidates := int (length (round_members d' (sr_id r)))\<rparr>"
        using no_reservation_usage [OF _ none] inv(1)
        by (simp add: m2_inv_def round_usage_def outstanding_def settled_def E(2,3))
      then show ?thesis
        using int_dims_zero [OF x(2) R(7) [OF r'], of "int (length (round_members d' (sr_id r)))"]
          members_bound(1) [OF inv' r'] R(8) [OF r'] \<open>x = r\<close> by simp
    next
      case False
      then have "round_members d' (sr_id x) = round_members d (sr_id x)"
        by (simp add: round_members_def N)
      then show ?thesis
        using budget_invD(1) [OF inv(2) x] round_usage_cong [OF _ E(2,3), of "sr_id x"] by simp
    qed
    then show ?thesis
      using inv(2) unfolding budget_inv_def E(1,2) by auto
  qed
qed

lemma m2_step_budget:
  assumes inv: "m2_inv digest d" "budget_inv d" and v: "m2_valid p" "honest p"
    and s: "m2_step digest p d = Inr d'"
  shows "budget_inv d'"
proof (cases p)
  case (M_close now i)
  with s obtain x where c: "close_search_round_intake digest now i d = Inr (d', x)" by auto
  note E = close_effect [OF c]
  have m: "round_members d' i = round_members d i" for i by (rule round_members_cong [OF E(1)])
  show ?thesis
  proof (cases "d' = d")
    case False
    with E(4) obtain r where "rounds d' = update_where (\<lambda>q. sr_id q = i)
         (\<lambda>q. q\<lparr>sr_state := R_INTAKE_CLOSED,
            sr_family := Some (candidate_family_hash digest r (round_members d i)),
            sr_closed := Some now, sr_version := sr_version q + 1\<rparr>) (rounds d)" by blast
    from update_round_rows [OF this] show ?thesis
      by (intro budget_inv_rounds [OF inv(2) E(2,3)]) (simp_all add: m)
  qed (use inv in simp)
next
  case (M_build q)
  with s obtain x where c: "record_round_candidate_build q d = Inr (d', x)" by auto
  note E = build_effect [OF c]
  show ?thesis
  proof (cases "d' = d")
    case False
    with E(3) obtain m where m: "find (\<lambda>m. mb_id m = bt_member q) (members d) = Some m"
        "mb_round m = bt_round q"
        and ms: "members d' = update_where (\<lambda>x. mb_id x = bt_member q) (end_build q) (members d)"
        and rs: "rounds d' = update_where (\<lambda>x. sr_id x = bt_round q)
           (\<lambda>x. x\<lparr>sr_state := R_BUILDING, sr_version := sr_version x + 1\<rparr>) (rounds d)"
      unfolding end_build_def [abs_def] by blast
    from m(1) have mi: "m \<in> set (members d)" "mb_id m = bt_member q" by (auto dest: find_SomeD)
    have dis: "distinct (map mb_id (members d))"
      using inv(1) by (simp add: m2_inv_def rounds_inv_def)
    note B = build_members [OF ms dis mi m(2)]
    from update_round_rows [OF rs] show ?thesis
      by (intro budget_inv_rounds [OF inv(2) E(1,2)]) (simp_all add: B(2))
  qed (use inv in simp)
next
  case (M_freeze i family expected)
  with s obtain x where
    c: "freeze_search_round_artifact_family digest i family expected d = Inr (d', x)" by auto
  note E = freeze_effect [OF c]
  have m: "round_members d' i = round_members d i" for i by (rule round_members_cong [OF E(1)])
  show ?thesis
  proof (cases "d' = d")
    case False
    with E(4) obtain h where "rounds d' = update_where (\<lambda>q. sr_id q = i)
         (\<lambda>q. q\<lparr>sr_state := R_CORRECTNESS, sr_artifacts := Some h,
            sr_version := sr_version q + 1\<rparr>) (rounds d)" by blast
    from update_round_rows [OF this] show ?thesis
      by (intro budget_inv_rounds [OF inv(2) E(2,3)]) (simp_all add: m)
  qed (use inv in simp)
next
  case (M_queue q)
  with s obtain b where d': "d' = d\<lparr>base := b\<rparr>" by (auto simp: bind_res_eq_Inr)
  show ?thesis
    by (rule budget_inv_rounds [OF inv(2)]) (auto simp: d' round_members_def)
qed (use assms in \<open>auto intro: create_budget_inv add_budget_inv reserve_budget_inv finalize_budget_inv\<close>)

interpretation m2_budget_tx: transactional "m2_step digest" "\<lambda>p. m2_valid p \<and> honest p"
  "\<lambda>d. m2_inv digest d \<and> budget_inv d" for digest
  by unfold_locales (blast intro: m2_step_inv m2_step_budget)

section \<open>A sample round\<close>

definition sample_sha :: "char \<Rightarrow> string" where
  "sample_sha c = ''sha256:'' @ replicate 64 c"

definition sample_digest :: "json \<Rightarrow> string" where
  "sample_digest doc = sample_sha (CHR ''f'')"

definition sample_round :: search_round where
  "sample_round = \<lparr>sr_id = ''round-1'', sr_task = ''task-r'', sr_key = ''round-key-1'',
     sr_state = R_INTAKE_OPEN, sr_mode = RM_SCRIPTED, sr_project = None, sr_snapshot = ''snap-1'',
     sr_stage0 = ''run-1'', sr_protocol = sample_sha (CHR ''1''), sr_baseline = ''base-1'',
     sr_hotspot = ''hot-1'', sr_point = ''ops.gemm'', sr_workload = ''w'',
     sr_workload_hash = sample_sha (CHR ''2''), sr_configuration = sample_sha (CHR ''3''),
     sr_image = sample_sha (CHR ''4''), sr_profile = ''profile'', sr_declared = 2, sr_promoted = 1,
     sr_alpha = Fin (1 / 4), sr_search_plan = sample_sha (CHR ''5''),
     sr_commitment = sample_sha (CHR ''6''), sr_authority_id = ''auth'',
     sr_authority_hash = sample_sha (CHR ''7''), sr_holdout_plan = None, sr_reveal_lease = None,
     sr_reveal_evidence = None, sr_rule = sample_sha (CHR ''8''),
     sr_budget = \<lparr>rb_candidates = 2, rb_builds = 3, rb_correctness = 2, rb_search = 8,
       rb_holdout = 8, rb_wall = 64, rb_lease = 32\<rparr>,
     sr_family = None, sr_artifacts = None, sr_holdout = None, sr_version = 1, sr_created = 1,
     sr_closed = None\<rparr>"

definition sample_member :: "int \<Rightarrow> char \<Rightarrow> uuid \<Rightarrow> uuid \<Rightarrow> string \<Rightarrow> member" where
  "sample_member n c i cand key = \<lparr>mb_id = i, mb_round = ''round-1'', mb_candidate = cand,
     mb_ordinal = n, mb_store_id = ''store'', mb_store_hash = sample_sha c, mb_package = sample_sha c,
     mb_manifest = sample_sha c, mb_baseline_source = sample_sha (CHR ''0''),
     mb_source = sample_sha c, mb_intent = ''faster'', mb_point = ''ops.gemm'', mb_kind = KIND_FIXTURE,
     mb_artifact = None, mb_artifact_hash = None, mb_failure = None, mb_failure_hash = None,
     mb_state = RC_INTAKE_ACCEPTED, mb_key = key\<rparr>"

definition sample_m2 :: m2_db where
  "sample_m2 = \<lparr>base = empty_db,
     authorities = [\<lparr>au_baseline = ''base-1'', au_hotspot = ''hot-1'', au_run = ''run-1'',
       au_mode = DRY_RUN, au_state = S0_FINALIZED, au_run_snapshot = ''snap-1'',
       au_authority = ''synthetic'', au_target = ''target-1'', au_base_snapshot = Some ''snap-1'',
       au_base_run = Some ''run-1'', au_protocol = Some (sample_sha (CHR ''1'')), au_workload = ''w'',
       au_workload_hash = Some (sample_sha (CHR ''2'')), au_configuration = sample_sha (CHR ''3''),
       au_image = Some (sample_sha (CHR ''4'')), au_profile = Some ''profile'',
       au_hotspot_baseline = ''base-1'', au_hotspot_kind = Some ''fixture'',
       au_hotspot_evidence = jobj [(''replacement_point'', JStr ''ops.gemm'')]\<rparr>],
     baseline_sources = [(''base-1'', sample_sha (CHR ''0''))],
     rounds = [], members = [], reservations = [], ledger = []\<rparr>"

definition sample_reservation :: reservation where
  "sample_reservation = \<lparr>v_id = ''rsv-1'', v_round = ''round-1'', v_job = ''job-r'', v_attempt = 1,
     v_candidate = Some ''cand-0'', v_phase = None, v_planned = zero_usage\<lparr>u_builds := 2\<rparr>,
     v_state = BR_RESERVED, v_key = ''reserve-key-1''\<rparr>"

definition sample_entry :: "uuid \<Rightarrow> budget_entry_type \<Rightarrow> int \<Rightarrow> string \<Rightarrow> ledger_entry" where
  "sample_entry i ty n key = \<lparr>g_id = i, g_reservation = ''rsv-1'', g_round = ''round-1'',
     g_type = ty, g_reserved = zero_usage\<lparr>u_builds := 2\<rparr>, g_actual = zero_usage\<lparr>u_builds := n\<rparr>,
     g_held = Fin 0, g_active = Fin 0, g_evidence = sample_sha (CHR ''9''), g_key = key, g_created = 7\<rparr>"

definition sample_failure :: "uuid \<Rightarrow> uuid \<Rightarrow> build_terminal" where
  "sample_failure m c = \<lparr>bt_round = ''round-1'', bt_member = m, bt_candidate = c,
     bt_state = RC_BUILD_FAILED, bt_artifact = None, bt_artifact_hash = None,
     bt_failure = Some ''compile_error'', bt_failure_hash = Some (sample_sha (CHR ''e''))\<rparr>"

definition sample_intake :: "m2_op list" where
  "sample_intake =
     [M_create sample_round,
      M_add (sample_member 1 (CHR ''b'') ''m-1'' ''cand-1'' ''member-key-1''),
      M_add (sample_member 0 (CHR ''a'') ''m-0'' ''cand-0'' ''member-key-0''),
      M_close 5 ''round-1'']"

definition sample_reserve :: "m2_op list" where
  "sample_reserve =
     [M_queue (Op_enqueue 6 ''job-r'' (sample_request\<lparr>jc_task := ''task-r''\<rparr>)),
      M_reserve sample_reservation (sample_entry ''entry-1'' BE_RESERVE 0 ''ledger-key-1'')]"

definition sample_settle :: "m2_op list" where
  "sample_settle = [M_finalize (sample_entry ''entry-2'' BE_SETTLE 1 ''ledger-key-2'')]"

definition sample_builds :: "m2_op list" where
  "sample_builds =
     [M_build (sample_failure ''m-0'' ''cand-0''), M_build (sample_failure ''m-1'' ''cand-1''),
      M_freeze ''round-1'' (sample_sha (CHR ''f'')) (sample_sha (CHR ''f''))]"



definition sample_rest :: "m2_op list" where
  "sample_rest = sample_reserve @ sample_settle @ sample_builds"

text \<open>The round when its intake is closed, and when its artifact family is frozen.\<close>

definition sample_closed :: m2_db where
  "sample_closed = history (m2_step sample_digest) sample_intake sample_m2"

definition sample_final :: m2_db where
  "sample_final = history (m2_step sample_digest) (sample_intake @ sample_rest) sample_m2"

lemma sample_m2_empty: "empty_m2 sample_m2"
  by (simp add: empty_m2_def sample_m2_def)

lemma sample_m2_valid: "list_all m2_valid sample_intake" "list_all m2_valid sample_rest"
  by code_simp+

lemma sample_m2_honest: "list_all honest (sample_intake @ sample_rest)"
  by code_simp

lemma sample_m2_inv: "m2_inv sample_digest sample_closed" "m2_inv sample_digest sample_final"
  unfolding sample_closed_def sample_final_def
  by (rule m2_tx.history_inv; simp add: sample_m2_valid empty_m2_inv sample_m2_empty)+

lemma sample_closed_round:
  "map_option (\<lambda>r. (sr_family r, sr_state r)) (find_round sample_closed ''round-1'') =
     Some (Some (sample_sha (CHR ''f'')), R_INTAKE_CLOSED)"
  by code_simp

lemma sample_final_values:
  "(let d = sample_final in
      (map_option (\<lambda>r. (sr_family r, sr_artifacts r, rb_builds (sr_budget r), sr_declared r)) (find_round d ''round-1''),
       map (\<lambda>v. (v_id v, v_state v)) (reservations d))) =
   (Some (Some (sample_sha (CHR ''f'')), Some (sample_sha (CHR ''f'')), 3, 2), [(''rsv-1'', BR_SETTLED)])"
  by code_simp

lemma sample_final_round:
  "map_option (\<lambda>r. (sr_family r, sr_artifacts r, rb_builds (sr_budget r), sr_declared r))
     (find_round sample_final ''round-1'') =
   Some (Some (sample_sha (CHR ''f'')), Some (sample_sha (CHR ''f'')), 3, 2)"
  using sample_final_values by (simp add: Let_def)

lemma sample_final_reservations:
  "map (\<lambda>v. (v_id v, v_state v)) (reservations sample_final) = [(''rsv-1'', BR_SETTLED)]"
  using sample_final_values by (simp add: Let_def)

section \<open>Properties\<close>

text \<open>
  C21. The budget of a round is never exceeded: in every store that a history of valid
  requests reaches from an empty authority, interleaved with any operations of the job
  queue, the usage that the code computes for a round (its members, the open reservations
  and the settled actuals) stays within every counted limit, as long as no settlement
  reports more than was reserved for it.
\<close>

theorem budget_is_never_exceeded:
  assumes "empty_m2 d" "list_all m2_valid ps" "list_all honest ps"
    and "find_round (history (m2_step digest) ps d) i = Some r"
  shows "u_candidates (round_usage (history (m2_step digest) ps d) i) \<le> rb_candidates (sr_budget r) \<and>
    u_builds (round_usage (history (m2_step digest) ps d) i) \<le> rb_builds (sr_budget r) \<and>
    u_correctness (round_usage (history (m2_step digest) ps d) i) \<le> rb_correctness (sr_budget r) \<and>
    u_search (round_usage (history (m2_step digest) ps d) i) \<le> rb_search (sr_budget r) \<and>
    u_holdout (round_usage (history (m2_step digest) ps d) i) \<le> rb_holdout (sr_budget r)"
proof -
  let ?e = "history (m2_step digest) ps d"
  have "budget_inv d" using assms(1) by (simp add: empty_m2_def budget_inv_def)
  then have "budget_inv ?e"
    using m2_budget_tx.history_inv [of ps digest d] empty_m2_inv [OF assms(1)] assms(2,3)
    by (simp add: list_all_iff)
  moreover from assms(4) have "r \<in> set (rounds ?e)" "sr_id r = i" by (auto dest: find_roundD)
  ultimately show ?thesis using budget_invD(1) [of ?e r] by (auto simp: int_dims_def)
qed

theorem budget_witness:
  "u_builds (round_usage sample_final ''round-1'') \<le> 3"
proof -
  obtain r where "find_round sample_final ''round-1'' = Some r" "rb_builds (sr_budget r) = 3"
    using sample_final_round by auto
  with budget_is_never_exceeded [of sample_m2 "sample_intake @ sample_rest" sample_digest, folded sample_final_def]
  show ?thesis using sample_m2_empty sample_m2_valid sample_m2_honest by fastforce
qed

text \<open>
  A closed candidate family is frozen: once the intake of a round is closed, no later
  history changes which members it has, their order or any of the fields that identify
  them, and the family hash of the round stays the hash of exactly these members.
\<close>

theorem closed_family_is_frozen:
  assumes "m2_inv digest d" "list_all m2_valid ps"
    and "find_round d i = Some r" "sr_family r = Some h"
  shows "\<exists>r'. find_round (history (m2_step digest) ps d) i = Some r' \<and> sr_family r' = Some h \<and>
    map identity_of (round_members (history (m2_step digest) ps d) i) =
      map identity_of (round_members d i) \<and>
    h = candidate_family_hash digest r' (round_members (history (m2_step digest) ps d) i)"
proof -
  have "\<exists>r'. find_round (history (m2_step digest) ps d) i = Some r' \<and> sr_family r' = Some h \<and>
    map identity_of (round_members (history (m2_step digest) ps d) i) =
      map identity_of (round_members d i)"
    using assms
  proof (induction ps arbitrary: d r)
    case (Cons p ps)
    show ?case
    proof (cases "m2_step digest p d")
      case (Inl e)
      with Cons show ?thesis by (simp add: commit_def)
    next
      case (Inr d1)
      from step_round_kept [OF Cons.prems(1,3) _ Inr] Cons.prems(4) obtain r1 where
        r1: "find_round d1 i = Some r1" "sr_family r1 = Some h"
          "map identity_of (round_members d1 i) = map identity_of (round_members d i)"
        by (auto simp: round_kept_def)
      have "m2_inv digest d1" using m2_step_inv [OF _ Cons.prems(1) Inr] Cons.prems(2) by simp
      from Cons.IH [OF this _ r1(1,2)] Cons.prems(2) r1(3) Inr show ?thesis
        by (simp add: commit_def)
    qed
  qed simp
  then obtain r' where r': "find_round (history (m2_step digest) ps d) i = Some r'"
    "sr_family r' = Some h" "map identity_of (round_members (history (m2_step digest) ps d) i) =
      map identity_of (round_members d i)" by blast
  have "rounds_inv digest (history (m2_step digest) ps d)"
    using m2_tx.history_inv [OF assms(2,1)] by (simp add: m2_inv_def)
  from rounds_invD(5) [OF this] r' show ?thesis by (force simp: family_ok_def dest: find_roundD)
qed

theorem closed_family_witness:
  "map identity_of (round_members (history (m2_step sample_digest) sample_rest sample_closed) ''round-1'') =
     map identity_of (round_members sample_closed ''round-1'')"
proof -
  obtain r where "find_round sample_closed ''round-1'' = Some r" "sr_family r = Some (sample_sha (CHR ''f''))"
    using sample_closed_round by auto
  from closed_family_is_frozen [OF sample_m2_inv(1) sample_m2_valid(2) this] show ?thesis by blast
qed

text \<open>
  C22. A closed family is the declared family: after any history from an empty authority, a
  round whose intake is closed has exactly the declared number of members, with the
  ordinals 0, 1, ... in this order, and it is a scripted round whose budget admits exactly
  this number.
\<close>

theorem closed_family_is_complete:
  assumes "empty_m2 d" "list_all m2_valid ps"
    and "find_round (history (m2_step digest) ps d) i = Some r" "sr_family r \<noteq> None"
  shows "map mb_ordinal (round_members (history (m2_step digest) ps d) i) = [0..sr_declared r - 1] \<and>
    rb_candidates (sr_budget r) = sr_declared r \<and> sr_mode r = RM_SCRIPTED \<and> 2 \<le> sr_declared r"
proof -
  let ?e = "history (m2_step digest) ps d"
  let ?os = "map mb_ordinal (round_members ?e i)"
  have inv: "rounds_inv digest ?e"
    using m2_tx.history_inv [OF assms(2) empty_m2_inv [OF assms(1)]] by (simp add: m2_inv_def)
  from assms(3) have r: "r \<in> set (rounds ?e)" "sr_id r = i" by (auto dest: find_roundD)
  note D = rounds_invD [OF inv]
  have len: "int (length ?os) = sr_declared r"
    using D(5) [OF r(1)] assms(4) r(2) by (auto simp: family_ok_def)
  note B = members_bound [OF inv r(1), unfolded r(2)]
  have "card (set ?os) = nat (sr_declared r)" using distinct_card [OF B(2)] len by simp
  then have "set ?os = {0..<sr_declared r}"
    using card_subset_eq [OF _ B(3)] by simp
  moreover have "sorted ?os" by (simp add: round_members_def)
  moreover have "sorted [0..sr_declared r - 1]" "distinct [0..sr_declared r - 1]"
    "set [0..sr_declared r - 1] = {0..<sr_declared r}" by (auto simp: sorted_wrt_upto)
  ultimately have "?os = [0..sr_declared r - 1]"
    using sorted_distinct_set_unique B(2) by blast
  with D(6-8) [OF r(1)] show ?thesis by (simp add: round_budget_valid_def)
qed

theorem closed_family_complete_witness:
  "map mb_ordinal (round_members sample_final ''round-1'') = [0, 1]"
proof -
  obtain r where "find_round sample_final ''round-1'' = Some r" "sr_family r \<noteq> None" "sr_declared r = 2"
    using sample_final_round by auto
  with closed_family_is_complete [of sample_m2 "sample_intake @ sample_rest" sample_digest "''round-1''" r,
      folded sample_final_def] show ?thesis
    using sample_m2_empty sample_m2_valid by (simp add: upto_rec1)
qed

lemma entry_unique:
  assumes "ledger_inv e" "x \<in> set (ledger e)" "y \<in> set (ledger e)"
    "g_reservation x = g_reservation y" "(g_type x = BE_RESERVE) = (g_type y = BE_RESERVE)"
  shows "x = y"
  using key_unique [OF ledger_invD(2) [OF assms(1)] assms(2,3)] assms(4,5)
  by (simp add: entry_slot_def)

lemma entry_filter:
  assumes "ledger_inv e" "g \<in> set (ledger e)" "P g"
    "\<And>h. P h \<Longrightarrow> g_reservation h = g_reservation g \<and>
       (g_type h = BE_RESERVE) = (g_type g = BE_RESERVE)"
  shows "filter P (ledger e) = [g]"
proof -
  have "filter P (ledger e) = filter (\<lambda>h. h = g) (ledger e)"
    by (rule filter_cong [OF refl]) (use entry_unique [OF assms(1) _ assms(2)] assms(3,4) in blast)
  moreover have "distinct (ledger e)" using ledger_invD(2) [OF assms(1)] by (simp add: distinct_map)
  ultimately show ?thesis using filter_eq_single assms(2) by simp
qed

lemma reservation_entry:
  assumes "ledger_inv e" "v \<in> set (reservations e)"
  shows "\<exists>g. filter (\<lambda>h. g_reservation h = v_id v \<and> g_type h = BE_RESERVE) (ledger e) = [g] \<and>
      g_reserved g = v_planned v"
proof -
  from ledger_invD(3) [OF assms] obtain g where g: "g \<in> set (ledger e)" "g_type g = BE_RESERVE"
    "g_reservation g = v_id v" "g_reserved g = v_planned v" by (auto simp: reservation_ok_def)
  have "filter (\<lambda>h. g_reservation h = v_id v \<and> g_type h = BE_RESERVE) (ledger e) = [g]"
    by (rule entry_filter [OF assms(1) g(1)]) (use g in auto)
  with g(4) show ?thesis by blast
qed

lemma reservation_terminal:
  assumes "ledger_inv e" "v \<in> set (reservations e)"
  shows "case terminal_entry_of e (v_id v) of
        None \<Rightarrow> v_state v = BR_RESERVED
      | Some g \<Rightarrow> g_reserved g = v_planned v \<and>
          v_state v = (if g_type g = BE_SETTLE then BR_SETTLED else BR_RELEASED)"
proof (cases "terminal_entry_of e (v_id v)")
  case None
  then have "\<forall>g \<in> set (ledger e). g_reservation g = v_id v \<longrightarrow> g_type g \<notin> {BE_SETTLE, BE_RELEASE}"
    by (auto simp: terminal_entry_of_def find_None_iff)
  with ledger_invD(3) [OF assms] show ?thesis
    unfolding None by (cases "v_state v") (auto simp: reservation_ok_def)
next
  case (Some g)
  then have g: "g \<in> set (ledger e)" "g_reservation g = v_id v" "g_type g \<in> {BE_SETTLE, BE_RELEASE}"
    by (auto simp: terminal_entry_of_def dest: find_SomeD)
  have only: "h = g" if "h \<in> set (ledger e)" "g_reservation h = v_id v" "g_type h \<noteq> BE_RESERVE" for h
    using entry_unique [OF assms(1) that(1) g(1)] that g by auto
  have ok: "reservation_ok (rounds e) (ledger e) v" by (rule ledger_invD(3) [OF assms])
  show ?thesis
  proof (cases "v_state v")
    case BR_RESERVED
    with ok g have "g_type g = BE_RESERVE" by (simp add: reservation_ok_def)
    with g(3) show ?thesis by simp
  next
    case BR_SETTLED
    with ok obtain h where "h \<in> set (ledger e)" "g_type h = BE_SETTLE" "g_reservation h = v_id v"
      "g_reserved h = v_planned v" by (auto simp: reservation_ok_def)
    with only [of h] BR_SETTLED Some show ?thesis by simp
  next
    case BR_RELEASED
    with ok obtain h where "h \<in> set (ledger e)" "g_type h = BE_RELEASE" "g_reservation h = v_id v"
      "g_reserved h = v_planned v" by (auto simp: reservation_ok_def)
    with only [of h] BR_RELEASED Some show ?thesis by simp
  qed
qed

lemma one_terminal_entry:
  assumes "ledger_inv e"
  shows "length (filter (\<lambda>h. g_reservation h = i \<and> g_type h \<noteq> BE_RESERVE) (ledger e)) \<le> 1"
proof (cases "\<exists>g \<in> set (ledger e). g_reservation g = i \<and> g_type g \<noteq> BE_RESERVE")
  case True
  then obtain g where g: "g \<in> set (ledger e)" "g_reservation g = i" "g_type g \<noteq> BE_RESERVE" by blast
  have "filter (\<lambda>h. g_reservation h = i \<and> g_type h \<noteq> BE_RESERVE) (ledger e) = [g]"
    by (rule entry_filter [OF assms g(1)]) (use g in auto)
  then show ?thesis by simp
next
  case False
  then have "filter (\<lambda>h. g_reservation h = i \<and> g_type h \<noteq> BE_RESERVE) (ledger e) = []"
    by (simp add: filter_empty_conv)
  then show ?thesis by simp
qed

text \<open>
  C23. The ledger reconciles: after any history from an empty authority, every reservation
  has exactly one reserve entry with its planned amount, at most one terminal entry, and is
  open exactly while it has none; a terminal entry repeats the reserved amount, and no
  ledger entry is without its reservation.
\<close>

theorem ledger_reconciles:
  assumes "empty_m2 d" "list_all m2_valid ps" "e = history (m2_step digest) ps d"
  shows "(\<forall>v \<in> set (reservations e). \<exists>g. filter (\<lambda>h. g_reservation h = v_id v \<and>
        g_type h = BE_RESERVE) (ledger e) = [g] \<and> g_reserved g = v_planned v) \<and>
    (\<forall>v \<in> set (reservations e). case terminal_entry_of e (v_id v) of
        None \<Rightarrow> v_state v = BR_RESERVED
      | Some g \<Rightarrow> g_reserved g = v_planned v \<and>
          v_state v = (if g_type g = BE_SETTLE then BR_SETTLED else BR_RELEASED)) \<and>
    (\<forall>i. length (filter (\<lambda>h. g_reservation h = i \<and> g_type h \<noteq> BE_RESERVE) (ledger e)) \<le> 1) \<and>
    (\<forall>g \<in> set (ledger e). \<exists>v \<in> set (reservations e). v_id v = g_reservation g)"
proof -
  have inv: "ledger_inv e"
    using m2_tx.history_inv [OF assms(2) empty_m2_inv [OF assms(1)]] assms(3) by (simp add: m2_inv_def)
  have "\<exists>v \<in> set (reservations e). v_id v = g_reservation g" if "g \<in> set (ledger e)" for g
    using ledger_invD(4) [OF inv that] by (auto simp: entry_ok_def)
  with reservation_entry [OF inv] reservation_terminal [OF inv] one_terminal_entry [OF inv]
  show ?thesis by blast
qed

theorem ledger_reconciles_witness:
  "\<exists>g. filter (\<lambda>h. g_reservation h = ''rsv-1'' \<and> g_type h = BE_RESERVE) (ledger sample_final) = [g]"
proof -
  obtain v where "v \<in> set (reservations sample_final)" "v_id v = ''rsv-1''"
    using sample_final_reservations by (cases "reservations sample_final") auto
  then show ?thesis
    using ledger_reconciles [OF sample_m2_empty _ sample_final_def] sample_m2_valid by fastforce
qed

section \<open>Replays\<close>










end
