(* ===== verification/RoundTasks.thy ===== *)
theory RoundTasks
  imports RoundProps
begin

text \<open>
  The tasks of rounds under the operations of the queue. Rounds and the queue share the
  table of tasks: a failing job rejects the task of its Framework Smoke, manual or endpoint
  workflow, so that no operation of the queue may touch the task of a round.
\<close>

definition round_tasks :: "db \<Rightarrow> task list" where
  "round_tasks d = filter (\<lambda>t. t_workflow t = WF_SEARCH_ROUND) (tasks d)"

definition calm :: "db \<Rightarrow> bool" where
  "calm d \<longleftrightarrow> distinct (map t_id (tasks d)) \<and>
     (\<forall>t \<in> set (round_tasks d). t_state t \<noteq> T_ENDPOINT_PROBING)"

definition tasks_kept :: "db \<Rightarrow> db \<Rightarrow> bool" where
  "tasks_kept d d' \<longleftrightarrow> (calm d \<longrightarrow> map t_id (tasks d') = map t_id (tasks d) \<and>
     map t_key (tasks d') = map t_key (tasks d) \<and> round_tasks d' = round_tasks d)"

lemma tasks_keptI: "tasks d' = tasks d \<Longrightarrow> tasks_kept d d'"
  by (simp add: tasks_kept_def round_tasks_def)

lemma tasks_kept_refl [simp]: "tasks_kept d d"
  by (simp add: tasks_kept_def)

lemma tasks_kept_trans [trans]: "tasks_kept d e \<Longrightarrow> tasks_kept e f \<Longrightarrow> tasks_kept d f"
  by (auto simp: tasks_kept_def calm_def)

lemma tasks_kept_tables: "tasks_kept d e \<Longrightarrow> tasks e' = tasks e \<Longrightarrow> tasks_kept d e'"
  by (simp add: tasks_kept_def round_tasks_def)

lemma tasks_kept_from: "tasks_kept e d' \<Longrightarrow> tasks e = tasks d \<Longrightarrow> tasks_kept d d'"
  by (rule tasks_kept_trans [OF tasks_keptI]) simp_all

lemma tasks_kept_move:
  assumes t: "find_task d i = Some t"
    and other: "t_workflow t \<noteq> WF_SEARCH_ROUND \<or> t_state t = T_ENDPOINT_PROBING"
  shows "tasks_kept d (move_task i s d)"
  unfolding tasks_kept_def
proof (intro impI conjI)
  let ?f = "\<lambda>t. t\<lparr>t_state := s, t_version := t_version t + 1\<rparr>"
  assume c: "calm d"
  from t have ti: "t \<in> set (tasks d)" "t_id t = i" by (auto dest: find_SomeD')
  have "t_workflow t \<noteq> WF_SEARCH_ROUND" using other c ti(1) by (auto simp: calm_def round_tasks_def)
  then have none: "t_workflow x \<noteq> WF_SEARCH_ROUND" if "x \<in> set (tasks d)" "t_id x = i" for x
    using key_unique [of t_id "tasks d" x t] c that ti by (auto simp: calm_def)
  have "filter (\<lambda>t. t_workflow t = WF_SEARCH_ROUND) (update_where (\<lambda>t. t_id t = i) ?f (tasks d)) =
      filter (\<lambda>t. t_workflow t = WF_SEARCH_ROUND) (tasks d)"
    by (rule filter_update_other) (use none in auto)
  then show "round_tasks (move_task i s d) = round_tasks d"
    by (simp add: round_tasks_def move_task_def set_task_def)
qed (simp_all add: move_task_def set_task_def row_simps)

section \<open>The hooks of a failing job\<close>

lemma reject_task_kept:
  assumes "reject_task t d = Inr e" "find_task d i = Some t" "t_workflow t \<noteq> WF_SEARCH_ROUND"
    "tasks d' = tasks e"
  shows "tasks_kept d d'"
proof (rule tasks_kept_tables [OF _ assms(4)])
  show "tasks_kept d e"
    using assms(1,2,3) find_SomeD'(1) [OF assms(2)]
    by (auto simp: reject_task_def bind_res_eq_Inr intro: tasks_kept_move split: if_splits)
qed

lemma settle_candidate_kept: "settle_candidate done target cid d = Inr d' \<Longrightarrow> tasks d' = tasks d"
  by (auto simp: settle_candidate_def bind_res_eq_Inr split: option.splits if_splits)

lemma framework_hook_kept:
  "reject_framework_task_after_job_failure j err d = Inr d' \<Longrightarrow> tasks_kept d d'"
  by (auto simp: reject_framework_task_after_job_failure_def bind_res_eq_Inr Let_def
      dest!: settle_candidate_kept split: option.splits if_splits elim!: reject_task_kept
      intro!: tasks_kept_refl)

lemma manual_hook_kept:
  "reject_manual_candidate_task_after_job_failure j err d = Inr d' \<Longrightarrow> tasks_kept d d'"
  by (auto simp: reject_manual_candidate_task_after_job_failure_def bind_res_eq_Inr
      dest!: settle_candidate_kept split: option.splits if_splits elim!: reject_task_kept
      intro!: tasks_kept_refl)

lemma stage0_hook_kept [simp]: "tasks (fail_stage0_run_after_job_failure j err d) = tasks d"
  by (auto simp: fail_stage0_run_after_job_failure_def split: option.split json.split)

lemma adjudication_hook_kept [simp]:
  "tasks (fail_endpoint_adjudication_after_job_failure j err d) = tasks d"
  by (auto simp: fail_endpoint_adjudication_after_job_failure_def Let_def split: option.split)

lemma endpoint_hook_kept:
  "tasks_kept d (fail_endpoint_validation_run_after_job_failure j err cleanup d)"
proof -
  let ?e = "fail_endpoint_validation_run_after_job_failure j err cleanup d"
  have move: "tasks (move_task i s (d\<lparr>endpoint_runs := x\<rparr>)) = tasks (move_task i s d)" for i s x
    by (simp add: move_task_def set_task_def)
  have log: "tasks (log_task i ty v e) = tasks e" for i ty v e by simp
  have "tasks ?e = tasks d \<or> (\<exists>t. find_task d (j_task j) = Some t \<and>
      t_state t = T_ENDPOINT_PROBING \<and> tasks ?e = tasks (move_task (j_task j) T_REJECTED d))"
  proof (cases "j_type j = JT_ENDPOINT_VALIDATION \<and> find (\<lambda>n. n_job n = j_id j) (endpoint_runs d) \<noteq> None")
    case True
    then obtain n where n: "j_type j = JT_ENDPOINT_VALIDATION"
      "find (\<lambda>n. n_job n = j_id j) (endpoint_runs d) = Some n" by blast
    show ?thesis
      unfolding fail_endpoint_validation_run_after_job_failure_def Let_def n option.case log
      by (cases "find_task d (j_task j)") (simp_all add: move)
  qed (auto simp: fail_endpoint_validation_run_after_job_failure_def)
  then show ?thesis
    using tasks_keptI tasks_kept_tables [OF tasks_kept_move] by metis
qed

lemma converge_kept:
  assumes "converge_after_failure j err cleanup d = Inr d'"
  shows "tasks_kept d d'"
proof -
  from assms obtain d1 d2 where d: "reject_framework_task_after_job_failure j err d = Inr d1"
    "reject_manual_candidate_task_after_job_failure j err
       (fail_stage0_run_after_job_failure j err d1) = Inr d2"
    "d' = fail_endpoint_adjudication_after_job_failure j err
       (fail_endpoint_validation_run_after_job_failure j err cleanup d2)"
    by (auto simp: converge_after_failure_def bind_res_eq_Inr)
  have "tasks_kept d d1" by (rule framework_hook_kept [OF d(1)])
  also have "tasks_kept d1 (fail_stage0_run_after_job_failure j err d1)"
    by (rule tasks_keptI) simp
  also have "tasks_kept \<dots> d2" by (rule manual_hook_kept [OF d(2)])
  also have "tasks_kept d2 (fail_endpoint_validation_run_after_job_failure j err cleanup d2)"
    by (rule endpoint_hook_kept)
  also have "tasks_kept \<dots> d'" unfolding d(3) by (rule tasks_keptI) simp
  finally show ?thesis .
qed

section \<open>The operations of the queue\<close>

lemma release_kept [simp]: "tasks (release_resource j reason cleanup d) = tasks d"
  by (auto simp: release_resource_def Let_def split: option.split)

lemma release_running_kept [simp]: "tasks (release_running js d) = tasks d"
  by (induction js arbitrary: d) auto

lemma fail_kept:
  assumes "fail_job now i tok fen err retryable cleanup d = Inr (d', j)"
  shows "tasks_kept d d'"
  using assms
  by (auto simp: fail_job_def Let_def bind_res_eq_Inr split: if_splits
      dest!: converge_kept elim!: tasks_kept_from intro: tasks_keptI)

lemma recover_one_kept: "recover_one now j d = Inr d' \<Longrightarrow> tasks_kept d d'"
  by (auto simp: recover_one_def Let_def split: if_splits
      dest!: converge_kept elim!: tasks_kept_from intro: tasks_keptI)

lemma recover_all_kept: "recover_all now js d = Inr (d', ids) \<Longrightarrow> tasks_kept d d'"
  by (induction js arbitrary: d ids) (auto simp: bind_res_eq_Inr split: prod.splits
      dest!: recover_one_kept intro: tasks_kept_trans)

lemma cancel_task_kept:
  assumes "cancel_framework_task now i reason d = Inr (d', t)"
  shows "tasks_kept d d'"
proof -
  have move: "tasks_kept d e" if "find_task d i = Some x" "t_workflow x = WF_FRAMEWORK_SMOKE"
    "tasks e = tasks (move_task i s d)" for e s x
    by (rule tasks_kept_tables [OF tasks_kept_move [OF that(1)] that(3)]) (simp add: that(2))
  show ?thesis
    using assms
    by (auto simp: cancel_framework_task_def Let_def bind_res_eq_Inr
        split: option.splits if_splits elim!: move) (simp add: move_task_def set_task_def)
qed

lemma advance_endpoint_kept: "advance_endpoint j d = Inr d' \<Longrightarrow> tasks d' = tasks d"
  by (auto simp: advance_endpoint_def Let_def split: if_splits)

lemma finish_claim_kept: "finish_claim now w tok l j d = Inr (d', r) \<Longrightarrow> tasks d' = tasks d"
  by (auto simp: finish_claim_def bind_res_eq_Inr Let_def take_job_def dest!: advance_endpoint_kept)

lemma claim_kept: "claim_job now locked rlocked tok lid w d = Inr (d', j) \<Longrightarrow> tasks d' = tasks d"
  by (auto simp: claim_job_def bind_res_eq_Inr lease_resource_def dest!: finish_claim_kept
      split: option.splits if_splits)

lemma register_kept: "register_worker text_of now q d = Inr (d', w) \<Longrightarrow> tasks d' = tasks d"
  by (rule register_worker_tables(2))

lemma enqueue_kept: "enqueue_job now i q d = Inr (d', j) \<Longrightarrow> tasks d' = tasks d"
  by (auto simp: enqueue_job_def Let_def split: if_splits option.splits)

lemma heartbeat_kept: "heartbeat_job now w i tok fen d = Inr (d', u) \<Longrightarrow> tasks d' = tasks d"
  by (auto simp: heartbeat_job_def bind_res_eq_Inr Let_def split: if_splits option.splits)

lemma complete_kept: "complete_job now i tok fen res d = Inr (d', j) \<Longrightarrow> tasks d' = tasks d"
  by (auto simp: complete_job_def bind_res_eq_Inr Let_def split: if_splits option.splits)

lemma cancel_kept: "cancel_job now i reason d = Inr (d', j) \<Longrightarrow> tasks d' = tasks d"
  by (auto simp: cancel_job_def Let_def split: if_splits option.splits)

lemma cleanup_kept: "report_resource_cleanup rid k cleanup d = Inr (d', r) \<Longrightarrow> tasks d' = tasks d"
  by (auto simp: report_resource_cleanup_def Let_def split: if_splits option.splits)

lemmas plain_kept = register_kept enqueue_kept claim_kept heartbeat_kept complete_kept cancel_kept
  cleanup_kept

text \<open>No operation of the queue touches the task of a round.\<close>

lemma queue_step_kept: "queue_step p d = Inr d' \<Longrightarrow> tasks_kept d d'"
  by (cases p)
    (auto simp: recover_stale_jobs_def mark_job_advanced_def dest!: plain_kept
      intro: tasks_keptI fail_kept recover_all_kept cancel_task_kept)

end
