(* ===== verification/PyMath.thy ===== *)
theory PyMath
  imports Float64 "HOL-Library.List_Lexorder" "HOL-Library.Char_ord"
begin

text \<open>
  The arithmetic of Python that the evaluation code uses on floats: the operators,
  \<open>math.fsum\<close> with its error-free partial sums, \<open>statistics.fmean\<close>, \<open>math.isclose\<close>,
  rounding to an int, and indexing a sequence. Zero has no sign here.
\<close>

fun is_finite :: "pyfloat \<Rightarrow> bool" where
  "is_finite (Fin q) = True"
| "is_finite _ = False"

fun sign_of :: "pyfloat \<Rightarrow> int" where
  "sign_of (Fin q) = (if q < 0 then -1 else if q = 0 then 0 else 1)"
| "sign_of PosInf = 1"
| "sign_of NegInf = -1"
| "sign_of NaN = 0"

definition signed_inf :: "int \<Rightarrow> pyfloat" where
  "signed_inf s = (if s = 0 then NaN else if 0 < s then PosInf else NegInf)"

definition fsub :: "pyfloat \<Rightarrow> pyfloat \<Rightarrow> pyfloat" where
  "fsub x y = fadd x (fneg y)"

fun fmul :: "pyfloat \<Rightarrow> pyfloat \<Rightarrow> pyfloat" where
  "fmul (Fin x) (Fin y) = double (x * y)"
| "fmul x y = signed_inf (sign_of x * sign_of y)"

text \<open>\<open>x / y\<close>\<close>

fun fdiv :: "pyfloat \<Rightarrow> pyfloat \<Rightarrow> error + pyfloat" where
  "fdiv x (Fin y) =
     (if y = 0 then Inl ZeroDivisionError
      else Inr (case x of Fin q \<Rightarrow> double (q / y) | _ \<Rightarrow> signed_inf (sign_of x * sign_of (Fin y))))"
| "fdiv x NaN = Inr NaN"
| "fdiv x y = Inr (case x of Fin q \<Rightarrow> Fin 0 | _ \<Rightarrow> NaN)"

definition fle :: "pyfloat \<Rightarrow> pyfloat \<Rightarrow> bool" where
  "fle x y \<longleftrightarrow> fless x y \<or> (x = y \<and> x \<noteq> NaN)"

definition feq :: "pyfloat \<Rightarrow> pyfloat \<Rightarrow> bool" where
  "feq x y \<longleftrightarrow> x = y \<and> x \<noteq> NaN"

definition fabs :: "pyfloat \<Rightarrow> pyfloat" where
  "fabs x = (if is_negative x then fneg x else x)"

text \<open>\<open>max(a, b)\<close>: the first one unless the second is greater\<close>

definition fmax :: "pyfloat \<Rightarrow> pyfloat \<Rightarrow> pyfloat" where
  "fmax a b = (if fless a b then b else a)"

text \<open>\<open>math.isclose(a, b, rel_tol=1e-12, abs_tol=1e-12)\<close>\<close>

definition is_close :: "pyfloat \<Rightarrow> pyfloat \<Rightarrow> bool" where
  "is_close a b \<longleftrightarrow>
     (let tol = double (1 / 10 ^ 12); diff = fabs (fsub b a) in
      feq a b \<or>
      (is_finite a \<and> is_finite b \<and>
       (fle diff (fabs (fmul tol b)) \<or> fle diff (fabs (fmul tol a)) \<or> fle diff tol)))"

section \<open>Sums\<close>

text \<open>One more number for the partial sums of \<open>math.fsum\<close>: the new partials and the rest.\<close>

fun fsum_add :: "pyfloat list \<Rightarrow> pyfloat \<Rightarrow> pyfloat list \<times> pyfloat" where
  "fsum_add [] x = ([], x)"
| "fsum_add (p # ps) x =
     (let (x, y) = (if fless (fabs x) (fabs p) then (p, x) else (x, p));
          hi = fadd x y; lo = fsub y (fsub hi x);
          (qs, r) = fsum_add ps hi
      in (if lo = Fin 0 then qs else lo # qs, r))"

fun fsum_partials :: "pyfloat list \<Rightarrow> pyfloat list \<Rightarrow> error + pyfloat list" where
  "fsum_partials ps [] = Inr ps"
| "fsum_partials ps (x # xs) =
     (let (qs, r) = fsum_add ps x in
      if r = Fin 0 then fsum_partials qs xs
      else if \<not> is_finite r then Inl OverflowError
      else fsum_partials (qs @ [r]) xs)"

text \<open>
  The partials from the greatest downwards: added until a remainder appears, which with
  the sign of the next partial decides a tie.
\<close>

fun fsum_round :: "pyfloat \<Rightarrow> pyfloat list \<Rightarrow> pyfloat" where
  "fsum_round hi [] = hi"
| "fsum_round hi (y # rest) =
     (let h = fadd hi y; lo = fsub y (fsub h hi) in
      if lo = Fin 0 then fsum_round h rest
      else case rest of
        [] \<Rightarrow> h
      | z # _ \<Rightarrow>
          if is_negative lo \<and> is_negative z \<or> fless (Fin 0) lo \<and> fless (Fin 0) z
          then let d = fmul lo (Fin 2); x = fadd h d in if d = fsub x h then x else h
          else h)"

text \<open>\<open>math.fsum\<close> on finite numbers\<close>

definition fsum :: "pyfloat list \<Rightarrow> error + pyfloat" where
  "fsum xs = bind_res (fsum_partials [] xs) (\<lambda>ps.
     Inr (case rev ps of [] \<Rightarrow> Fin 0 | hi # rest \<Rightarrow> fsum_round hi rest))"

definition fmean :: "pyfloat list \<Rightarrow> error + pyfloat" where
  "fmean xs = bind_res (fsum xs) (\<lambda>t.
     if xs = [] then Inl (ValueError ''StatisticsError'') else fdiv t (of_py_int (int (length xs))))"

section \<open>Integers and sequences\<close>

text \<open>\<open>math.floor\<close> and \<open>math.ceil\<close>\<close>

fun py_floor :: "pyfloat \<Rightarrow> error + int" where
  "py_floor (Fin q) = Inr \<lfloor>q\<rfloor>"
| "py_floor NaN = Inl (ValueError ''cannot convert float NaN to integer'')"
| "py_floor _ = Inl OverflowError"

fun py_ceil :: "pyfloat \<Rightarrow> error + int" where
  "py_ceil (Fin q) = Inr \<lceil>q\<rceil>"
| "py_ceil NaN = Inl (ValueError ''cannot convert float NaN to integer'')"
| "py_ceil _ = Inl OverflowError"

text \<open>\<open>values[i]\<close>; a negative index counts from the end\<close>

definition py_nth :: "'a list \<Rightarrow> int \<Rightarrow> error + 'a" where
  "py_nth xs i =
     (let k = (if i < 0 then i + int (length xs) else i) in
      if 0 \<le> k \<and> k < int (length xs) then Inr (xs ! nat k) else Inl IndexError)"

section \<open>The order of floats\<close>

text \<open>
  Sorting by floats: the order of the numbers with the infinities at its ends. NaN, which
  compares with nothing in Python, is put below all of them; the code sorts no NaN.
\<close>

fun float_rank :: "pyfloat \<Rightarrow> int \<times> rat" where
  "float_rank NaN = (-2, 0)"
| "float_rank NegInf = (-1, 0)"
| "float_rank (Fin q) = (0, q)"
| "float_rank PosInf = (1, 0)"

lemma float_rank_inject: "float_rank x = float_rank y \<Longrightarrow> x = y"
  by (cases x; cases y) auto

instantiation pyfloat :: linorder
begin

definition less_eq_pyfloat :: "pyfloat \<Rightarrow> pyfloat \<Rightarrow> bool" where
  "less_eq_pyfloat x y \<longleftrightarrow> float_rank x \<le> float_rank y"

definition less_pyfloat :: "pyfloat \<Rightarrow> pyfloat \<Rightarrow> bool" where
  "less_pyfloat x y \<longleftrightarrow> float_rank x < float_rank y"

instance
  by standard (auto simp: less_eq_pyfloat_def less_pyfloat_def intro: float_rank_inject)

end

lemma fless_less: "x \<noteq> NaN \<Longrightarrow> y \<noteq> NaN \<Longrightarrow> fless x y \<longleftrightarrow> x < y"
  by (cases x; cases y) (auto simp: less_pyfloat_def)

lemma fless_NaN: "fless x y \<Longrightarrow> x \<noteq> NaN \<and> y \<noteq> NaN"
  by (cases x; cases y) auto

lemma fneg_less: "x \<noteq> NaN \<Longrightarrow> y \<noteq> NaN \<Longrightarrow> fneg x < fneg y \<longleftrightarrow> y < x"
  by (cases x; cases y) (auto simp: less_pyfloat_def)

lemma fneg_inject: "fneg x = fneg y \<longleftrightarrow> x = y"
  by (cases x; cases y) auto

section \<open>When a mean exists\<close>

lemma fsum_error: "fsum xs = Inl e \<Longrightarrow> e = OverflowError"
proof -
  have "fsum_partials ps xs = Inl e \<Longrightarrow> e = OverflowError" for ps
  proof (induction xs arbitrary: ps)
    case (Cons x xs)
    obtain qs r where "fsum_add ps x = (qs, r)" by fastforce
    with Cons show ?case by (simp split: if_splits)
  qed simp
  then show "fsum xs = Inl e \<Longrightarrow> e = OverflowError"
    by (auto simp: fsum_def bind_res_def split: sum.splits)
qed

lemma fmean_error: "xs \<noteq> [] \<Longrightarrow> fmean xs = Inl e \<Longrightarrow> e = OverflowError"
  by (auto simp: fmean_def bind_res_def dest: fsum_error split: sum.splits)

text \<open>A constant sample has its value as the mean.\<close>

lemma fmean_half: "fmean [Fin (1/2), Fin (1/2), Fin (1/2), Fin (1/2)] = Inr (Fin (1/2))"
  by code_simp

end
