(* ===== verification/BarrierModels.thy ===== *)
theory BarrierModels
  imports PyMath SearchRound
begin

text \<open>
  The frozen models of the M2a barriers and of their multiple comparison,
  src/src/hcuopt/evaluation/m2_models.py: each record with its field constraints and its
  model validator, and the constructor that runs both. A violated field constraint and a
  failed validator are both a validation error of Pydantic, here a \<open>ValueError\<close>.
\<close>

section \<open>Members of a barrier\<close>

record barrier_member =
  bm_member :: uuid
  bm_candidate :: uuid
  bm_state :: round_candidate_state
  bm_artifact :: "uuid option"
  bm_artifact_hash :: "string option"
  bm_correctness :: "string option"
  bm_measurement :: "uuid option"
  bm_receipt :: "uuid option"
  bm_failure :: "string option"
  bm_budget :: string
  bm_cleanup :: "string option"
  bm_synthetic :: bool

definition barrier_member_fields :: "barrier_member \<Rightarrow> bool" where
  "barrier_member_fields b \<longleftrightarrow>
     opt_all is_sha256 (bm_artifact_hash b) \<and> opt_all is_sha256 (bm_correctness b) \<and>
     opt_all is_sha256 (bm_failure b) \<and> is_sha256 (bm_budget b) \<and> opt_all is_sha256 (bm_cleanup b)"

definition measured_states :: "round_candidate_state list" where
  "measured_states = [RC_SEARCH_MEASURED, RC_HOLDOUT_MEASURED]"

definition failed_states :: "round_candidate_state list" where
  "failed_states =
     [RC_BUILD_FAILED, RC_CORRECTNESS_FAILED, RC_SEARCH_FAILED, RC_HOLDOUT_FAILED, RC_INVALID]"

text \<open>\<open>sum(value is not None for value in values)\<close>\<close>

definition given :: "'a option list \<Rightarrow> nat" where
  "given xs = length (filter (\<lambda>x. x \<noteq> None) xs)"

definition require_terminal_evidence_shape :: "barrier_member \<Rightarrow> error + unit" where
  "require_terminal_evidence_shape b =
     (let measured = (bm_state b \<in> set measured_states);
          failed = (bm_state b \<in> set failed_states);
          evidence = [bm_measurement b, bm_receipt b]
      in if (bm_artifact b = None) \<noteq> (bm_artifact_hash b = None)
         then Inl (ValueError ''Barrier member Artifact identity must be written as one pair'')
         else if \<not> measured \<and> \<not> failed
         then Inl (ValueError ''Barrier member must be in a measurement or failure terminal'')
         else if measured \<and> (bm_artifact b = None \<or> bm_correctness b = None \<or>
                 bm_cleanup b = None \<or> bm_failure b \<noteq> None \<or> given evidence \<noteq> 1)
         then Inl (ValueError ''measured Barrier member requires complete success evidence'')
         else if measured \<and> ((bm_synthetic b \<and> bm_receipt b = None) \<or>
                 (\<not> bm_synthetic b \<and> bm_measurement b = None))
         then Inl (ValueError ''Barrier member evidence authority disagrees with synthetic mode'')
         else if failed \<and> (bm_failure b = None \<or> given evidence \<noteq> 0)
         then Inl (ValueError ''failed Barrier member requires failure evidence and no success ID'')
         else if bm_state b \<in> {RC_SEARCH_FAILED, RC_HOLDOUT_FAILED} \<and>
                 (bm_artifact b = None \<or> bm_correctness b = None)
         then Inl (ValueError
           ''phase measurement failure requires Artifact and correctness evidence'')
         else Inr ())"

definition make_barrier_member :: "barrier_member \<Rightarrow> error + barrier_member" where
  "make_barrier_member b =
     (if \<not> barrier_member_fields b then Inl (ValueError ''BarrierMemberResult'')
      else bind_res (require_terminal_evidence_shape b) (\<lambda>_. Inr b))"

text \<open>\<open>model_dump(mode="json")\<close>\<close>

definition member_json :: "barrier_member \<Rightarrow> json" where
  "member_json b = jobj
     [(''round_candidate_id'', JStr (bm_member b)), (''candidate_id'', JStr (bm_candidate b)),
      (''candidate_state'', JStr (round_candidate_state_value (bm_state b))),
      (''artifact_id'', jstr_opt (bm_artifact b)), (''artifact_hash'', jstr_opt (bm_artifact_hash b)),
      (''correctness_evidence_hash'', jstr_opt (bm_correctness b)),
      (''round_measurement_ref_id'', jstr_opt (bm_measurement b)),
      (''scripted_phase_receipt_id'', jstr_opt (bm_receipt b)),
      (''failure_evidence_hash'', jstr_opt (bm_failure b)),
      (''budget_usage_evidence_hash'', JStr (bm_budget b)),
      (''cleanup_evidence_hash'', jstr_opt (bm_cleanup b)),
      (''synthetic'', JBool (bm_synthetic b))]"

section \<open>A closed barrier\<close>

text \<open>A \<open>datetime\<close> has a time zone or not.\<close>

datatype stamp = Aware time | Naive time

fun aware :: "stamp \<Rightarrow> bool" where
  "aware (Aware t) = True"
| "aware (Naive t) = False"

record barrier =
  bb_id :: uuid
  bb_round :: uuid
  bb_mode :: round_mode
  bb_synthetic :: bool
  bb_phase :: round_phase
  bb_family :: string
  bb_expected :: int
  bb_members :: "barrier_member list"
  bb_rule_version :: string
  bb_rule :: string
  bb_promoted :: "uuid list"
  bb_outcome :: barrier_outcome
  bb_summary :: string
  bb_closed_by :: string
  bb_closed_at :: stamp
  bb_key :: string

definition barrier_fields :: "barrier \<Rightarrow> bool" where
  "barrier_fields r \<longleftrightarrow>
     is_sha256 (bb_family r) \<and> 1 \<le> bb_expected r \<and> bb_expected r \<le> 4 \<and>
     1 \<le> length (bb_members r) \<and> length (bb_members r) \<le> 4 \<and>
     text_between 1 200 (bb_rule_version r) \<and> is_sha256 (bb_rule r) \<and>
     length (bb_promoted r) \<le> 2 \<and> is_sha256 (bb_summary r) \<and>
     text_between 1 300 (bb_closed_by r) \<and> text_between 8 300 (bb_key r)"

text \<open>\<open>{item.candidate_id: item for item in members}.get(candidate_id)\<close>: the last one wins.\<close>

definition member_by_id :: "barrier_member list \<Rightarrow> uuid \<Rightarrow> barrier_member option" where
  "member_by_id ms i = find (\<lambda>m. bm_candidate m = i) (rev ms)"

definition search_terminals :: "round_candidate_state list" where
  "search_terminals =
     [RC_BUILD_FAILED, RC_CORRECTNESS_FAILED, RC_SEARCH_FAILED, RC_SEARCH_MEASURED, RC_INVALID]"

definition holdout_terminals :: "round_candidate_state list" where
  "holdout_terminals = [RC_HOLDOUT_FAILED, RC_HOLDOUT_MEASURED, RC_INVALID]"

definition require_search_barrier :: "barrier \<Rightarrow> error + unit" where
  "require_search_barrier r =
     (if list_ex (\<lambda>m. bm_state m \<notin> set search_terminals) (bb_members r)
      then Inl (ValueError ''Search Barrier contains a non-Search terminal'')
      else if bb_outcome r \<noteq> (if bb_promoted r \<noteq> [] then MEMBERS_PROMOTED else NO_PROMOTABLE_CANDIDATE)
      then Inl (ValueError ''Search Barrier outcome does not match promotions'')
      else if list_ex (\<lambda>i. map_option bm_state (member_by_id (bb_members r) i) \<noteq> Some RC_SEARCH_MEASURED)
             (bb_promoted r)
      then Inl (ValueError ''Search Barrier can promote only measured Candidates'')
      else Inr ())"

definition require_holdout_barrier :: "barrier \<Rightarrow> error + unit" where
  "require_holdout_barrier r =
     (if list_ex (\<lambda>m. bm_state m \<notin> set holdout_terminals) (bb_members r)
      then Inl (ValueError ''Holdout Barrier contains a non-Holdout terminal'')
      else if list_ex (\<lambda>m. bm_artifact m = None \<or> bm_correctness m = None) (bb_members r)
      then Inl (ValueError ''Holdout Barrier members require Artifact and correctness evidence'')
      else if bb_outcome r \<noteq> BARRIER_COMPLETED \<or> bb_promoted r \<noteq> []
      then Inl (ValueError ''Holdout Barrier must complete without promotions'')
      else if 2 < bb_expected r
      then Inl (ValueError ''Holdout Barrier supports at most two frozen members'')
      else Inr ())"

definition require_complete_phase_barrier :: "barrier \<Rightarrow> error + unit" where
  "require_complete_phase_barrier r =
     (let ids = map bm_candidate (bb_members r) in
      if \<not> aware (bb_closed_at r) then Inl (ValueError ''Barrier close time must be timezone-aware'')
      else if (bb_mode r = RM_SCRIPTED) \<noteq> bb_synthetic r
      then Inl (ValueError ''Barrier run mode and synthetic flag disagree'')
      else if list_ex (\<lambda>m. bm_synthetic m \<noteq> bb_synthetic r) (bb_members r)
      then Inl (ValueError ''Barrier members and batch authority use different modes'')
      else if int (length (bb_members r)) \<noteq> bb_expected r
      then Inl (ValueError ''Barrier requires every frozen family member'')
      else if \<not> distinct ids then Inl (ValueError ''Barrier members must bind unique Candidates'')
      else if ids \<noteq> sort ids
      then Inl (ValueError ''Barrier members must use deterministic Candidate order'')
      else if \<not> distinct (bb_promoted r)
      then Inl (ValueError ''Barrier promoted Candidate IDs must be unique'')
      else if bb_promoted r \<noteq> sort (bb_promoted r)
      then Inl (ValueError ''Barrier promotions must use deterministic Candidate order'')
      else if list_ex (\<lambda>i. i \<notin> set ids) (bb_promoted r)
      then Inl (ValueError ''Barrier cannot promote a Candidate outside the frozen family'')
      else if bb_phase r = PH_SEARCH then require_search_barrier r else require_holdout_barrier r)"

definition make_barrier :: "barrier \<Rightarrow> error + barrier" where
  "make_barrier r =
     (if \<not> barrier_fields r then Inl (ValueError ''RoundBarrierResult'')
      else bind_res (require_complete_phase_barrier r) (\<lambda>_. Inr r))"

section \<open>Adjusted results\<close>

record adjusted =
  aj_candidate :: uuid
  aj_measurement :: "uuid option"
  aj_receipt :: "uuid option"
  aj_synthetic :: bool
  aj_correctness :: string
  aj_raw :: "string option"
  aj_baseline :: "string option"
  aj_verdict :: verdict
  aj_lower :: "pyfloat option"
  aj_upper :: "pyfloat option"
  aj_stage0 :: "pyfloat option"
  aj_workload :: "pyfloat option"
  aj_threshold :: "pyfloat option"
  aj_codes :: "string list"

definition adjusted_fields :: "adjusted \<Rightarrow> bool" where
  "adjusted_fields a \<longleftrightarrow>
     is_sha256 (aj_correctness a) \<and> opt_all is_sha256 (aj_raw a) \<and> opt_all is_sha256 (aj_baseline a) \<and>
     opt_all is_finite (aj_lower a) \<and> opt_all is_finite (aj_upper a) \<and>
     opt_all (\<lambda>x. is_finite x \<and> fless (Fin 0) x \<and> fless x (Fin 1)) (aj_stage0 a) \<and>
     opt_all (\<lambda>x. is_finite x \<and> fle (Fin 0) x) (aj_workload a) \<and>
     opt_all (\<lambda>x. is_finite x \<and> fless (Fin 0) x) (aj_threshold a) \<and> length (aj_codes a) \<le> 32"

definition verdict_matches :: "verdict \<Rightarrow> pyfloat \<Rightarrow> pyfloat \<Rightarrow> pyfloat \<Rightarrow> bool" where
  "verdict_matches v lower upper threshold =
     (case v of
        FASTER \<Rightarrow> fless threshold lower
      | SLOWER \<Rightarrow> fless upper (fneg threshold)
      | _ \<Rightarrow> \<not> (fless threshold lower \<or> fless upper (fneg threshold)))"

definition require_adjusted_verdict_evidence :: "adjusted \<Rightarrow> error + unit" where
  "require_adjusted_verdict_evidence a =
     (let evidence = given [aj_measurement a, aj_receipt a];
          numbers = given [aj_lower a, aj_upper a, aj_stage0 a, aj_workload a, aj_threshold a]
      in if 1 < evidence \<or> (aj_synthetic a \<and> aj_measurement a \<noteq> None) \<or>
            (\<not> aj_synthetic a \<and> aj_receipt a \<noteq> None)
         then Inl (ValueError ''adjusted result evidence authority disagrees with synthetic mode'')
         else if aj_verdict a = INVALID
         then (if aj_codes a = []
               then Inl (ValueError ''invalid adjusted result requires failure codes'')
               else if numbers \<noteq> 0
               then Inl (ValueError ''invalid adjusted result cannot claim a confidence interval'')
               else if (evidence = 1) \<noteq> (aj_raw a \<noteq> None \<and> aj_baseline a \<noteq> None)
               then Inl (ValueError ''invalid measured result must retain raw and Baseline identities'')
               else Inr ())
         else if evidence \<noteq> 1
         then Inl (ValueError ''adjusted conclusion requires complete verified evidence'')
         else case (aj_lower a, aj_upper a, aj_stage0 a, aj_workload a, aj_threshold a) of
           (Some lower, Some upper, Some stage0, Some workload, Some threshold) \<Rightarrow>
             if aj_raw a = None \<or> aj_baseline a = None
             then Inl (ValueError
               ''adjusted conclusion requires raw and Baseline evidence identities'')
             else if fless upper lower
             then Inl (ValueError ''adjusted confidence interval is not ordered'')
             else if \<not> is_close threshold (fmax stage0 workload)
             then Inl (ValueError ''credible threshold must use the conservative MDE'')
             else if aj_codes a \<noteq> []
             then Inl (ValueError ''valid adjusted conclusion cannot carry failure codes'')
             else if \<not> verdict_matches (aj_verdict a) lower upper threshold
             then Inl (ValueError ''adjusted verdict does not match its confidence interval'')
             else Inr ()
         | _ \<Rightarrow> Inl (ValueError ''adjusted conclusion requires complete verified evidence''))"

definition make_adjusted :: "adjusted \<Rightarrow> error + adjusted" where
  "make_adjusted a =
     (if \<not> adjusted_fields a then Inl (ValueError ''AdjustedCandidateResult'')
      else bind_res (require_adjusted_verdict_evidence a) (\<lambda>_. Inr a))"

fun verdict_value :: "verdict \<Rightarrow> string" where
  "verdict_value FASTER = ''faster''"
| "verdict_value SLOWER = ''slower''"
| "verdict_value INCONCLUSIVE = ''inconclusive''"
| "verdict_value INVALID = ''invalid''"

fun jfloat_opt :: "pyfloat option \<Rightarrow> json" where
  "jfloat_opt None = JNull"
| "jfloat_opt (Some x) = JFloat x"

definition adjusted_json :: "adjusted \<Rightarrow> json" where
  "adjusted_json a = jobj
     [(''candidate_id'', JStr (aj_candidate a)),
      (''round_measurement_ref_id'', jstr_opt (aj_measurement a)),
      (''scripted_phase_receipt_id'', jstr_opt (aj_receipt a)), (''synthetic'', JBool (aj_synthetic a)),
      (''correctness_evidence_hash'', JStr (aj_correctness a)),
      (''raw_evidence_hash'', jstr_opt (aj_raw a)),
      (''baseline_sample_set_hash'', jstr_opt (aj_baseline a)),
      (''verdict'', JStr (verdict_value (aj_verdict a))),
      (''adjusted_ci_lower'', jfloat_opt (aj_lower a)), (''adjusted_ci_upper'', jfloat_opt (aj_upper a)),
      (''stage0_mde_ratio'', jfloat_opt (aj_stage0 a)),
      (''workload_mde_ratio'', jfloat_opt (aj_workload a)),
      (''credible_threshold'', jfloat_opt (aj_threshold a)),
      (''failure_codes'', JArr (map JStr (aj_codes a)))]"

section \<open>The multiple comparison\<close>

record comparison =
  mc_id :: uuid
  mc_round :: uuid
  mc_mode :: round_mode
  mc_synthetic :: bool
  mc_barrier :: uuid
  mc_family :: string
  mc_version :: string
  mc_protocol :: string
  mc_family_alpha :: pyfloat
  mc_m :: int
  mc_alpha :: pyfloat
  mc_results :: "adjusted list"
  mc_recommended :: "uuid option"
  mc_hash :: string
  mc_created :: stamp

definition open_unit :: "pyfloat \<Rightarrow> bool" where
  "open_unit x \<longleftrightarrow> is_finite x \<and> fless (Fin 0) x \<and> fless x (Fin 1)"

definition comparison_fields :: "comparison \<Rightarrow> bool" where
  "comparison_fields c \<longleftrightarrow>
     is_sha256 (mc_family c) \<and> text_between 1 200 (mc_version c) \<and> is_sha256 (mc_protocol c) \<and>
     open_unit (mc_family_alpha c) \<and> 1 \<le> mc_m c \<and> mc_m c \<le> 2 \<and> open_unit (mc_alpha c) \<and>
     1 \<le> length (mc_results c) \<and> length (mc_results c) \<le> 2 \<and> is_sha256 (mc_hash c)"

text \<open>
  \<open>min(faster, key=lambda item: (-float(item.adjusted_ci_lower), str(item.candidate_id)))\<close>;
  a faster result has a lower bound.
\<close>

definition faster_key :: "adjusted \<Rightarrow> pyfloat \<times> uuid" where
  "faster_key a =
     (case aj_lower a of None \<Rightarrow> NaN | Some x \<Rightarrow> fneg x, aj_candidate a)"

definition recommendation :: "adjusted list \<Rightarrow> uuid option" where
  "recommendation as = map_option aj_candidate (argmin faster_key (filter (\<lambda>a. aj_verdict a = FASTER) as))"

definition require_frozen_bonferroni_family :: "comparison \<Rightarrow> error + unit" where
  "require_frozen_bonferroni_family c =
     (let ids = map aj_candidate (mc_results c) in
      if \<not> aware (mc_created c)
      then Inl (ValueError ''Multiple Comparison time must be timezone-aware'')
      else if (mc_mode c = RM_SCRIPTED) \<noteq> mc_synthetic c
      then Inl (ValueError ''Multiple Comparison mode and synthetic flag disagree'')
      else if list_ex (\<lambda>a. aj_synthetic a \<noteq> mc_synthetic c) (mc_results c)
      then Inl (ValueError ''Multiple Comparison members use another evidence mode'')
      else bind_res (fdiv (mc_family_alpha c) (of_py_int (mc_m c))) (\<lambda>share.
        if \<not> is_close (mc_alpha c) share
        then Inl (ValueError ''Bonferroni alpha_candidate must equal family_alpha / m'')
        else if int (length (mc_results c)) \<noteq> mc_m c
        then Inl (ValueError ''Multiple Comparison must retain every Holdout member'')
        else if \<not> distinct ids then Inl (ValueError ''Multiple Comparison Candidates must be unique'')
        else if ids \<noteq> sort ids
        then Inl (ValueError ''Multiple Comparison results must use deterministic order'')
        else if mc_recommended c \<noteq> recommendation (mc_results c)
        then Inl (ValueError ''recommendation must use adjusted lower bound and UUID tie-break'')
        else Inr ()))"

definition make_comparison :: "comparison \<Rightarrow> error + comparison" where
  "make_comparison c =
     (if \<not> comparison_fields c then Inl (ValueError ''MultipleComparisonResult'')
      else bind_res (require_frozen_bonferroni_family c) (\<lambda>_. Inr c))"

section \<open>Evidence of a round\<close>

record candidate_evidence =
  ce_member :: uuid
  ce_candidate :: uuid
  ce_search_state :: round_candidate_state
  ce_search :: string
  ce_holdout_state :: "round_candidate_state option"
  ce_holdout :: "string option"
  ce_budget :: "string list"
  ce_cleanup :: "string list"

definition make_candidate_evidence :: "candidate_evidence \<Rightarrow> error + candidate_evidence" where
  "make_candidate_evidence e =
     (if \<not> (is_sha256 (ce_search e) \<and> opt_all is_sha256 (ce_holdout e) \<and>
         1 \<le> length (ce_budget e) \<and> length (ce_budget e) \<le> 16 \<and> length (ce_cleanup e) \<le> 16)
      then Inl (ValueError ''RoundCandidateEvidence'')
      else if (ce_holdout_state e = None) \<noteq> (ce_holdout e = None)
      then Inl (ValueError ''Holdout Candidate evidence must be written as one pair'')
      else Inr e)"

datatype terminal_reason = HOLDOUT_COMPLETED | TR_NO_PROMOTABLE_CANDIDATE

record evidence_bundle =
  eb_id :: uuid
  eb_round :: uuid
  eb_task :: uuid
  eb_mode :: round_mode
  eb_reason :: terminal_reason
  eb_family :: string
  eb_artifacts :: string
  eb_holdout :: "string option"
  eb_search_plan :: string
  eb_commitment :: string
  eb_holdout_plan :: "string option"
  eb_reveal :: "string option"
  eb_candidates :: "candidate_evidence list"
  eb_search_barrier :: uuid
  eb_holdout_barrier :: "uuid option"
  eb_comparison :: "uuid option"
  eb_ledger :: string
  eb_index_uri :: string
  eb_index_hash :: string
  eb_summary :: "(string, json) fmap"
  eb_synthetic :: bool
  eb_created :: stamp

definition bundle_fields :: "evidence_bundle \<Rightarrow> bool" where
  "bundle_fields b \<longleftrightarrow>
     is_sha256 (eb_family b) \<and> is_sha256 (eb_artifacts b) \<and> opt_all is_sha256 (eb_holdout b) \<and>
     is_sha256 (eb_search_plan b) \<and> is_sha256 (eb_commitment b) \<and>
     opt_all is_sha256 (eb_holdout_plan b) \<and> opt_all is_sha256 (eb_reveal b) \<and>
     1 \<le> length (eb_candidates b) \<and> length (eb_candidates b) \<le> 4 \<and> is_sha256 (eb_ledger b) \<and>
     text_between 1 4000 (eb_index_uri b) \<and> is_sha256 (eb_index_hash b)"

text \<open>The five references of a completed holdout, present or not.\<close>

definition holdout_refs :: "evidence_bundle \<Rightarrow> bool list" where
  "holdout_refs b =
     [eb_holdout b \<noteq> None, eb_holdout_plan b \<noteq> None, eb_reveal b \<noteq> None,
      eb_holdout_barrier b \<noteq> None, eb_comparison b \<noteq> None]"

definition require_terminal_bundle_shape :: "evidence_bundle \<Rightarrow> error + unit" where
  "require_terminal_bundle_shape b =
     (let ids = map ce_candidate (eb_candidates b) in
      if \<not> aware (eb_created b) then Inl (ValueError ''Round Evidence time must be timezone-aware'')
      else if (eb_mode b = RM_SCRIPTED) \<noteq> eb_synthetic b
      then Inl (ValueError ''Round Evidence run mode and synthetic flag disagree'')
      else if eb_synthetic b \<and>
              (fmlookup (eb_summary b) ''performance_conclusion'' \<noteq> Some (JStr ''not_measured'') \<or>
               fmlookup (eb_summary b) ''evidence_authority'' \<noteq> Some (JStr ''synthetic_fixture_only''))
      then Inl (ValueError ''synthetic Round Evidence cannot claim a performance conclusion'')
      else if \<not> distinct ids then Inl (ValueError ''Round Evidence Candidates must be unique'')
      else if ids \<noteq> sort ids
      then Inl (ValueError ''Round Evidence Candidates must use deterministic order'')
      else if eb_reason b = TR_NO_PROMOTABLE_CANDIDATE
      then (if list_ex id (holdout_refs b)
            then Inl (ValueError ''zero-promotion Evidence must omit Holdout and FWER'')
            else if list_ex (\<lambda>e. ce_holdout_state e \<noteq> None) (eb_candidates b)
            then Inl (ValueError ''zero-promotion Evidence cannot contain Holdout members'')
            else Inr ())
      else if \<not> list_all id (holdout_refs b)
      then Inl (ValueError ''completed Holdout Evidence requires every Holdout and FWER ref'')
      else Inr ())"

definition make_bundle :: "evidence_bundle \<Rightarrow> error + evidence_bundle" where
  "make_bundle b =
     (if \<not> bundle_fields b then Inl (ValueError ''RoundEvidenceBundle'')
      else bind_res (require_terminal_bundle_shape b) (\<lambda>_. Inr b))"

end
