(* ===== verification/BarrierStatistics.thy ===== *)
theory BarrierStatistics
  imports BarrierModels
begin

text \<open>
  The scripted barriers of an M2a round and its family-wise error rate,
  src/src/hcuopt/evaluation/m2_statistics.py.

  Parameters of the functions, the record \<open>pylib\<close>: \<open>sha256\<close> of the canonical JSON text of
  a document, \<open>uuid5\<close> of a name, the text of a float in an f-string, the draws of
  \<open>random.Random(seed).randrange(count)\<close> for the seed taken from the hash of a text,
  \<open>statistics.stdev\<close>, \<open>math.sqrt\<close> and \<open>NormalDist().inv_cdf\<close>, whose last digits depend
  on the version of Python and its C library.
\<close>

record pylib =
  lib_digest :: "json \<Rightarrow> string"
  lib_uuid5 :: "string \<Rightarrow> uuid"
  lib_str :: "pyfloat \<Rightarrow> string"
  lib_draw :: "string \<Rightarrow> nat \<Rightarrow> nat \<Rightarrow> nat"
  lib_stdev :: "pyfloat list \<Rightarrow> pyfloat"
  lib_sqrt :: "pyfloat \<Rightarrow> pyfloat"
  lib_inv_cdf :: "pyfloat \<Rightarrow> error + pyfloat"

definition M2_SEARCH_SELECTION_RULE_VERSION :: string where
  "M2_SEARCH_SELECTION_RULE_VERSION = ''m2-scripted-search-mean-v1''"

definition M2_HOLDOUT_BARRIER_RULE_VERSION :: string where
  "M2_HOLDOUT_BARRIER_RULE_VERSION = ''m2-scripted-holdout-completeness-v1''"

definition M2_FWER_PROTOCOL_VERSION :: string where
  "M2_FWER_PROTOCOL_VERSION = ''m2-bonferroni-bootstrap-v1''"

definition M2_FWER_BOOTSTRAP_RESAMPLES :: nat where
  "M2_FWER_BOOTSTRAP_RESAMPLES = 2000"

definition M2_FWER_POWER :: pyfloat where
  "M2_FWER_POWER = double (8/10)"

section \<open>Inputs\<close>

record statistics_input =
  ss_candidate :: uuid
  ss_receipt :: uuid
  ss_correctness :: string
  ss_raw :: string
  ss_baseline :: string
  ss_effects :: "pyfloat list"
  ss_means :: "pyfloat list"
  ss_stage0 :: pyfloat
  ss_bindings_valid :: bool
  ss_correctness_passed :: bool
  ss_cleanup_healthy :: bool
  ss_codes :: "string list"

definition statistics_valid :: "statistics_input \<Rightarrow> bool" where
  "statistics_valid s \<longleftrightarrow> ss_bindings_valid s \<and> ss_correctness_passed s \<and> ss_cleanup_healthy s"

definition statistics_fields :: "statistics_input \<Rightarrow> bool" where
  "statistics_fields s \<longleftrightarrow>
     is_sha256 (ss_correctness s) \<and> is_sha256 (ss_raw s) \<and> is_sha256 (ss_baseline s) \<and>
     list_all is_finite (ss_effects s) \<and> 4 \<le> length (ss_effects s) \<and> length (ss_effects s) \<le> 1000 \<and>
     list_all is_finite (ss_means s) \<and> 4 \<le> length (ss_means s) \<and> length (ss_means s) \<le> 1000 \<and>
     open_unit (ss_stage0 s) \<and> length (ss_codes s) \<le> 32"

definition require_valid_statistics_shape :: "statistics_input \<Rightarrow> error + unit" where
  "require_valid_statistics_shape s =
     (if length (ss_effects s) \<noteq> length (ss_means s)
      then Inl (ValueError ''restart effects and Baseline restart means must align'')
      else if list_ex (\<lambda>x. fle x (Fin 0)) (ss_means s)
      then Inl (ValueError ''Baseline restart means must be positive'')
      else if statistics_valid s = (ss_codes s \<noteq> [])
      then Inl (ValueError ''statistics validity and failure codes disagree'')
      else Inr ())"

definition make_statistics :: "statistics_input \<Rightarrow> error + statistics_input" where
  "make_statistics s =
     (if \<not> statistics_fields s then Inl (ValueError ''ScriptedCandidateStatisticsInput'')
      else bind_res (require_valid_statistics_shape s) (\<lambda>_. Inr s))"

definition statistics_json :: "statistics_input \<Rightarrow> json" where
  "statistics_json s = jobj
     [(''candidate_id'', JStr (ss_candidate s)), (''scripted_phase_receipt_id'', JStr (ss_receipt s)),
      (''correctness_evidence_hash'', JStr (ss_correctness s)), (''raw_evidence_hash'', JStr (ss_raw s)),
      (''baseline_sample_set_hash'', JStr (ss_baseline s)),
      (''restart_effects'', JArr (map JFloat (ss_effects s))),
      (''baseline_restart_means_ns'', JArr (map JFloat (ss_means s))),
      (''stage0_mde_ratio'', JFloat (ss_stage0 s)), (''bindings_valid'', JBool (ss_bindings_valid s)),
      (''correctness_passed'', JBool (ss_correctness_passed s)),
      (''cleanup_healthy'', JBool (ss_cleanup_healthy s)),
      (''failure_codes'', JArr (map JStr (ss_codes s))), (''synthetic'', JBool True)]"

section \<open>The summary and the decision of a search barrier\<close>

record search_summary =
  su_round :: uuid
  su_artifacts :: string
  su_rule :: string
  su_members :: "barrier_member list"
  su_statistics :: "statistics_input list"
  su_promoted :: "uuid list"

definition summary_fields :: "search_summary \<Rightarrow> bool" where
  "summary_fields u \<longleftrightarrow>
     is_sha256 (su_artifacts u) \<and> is_sha256 (su_rule u) \<and>
     1 \<le> length (su_members u) \<and> length (su_members u) \<le> 4 \<and>
     length (su_statistics u) \<le> 4 \<and> length (su_promoted u) \<le> 2"

definition require_deterministic_summary_order :: "search_summary \<Rightarrow> error + unit" where
  "require_deterministic_summary_order u =
     (let ms = map bm_candidate (su_members u); ss = map ss_candidate (su_statistics u) in
      if ms \<noteq> sort ms then Inl (ValueError ''Search summary members must use deterministic order'')
      else if ss \<noteq> sort ss
      then Inl (ValueError ''Search summary statistics must use deterministic order'')
      else if su_promoted u \<noteq> sort (su_promoted u)
      then Inl (ValueError ''Search summary promotions must use deterministic order'')
      else Inr ())"

definition make_summary :: "search_summary \<Rightarrow> error + search_summary" where
  "make_summary u =
     (if \<not> summary_fields u then Inl (ValueError ''SearchBarrierInputSummary'')
      else bind_res (require_deterministic_summary_order u) (\<lambda>_. Inr u))"

definition summary_json :: "search_summary \<Rightarrow> json" where
  "summary_json u = jobj
     [(''schema_version'', JStr ''m2a-scripted-search-input-v1''), (''round_id'', JStr (su_round u)),
      (''artifact_family_hash'', JStr (su_artifacts u)), (''selection_rule_hash'', JStr (su_rule u)),
      (''members'', JArr (map member_json (su_members u))),
      (''statistics'', JArr (map statistics_json (su_statistics u))),
      (''promoted_candidate_ids'', JArr (map JStr (su_promoted u)))]"

record decision =
  sd_barrier :: barrier
  sd_summary :: search_summary
  sd_holdout :: "string option"

definition make_decision :: "pylib \<Rightarrow> decision \<Rightarrow> error + decision" where
  "make_decision L x =
     (if \<not> opt_all is_sha256 (sd_holdout x) then Inl (ValueError ''SearchBarrierDecision'')
      else if lib_digest L (summary_json (sd_summary x)) \<noteq> bb_summary (sd_barrier x)
      then Inl (ValueError ''Search input summary does not match Barrier input hash'')
      else if (bb_promoted (sd_barrier x) \<noteq> []) \<noteq> (sd_holdout x \<noteq> None)
      then Inl (ValueError ''Holdout Family must exist exactly when Search promotes members'')
      else Inr x)"

section \<open>Checks shared by the barriers\<close>

definition require_scripted_round :: "search_round \<Rightarrow> round_state \<Rightarrow> error + unit" where
  "require_scripted_round r s =
     guard_err (sr_mode r = RM_SCRIPTED \<and> sr_state r = s) (M2EvaluationError ''round_authority_mismatch'')"

definition ordered_members :: "barrier_member list \<Rightarrow> error + barrier_member list" where
  "ordered_members ms =
     (let items = sort_key bm_candidate ms in
      if items = [] \<or> \<not> distinct (map bm_candidate items)
      then Inl (M2EvaluationError ''barrier_member_family_invalid'') else Inr items)"

text \<open>A dict in the order of its insertions.\<close>

type_synonym statistics_map = "(uuid \<times> statistics_input) list"

fun collect_statistics :: "statistics_map \<Rightarrow> statistics_input list \<Rightarrow> error + statistics_map" where
  "collect_statistics acc [] = Inr acc"
| "collect_statistics acc (s # ss) =
     (if ss_candidate s \<in> fst ` set acc then Inl (M2EvaluationError ''statistics_candidate_duplicate'')
      else collect_statistics (acc @ [(ss_candidate s, s)]) ss)"

definition statistics_by_candidate :: "statistics_input list \<Rightarrow> error + statistics_map" where
  "statistics_by_candidate ss = collect_statistics [] ss"

definition bind_statistics_to_members :: "statistics_map \<Rightarrow> barrier_member list \<Rightarrow> error + unit" where
  "bind_statistics_to_members st ms =
     guard_err (list_all (\<lambda>(i, s).
         case member_by_id ms i of
           None \<Rightarrow> False
         | Some m \<Rightarrow> Some (ss_receipt s) = bm_receipt m \<and> Some (ss_correctness s) = bm_correctness m) st)
       (M2EvaluationError ''statistics_evidence_binding_mismatch'')"

definition expected_candidate_family :: "uuid list \<Rightarrow> int \<Rightarrow> string \<Rightarrow> error + uuid list" where
  "expected_candidate_family ids maximum code =
     (let items = sort ids in
      if \<not> (1 \<le> int (length items) \<and> int (length items) \<le> maximum) \<or> \<not> distinct items
      then Inl (M2EvaluationError code) else Inr items)"

definition reject_reused_statistics_identities :: "statistics_input list \<Rightarrow> error + unit" where
  "reject_reused_statistics_identities ss =
     guard_err (distinct (map ss_receipt ss) \<and> distinct (map ss_raw ss) \<and> distinct (map ss_baseline ss))
       (M2EvaluationError ''statistics_identity_reused'')"

text \<open>\<open>_holdout_family_hash\<close> and its public name\<close>

definition holdout_document :: "search_round \<Rightarrow> string \<Rightarrow> string \<Rightarrow> barrier_member list \<Rightarrow> json" where
  "holdout_document r family arts items = jobj
     [(''schema_version'', JStr ''m2a-holdout-family-v1''), (''round_id'', JStr (sr_id r)),
      (''candidate_family_hash'', JStr family), (''artifact_family_hash'', JStr arts),
      (''selection_rule_hash'', JStr (sr_rule r)), (''m'', JInt (int (length items))),
      (''members'', JArr (map (\<lambda>b. jobj [(''candidate_id'', JStr (bm_candidate b)),
         (''artifact_id'', jstr_opt (bm_artifact b)), (''artifact_hash'', jstr_opt (bm_artifact_hash b))]) items))]"

definition holdout_family_hash ::
    "pylib \<Rightarrow> search_round \<Rightarrow> barrier_member list \<Rightarrow> error + string" where
  "holdout_family_hash L r ms =
     bind_res (ordered_members ms) (\<lambda>items.
     case (sr_family r, sr_artifacts r) of
       (Some family, Some arts) \<Rightarrow>
         if list_ex (\<lambda>b. bm_artifact b = None \<or> bm_artifact_hash b = None) items
         then Inl (M2EvaluationError ''holdout_artifact_missing'')
         else Inr (lib_digest L (holdout_document r family arts items))
     | _ \<Rightarrow> Inl (M2EvaluationError ''artifact_family_not_frozen''))"

section \<open>The search barrier\<close>

text \<open>The candidates with valid statistics and a positive mean effect, with that mean.\<close>

fun eligible_candidates :: "statistics_map \<Rightarrow> error + (uuid \<times> pyfloat) list" where
  "eligible_candidates [] = Inr []"
| "eligible_candidates ((i, s) # st) =
     (if \<not> statistics_valid s then eligible_candidates st
      else bind_res (fmean (ss_effects s)) (\<lambda>mean.
        if \<not> fless (Fin 0) mean then eligible_candidates st
        else bind_res (eligible_candidates st) (\<lambda>rest. Inr ((i, mean) # rest))))"

text \<open>
  \<open>sorted(eligible, key=lambda item: (-item[1], str(item[0])))[:max_promoted]\<close>;
  \<open>max_promoted\<close> is not negative.
\<close>

definition select_promoted :: "(uuid \<times> pyfloat) list \<Rightarrow> int \<Rightarrow> uuid list" where
  "select_promoted eligible k =
     map fst (take (nat k) (sort_key (\<lambda>(i, mean). (fneg mean, i)) eligible))"

definition close_scripted_search_barrier ::
    "pylib \<Rightarrow> search_round \<Rightarrow> uuid list \<Rightarrow> barrier_member list \<Rightarrow> statistics_input list \<Rightarrow>
     string \<Rightarrow> stamp \<Rightarrow> string \<Rightarrow> error + decision" where
  "close_scripted_search_barrier L r expected ms statistics closed_by closed_at key =
     bind_res (require_scripted_round r R_SEARCH_BARRIER) (\<lambda>_.
     case (sr_family r, sr_artifacts r) of
       (Some _, Some arts) \<Rightarrow>
     bind_res (expected_candidate_family expected (sr_declared r) ''search_candidate_family_invalid'') (\<lambda>family.
     bind_res (guard_err (int (length family) = sr_declared r)
       (M2EvaluationError ''barrier_member_count_mismatch'')) (\<lambda>_.
     bind_res (ordered_members ms) (\<lambda>items.
     bind_res (guard_err (map bm_candidate items = family)
       (M2EvaluationError ''search_candidate_family_mismatch'')) (\<lambda>_.
     bind_res (guard_err (list_all bm_synthetic items) (M2EvaluationError ''barrier_mode_mismatch'')) (\<lambda>_.
     bind_res (statistics_by_candidate statistics) (\<lambda>st.
     bind_res (guard_err (fst ` set st =
         bm_candidate ` {m \<in> set items. bm_state m = RC_SEARCH_MEASURED})
       (M2EvaluationError ''search_statistics_family_mismatch'')) (\<lambda>_.
     bind_res (bind_statistics_to_members st items) (\<lambda>_.
     bind_res (reject_reused_statistics_identities (map snd st)) (\<lambda>_.
     bind_res (eligible_candidates st) (\<lambda>eligible.
     let promoted = sort (select_promoted eligible (sr_promoted r)) in
     bind_res (make_summary
       \<lparr>su_round = sr_id r, su_artifacts = arts, su_rule = sr_rule r, su_members = items,
        su_statistics = map snd (sort_key fst st), su_promoted = promoted\<rparr>) (\<lambda>summary.
     let input_hash = lib_digest L (summary_json summary) in
     bind_res (make_barrier
       \<lparr>bb_id = lib_uuid5 L (''hcuopt:m2-search-barrier:'' @ input_hash), bb_round = sr_id r,
        bb_mode = RM_SCRIPTED, bb_synthetic = True, bb_phase = PH_SEARCH, bb_family = arts,
        bb_expected = int (length items), bb_members = items,
        bb_rule_version = M2_SEARCH_SELECTION_RULE_VERSION, bb_rule = sr_rule r,
        bb_promoted = promoted,
        bb_outcome = (if promoted \<noteq> [] then MEMBERS_PROMOTED else NO_PROMOTABLE_CANDIDATE),
        bb_summary = input_hash, bb_closed_by = closed_by, bb_closed_at = closed_at,
        bb_key = key\<rparr>) (\<lambda>barrier.
     bind_res
       (if promoted \<noteq> []
        then bind_res (map_res (\<lambda>i. case member_by_id items i of Some m \<Rightarrow> Inr m
                 | None \<Rightarrow> Inl (KeyError ''by_id'')) promoted) (\<lambda>ms.
               bind_res (holdout_family_hash L r ms) (\<lambda>h. Inr (Some h)))
        else Inr None) (\<lambda>holdout.
     make_decision L \<lparr>sd_barrier = barrier, sd_summary = summary, sd_holdout = holdout\<rparr>)))))))))))))
     | _ \<Rightarrow> Inl (M2EvaluationError ''artifact_family_not_frozen''))"

section \<open>The holdout barrier\<close>

definition holdout_input :: "search_round \<Rightarrow> string \<Rightarrow> string \<Rightarrow> string \<Rightarrow> barrier_member list \<Rightarrow> json" where
  "holdout_input r family plan reveal items = jobj
     [(''round_id'', JStr (sr_id r)), (''holdout_family_hash'', JStr family),
      (''holdout_plan_hash'', JStr plan), (''holdout_reveal_evidence_hash'', JStr reveal),
      (''members'', JArr (map member_json items))]"

definition close_scripted_holdout_barrier ::
    "pylib \<Rightarrow> search_round \<Rightarrow> uuid list \<Rightarrow> barrier_member list \<Rightarrow> string \<Rightarrow> stamp \<Rightarrow> string \<Rightarrow>
     error + barrier" where
  "close_scripted_holdout_barrier L r expected ms closed_by closed_at key =
     bind_res (require_scripted_round r R_HOLDOUT_BARRIER) (\<lambda>_.
     case (sr_holdout r, sr_holdout_plan r, sr_reveal_evidence r) of
       (Some family_hash, Some plan, Some reveal) \<Rightarrow>
     bind_res (expected_candidate_family expected (sr_promoted r) ''holdout_family_invalid'') (\<lambda>family.
     bind_res (ordered_members ms) (\<lambda>items.
     bind_res (guard_err (map bm_candidate items = family)
       (M2EvaluationError ''holdout_family_mismatch'')) (\<lambda>_.
     bind_res (holdout_family_hash L r items) (\<lambda>recomputed.
     bind_res (guard_err (recomputed = family_hash)
       (M2EvaluationError ''holdout_family_hash_mismatch'')) (\<lambda>_.
     let input_hash = lib_digest L (holdout_input r family_hash plan reveal items) in
     make_barrier
       \<lparr>bb_id = lib_uuid5 L (''hcuopt:m2-holdout-barrier:'' @ input_hash), bb_round = sr_id r,
        bb_mode = RM_SCRIPTED, bb_synthetic = True, bb_phase = PH_HOLDOUT, bb_family = family_hash,
        bb_expected = int (length family), bb_members = items,
        bb_rule_version = M2_HOLDOUT_BARRIER_RULE_VERSION,
        bb_rule = lib_digest L (jobj [(''rule_version'', JStr M2_HOLDOUT_BARRIER_RULE_VERSION),
          (''holdout_plan_hash'', JStr plan)]),
        bb_promoted = [], bb_outcome = BARRIER_COMPLETED, bb_summary = input_hash,
        bb_closed_by = closed_by, bb_closed_at = closed_at, bb_key = key\<rparr>)))))
     | _ \<Rightarrow> Inl (M2EvaluationError ''holdout_plan_not_revealed''))"

section \<open>Intervals and detectable effects\<close>

definition percentile :: "pyfloat list \<Rightarrow> pyfloat \<Rightarrow> error + pyfloat" where
  "percentile values p =
     (let position = fmul p (of_py_int (int (length values) - 1)) in
      bind_res (py_floor position) (\<lambda>lower.
      bind_res (py_ceil position) (\<lambda>upper.
      if lower = upper then py_nth values lower
      else let fraction = fsub position (of_py_int lower) in
        bind_res (py_nth values lower) (\<lambda>a.
        bind_res (py_nth values upper) (\<lambda>b.
          Inr (fadd (fmul a (fsub (Fin 1) fraction)) (fmul b fraction)))))))"

text \<open>\<open>values[generator.randrange(count)] for _ in range(count)\<close>, the \<open>k\<close>-th time\<close>

definition resample :: "(nat \<Rightarrow> nat) \<Rightarrow> pyfloat list \<Rightarrow> nat \<Rightarrow> error + pyfloat list" where
  "resample draw values k =
     map_res (\<lambda>i. py_nth values (int (draw (k * length values + i)))) [0..<length values]"

definition bootstrap_mean_ci ::
    "pylib \<Rightarrow> pyfloat list \<Rightarrow> string \<Rightarrow> nat \<Rightarrow> pyfloat \<Rightarrow> error + (pyfloat \<times> pyfloat)" where
  "bootstrap_mean_ci L values seed_material iterations confidence =
     bind_res (map_res (\<lambda>k.
         bind_res (resample (lib_draw L seed_material (length values)) values k) fmean)
       [0..<iterations]) (\<lambda>means.
     let estimates = sort means in
     bind_res (fdiv (fsub (Fin 1) confidence) (Fin 2)) (\<lambda>tail.
     bind_res (percentile estimates tail) (\<lambda>lower.
     bind_res (percentile estimates (fsub (Fin 1) tail)) (\<lambda>upper. Inr (lower, upper)))))"

definition workload_baseline_mde ::
    "pylib \<Rightarrow> pyfloat list \<Rightarrow> pyfloat \<Rightarrow> pyfloat \<Rightarrow> error + pyfloat" where
  "workload_baseline_mde L means alpha pwr =
     bind_res (fmean means) (\<lambda>overall.
     bind_res (fdiv alpha (Fin 2)) (\<lambda>half.
     bind_res (lib_inv_cdf L (fsub (Fin 1) half)) (\<lambda>z_alpha.
     bind_res (lib_inv_cdf L pwr) (\<lambda>z_power.
     bind_res (fdiv (Fin 2) (of_py_int (int (length means)))) (\<lambda>share.
     bind_res (fdiv (fmul (fmul (fadd z_alpha z_power) (lib_stdev L means)) (lib_sqrt L share)) overall) (\<lambda>v.
       if \<not> is_finite v \<or> fless v (Fin 0) then Inl (M2EvaluationError ''workload_mde_invalid'')
       else Inr v))))))"

section \<open>The family-wise error rate\<close>

definition judge :: "pyfloat \<Rightarrow> pyfloat \<Rightarrow> pyfloat \<Rightarrow> verdict" where
  "judge lower upper threshold =
     (if fless threshold lower then FASTER
      else if fless upper (fneg threshold) then SLOWER else INCONCLUSIVE)"

definition no_numbers :: "uuid \<Rightarrow> uuid option \<Rightarrow> string \<Rightarrow> string option \<Rightarrow> string option \<Rightarrow> string list \<Rightarrow> adjusted" where
  "no_numbers i receipt correctness raw baseline codes =
     \<lparr>aj_candidate = i, aj_measurement = None, aj_receipt = receipt, aj_synthetic = True,
      aj_correctness = correctness, aj_raw = raw, aj_baseline = baseline, aj_verdict = INVALID,
      aj_lower = None, aj_upper = None, aj_stage0 = None, aj_workload = None, aj_threshold = None,
      aj_codes = codes\<rparr>"

definition adjust_measured ::
    "pylib \<Rightarrow> search_round \<Rightarrow> pyfloat \<Rightarrow> uuid \<Rightarrow> statistics_input \<Rightarrow> error + adjusted" where
  "adjust_measured L r alpha i s =
     (if \<not> statistics_valid s
      then make_adjusted (no_numbers i (Some (ss_receipt s)) (ss_correctness s) (Some (ss_raw s))
             (Some (ss_baseline s)) (ss_codes s))
      else
        bind_res (bootstrap_mean_ci L (ss_effects s)
          (ss_raw s @ '':'' @ (case sr_holdout r of None \<Rightarrow> ''None'' | Some h \<Rightarrow> h) @ '':'' @ lib_str L alpha)
          M2_FWER_BOOTSTRAP_RESAMPLES (fsub (Fin 1) alpha)) (\<lambda>(lower, upper).
        bind_res (workload_baseline_mde L (ss_means s) alpha M2_FWER_POWER) (\<lambda>mde.
        let threshold = fmax (ss_stage0 s) mde in
        make_adjusted
          \<lparr>aj_candidate = i, aj_measurement = None, aj_receipt = Some (ss_receipt s), aj_synthetic = True,
           aj_correctness = ss_correctness s, aj_raw = Some (ss_raw s), aj_baseline = Some (ss_baseline s),
           aj_verdict = judge lower upper threshold, aj_lower = Some lower, aj_upper = Some upper,
           aj_stage0 = Some (ss_stage0 s), aj_workload = Some mde, aj_threshold = Some threshold,
           aj_codes = []\<rparr>)))"

text \<open>
  One turn of the loop over \<open>sorted(member_by_id, key=str)\<close>. The members of a barrier
  have distinct candidates, so the loop runs over the members sorted by candidate.
\<close>

definition adjust_member ::
    "pylib \<Rightarrow> search_round \<Rightarrow> pyfloat \<Rightarrow> statistics_map \<Rightarrow> barrier_member \<Rightarrow> error + adjusted" where
  "adjust_member L r alpha st m =
     (let i = bm_candidate m in
      if bm_state m \<noteq> RC_HOLDOUT_MEASURED
      then (if map_of st i \<noteq> None
            then Inl (M2EvaluationError ''holdout_statistics_for_failed_member'')
            else case bm_correctness m of
              None \<Rightarrow> Inl (M2EvaluationError ''holdout_failure_correctness_missing'')
            | Some c \<Rightarrow> make_adjusted (no_numbers i None c None None [''holdout_member_failed'']))
      else case map_of st i of
        None \<Rightarrow> Inl (M2EvaluationError ''holdout_statistics_family_mismatch'')
      | Some s \<Rightarrow> adjust_measured L r alpha i s)"

definition m2_fwer_protocol_hash :: "pylib \<Rightarrow> string" where
  "m2_fwer_protocol_hash L = lib_digest L (jobj
     [(''protocol_version'', JStr M2_FWER_PROTOCOL_VERSION),
      (''bootstrap_resamples'', JInt (int M2_FWER_BOOTSTRAP_RESAMPLES)),
      (''power'', JFloat M2_FWER_POWER), (''method'', JStr ''bonferroni_fwer'')])"

definition multiple_comparison_payload ::
    "uuid \<Rightarrow> uuid \<Rightarrow> string \<Rightarrow> string \<Rightarrow> pyfloat \<Rightarrow> int \<Rightarrow> pyfloat \<Rightarrow> adjusted list \<Rightarrow> uuid option \<Rightarrow> bool \<Rightarrow> json" where
  "multiple_comparison_payload round_id barrier_id family protocol alpha m share results recommended synthetic =
     jobj
     [(''round_id'', JStr round_id), (''holdout_barrier_id'', JStr barrier_id),
      (''holdout_family_hash'', JStr family), (''protocol_hash'', JStr protocol),
      (''family_alpha'', JFloat alpha), (''m'', JInt m), (''alpha_candidate'', JFloat share),
      (''candidate_results'', JArr (map adjusted_json results)),
      (''recommended_candidate_id'', jstr_opt recommended), (''synthetic'', JBool synthetic)]"

definition recompute_result_hash :: "pylib \<Rightarrow> comparison \<Rightarrow> string" where
  "recompute_result_hash L c = lib_digest L
     (multiple_comparison_payload (mc_round c) (mc_barrier c) (mc_family c) (mc_protocol c)
       (mc_family_alpha c) (mc_m c) (mc_alpha c) (mc_results c) (mc_recommended c) (mc_synthetic c))"

definition bonferroni_fwer ::
    "pylib \<Rightarrow> search_round \<Rightarrow> barrier \<Rightarrow> statistics_input list \<Rightarrow> stamp \<Rightarrow> error + comparison" where
  "bonferroni_fwer L r b statistics created_at =
     bind_res (require_scripted_round r R_HOLDOUT_BARRIER) (\<lambda>_.
     bind_res (guard_err (bb_round b = sr_id r \<and> bb_phase b = PH_HOLDOUT \<and>
         bb_outcome b = BARRIER_COMPLETED \<and> bb_synthetic b \<and> Some (bb_family b) = sr_holdout r)
       (M2EvaluationError ''holdout_barrier_binding_mismatch'')) (\<lambda>_.
     let m = bb_expected b in
     bind_res (guard_err (1 \<le> m \<and> m \<le> sr_promoted r) (M2EvaluationError ''holdout_m_invalid'')) (\<lambda>_.
     bind_res (statistics_by_candidate statistics) (\<lambda>st.
     bind_res (guard_err (fst ` set st =
         bm_candidate ` {x \<in> set (bb_members b). bm_state x = RC_HOLDOUT_MEASURED})
       (M2EvaluationError ''holdout_statistics_family_mismatch'')) (\<lambda>_.
     bind_res (bind_statistics_to_members st (bb_members b)) (\<lambda>_.
     bind_res (reject_reused_statistics_identities (map snd st)) (\<lambda>_.
     bind_res (fdiv (sr_alpha r) (of_py_int m)) (\<lambda>alpha.
     bind_res (map_res (adjust_member L r alpha st) (sort_key bm_candidate (bb_members b))) (\<lambda>results.
     let recommended = recommendation results;
         protocol = m2_fwer_protocol_hash L;
         result_hash = lib_digest L (multiple_comparison_payload (sr_id r) (bb_id b) (bb_family b)
           protocol (sr_alpha r) m alpha results recommended True)
     in make_comparison
       \<lparr>mc_id = lib_uuid5 L (''hcuopt:m2-bonferroni:'' @ result_hash), mc_round = sr_id r,
        mc_mode = RM_SCRIPTED, mc_synthetic = True, mc_barrier = bb_id b, mc_family = bb_family b,
        mc_version = M2_FWER_PROTOCOL_VERSION, mc_protocol = protocol, mc_family_alpha = sr_alpha r,
        mc_m = m, mc_alpha = alpha, mc_results = results, mc_recommended = recommended,
        mc_hash = result_hash, mc_created = created_at\<rparr>)))))))))"

end
