(* ===== verification/HoldoutAuthority.thy ===== *)
theory HoldoutAuthority
  imports BarrierStatistics
begin

text \<open>
  The authority that keeps the holdout plan of a scripted round,
  src/src/hcuopt/evaluation/m2_authority.py: it commits to a plan before the search, leases
  one reveal to one worker once the search barrier froze the promoted family, and reveals
  the plan once.

  Parameters, the record \<open>m2_lib\<close>: what m2_statistics uses of Python, the canonical JSON
  text of a document, \<open>"sha256:" + sha256(...).hexdigest()\<close> of bytes, and the two texts of a
  time (\<open>isoformat\<close>, and the one of \<open>model_dump(mode="json")\<close>). Bytes are characters of
  eight bits. Texts hold ASCII characters only, so encoding them as UTF-8 leaves them as
  they are. An aware time is in UTC, as the clock of the program gives it.
\<close>

section \<open>The library\<close>

record m2_lib =
  ml_base :: pylib
  ml_bytes :: "json \<Rightarrow> string"
  ml_sha :: "string \<Rightarrow> string"
  ml_iso :: "stamp \<Rightarrow> string"
  ml_time :: "stamp \<Rightarrow> string"

text \<open>\<open>_sha256(canonical_json_bytes(value))\<close>, which m2_statistics calls \<open>_digest\<close>\<close>

definition doc_hash :: "m2_lib \<Rightarrow> json \<Rightarrow> string" where
  "doc_hash E v = ml_sha E (ml_bytes E v)"

definition m2_py :: "m2_lib \<Rightarrow> pylib" where
  "m2_py E = (ml_base E)\<lparr>lib_digest := doc_hash E\<rparr>"

lemma digest_m2_py [simp]: "lib_digest (m2_py E) = doc_hash E"
  by (simp add: m2_py_def)

section \<open>Hexadecimal texts\<close>

definition hex_digits :: string where
  "hex_digits = ''0123456789abcdef''"

definition hex_pair :: "char \<Rightarrow> string" where
  "hex_pair c = [hex_digits ! (of_char c div 16), hex_digits ! (of_char c mod 16)]"

text \<open>\<open>bytes.hex\<close>\<close>

definition hex_text :: "string \<Rightarrow> string" where
  "hex_text bs = concat (map hex_pair bs)"

text \<open>\<open>bytes.fromhex\<close>, called on texts that match \<open>^[0-9a-f]{64}$\<close> only\<close>

fun hex_value :: "char list \<Rightarrow> char \<Rightarrow> nat" where
  "hex_value [] c = 0"
| "hex_value (d # ds) c = (if c = d then 0 else Suc (hex_value ds c))"

fun from_hex :: "string \<Rightarrow> error + string" where
  "from_hex [] = Inr []"
| "from_hex [c] = Inl (ValueError ''non-hexadecimal number found in fromhex()'')"
| "from_hex (c # d # rest) =
     (if \<not> is_hex_digit c \<or> \<not> is_hex_digit d
      then Inl (ValueError ''non-hexadecimal number found in fromhex()'')
      else bind_res (from_hex rest) (\<lambda>bs.
        Inr (char_of (16 * hex_value hex_digits c + hex_value hex_digits d) # bs)))"

definition is_nonce_text :: "string \<Rightarrow> bool" where
  "is_nonce_text s \<longleftrightarrow> length s = 64 \<and> list_all is_hex_digit s"

section \<open>Contracts\<close>

record commitment =
  hc_round :: uuid
  hc_commitment :: string
  hc_authority :: string
  hc_authority_hash :: string
  hc_created :: stamp

definition make_commitment :: "commitment \<Rightarrow> error + commitment" where
  "make_commitment c =
     (if \<not> (is_sha256 (hc_commitment c) \<and> text_between 1 300 (hc_authority c) \<and>
            is_sha256 (hc_authority_hash c))
      then Inl (ValueError ''HoldoutPlanCommitment'')
      else if \<not> aware (hc_created c)
      then Inl (ValueError ''Holdout commitment time must be timezone-aware'')
      else Inr c)"

text \<open>Two aware times compare as their instants; a comparison with a naive one raises.\<close>

fun before :: "stamp \<Rightarrow> stamp \<Rightarrow> error + bool" where
  "before (Aware a) (Aware b) = Inr (a < b)"
| "before (Naive a) (Naive b) = Inr (a < b)"
| "before _ _ = Inl TypeError"

record reveal_lease =
  rl_id :: uuid
  rl_round :: uuid
  rl_family :: string
  rl_worker :: string
  rl_execution :: uuid
  rl_resource :: string
  rl_fence :: int
  rl_issued :: stamp
  rl_expires :: stamp

definition make_reveal_lease :: "reveal_lease \<Rightarrow> error + reveal_lease" where
  "make_reveal_lease l =
     (if \<not> (is_sha256 (rl_family l) \<and> text_between 1 300 (rl_worker l) \<and>
            text_between 1 200 (rl_resource l) \<and> 1 \<le> rl_fence l)
      then Inl (ValueError ''HoldoutRevealLease'')
      else if \<not> aware (rl_issued l)
      then Inl (ValueError ''Reveal Lease issue time must be timezone-aware'')
      else if \<not> aware (rl_expires l)
      then Inl (ValueError ''Reveal Lease expiry time must be timezone-aware'')
      else bind_res (before (rl_issued l) (rl_expires l)) (\<lambda>ok.
        if \<not> ok then Inl (ValueError ''Reveal Lease expiry must follow issue time'')
        else Inr l))"

record reveal =
  rv_lease :: uuid
  rv_round :: uuid
  rv_family :: string
  rv_commitment :: string
  rv_plan :: string
  rv_text :: string
  rv_nonce :: string
  rv_worker :: string
  rv_execution :: uuid
  rv_resource :: string
  rv_fence :: int
  rv_authority :: string
  rv_authority_hash :: string
  rv_evidence :: string
  rv_at :: stamp

definition reveal_fields :: "reveal \<Rightarrow> bool" where
  "reveal_fields v \<longleftrightarrow>
     is_sha256 (rv_family v) \<and> is_sha256 (rv_commitment v) \<and> is_sha256 (rv_plan v) \<and>
     text_between 2 1000000 (rv_text v) \<and> is_nonce_text (rv_nonce v) \<and>
     text_between 1 300 (rv_worker v) \<and> text_between 1 200 (rv_resource v) \<and> 1 \<le> rv_fence v \<and>
     text_between 1 300 (rv_authority v) \<and> is_sha256 (rv_authority_hash v) \<and>
     is_sha256 (rv_evidence v)"

definition evidence_payload :: "m2_lib \<Rightarrow> reveal \<Rightarrow> json" where
  "evidence_payload E v = jobj
     [(''schema_version'', JStr ''m2a-holdout-reveal-v1''), (''reveal_lease_id'', JStr (rv_lease v)),
      (''round_id'', JStr (rv_round v)), (''holdout_family_hash'', JStr (rv_family v)),
      (''commitment'', JStr (rv_commitment v)), (''plan_hash'', JStr (rv_plan v)),
      (''nonce_hex'', JStr (rv_nonce v)), (''authorized_worker_id'', JStr (rv_worker v)),
      (''execution_lease_id'', JStr (rv_execution v)), (''resource_id'', JStr (rv_resource v)),
      (''fencing_token'', JInt (rv_fence v)), (''authority_id'', JStr (rv_authority v)),
      (''authority_hash'', JStr (rv_authority_hash v)), (''revealed_at'', JStr (ml_iso E (rv_at v))),
      (''synthetic'', JBool True)]"

definition require_aware_reveal_time :: "m2_lib \<Rightarrow> reveal \<Rightarrow> error + unit" where
  "require_aware_reveal_time E v =
     (if \<not> aware (rv_at v) then Inl (ValueError ''Holdout reveal time must be timezone-aware'')
      else if ml_sha E (rv_text v) \<noteq> rv_plan v
      then Inl (ValueError ''revealed canonical Plan does not match plan_hash'')
      else bind_res (from_hex (rv_nonce v)) (\<lambda>nonce.
        if ml_sha E (nonce @ rv_text v) \<noteq> rv_commitment v
        then Inl (ValueError ''revealed nonce and Plan do not match commitment'')
        else if doc_hash E (evidence_payload E v) \<noteq> rv_evidence v
        then Inl (ValueError ''Holdout reveal evidence does not match its payload Hash'')
        else Inr ()))"

definition make_reveal :: "m2_lib \<Rightarrow> reveal \<Rightarrow> error + reveal" where
  "make_reveal E v =
     (if \<not> reveal_fields v then Inl (ValueError ''HoldoutRevealResult'')
      else bind_res (require_aware_reveal_time E v) (\<lambda>_. Inr v))"

section \<open>The authority\<close>

record stored_plan =
  sp_encoded :: string
  sp_nonce :: string
  sp_commitment :: commitment

record holdout_authority =
  ha_id :: string
  ha_version :: string
  ha_hash :: string
  ha_plans :: "uuid \<rightharpoonup> stored_plan"
  ha_leases :: "uuid \<rightharpoonup> reveal_lease"
  ha_round_leases :: "uuid \<rightharpoonup> uuid"
  ha_consumed :: "uuid set"

definition new_authority :: "m2_lib \<Rightarrow> string \<Rightarrow> string \<Rightarrow> error + holdout_authority" where
  "new_authority E i version =
     (if \<not> text_between 1 300 i
      then Inl (ValueError ''Holdout Authority ID must be bounded non-empty text'')
      else if \<not> text_between 1 200 version
      then Inl (ValueError ''Holdout Authority version must be bounded non-empty text'')
      else Inr \<lparr>ha_id = i, ha_version = version,
        ha_hash = doc_hash E (jobj
          [(''schema_version'', JStr ''m2a-scripted-holdout-authority-v1''),
           (''authority_id'', JStr i), (''authority_version'', JStr version),
           (''synthetic'', JBool True)]),
        ha_plans = Map.empty, ha_leases = Map.empty, ha_round_leases = Map.empty,
        ha_consumed = {}\<rparr>)"

text \<open>
  \<open>nonce\<close> and \<open>created\<close> are the arguments of the caller, or the fresh 32 bytes and the
  clock where the caller gave none.
\<close>

definition commit_plan ::
    "m2_lib \<Rightarrow> uuid \<Rightarrow> json \<Rightarrow> string \<Rightarrow> stamp \<Rightarrow> holdout_authority \<Rightarrow>
     error + (holdout_authority \<times> commitment)" where
  "commit_plan E i plan nonce created a =
     (if ha_plans a i \<noteq> None then Inl (HoldoutAuthorityError ''holdout_plan_already_committed'')
      else if \<not> aware created
      then Inl (ValueError ''Holdout commitment time must be timezone-aware'')
      else if length nonce \<noteq> 32
      then Inl (ValueError ''Holdout commitment nonce must contain exactly 256 bits'')
      else
        let encoded = ml_bytes E plan in
        bind_res (make_commitment
          \<lparr>hc_round = i, hc_commitment = ml_sha E (nonce @ encoded), hc_authority = ha_id a,
           hc_authority_hash = ha_hash a, hc_created = created\<rparr>) (\<lambda>c.
        Inr (a\<lparr>ha_plans := (ha_plans a)(i \<mapsto>
          \<lparr>sp_encoded = encoded, sp_nonce = nonce, sp_commitment = c\<rparr>)\<rparr>, c)))"

definition require_round_authority :: "search_round \<Rightarrow> holdout_authority \<Rightarrow> error + stored_plan" where
  "require_round_authority r a =
     (if sr_mode r \<noteq> RM_SCRIPTED then Inl (HoldoutAuthorityError ''holdout_plan_forbidden'')
      else case ha_plans a (sr_id r) of
        None \<Rightarrow> Inl (HoldoutAuthorityError ''holdout_plan_authority_unavailable'')
      | Some p \<Rightarrow>
          if sr_authority_id r \<noteq> ha_id a \<or> sr_authority_hash r \<noteq> ha_hash a
          then Inl (HoldoutAuthorityError ''holdout_plan_authority_unavailable'')
          else Inr p)"

text \<open>\<open>issued\<close> and \<open>lease_id\<close> are the caller's, or the clock and a fresh identifier.\<close>

definition issue_reveal_lease ::
    "search_round \<Rightarrow> string \<Rightarrow> uuid \<Rightarrow> string \<Rightarrow> int \<Rightarrow> stamp \<Rightarrow> stamp \<Rightarrow> uuid \<Rightarrow> holdout_authority \<Rightarrow>
     error + (holdout_authority \<times> reveal_lease)" where
  "issue_reveal_lease r worker execution resource fence expires issued lease_id a =
     bind_res (require_round_authority r a) (\<lambda>p.
     if sr_state r \<noteq> R_SEARCH_BARRIER
     then Inl (HoldoutAuthorityError ''holdout_plan_not_revealable'')
     else case sr_holdout r of
       None \<Rightarrow> Inl (HoldoutAuthorityError ''holdout_family_not_frozen'')
     | Some family \<Rightarrow>
         if sr_holdout_plan r \<noteq> None \<or> sr_reveal_lease r \<noteq> None \<or> sr_reveal_evidence r \<noteq> None
         then Inl (HoldoutAuthorityError ''holdout_plan_already_revealed'')
         else if ha_round_leases a (sr_id r) \<noteq> None
         then Inl (HoldoutAuthorityError ''holdout_reveal_lease_already_issued'')
         else if \<not> text_between 1 300 worker
         then Inl (ValueError ''authorized worker ID must be bounded non-empty text'')
         else if \<not> text_between 1 200 resource \<or> fence < 1
         then Inl (ValueError ''Reveal Lease requires a valid resource and Fencing token'')
         else bind_res (make_reveal_lease
           \<lparr>rl_id = lease_id, rl_round = sr_id r, rl_family = family, rl_worker = worker,
            rl_execution = execution, rl_resource = resource, rl_fence = fence,
            rl_issued = issued, rl_expires = expires\<rparr>) (\<lambda>l.
         if hc_commitment (sp_commitment p) \<noteq> sr_commitment r
         then Inl (HoldoutAuthorityError ''holdout_commitment_mismatch'')
         else Inr (a\<lparr>ha_leases := (ha_leases a)(rl_id l \<mapsto> l),
             ha_round_leases := (ha_round_leases a)(rl_round l \<mapsto> rl_id l)\<rparr>, l)))"

definition reveal_plan ::
    "m2_lib \<Rightarrow> uuid \<Rightarrow> uuid \<Rightarrow> string \<Rightarrow> uuid \<Rightarrow> string \<Rightarrow> int \<Rightarrow> stamp \<Rightarrow> holdout_authority \<Rightarrow>
     error + (holdout_authority \<times> reveal)" where
  "reveal_plan E lease_id round_id worker execution resource fence revealed a =
     (case ha_leases a lease_id of
        None \<Rightarrow> Inl (HoldoutAuthorityError ''holdout_reveal_lease_invalid'')
      | Some l \<Rightarrow>
          if lease_id \<in> ha_consumed a
          then Inl (HoldoutAuthorityError ''holdout_reveal_lease_consumed'')
          else if \<not> aware revealed
          then Inl (ValueError ''Holdout reveal time must be timezone-aware'')
          else bind_res (before revealed (rl_expires l)) (\<lambda>early.
            if \<not> early then Inl (HoldoutAuthorityError ''holdout_reveal_lease_expired'')
            else if (round_id, worker, execution, resource, fence) \<noteq>
                    (rl_round l, rl_worker l, rl_execution l, rl_resource l, rl_fence l)
            then Inl (HoldoutAuthorityError ''holdout_reveal_lease_invalid'')
            else case ha_plans a round_id of
              None \<Rightarrow> Inl (HoldoutAuthorityError ''holdout_plan_authority_unavailable'')
            | Some p \<Rightarrow>
                let reconstructed = ml_sha E (sp_nonce p @ sp_encoded p) in
                if reconstructed \<noteq> hc_commitment (sp_commitment p)
                then Inl (HoldoutAuthorityError ''holdout_commitment_mismatch'')
                else
                  let v = \<lparr>rv_lease = rl_id l, rv_round = round_id, rv_family = rl_family l,
                        rv_commitment = reconstructed, rv_plan = ml_sha E (sp_encoded p),
                        rv_text = sp_encoded p, rv_nonce = hex_text (sp_nonce p),
                        rv_worker = worker, rv_execution = execution, rv_resource = resource,
                        rv_fence = fence, rv_authority = ha_id a, rv_authority_hash = ha_hash a,
                        rv_evidence = '''', rv_at = revealed\<rparr>;
                      evidence = doc_hash E (evidence_payload E v)
                  in bind_res (make_reveal E (v\<lparr>rv_evidence := evidence\<rparr>)) (\<lambda>result.
                    Inr (a\<lparr>ha_consumed := insert lease_id (ha_consumed a)\<rparr>, result))))"

end
