(* ===== verification/RoundStore.thy ===== *)
theory RoundStore
  imports HoldoutAuthority RoundBudget
begin

text \<open>
  The durable lifecycle of a scripted M2a round after its artifact family is frozen, in
  src/src/hcuopt/storage/repository.py: the search barrier, the reveal of the holdout plan,
  the holdout barrier, the multiple comparison, the final evidence, the cancellation, and
  the audit that derives the next action from the durable rows.

  The store adds four append-only tables to the M2 tables. A row of them holds the model
  that was persisted: the column \<open>payload\<close> is its dump, and validating the dump gives the
  model back. Columns that copy a field of the payload are stored where the code reads them.
\<close>

section \<open>Dumps of the models\<close>

fun mode_value :: "round_mode \<Rightarrow> string" where
  "mode_value RM_SCRIPTED = ''scripted''"
| "mode_value RM_FORMAL = ''formal''"

fun phase_value' :: "round_phase \<Rightarrow> string" where
  "phase_value' PH_SEARCH = ''search''"
| "phase_value' PH_HOLDOUT = ''holdout''"

fun outcome_value :: "barrier_outcome \<Rightarrow> string" where
  "outcome_value MEMBERS_PROMOTED = ''members_promoted''"
| "outcome_value NO_PROMOTABLE_CANDIDATE = ''no_promotable_candidate''"
| "outcome_value BARRIER_COMPLETED = ''completed''"

fun reason_value :: "terminal_reason \<Rightarrow> string" where
  "reason_value HOLDOUT_COMPLETED = ''holdout_completed''"
| "reason_value TR_NO_PROMOTABLE_CANDIDATE = ''no_promotable_candidate''"

definition barrier_json :: "m2_lib \<Rightarrow> barrier \<Rightarrow> json" where
  "barrier_json E b = jobj
     [(''schema_version'', JStr ''m2a-round-barrier-v1''), (''barrier_id'', JStr (bb_id b)),
      (''round_id'', JStr (bb_round b)), (''run_mode'', JStr (mode_value (bb_mode b))),
      (''synthetic'', JBool (bb_synthetic b)), (''phase'', JStr (phase_value' (bb_phase b))),
      (''input_family_hash'', JStr (bb_family b)), (''expected_member_count'', JInt (bb_expected b)),
      (''members'', JArr (map member_json (bb_members b))),
      (''rule_version'', JStr (bb_rule_version b)), (''rule_hash'', JStr (bb_rule b)),
      (''promoted_candidate_ids'', JArr (map JStr (bb_promoted b))),
      (''outcome'', JStr (outcome_value (bb_outcome b))), (''input_summary_hash'', JStr (bb_summary b)),
      (''closed_by'', JStr (bb_closed_by b)), (''closed_at'', JStr (ml_time E (bb_closed_at b))),
      (''idempotency_key'', JStr (bb_key b))]"

definition decision_json :: "m2_lib \<Rightarrow> decision \<Rightarrow> json" where
  "decision_json E x = jobj
     [(''barrier'', barrier_json E (sd_barrier x)), (''input_summary'', summary_json (sd_summary x)),
      (''holdout_family_hash'', jstr_opt (sd_holdout x))]"

definition reveal_json :: "m2_lib \<Rightarrow> reveal \<Rightarrow> json" where
  "reveal_json E v = jobj
     [(''schema_version'', JStr ''m2a-holdout-reveal-v1''), (''reveal_lease_id'', JStr (rv_lease v)),
      (''round_id'', JStr (rv_round v)), (''holdout_family_hash'', JStr (rv_family v)),
      (''commitment'', JStr (rv_commitment v)), (''plan_hash'', JStr (rv_plan v)),
      (''canonical_plan_json'', JStr (rv_text v)), (''nonce_hex'', JStr (rv_nonce v)),
      (''authorized_worker_id'', JStr (rv_worker v)), (''execution_lease_id'', JStr (rv_execution v)),
      (''resource_id'', JStr (rv_resource v)), (''fencing_token'', JInt (rv_fence v)),
      (''authority_id'', JStr (rv_authority v)), (''authority_hash'', JStr (rv_authority_hash v)),
      (''reveal_evidence_hash'', JStr (rv_evidence v)), (''revealed_at'', JStr (ml_time E (rv_at v))),
      (''synthetic'', JBool True)]"

definition comparison_json :: "m2_lib \<Rightarrow> comparison \<Rightarrow> json" where
  "comparison_json E c = jobj
     [(''schema_version'', JStr ''m2a-bonferroni-fwer-v1''), (''multiple_comparison_id'', JStr (mc_id c)),
      (''round_id'', JStr (mc_round c)), (''run_mode'', JStr (mode_value (mc_mode c))),
      (''synthetic'', JBool (mc_synthetic c)), (''holdout_barrier_id'', JStr (mc_barrier c)),
      (''holdout_family_hash'', JStr (mc_family c)), (''protocol_version'', JStr (mc_version c)),
      (''protocol_hash'', JStr (mc_protocol c)), (''family_alpha'', JFloat (mc_family_alpha c)),
      (''m'', JInt (mc_m c)), (''alpha_candidate'', JFloat (mc_alpha c)),
      (''candidate_results'', JArr (map adjusted_json (mc_results c))),
      (''recommended_candidate_id'', jstr_opt (mc_recommended c)), (''result_hash'', JStr (mc_hash c)),
      (''created_at'', JStr (ml_time E (mc_created c)))]"

definition candidate_evidence_json :: "candidate_evidence \<Rightarrow> json" where
  "candidate_evidence_json c = jobj
     [(''round_candidate_id'', JStr (ce_member c)), (''candidate_id'', JStr (ce_candidate c)),
      (''search_member_state'', JStr (round_candidate_state_value (ce_search_state c))),
      (''search_evidence_hash'', JStr (ce_search c)),
      (''holdout_member_state'', jstr_opt (map_option round_candidate_state_value (ce_holdout_state c))),
      (''holdout_evidence_hash'', jstr_opt (ce_holdout c)),
      (''budget_evidence_hashes'', JArr (map JStr (ce_budget c))),
      (''cleanup_evidence_hashes'', JArr (map JStr (ce_cleanup c)))]"

text \<open>What the finalizer digests of a bundle; the dump adds the identifier and the time.\<close>

definition bundle_values :: "evidence_bundle \<Rightarrow> (string \<times> json) list" where
  "bundle_values b =
     [(''round_id'', JStr (eb_round b)), (''task_id'', JStr (eb_task b)),
      (''run_mode'', JStr (mode_value (eb_mode b))), (''terminal_reason'', JStr (reason_value (eb_reason b))),
      (''candidate_family_hash'', JStr (eb_family b)), (''artifact_family_hash'', JStr (eb_artifacts b)),
      (''holdout_family_hash'', jstr_opt (eb_holdout b)), (''search_plan_hash'', JStr (eb_search_plan b)),
      (''holdout_plan_commitment'', JStr (eb_commitment b)),
      (''holdout_plan_hash'', jstr_opt (eb_holdout_plan b)),
      (''holdout_reveal_evidence_hash'', jstr_opt (eb_reveal b)),
      (''candidate_evidence'', JArr (map candidate_evidence_json (eb_candidates b))),
      (''search_barrier_id'', JStr (eb_search_barrier b)),
      (''holdout_barrier_id'', jstr_opt (eb_holdout_barrier b)),
      (''multiple_comparison_id'', jstr_opt (eb_comparison b)),
      (''budget_ledger_hash'', JStr (eb_ledger b)), (''evidence_index_uri'', JStr (eb_index_uri b)),
      (''evidence_index_hash'', JStr (eb_index_hash b)), (''summary'', JObj (eb_summary b)),
      (''synthetic'', JBool (eb_synthetic b)), (''automatic_release_allowed'', JBool False)]"

definition bundle_json :: "m2_lib \<Rightarrow> evidence_bundle \<Rightarrow> json" where
  "bundle_json E b = jobj
     ([(''schema_version'', JStr ''m2a-round-evidence-v1''),
       (''round_evidence_bundle_id'', JStr (eb_id b)), (''created_at'', JStr (ml_time E (eb_created b)))]
      @ bundle_values b)"

section \<open>The tables\<close>

datatype barrier_payload = Search_payload decision | Holdout_payload barrier

record barrier_row =
  br_id :: uuid
  br_round :: uuid
  br_phase :: round_phase
  br_payload :: barrier_payload
  br_hash :: string
  br_key :: string

record reveal_row =
  rw_round :: uuid
  rw_payload :: reveal
  rw_hash :: string

record comparison_row =
  cw_round :: uuid
  cw_payload :: comparison
  cw_hash :: string

record bundle_row =
  ew_round :: uuid
  ew_payload :: evidence_bundle
  ew_hash :: string

record round_store =
  st_m2 :: m2_db
  st_barriers :: "barrier_row list"
  st_reveals :: "reveal_row list"
  st_comparisons :: "comparison_row list"
  st_bundles :: "bundle_row list"

definition barrier_of :: "round_store \<Rightarrow> uuid \<Rightarrow> round_phase \<Rightarrow> barrier_row option" where
  "barrier_of s i p = find (\<lambda>w. br_round w = i \<and> br_phase w = p) (st_barriers s)"

definition reveal_of :: "round_store \<Rightarrow> uuid \<Rightarrow> reveal_row option" where
  "reveal_of s i = find (\<lambda>w. rw_round w = i) (st_reveals s)"

definition comparison_of :: "round_store \<Rightarrow> uuid \<Rightarrow> comparison_row option" where
  "comparison_of s i = find (\<lambda>w. cw_round w = i) (st_comparisons s)"

definition bundle_of :: "round_store \<Rightarrow> uuid \<Rightarrow> bundle_row option" where
  "bundle_of s i = find (\<lambda>w. ew_round w = i) (st_bundles s)"

text \<open>\<open>SearchBarrierDecision.model_validate(row["payload"])\<close> and its holdout counterpart\<close>

fun decision_of :: "barrier_row \<Rightarrow> error + decision" where
  "decision_of w = (case br_payload w of Search_payload x \<Rightarrow> Inr x
     | Holdout_payload b \<Rightarrow> Inl (ValueError ''SearchBarrierDecision''))"

fun holdout_of :: "barrier_row \<Rightarrow> error + barrier" where
  "holdout_of w = (case br_payload w of Holdout_payload b \<Rightarrow> Inr b
     | Search_payload x \<Rightarrow> Inl (ValueError ''RoundBarrierResult''))"

text \<open>The unique constraints; a violation is an error of the driver and rolls back.\<close>

definition insert_barrier :: "barrier_row \<Rightarrow> round_store \<Rightarrow> error + round_store" where
  "insert_barrier w s =
     (if list_ex (\<lambda>x. br_id x = br_id w \<or> br_key x = br_key w \<or>
           (br_round x = br_round w \<and> br_phase x = br_phase w)) (st_barriers s)
      then Inl (DatabaseError ''round_barriers'')
      else Inr (s\<lparr>st_barriers := st_barriers s @ [w]\<rparr>))"

definition insert_reveal :: "reveal_row \<Rightarrow> round_store \<Rightarrow> error + round_store" where
  "insert_reveal w s =
     (if list_ex (\<lambda>x. rv_lease (rw_payload x) = rv_lease (rw_payload w) \<or> rw_round x = rw_round w)
           (st_reveals s)
      then Inl (DatabaseError ''round_holdout_reveals'')
      else Inr (s\<lparr>st_reveals := st_reveals s @ [w]\<rparr>))"

definition insert_comparison :: "comparison_row \<Rightarrow> round_store \<Rightarrow> error + round_store" where
  "insert_comparison w s =
     (if list_ex (\<lambda>x. mc_id (cw_payload x) = mc_id (cw_payload w) \<or> cw_round x = cw_round w \<or>
           mc_barrier (cw_payload x) = mc_barrier (cw_payload w) \<or>
           mc_hash (cw_payload x) = mc_hash (cw_payload w)) (st_comparisons s)
      then Inl (DatabaseError ''multiple_comparison_results'')
      else Inr (s\<lparr>st_comparisons := st_comparisons s @ [w]\<rparr>))"

definition insert_bundle :: "bundle_row \<Rightarrow> round_store \<Rightarrow> error + round_store" where
  "insert_bundle w s =
     (if list_ex (\<lambda>x. eb_id (ew_payload x) = eb_id (ew_payload w) \<or> ew_round x = ew_round w)
           (st_bundles s)
      then Inl (DatabaseError ''round_evidence_bundles'')
      else Inr (s\<lparr>st_bundles := st_bundles s @ [w]\<rparr>))"

definition in_m2 :: "(m2_db \<Rightarrow> m2_db) \<Rightarrow> round_store \<Rightarrow> round_store" where
  "in_m2 f s = s\<lparr>st_m2 := f (st_m2 s)\<rparr>"

text \<open>\<open>UPDATE search_rounds SET ..., version = version + 1 ... RETURNING *\<close>, and the event\<close>

definition update_round ::
    "uuid \<Rightarrow> (search_round \<Rightarrow> search_round) \<Rightarrow> string \<Rightarrow> json \<Rightarrow> search_round \<Rightarrow> round_store \<Rightarrow>
     round_store \<times> search_round" where
  "update_round i f ty details r s =
     (let g = (\<lambda>q. (f q)\<lparr>sr_version := sr_version q + 1\<rparr>)
      in (in_m2 (in_base (log_task (sr_task r) ty details) \<circ> set_round i g) s, g r))"

text \<open>\<open>SearchRound.model_validate\<close> of a row\<close>

definition make_search_round :: "search_round \<Rightarrow> error + search_round" where
  "make_search_round q =
     (if \<not> search_round_fields q then Inl (ValueError ''SearchRound'')
      else bind_res (require_safe_mode_and_limits q) (\<lambda>_. Inr q))"

definition lock_round :: "round_store \<Rightarrow> uuid \<Rightarrow> error + search_round" where
  "lock_round s i =
     (case find_round (st_m2 s) i of
        None \<Rightarrow> Inl (NotFound ''M2a SearchRound not found'') | Some r \<Rightarrow> Inr r)"

text \<open>One turn of the loop that updates the members of a barrier.\<close>

definition set_member_state :: "barrier_member \<Rightarrow> m2_db \<Rightarrow> m2_db" where
  "set_member_state b d =
     d\<lparr>members := update_where (\<lambda>m. mb_id m = bm_member b) (\<lambda>m. m\<lparr>mb_state := bm_state b\<rparr>) (members d)\<rparr>"

definition same_artifact :: "barrier_member \<Rightarrow> member \<Rightarrow> bool" where
  "same_artifact b m \<longleftrightarrow>
     mb_id m = bm_member b \<and> mb_artifact m = bm_artifact b \<and> mb_artifact_hash m = bm_artifact_hash b"

end
