(* ===== verification/EvidenceIndex.thy ===== *)
theory EvidenceIndex
  imports RoundStore
begin

text \<open>
  The evidence of a finished round, src/src/hcuopt/evaluation/m2_verifier.py and
  m2_finalizer.py: the content-addressed store of synthetic evidence, the index of all
  evidence that a round requires, its verification, and the bundle rebuilt from it.

  Parameters: the reader of the evidence (a protocol of the code) and the parser of an
  index, \<open>M2EvidenceIndex.model_validate_json\<close>.
\<close>

definition MAX_EVIDENCE_INDEX_ENTRIES :: nat where
  "MAX_EVIDENCE_INDEX_ENTRIES = 256"

definition MAX_EVIDENCE_INDEX_DEPTH :: nat where
  "MAX_EVIDENCE_INDEX_DEPTH = 8"

section \<open>The store of synthetic evidence\<close>

type_synonym blobs = "string \<rightharpoonup> string"
type_synonym byte_reader = "string \<Rightarrow> string \<Rightarrow> error + string"

record evidence_artifact =
  ea_uri :: string
  ea_sha :: string
  ea_count :: nat

definition evidence_uri :: "string \<Rightarrow> error + string" where
  "evidence_uri h =
     (if \<not> is_sha256 h then Inl (ValueError ''synthetic evidence requires a SHA-256 identity'')
      else Inr (''scripted-evidence://sha256/'' @ drop 7 h))"

definition publish_bytes :: "m2_lib \<Rightarrow> string \<Rightarrow> blobs \<Rightarrow> error + (blobs \<times> evidence_artifact)" where
  "publish_bytes E encoded st =
     (if encoded = [] then Inl (ValueError ''synthetic evidence must not be empty'')
      else let digest = ml_sha E encoded in
        bind_res (evidence_uri digest) (\<lambda>uri.
        let existing = (case st uri of None \<Rightarrow> encoded | Some b \<Rightarrow> b) in
        if existing \<noteq> encoded
        then Inl (ValueError ''content-addressed synthetic evidence collision'')
        else Inr (st(uri \<mapsto> existing),
          \<lparr>ea_uri = uri, ea_sha = digest, ea_count = length encoded\<rparr>)))"

definition artifact_for_hash :: "string \<Rightarrow> blobs \<Rightarrow> error + evidence_artifact" where
  "artifact_for_hash h st =
     bind_res (evidence_uri h) (\<lambda>uri.
     case st uri of
       None \<Rightarrow> Inl (M2RoundEvidenceError ''evidence_unavailable'')
     | Some b \<Rightarrow> Inr \<lparr>ea_uri = uri, ea_sha = h, ea_count = length b\<rparr>)"

definition read_raw_bytes :: "m2_lib \<Rightarrow> blobs \<Rightarrow> byte_reader" where
  "read_raw_bytes E st uri h =
     bind_res (evidence_uri h) (\<lambda>expected.
     if uri \<noteq> expected then Inl (M2RoundEvidenceError ''evidence_uri_hash_mismatch'')
     else case st uri of
       None \<Rightarrow> Inl (M2RoundEvidenceError ''evidence_unavailable'')
     | Some b \<Rightarrow>
         if ml_sha E b \<noteq> h then Inl (M2RoundEvidenceError ''evidence_hash_mismatch'')
         else Inr b)"

section \<open>The index\<close>

datatype index_entry = Index_entry
  (ie_role: string) (ie_type: string) (ie_uri: string) (ie_sha: string) (ie_producer: string)
  (ie_owner: string) (ie_checked: stamp) (ie_children: "index_entry list")

text \<open>\<open>^[a-z0-9][a-z0-9_./-]{0,299}$\<close>\<close>

definition is_role :: "string \<Rightarrow> bool" where
  "is_role s \<longleftrightarrow>
     (case s of [] \<Rightarrow> False
      | c # cs \<Rightarrow> c \<in> set ''abcdefghijklmnopqrstuvwxyz0123456789'' \<and> length cs \<le> 299 \<and>
          list_all (\<lambda>d. d \<in> set ''abcdefghijklmnopqrstuvwxyz0123456789_./-'') cs)"

definition require_deterministic_children :: "index_entry \<Rightarrow> error + unit" where
  "require_deterministic_children e =
     (let roles = map ie_role (ie_children e) in
      if \<not> aware (ie_checked e)
      then Inl (ValueError ''Evidence accessibility time must be timezone-aware'')
      else if \<not> distinct roles \<or> roles \<noteq> sort roles
      then Inl (ValueError ''Evidence Index children must be unique and ordered'')
      else Inr ())"

definition make_entry :: "index_entry \<Rightarrow> error + index_entry" where
  "make_entry e =
     (if \<not> (is_role (ie_role e) \<and> text_between 1 200 (ie_type e) \<and> text_between 1 4000 (ie_uri e) \<and>
            is_sha256 (ie_sha e) \<and> text_between 1 300 (ie_producer e) \<and>
            text_between 1 300 (ie_owner e) \<and> length (ie_children e) \<le> 64)
      then Inl (ValueError ''M2EvidenceIndexEntry'')
      else bind_res (require_deterministic_children e) (\<lambda>_. Inr e))"

record evidence_index =
  ix_round :: uuid
  ix_entries :: "index_entry list"
  ix_created :: stamp

definition require_deterministic_root :: "evidence_index \<Rightarrow> error + unit" where
  "require_deterministic_root i =
     (let roles = map ie_role (ix_entries i) in
      if \<not> aware (ix_created i)
      then Inl (ValueError ''Evidence Index time must be timezone-aware'')
      else if \<not> distinct roles \<or> roles \<noteq> sort roles
      then Inl (ValueError ''Evidence Index root entries must be unique and ordered'')
      else Inr ())"

definition make_index :: "evidence_index \<Rightarrow> error + evidence_index" where
  "make_index i =
     (if ix_entries i = [] \<or> 64 < length (ix_entries i) then Inl (ValueError ''M2EvidenceIndex'')
      else bind_res (require_deterministic_root i) (\<lambda>_. Inr i))"

primrec entry_json :: "m2_lib \<Rightarrow> index_entry \<Rightarrow> json" where
  "entry_json E (Index_entry role ty uri sha producer owner checked cs) = jobj
     [(''role'', JStr role), (''evidence_type'', JStr ty), (''uri'', JStr uri), (''sha256'', JStr sha),
      (''producer'', JStr producer), (''retention_owner'', JStr owner),
      (''accessibility_status'', JStr ''verified''),
      (''accessibility_checked_at'', JStr (ml_time E checked)),
      (''children'', JArr (map (entry_json E) cs))]"

definition index_json :: "m2_lib \<Rightarrow> evidence_index \<Rightarrow> json" where
  "index_json E i = jobj
     [(''schema_version'', JStr ''m2a-evidence-index-v1''), (''round_id'', JStr (ix_round i)),
      (''entries'', JArr (map (entry_json E) (ix_entries i))), (''synthetic'', JBool True),
      (''created_at'', JStr (ml_time E (ix_created i)))]"

text \<open>
  The loop of \<open>_flatten_entries\<close>: the top of the stack is the head of the list. It ends
  since the stack loses a node in every turn.
\<close>

primrec entry_nodes :: "index_entry \<Rightarrow> nat" where
  "entry_nodes (Index_entry role ty uri sha producer owner checked cs) =
     Suc (sum_list (map entry_nodes cs))"

lemma children_smaller: "sum_list (map entry_nodes (ie_children e)) < entry_nodes e"
  by (cases e) simp

function flatten_stack ::
    "(index_entry \<times> nat) list \<Rightarrow> index_entry list \<Rightarrow> error + index_entry list" where
  "flatten_stack [] result = Inr result"
| "flatten_stack ((e, depth) # stack) result =
     (if MAX_EVIDENCE_INDEX_DEPTH < depth
      then Inl (M2RoundEvidenceError ''evidence_index_too_deep'')
      else if MAX_EVIDENCE_INDEX_ENTRIES < length (result @ [e])
      then Inl (M2RoundEvidenceError ''evidence_index_too_large'')
      else flatten_stack (map (\<lambda>c. (c, Suc depth)) (ie_children e) @ stack) (result @ [e]))"
  by pat_completeness auto
termination
  by (relation "measure (\<lambda>(stack, result). sum_list (map (entry_nodes \<circ> fst) stack))")
    (auto simp: children_smaller o_def)

definition flatten_entries :: "index_entry list \<Rightarrow> error + index_entry list" where
  "flatten_entries roots = flatten_stack (map (\<lambda>e. (e, 1)) roots) []"

section \<open>What a round requires\<close>

record requirement =
  rq_role :: string
  rq_type :: string
  rq_sha :: string
  rq_bytes :: "string option"

definition document :: "m2_lib \<Rightarrow> string \<Rightarrow> string \<Rightarrow> json \<Rightarrow> requirement" where
  "document E role ty v =
     \<lparr>rq_role = role, rq_type = ty, rq_sha = doc_hash E v, rq_bytes = Some (ml_bytes E v)\<rparr>"

definition cited :: "string \<Rightarrow> string \<Rightarrow> string \<Rightarrow> requirement" where
  "cited role ty h = \<lparr>rq_role = role, rq_type = ty, rq_sha = h, rq_bytes = None\<rparr>"

definition add_requirement :: "requirement \<Rightarrow> requirement list \<Rightarrow> error + requirement list" where
  "add_requirement q qs =
     (case find (\<lambda>x. rq_role x = rq_role q) qs of
        None \<Rightarrow> Inr (qs @ [q])
      | Some x \<Rightarrow> if x \<noteq> q then Inl (M2RoundEvidenceError ''evidence_requirement_conflict'') else Inr qs)"

fun add_requirements :: "requirement list \<Rightarrow> requirement list \<Rightarrow> error + requirement list" where
  "add_requirements [] qs = Inr qs"
| "add_requirements (q # rest) qs = bind_res (add_requirement q qs) (add_requirements rest)"

definition member_requirements :: "m2_lib \<Rightarrow> string \<Rightarrow> barrier_member \<Rightarrow> requirement list" where
  "member_requirements E phase m =
     (let own = ''candidate/'' @ bm_candidate m @ ''/''; prefix = own @ phase;
          opt = (\<lambda>x role ty. case x of None \<Rightarrow> [] | Some h \<Rightarrow> [cited role ty h])
      in [document E (prefix @ ''/member'') ''barrier_member'' (member_json m)] @
         opt (bm_artifact_hash m) (own @ ''artifact'') ''candidate_artifact'' @
         opt (bm_correctness m) (own @ ''correctness'') ''correctness_evidence'' @
         [cited (prefix @ ''/budget-usage'') ''budget_usage_evidence'' (bm_budget m)] @
         opt (bm_cleanup m) (prefix @ ''/cleanup'') ''cleanup_evidence'' @
         opt (bm_failure m) (prefix @ ''/failure'') ''failure_evidence'')"

definition sample_requirements :: "uuid \<Rightarrow> string \<Rightarrow> string option \<Rightarrow> string option \<Rightarrow> requirement list" where
  "sample_requirements i phase raw baseline =
     (let prefix = ''candidate/'' @ i @ ''/'' @ phase;
          opt = (\<lambda>x role ty. case x of None \<Rightarrow> [] | Some h \<Rightarrow> [cited role ty h])
      in opt raw (prefix @ ''/raw-fixture'') ''scripted_phase_fixture_evidence'' @
         opt baseline (prefix @ ''/baseline-samples'') ''baseline_sample_set'')"

definition search_requirements ::
    "m2_lib \<Rightarrow> search_round \<Rightarrow> decision \<Rightarrow> string \<Rightarrow> requirement list" where
  "search_requirements E r x ledger_hash =
     [cited ''search/plan'' ''search_plan'' (sr_search_plan r),
      document E ''search/input-summary'' ''search_barrier_input'' (summary_json (sd_summary x)),
      document E ''search/barrier'' ''round_barrier'' (barrier_json E (sd_barrier x)),
      cited ''budget/ledger'' ''round_budget_ledger'' ledger_hash] @
     concat (map (\<lambda>s. sample_requirements (ss_candidate s) ''search'' (Some (ss_raw s)) (Some (ss_baseline s)))
       (su_statistics (sd_summary x))) @
     concat (map (member_requirements E ''search'') (bb_members (sd_barrier x)))"

definition holdout_requirements ::
    "m2_lib \<Rightarrow> string \<Rightarrow> string \<Rightarrow> barrier \<Rightarrow> comparison \<Rightarrow> requirement list" where
  "holdout_requirements E plan reveal b c =
     [cited ''holdout/plan'' ''holdout_plan'' plan,
      cited ''holdout/reveal'' ''holdout_reveal'' reveal,
      document E ''holdout/barrier'' ''round_barrier'' (barrier_json E b),
      document E ''holdout/multiple-comparison'' ''multiple_comparison'' (comparison_json E c)] @
     concat (map (member_requirements E ''holdout'') (bb_members b)) @
     concat (map (\<lambda>a. sample_requirements (aj_candidate a) ''holdout'' (aj_raw a) (aj_baseline a))
       (mc_results c))"

section \<open>The path of the round\<close>

definition search_path_ok :: "m2_lib \<Rightarrow> search_round \<Rightarrow> decision \<Rightarrow> bool" where
  "search_path_ok E r x \<longleftrightarrow>
     (let b = sd_barrier x in
      sr_mode r = RM_SCRIPTED \<and> sr_family r \<noteq> None \<and> sr_artifacts r \<noteq> None \<and>
      bb_round b = sr_id r \<and> bb_phase b = PH_SEARCH \<and> Some (bb_family b) = sr_artifacts r \<and>
      bb_rule_version b = M2_SEARCH_SELECTION_RULE_VERSION \<and> bb_rule b = sr_rule r \<and>
      bb_synthetic b \<and> su_round (sd_summary x) = sr_id r \<and>
      doc_hash E (summary_json (sd_summary x)) = bb_summary b \<and>
      int (length (bb_members b)) = sr_declared r)"

definition holdout_path_ok :: "m2_lib \<Rightarrow> search_round \<Rightarrow> decision \<Rightarrow> barrier \<Rightarrow> comparison \<Rightarrow> bool" where
  "holdout_path_ok E r x b c \<longleftrightarrow>
     (case (sr_holdout r, sr_holdout_plan r, sr_reveal_evidence r) of
        (Some family, Some plan, Some reveal) \<Rightarrow>
          (let ids = map bm_candidate (bb_members b) in
           bb_round b = sr_id r \<and> bb_phase b = PH_HOLDOUT \<and> bb_family b = family \<and>
           bb_summary b = doc_hash E (holdout_input r family plan reveal (bb_members b)) \<and>
           bb_rule_version b = M2_HOLDOUT_BARRIER_RULE_VERSION \<and>
           bb_rule b = doc_hash E (jobj [(''rule_version'', JStr M2_HOLDOUT_BARRIER_RULE_VERSION),
             (''holdout_plan_hash'', JStr plan)]) \<and>
           ids = bb_promoted (sd_barrier x) \<and> mc_round c = sr_id r \<and> mc_barrier c = bb_id b \<and>
           mc_family c = family \<and> map aj_candidate (mc_results c) = ids \<and> mc_m c = int (length ids) \<and>
           mc_version c = M2_FWER_PROTOCOL_VERSION \<and> mc_protocol c = m2_fwer_protocol_hash (m2_py E) \<and>
           recompute_result_hash (m2_py E) c = mc_hash c \<and> bb_synthetic b \<and> mc_synthetic c)
      | _ \<Rightarrow> False)"

definition validate_round_path ::
    "m2_lib \<Rightarrow> search_round \<Rightarrow> decision \<Rightarrow> barrier option \<Rightarrow> comparison option \<Rightarrow> error + unit" where
  "validate_round_path E r x hold cmp =
     (if \<not> search_path_ok E r x then Inl (M2RoundEvidenceError ''round_evidence_binding_mismatch'')
      else if bb_promoted (sd_barrier x) = []
      then guard_err (sr_state r = R_SEARCH_BARRIER \<and>
             bb_outcome (sd_barrier x) = NO_PROMOTABLE_CANDIDATE \<and> sr_holdout r = None \<and>
             sr_holdout_plan r = None \<and> sr_reveal_evidence r = None \<and> hold = None \<and> cmp = None)
           (M2RoundEvidenceError ''zero_promotion_path_invalid'')
      else if sr_state r \<noteq> R_HOLDOUT_BARRIER \<or> sd_holdout x \<noteq> sr_holdout r \<or>
              sr_holdout_plan r = None \<or> sr_reveal_evidence r = None
      then Inl (M2RoundEvidenceError ''holdout_evidence_incomplete'')
      else case (hold, cmp) of
        (Some b, Some c) \<Rightarrow>
          guard_err (holdout_path_ok E r x b c)
            (M2RoundEvidenceError ''holdout_evidence_binding_mismatch'')
      | _ \<Rightarrow> Inl (M2RoundEvidenceError ''holdout_evidence_incomplete''))"

definition round_requirements ::
    "m2_lib \<Rightarrow> search_round \<Rightarrow> decision \<Rightarrow> string \<Rightarrow> barrier option \<Rightarrow> comparison option \<Rightarrow>
     error + requirement list" where
  "round_requirements E r x ledger_hash hold cmp =
     bind_res (validate_round_path E r x hold cmp) (\<lambda>_.
     bind_res (add_requirements (search_requirements E r x ledger_hash) []) (\<lambda>qs.
     bind_res
       (case (hold, cmp) of
          (Some b, Some c) \<Rightarrow>
            (case (sr_holdout_plan r, sr_reveal_evidence r) of
               (Some plan, Some reveal) \<Rightarrow> add_requirements (holdout_requirements E plan reveal b c) qs
             | _ \<Rightarrow> Inl (M2RoundEvidenceError ''holdout_evidence_incomplete''))
        | _ \<Rightarrow> Inr qs) (\<lambda>all. Inr (sort_key rq_role all))))"

section \<open>Publishing an index\<close>

text \<open>One turn of the loop over the sorted requirements.\<close>

definition publish_requirement ::
    "m2_lib \<Rightarrow> string \<Rightarrow> string \<Rightarrow> stamp \<Rightarrow> requirement \<Rightarrow> blobs \<Rightarrow> error + (blobs \<times> index_entry)" where
  "publish_requirement E producer owner created q st =
     bind_res (case rq_bytes q of
        Some bs \<Rightarrow> bind_res (publish_bytes E bs st) (\<lambda>(st1, a).
          if ea_sha a \<noteq> rq_sha q then Inl (M2RoundEvidenceError ''evidence_document_hash_mismatch'')
          else Inr (st1, a))
      | None \<Rightarrow> bind_res (artifact_for_hash (rq_sha q) st) (\<lambda>a. Inr (st, a))) (\<lambda>(st1, a).
     bind_res (read_raw_bytes E st1 (ea_uri a) (ea_sha a)) (\<lambda>_.
     bind_res (make_entry (Index_entry (rq_role q) (rq_type q) (ea_uri a) (ea_sha a) producer owner
         created [])) (\<lambda>e. Inr (st1, e))))"

fun publish_requirements ::
    "m2_lib \<Rightarrow> string \<Rightarrow> string \<Rightarrow> stamp \<Rightarrow> requirement list \<Rightarrow> blobs \<Rightarrow>
     error + (blobs \<times> index_entry list)" where
  "publish_requirements E producer owner created [] st = Inr (st, [])"
| "publish_requirements E producer owner created (q # qs) st =
     bind_res (publish_requirement E producer owner created q st) (\<lambda>(st1, e).
     bind_res (publish_requirements E producer owner created qs st1) (\<lambda>(st2, es). Inr (st2, e # es)))"

definition publish_scripted_evidence_index ::
    "m2_lib \<Rightarrow> uuid \<Rightarrow> requirement list \<Rightarrow> string \<Rightarrow> string \<Rightarrow> stamp \<Rightarrow> blobs \<Rightarrow>
     error + (blobs \<times> (evidence_index \<times> evidence_artifact))" where
  "publish_scripted_evidence_index E round_id qs producer owner created st =
     bind_res (publish_requirements E producer owner created (sort_key rq_role qs) st) (\<lambda>(st1, es).
     bind_res (make_index \<lparr>ix_round = round_id, ix_entries = es, ix_created = created\<rparr>) (\<lambda>i.
     bind_res (publish_bytes E (ml_bytes E (index_json E i)) st1) (\<lambda>(st2, a). Inr (st2, (i, a)))))"

section \<open>Verifying an index\<close>

text \<open>\<open>except M2RoundEvidenceError: raise; except (ValidationError, ValueError, OSError)\<close>\<close>

fun translate_error :: "string \<Rightarrow> error \<Rightarrow> error" where
  "translate_error code (ValueError m) = M2RoundEvidenceError code"
| "translate_error code OSError = M2RoundEvidenceError code"
| "translate_error code e = e"

definition reraise :: "string \<Rightarrow> error + 'a \<Rightarrow> error + 'a" where
  "reraise code m = (case m of Inl e \<Rightarrow> Inl (translate_error code e) | Inr a \<Rightarrow> Inr a)"

fun index_identities :: "index_entry list \<Rightarrow> index_entry list \<Rightarrow> error + index_entry list" where
  "index_identities seen [] = Inr seen"
| "index_identities seen (e # es) =
     (if list_ex (\<lambda>x. ie_role x = ie_role e \<or> ie_uri x = ie_uri e) seen
      then Inl (M2RoundEvidenceError ''evidence_index_identity_reused'')
      else if list_ex (\<lambda>x. ie_sha x = ie_sha e \<and> ie_role x \<noteq> ie_role e) seen
      then Inl (M2RoundEvidenceError ''evidence_index_identity_reused'')
      else index_identities (seen @ [e]) es)"

definition verify_entry :: "m2_lib \<Rightarrow> byte_reader \<Rightarrow> index_entry list \<Rightarrow> requirement \<Rightarrow> error + unit" where
  "verify_entry E reader es q =
     (case find (\<lambda>e. ie_role e = rq_role q) es of
        None \<Rightarrow> Inl (KeyError ''by_role'')
      | Some e \<Rightarrow>
          if ie_sha e \<noteq> rq_sha q \<or> ie_type e \<noteq> rq_type q
          then Inl (M2RoundEvidenceError ''evidence_index_binding_mismatch'')
          else bind_res (reraise ''evidence_unavailable'' (reader (ie_uri e) (ie_sha e))) (\<lambda>bs.
            if ml_sha E bs \<noteq> ie_sha e then Inl (M2RoundEvidenceError ''evidence_hash_mismatch'')
            else if rq_bytes q \<noteq> None \<and> rq_bytes q \<noteq> Some bs
            then Inl (M2RoundEvidenceError ''evidence_document_mismatch'')
            else Inr ()))"

definition read_and_verify_index ::
    "m2_lib \<Rightarrow> byte_reader \<Rightarrow> (string \<Rightarrow> error + evidence_index) \<Rightarrow> string \<Rightarrow> string \<Rightarrow> uuid \<Rightarrow>
     requirement list \<Rightarrow> error + evidence_index" where
  "read_and_verify_index E reader parse uri h round_id qs =
     bind_res (reraise ''evidence_index_unreadable''
       (bind_res (reader uri h) (\<lambda>encoded.
        if ml_sha E encoded \<noteq> h then Inl (M2RoundEvidenceError ''evidence_index_hash_mismatch'')
        else bind_res (parse encoded) (\<lambda>i. Inr (encoded, i))))) (\<lambda>(encoded, i).
     if ml_bytes E (index_json E i) \<noteq> encoded
     then Inl (M2RoundEvidenceError ''evidence_index_noncanonical'')
     else if ix_round i \<noteq> round_id
     then Inl (M2RoundEvidenceError ''evidence_index_round_mismatch'')
     else bind_res (flatten_entries (ix_entries i)) (\<lambda>es.
       bind_res (index_identities [] es) (\<lambda>seen.
       if ie_role ` set seen \<noteq> rq_role ` set qs
       then Inl (M2RoundEvidenceError ''evidence_index_incomplete'')
       else bind_res (map_res (verify_entry E reader seen) qs) (\<lambda>_. Inr i))))"

section \<open>The bundle\<close>

definition candidate_evidence_of ::
    "m2_lib \<Rightarrow> barrier option \<Rightarrow> barrier_member \<Rightarrow> error + candidate_evidence" where
  "candidate_evidence_of E hold m =
     (let h = (case hold of None \<Rightarrow> None | Some b \<Rightarrow> member_by_id (bb_members b) (bm_candidate m));
          some = (\<lambda>x. case x of None \<Rightarrow> [] | Some v \<Rightarrow> [v])
      in if (case h of None \<Rightarrow> False
             | Some k \<Rightarrow> bm_member k \<noteq> bm_member m \<or> bm_artifact k \<noteq> bm_artifact m \<or>
                 bm_artifact_hash k \<noteq> bm_artifact_hash m \<or> bm_correctness k \<noteq> bm_correctness m)
         then Inl (M2RoundEvidenceError ''holdout_candidate_identity_drift'')
         else make_candidate_evidence
           \<lparr>ce_member = bm_member m, ce_candidate = bm_candidate m, ce_search_state = bm_state m,
            ce_search = doc_hash E (member_json m), ce_holdout_state = map_option bm_state h,
            ce_holdout = map_option (\<lambda>k. doc_hash E (member_json k)) h,
            ce_budget = bm_budget m # (case h of None \<Rightarrow> [] | Some k \<Rightarrow> [bm_budget k]),
            ce_cleanup = some (bm_cleanup m) @
              (case h of None \<Rightarrow> [] | Some k \<Rightarrow> some (bm_cleanup k))\<rparr>)"

definition verdict_counts :: "comparison option \<Rightarrow> json" where
  "verdict_counts cmp =
     (let vs = (case cmp of None \<Rightarrow> [] | Some c \<Rightarrow> map aj_verdict (mc_results c))
      in jobj (map (\<lambda>v. (verdict_value v, JInt (int (length (filter (\<lambda>w. w = v) vs))))) (remdups vs)))"

definition bundle_summary ::
    "terminal_reason \<Rightarrow> nat \<Rightarrow> barrier option \<Rightarrow> comparison option \<Rightarrow> (string, json) fmap" where
  "bundle_summary reason n hold cmp = fmap_of_list
     [(''performance_conclusion'', JStr ''not_measured''),
      (''evidence_authority'', JStr ''synthetic_fixture_only''),
      (''terminal_reason'', JStr (reason_value reason)), (''candidate_count'', JInt (int n)),
      (''holdout_member_count'',
        JInt (case hold of None \<Rightarrow> 0 | Some b \<Rightarrow> int (length (bb_members b)))),
      (''fixture_verdict_counts'', verdict_counts cmp),
      (''recommended_fixture_candidate_id'', jstr_opt (case cmp of None \<Rightarrow> None | Some c \<Rightarrow> mc_recommended c))]"

definition build_scripted_round_evidence ::
    "m2_lib \<Rightarrow> byte_reader \<Rightarrow> (string \<Rightarrow> error + evidence_index) \<Rightarrow> search_round \<Rightarrow> decision \<Rightarrow> string \<Rightarrow>
     string \<Rightarrow> string \<Rightarrow> barrier option \<Rightarrow> comparison option \<Rightarrow> error + evidence_bundle" where
  "build_scripted_round_evidence E reader parse r x ledger_hash uri h hold cmp =
     bind_res (round_requirements E r x ledger_hash hold cmp) (\<lambda>qs.
     bind_res (read_and_verify_index E reader parse uri h (sr_id r) qs) (\<lambda>i.
     bind_res (map_res (candidate_evidence_of E hold) (bb_members (sd_barrier x))) (\<lambda>cs.
     let reason = (if hold \<noteq> None then HOLDOUT_COMPLETED else TR_NO_PROMOTABLE_CANDIDATE) in
     case (sr_family r, sr_artifacts r) of
       (Some family, Some arts) \<Rightarrow>
         (let b = \<lparr>eb_id = '''', eb_round = sr_id r, eb_task = sr_task r, eb_mode = RM_SCRIPTED,
             eb_reason = reason, eb_family = family, eb_artifacts = arts, eb_holdout = sr_holdout r,
             eb_search_plan = sr_search_plan r, eb_commitment = sr_commitment r,
             eb_holdout_plan = sr_holdout_plan r, eb_reveal = sr_reveal_evidence r,
             eb_candidates = cs, eb_search_barrier = bb_id (sd_barrier x),
             eb_holdout_barrier = map_option bb_id hold, eb_comparison = map_option mc_id cmp,
             eb_ledger = ledger_hash, eb_index_uri = uri, eb_index_hash = h,
             eb_summary = bundle_summary reason (length cs) hold cmp, eb_synthetic = True,
             eb_created = ix_created i\<rparr>
          in make_bundle (b\<lparr>eb_id := lib_uuid5 (m2_py E)
               (''hcuopt:m2-round-evidence:'' @ doc_hash E (jobj (bundle_values b)))\<rparr>))
     | _ \<Rightarrow> Inl (ValueError ''RoundEvidenceBundle''))))"

text \<open>\<open>M2ScriptedRoundFinalizer.verify\<close>\<close>

definition verify_bundle ::
    "m2_lib \<Rightarrow> byte_reader \<Rightarrow> (string \<Rightarrow> error + evidence_index) \<Rightarrow> search_round \<Rightarrow> decision \<Rightarrow>
     evidence_bundle \<Rightarrow> barrier option \<Rightarrow> comparison option \<Rightarrow> error + unit" where
  "verify_bundle E reader parse r x b hold cmp =
     bind_res (build_scripted_round_evidence E reader parse r x (eb_ledger b) (eb_index_uri b)
       (eb_index_hash b) hold cmp) (\<lambda>rebuilt.
     guard_err (ml_bytes E (bundle_json E rebuilt) = ml_bytes E (bundle_json E b))
       (M2RoundEvidenceError ''round_evidence_bundle_mismatch''))"

text \<open>The guard of the formal sign-off refuses every scripted or synthetic round.\<close>

definition require_formal_round_signoff :: "search_round \<Rightarrow> evidence_bundle \<Rightarrow> error + unit" where
  "require_formal_round_signoff r b =
     (if sr_mode r \<noteq> RM_FORMAL \<or> eb_mode b \<noteq> RM_FORMAL \<or> eb_synthetic b
      then Inl (M2RoundEvidenceError ''synthetic_round_not_signable'')
      else guard_err (sr_state r = R_AWAITING_SIGNOFF \<and> sr_id r = eb_round b \<and> sr_task r = eb_task b)
        (M2RoundEvidenceError ''round_signoff_evidence_mismatch''))"

end
