(* ===== verification/RoundOps.thy ===== *)
theory RoundOps
  imports EvidenceIndex
begin

text \<open>
  The operations of src/src/hcuopt/storage/repository.py on the lifecycle of a scripted
  round. The names of the two barrier operations carry \<open>store_\<close>, since the functions of
  m2_statistics.py that they call have the same names in the code.
\<close>

section \<open>The search barrier\<close>

definition check_search_member :: "member list \<Rightarrow> barrier_member \<Rightarrow> error + unit" where
  "check_search_member ms b =
     (case find (\<lambda>m. mb_candidate m = bm_candidate b) ms of
        None \<Rightarrow> Inl (Conflict ''M2a Search Barrier Candidate or Artifact identity drifted'')
      | Some m \<Rightarrow>
          if \<not> same_artifact b m
          then Inl (Conflict ''M2a Search Barrier Candidate or Artifact identity drifted'')
          else if mb_state m \<in> {RC_BUILD_FAILED, RC_INVALID} \<and> mb_failure_hash m \<noteq> bm_failure b
          then Inl (Conflict ''M2a Search Barrier changed frozen Build failure evidence'')
          else Inr ())"

definition same_search_barrier :: "m2_lib \<Rightarrow> decision \<Rightarrow> barrier_row \<Rightarrow> bool" where
  "same_search_barrier E x w \<longleftrightarrow>
     br_id w = bb_id (sd_barrier x) \<and> br_key w = bb_key (sd_barrier x) \<and>
     br_hash w = doc_hash E (decision_json E x) \<and>
     (case br_payload w of Search_payload y \<Rightarrow> decision_json E y = decision_json E x
      | Holdout_payload b \<Rightarrow> barrier_json E b = decision_json E x)"

definition store_search_barrier ::
    "m2_lib \<Rightarrow> decision \<Rightarrow> round_store \<Rightarrow> error + (round_store \<times> search_round)" where
  "store_search_barrier E x s =
     (let b = sd_barrier x; i = bb_round b in
      if bb_phase b \<noteq> PH_SEARCH \<or> bb_mode b \<noteq> RM_SCRIPTED \<or> \<not> bb_synthetic b
      then Inl (Conflict ''M2a Search Barrier requires scripted Search evidence'')
      else bind_res (lock_round s i) (\<lambda>r.
        case barrier_of s i PH_SEARCH of
          Some w \<Rightarrow>
            if same_search_barrier E x w then Inr (s, r)
            else Inl (Conflict ''M2a Search Barrier is already closed with other inputs'')
        | None \<Rightarrow>
            if sr_mode r \<noteq> RM_SCRIPTED \<or> sr_state r \<notin> {R_CORRECTNESS, R_SEARCH_MEASURING} \<or>
               sr_artifacts r = None
            then Inl (Conflict ''M2a Search Barrier is not ready to close'')
            else
              let ms = sort_key mb_candidate (filter (\<lambda>m. mb_round m = i) (members (st_m2 s))) in
              if int (length ms) \<noteq> sr_declared r
              then Inl (Conflict ''M2a Search Barrier lost a frozen Candidate member'')
              else bind_res (map_res (check_search_member ms) (bb_members b)) (\<lambda>_.
                bind_res (make_search_round r) (\<lambda>r1.
                bind_res (close_scripted_search_barrier (m2_py E) (r1\<lparr>sr_state := R_SEARCH_BARRIER\<rparr>)
                    (map mb_candidate ms) (bb_members b) (su_statistics (sd_summary x))
                    (bb_closed_by b) (bb_closed_at b) (bb_key b)) (\<lambda>expected.
                if ml_bytes E (decision_json E expected) \<noteq> ml_bytes E (decision_json E x)
                then Inl (Conflict ''M2a Search Barrier does not match the D selection authority'')
                else bind_res (insert_barrier
                    \<lparr>br_id = bb_id b, br_round = i, br_phase = PH_SEARCH, br_payload = Search_payload x,
                     br_hash = doc_hash E (decision_json E x), br_key = bb_key b\<rparr> s) (\<lambda>s1.
                  Inr (update_round i
                    (\<lambda>q. q\<lparr>sr_state := R_SEARCH_BARRIER, sr_holdout := sd_holdout x\<rparr>)
                    ''m2_search_barrier_closed''
                    (jobj [(''round_id'', JStr i), (''barrier_id'', JStr (bb_id b)),
                       (''outcome'', JStr (outcome_value (bb_outcome b))),
                       (''promoted_candidate_ids'', JArr (map JStr (bb_promoted b)))]) r
                    (in_m2 (fold set_member_state (bb_members b)) s1))))))))"

section \<open>The holdout reveal\<close>

definition same_reveal :: "m2_lib \<Rightarrow> reveal \<Rightarrow> reveal_row \<Rightarrow> bool" where
  "same_reveal E v w \<longleftrightarrow>
     rv_lease (rw_payload w) = rv_lease v \<and> rw_hash w = doc_hash E (reveal_json E v) \<and>
     reveal_json E (rw_payload w) = reveal_json E v"

definition record_scripted_holdout_reveal ::
    "m2_lib \<Rightarrow> reveal \<Rightarrow> round_store \<Rightarrow> error + (round_store \<times> search_round)" where
  "record_scripted_holdout_reveal E v s =
     (let i = rv_round v in
      bind_res (lock_round s i) (\<lambda>r.
      case reveal_of s i of
        Some w \<Rightarrow>
          if same_reveal E v w then Inr (s, r)
          else Inl (Conflict ''M2a Holdout Plan was already revealed with other inputs'')
      | None \<Rightarrow>
          (case barrier_of s i PH_SEARCH of
             None \<Rightarrow> Inl (Conflict ''M2a Holdout reveal requires a durable Search Barrier'')
           | Some w \<Rightarrow>
               bind_res (decision_of w) (\<lambda>x.
               if sr_mode r \<noteq> RM_SCRIPTED \<or> sr_state r \<noteq> R_SEARCH_BARRIER \<or>
                  bb_outcome (sd_barrier x) \<noteq> MEMBERS_PROMOTED \<or> sr_holdout r \<noteq> sd_holdout x \<or>
                  Some (rv_family v) \<noteq> sd_holdout x \<or> rv_commitment v \<noteq> sr_commitment r \<or>
                  rv_authority v \<noteq> sr_authority_id r \<or> rv_authority_hash v \<noteq> sr_authority_hash r
               then Inl (Conflict ''M2a Holdout reveal changed its frozen Round authority'')
               else bind_res (insert_reveal
                   \<lparr>rw_round = i, rw_payload = v, rw_hash = doc_hash E (reveal_json E v)\<rparr> s) (\<lambda>s1.
                 Inr (update_round i
                   (\<lambda>q. q\<lparr>sr_state := R_HOLDOUT_MEASURING, sr_holdout_plan := Some (rv_plan v),
                      sr_reveal_lease := Some (rv_lease v), sr_reveal_evidence := Some (rv_evidence v)\<rparr>)
                   ''m2_holdout_plan_revealed''
                   (jobj [(''round_id'', JStr i), (''reveal_lease_id'', JStr (rv_lease v)),
                      (''holdout_family_hash'', JStr (rv_family v))]) r s1))))))"

section \<open>The holdout barrier\<close>

definition check_holdout_member :: "member list \<Rightarrow> barrier_member \<Rightarrow> error + unit" where
  "check_holdout_member ms b =
     (case find (\<lambda>m. mb_candidate m = bm_candidate b) ms of
        None \<Rightarrow> Inl (Conflict ''M2a Holdout Barrier Candidate or Artifact drifted'')
      | Some m \<Rightarrow> guard_err (same_artifact b m)
          (Conflict ''M2a Holdout Barrier Candidate or Artifact drifted''))"

definition same_holdout_barrier :: "m2_lib \<Rightarrow> barrier \<Rightarrow> barrier_row \<Rightarrow> bool" where
  "same_holdout_barrier E b w \<longleftrightarrow>
     br_id w = bb_id b \<and> br_key w = bb_key b \<and> br_hash w = doc_hash E (barrier_json E b) \<and>
     (case br_payload w of Search_payload y \<Rightarrow> decision_json E y = barrier_json E b
      | Holdout_payload c \<Rightarrow> barrier_json E c = barrier_json E b)"

definition store_holdout_barrier ::
    "m2_lib \<Rightarrow> barrier \<Rightarrow> round_store \<Rightarrow> error + (round_store \<times> search_round)" where
  "store_holdout_barrier E b s =
     (let i = bb_round b in
      if bb_phase b \<noteq> PH_HOLDOUT \<or> bb_mode b \<noteq> RM_SCRIPTED \<or> \<not> bb_synthetic b
      then Inl (Conflict ''M2a Holdout Barrier requires scripted Holdout evidence'')
      else bind_res (lock_round s i) (\<lambda>r.
        case barrier_of s i PH_HOLDOUT of
          Some w \<Rightarrow>
            if same_holdout_barrier E b w then Inr (s, r)
            else Inl (Conflict ''M2a Holdout Barrier is already closed with other inputs'')
        | None \<Rightarrow>
            (case (barrier_of s i PH_SEARCH, reveal_of s i) of
               (Some w, Some _) \<Rightarrow>
                 bind_res (decision_of w) (\<lambda>x.
                 if sr_state r \<noteq> R_HOLDOUT_MEASURING \<or> bb_outcome (sd_barrier x) \<noteq> MEMBERS_PROMOTED \<or>
                    map bm_candidate (bb_members b) \<noteq> bb_promoted (sd_barrier x)
                 then Inl (Conflict ''M2a Holdout Barrier family is not ready'')
                 else
                   let ms = filter (\<lambda>m. mb_round m = i) (members (st_m2 s)) in
                   bind_res (map_res (check_holdout_member ms) (bb_members b)) (\<lambda>_.
                   bind_res (make_search_round r) (\<lambda>r1.
                   bind_res (close_scripted_holdout_barrier (m2_py E) (r1\<lparr>sr_state := R_HOLDOUT_BARRIER\<rparr>)
                       (bb_promoted (sd_barrier x)) (bb_members b) (bb_closed_by b) (bb_closed_at b)
                       (bb_key b)) (\<lambda>expected.
                   if ml_bytes E (barrier_json E expected) \<noteq> ml_bytes E (barrier_json E b)
                   then Inl (Conflict ''M2a Holdout Barrier does not match the D authority'')
                   else bind_res (insert_barrier
                       \<lparr>br_id = bb_id b, br_round = i, br_phase = PH_HOLDOUT,
                        br_payload = Holdout_payload b, br_hash = doc_hash E (barrier_json E b),
                        br_key = bb_key b\<rparr> s) (\<lambda>s1.
                     Inr (update_round i (\<lambda>q. q\<lparr>sr_state := R_HOLDOUT_BARRIER\<rparr>)
                       ''m2_holdout_barrier_closed''
                       (jobj [(''round_id'', JStr i), (''barrier_id'', JStr (bb_id b)),
                          (''member_count'', JInt (bb_expected b))]) r
                       (in_m2 (fold set_member_state (bb_members b)) s1)))))))
             | _ \<Rightarrow> Inl (Conflict ''M2a Holdout Barrier requires Search and Reveal evidence''))))"

section \<open>The multiple comparison\<close>

definition same_comparison :: "m2_lib \<Rightarrow> comparison \<Rightarrow> comparison_row \<Rightarrow> bool" where
  "same_comparison E c w \<longleftrightarrow>
     mc_id (cw_payload w) = mc_id c \<and> mc_hash (cw_payload w) = mc_hash c \<and>
     cw_hash w = doc_hash E (comparison_json E c) \<and>
     comparison_json E (cw_payload w) = comparison_json E c"

definition record_scripted_multiple_comparison ::
    "m2_lib \<Rightarrow> comparison \<Rightarrow> round_store \<Rightarrow> error + (round_store \<times> comparison)" where
  "record_scripted_multiple_comparison E c s =
     (let i = mc_round c in
      if mc_mode c \<noteq> RM_SCRIPTED \<or> \<not> mc_synthetic c \<or> mc_protocol c \<noteq> m2_fwer_protocol_hash (m2_py E) \<or>
         mc_hash c \<noteq> recompute_result_hash (m2_py E) c
      then Inl (Conflict ''M2a Multiple Comparison is not a valid scripted FWER result'')
      else bind_res (lock_round s i) (\<lambda>r.
        case comparison_of s i of
          Some w \<Rightarrow>
            if same_comparison E c w then Inr (s, c)
            else Inl (Conflict ''M2a Multiple Comparison already has other inputs'')
        | None \<Rightarrow>
            if sr_state r \<noteq> R_HOLDOUT_BARRIER \<or>
               map_option br_id (barrier_of s i PH_HOLDOUT) \<noteq> Some (mc_barrier c) \<or>
               sr_holdout r \<noteq> Some (mc_family c) \<or> \<not> feq (sr_alpha r) (mc_family_alpha c)
            then Inl (Conflict ''M2a Multiple Comparison changed its Holdout authority'')
            else bind_res (insert_comparison
                \<lparr>cw_round = i, cw_payload = c, cw_hash = doc_hash E (comparison_json E c)\<rparr> s) (\<lambda>s1.
              Inr (fst (update_round i (\<lambda>q. q) ''m2_multiple_comparison_recorded''
                (jobj [(''round_id'', JStr i), (''multiple_comparison_id'', JStr (mc_id c)),
                   (''result_hash'', JStr (mc_hash c))]) r s1), c))))"

section \<open>The evidence of a finished round\<close>

text \<open>\<open>round_budget_ledger_document\<close> and its hash, orchestrator/search_round.py\<close>

definition usage_json :: "usage \<Rightarrow> json" where
  "usage_json u = jobj
     [(''candidates'', JInt (u_candidates u)), (''build_attempts'', JInt (u_builds u)),
      (''correctness_attempts'', JInt (u_correctness u)), (''search_samples'', JInt (u_search u)),
      (''holdout_samples'', JInt (u_holdout u)), (''wall_seconds'', JFloat (u_wall u)),
      (''exclusive_lease_seconds'', JFloat (u_lease u))]"

fun reservation_state_value :: "reservation_state \<Rightarrow> string" where
  "reservation_state_value BR_RESERVED = ''reserved''"
| "reservation_state_value BR_SETTLED = ''settled''"
| "reservation_state_value BR_RELEASED = ''released''"

definition reservation_document :: "reservation \<Rightarrow> json" where
  "reservation_document v = jobj
     [(''reservation_id'', JStr (v_id v)), (''round_id'', JStr (v_round v)), (''job_id'', JStr (v_job v)),
      (''attempt'', JInt (v_attempt v)), (''candidate_id'', jstr_opt (v_candidate v)),
      (''phase'', jstr_opt (map_option phase_value' (v_phase v))), (''planned'', usage_json (v_planned v)),
      (''state'', JStr (reservation_state_value (v_state v))), (''idempotency_key'', JStr (v_key v))]"

definition entry_document :: "m2_lib \<Rightarrow> ledger_entry \<Rightarrow> json" where
  "entry_document E g = jobj
     [(''ledger_entry_id'', JStr (g_id g)), (''reservation_id'', JStr (g_reservation g)),
      (''round_id'', JStr (g_round g)), (''entry_type'', JStr (entry_type_value (g_type g))),
      (''reserved'', usage_json (g_reserved g)), (''actual'', usage_json (g_actual g)),
      (''lease_held_seconds'', JFloat (g_held g)), (''harness_active_seconds'', JFloat (g_active g)),
      (''raw_usage_evidence_hash'', JStr (g_evidence g)), (''idempotency_key'', JStr (g_key g)),
      (''created_at'', JStr (ml_iso E (Aware (g_created g))))]"

definition round_budget_ledger_hash ::
    "m2_lib \<Rightarrow> uuid \<Rightarrow> reservation list \<Rightarrow> ledger_entry list \<Rightarrow> string" where
  "round_budget_ledger_hash E i vs gs = doc_hash E (jobj
     [(''schema_version'', JStr ''m2a-round-budget-ledger-v1''), (''round_id'', JStr i),
      (''reservations'', JArr (map reservation_document (sort_key v_id vs))),
      (''ledger_entries'', JArr (map (entry_document E) (sort_key g_id gs)))])"

definition durable_ledger_hash :: "m2_lib \<Rightarrow> m2_db \<Rightarrow> uuid \<Rightarrow> string" where
  "durable_ledger_hash E d i = round_budget_ledger_hash E i
     (sort_key v_id (filter (\<lambda>v. v_round v = i) (reservations d)))
     (sort_key g_id (filter (\<lambda>g. g_round g = i) (ledger d)))"

definition same_bundle :: "m2_lib \<Rightarrow> evidence_bundle \<Rightarrow> bundle_row \<Rightarrow> bool" where
  "same_bundle E b w \<longleftrightarrow>
     eb_id (ew_payload w) = eb_id b \<and> ew_hash w = doc_hash E (bundle_json E b) \<and>
     bundle_json E (ew_payload w) = bundle_json E b"

text \<open>The terminal path that the bundle claims against the durable rows.\<close>

definition terminal_path ::
    "evidence_bundle \<Rightarrow> search_round \<Rightarrow> decision \<Rightarrow> barrier option \<Rightarrow> comparison option \<Rightarrow> error + unit" where
  "terminal_path b r x hold cmp =
     (if eb_reason b = TR_NO_PROMOTABLE_CANDIDATE
      then guard_err (sr_state r = R_SEARCH_BARRIER \<and>
          bb_outcome (sd_barrier x) = NO_PROMOTABLE_CANDIDATE \<and> hold = None \<and> cmp = None)
        (Conflict ''M2a zero-promotion terminal path is incomplete'')
      else guard_err (sr_state r = R_HOLDOUT_BARRIER \<and>
          bb_outcome (sd_barrier x) = MEMBERS_PROMOTED \<and> hold \<noteq> None \<and> cmp \<noteq> None)
        (Conflict ''M2a Holdout terminal path is incomplete''))"

text \<open>\<open>except M2RoundEvidenceError as error: raise Conflict(...)\<close>\<close>

definition finalizer_conflict :: "error + unit \<Rightarrow> error + unit" where
  "finalizer_conflict m = (case m of Inl (M2RoundEvidenceError code) \<Rightarrow> Inl (Conflict code) | _ \<Rightarrow> m)"

text \<open>\<open>verify\<close> is the configured finalizer, \<open>None\<close> where the server has none.\<close>

type_synonym finalizer =
  "search_round \<Rightarrow> decision \<Rightarrow> evidence_bundle \<Rightarrow> barrier option \<Rightarrow> comparison option \<Rightarrow> error + unit"

definition finalize_scripted_search_round ::
    "m2_lib \<Rightarrow> finalizer option \<Rightarrow> evidence_bundle \<Rightarrow> round_store \<Rightarrow>
     error + (round_store \<times> search_round)" where
  "finalize_scripted_search_round E verify b s =
     (let i = eb_round b in
      if eb_mode b \<noteq> RM_SCRIPTED \<or> \<not> eb_synthetic b
      then Inl (Conflict ''M2a Scripted Finalizer accepts only non-releasable synthetic evidence'')
      else bind_res (lock_round s i) (\<lambda>r.
        case bundle_of s i of
          Some w \<Rightarrow>
            if \<not> same_bundle E b w
            then Inl (Conflict ''M2a Scripted Round already finalized with other evidence'')
            else if sr_state r \<noteq> R_SCRIPTED_COMPLETED
            then Inl (Conflict ''M2a Scripted Evidence exists without its terminal state'')
            else Inr (s, r)
        | None \<Rightarrow>
            (case verify of
               None \<Rightarrow> Inl (Conflict ''M2a Scripted Finalizer is not configured'')
             | Some check \<Rightarrow>
                 (case barrier_of s i PH_SEARCH of
                    None \<Rightarrow> Inl (Conflict ''M2a Scripted Finalizer requires a durable Search Barrier'')
                  | Some w \<Rightarrow>
                      bind_res (decision_of w) (\<lambda>x.
                      bind_res (case barrier_of s i PH_HOLDOUT of None \<Rightarrow> Inr None
                          | Some h \<Rightarrow> bind_res (holdout_of h) (\<lambda>y. Inr (Some y))) (\<lambda>hold.
                      let cmp = map_option cw_payload (comparison_of s i) in
                      bind_res (terminal_path b r x hold cmp) (\<lambda>_.
                      if list_ex (\<lambda>v. v_round v = i \<and> v_state v = BR_RESERVED) (reservations (st_m2 s))
                      then Inl (Conflict
                        ''M2a Scripted Finalizer requires every Budget reservation terminal'')
                      else if eb_ledger b \<noteq> durable_ledger_hash E (st_m2 s) i
                      then Inl (Conflict ''M2a Round Evidence changed the durable Budget Ledger'')
                      else bind_res (make_search_round r) (\<lambda>r1.
                        bind_res (finalizer_conflict (check r1 x b hold cmp)) (\<lambda>_.
                        bind_res (insert_bundle
                            \<lparr>ew_round = i, ew_payload = b, ew_hash = doc_hash E (bundle_json E b)\<rparr> s) (\<lambda>s1.
                        let (s2, r2) = update_round i (\<lambda>q. q\<lparr>sr_state := R_SCRIPTED_COMPLETED\<rparr>)
                              ''m2_scripted_round_completed''
                              (jobj [(''round_id'', JStr i), (''round_evidence_bundle_id'', JStr (eb_id b)),
                                 (''terminal_reason'', JStr (reason_value (eb_reason b))),
                                 (''automatic_release_allowed'', JBool False)]) r
                              (in_m2 (in_base (move_task (sr_task r) T_COMPLETED)) s1)
                        in Inr (s2, r2)))))))))))"

section \<open>Cancelling\<close>

definition cancel_scripted_search_round ::
    "time \<Rightarrow> uuid \<Rightarrow> string \<Rightarrow> round_store \<Rightarrow> error + (round_store \<times> search_round)" where
  "cancel_scripted_search_round now i reason s =
     bind_res (lock_round s i) (\<lambda>r.
     if sr_mode r \<noteq> RM_SCRIPTED then Inl (Conflict ''M2a cancel accepts only a Scripted Round'')
     else if sr_state r = R_CANCELLED then Inr (s, r)
     else if sr_state r \<in> {R_SCRIPTED_COMPLETED, R_COMPLETED, R_REJECTED}
     then Inl (Conflict ''terminal M2a SearchRound cannot be cancelled'')
     else if bundle_of s i \<noteq> None
     then Inl (Conflict ''M2a Round Evidence exists without a terminal Round state'')
     else
       let d = base (st_m2 s);
           own = (\<lambda>j. j_task j = sr_task r)
       in if list_ex (\<lambda>v. v_round v = i \<and> v_state v = BR_RESERVED) (reservations (st_m2 s)) \<or>
             list_ex (\<lambda>j. own j \<and> j_state j = J_RUNNING) (jobs d)
          then Inl (Conflict
            ''M2a cancel requires running Jobs cleaned and Budget reservations terminal'')
          else
            let P = (\<lambda>j. own j \<and> j_state j = J_QUEUED);
                queued = filter P (jobs d);
                err = jobj [(''code'', JStr ''round_cancelled''), (''message'', JStr reason)];
                cancel = (\<lambda>j. j\<lparr>j_state := J_CANCELLED, j_error := Some err, j_finished_at := Some now\<rparr>);
                note = (\<lambda>j. log_job (j_id j) ''cancelled''
                  (jobj [(''reason'', JStr reason), (''scope'', JStr ''search_round'')]));
                reject = (\<lambda>b. b\<lparr>candidates := update_where
                  (\<lambda>c. c_round c = i \<and> c_state c \<notin> {C_REJECTED, C_BUILD_FAILED})
                  (\<lambda>c. c\<lparr>c_state := C_REJECTED\<rparr>) (candidates b)\<rparr>)
            in Inr (update_round i (\<lambda>q. q\<lparr>sr_state := R_CANCELLED\<rparr>) ''m2_search_round_cancelled''
                 (jobj [(''round_id'', JStr i), (''reason'', JStr reason),
                    (''queued_job_count'', JInt (int (length queued)))]) r
                 (in_m2 (in_base (move_task (sr_task r) T_CANCELLED \<circ> reject \<circ> fold note queued \<circ>
                    set_jobs P cancel)) s)))"

section \<open>Auditing\<close>

datatype next_action =
    NA_none | NA_finalize_scripted_round | NA_record_multiple_comparison | NA_close_holdout_barrier
  | NA_record_holdout_reveal | NA_close_search_barrier | NA_freeze_artifact_family
  | NA_await_build_terminals | NA_close_intake | NA_await_candidate_intake

text \<open>The state that the durable rows of a round imply, with the next action.\<close>

definition implied_state ::
    "search_round \<Rightarrow> member list \<Rightarrow> decision option \<Rightarrow> barrier option \<Rightarrow> reveal option \<Rightarrow>
     comparison option \<Rightarrow> evidence_bundle option \<Rightarrow> round_state \<times> next_action" where
  "implied_state r ms search hold reveal cmp evidence =
     (if evidence \<noteq> None then (R_SCRIPTED_COMPLETED, NA_none)
      else if cmp \<noteq> None then (R_HOLDOUT_BARRIER, NA_finalize_scripted_round)
      else if hold \<noteq> None then (R_HOLDOUT_BARRIER, NA_record_multiple_comparison)
      else if reveal \<noteq> None then (R_HOLDOUT_MEASURING, NA_close_holdout_barrier)
      else case search of
        Some x \<Rightarrow> (R_SEARCH_BARRIER,
          if bb_promoted (sd_barrier x) \<noteq> [] then NA_record_holdout_reveal else NA_finalize_scripted_round)
      | None \<Rightarrow>
          if sr_artifacts r \<noteq> None then (R_CORRECTNESS, NA_close_search_barrier)
          else if sr_family r \<noteq> None then
            (let terminal_count = length (filter (\<lambda>m. mb_state m \<in> set BUILD_TERMINAL_STATES) ms) in
             (if terminal_count \<noteq> 0 then R_BUILDING else R_INTAKE_CLOSED,
              if int terminal_count = sr_declared r then NA_freeze_artifact_family
              else NA_await_build_terminals))
          else (R_INTAKE_OPEN,
            if int (length ms) = sr_declared r then NA_close_intake else NA_await_candidate_intake))"

definition reconcile_scripted_search_round ::
    "uuid \<Rightarrow> round_store \<Rightarrow> error + (search_round \<times> next_action)" where
  "reconcile_scripted_search_round i s =
     bind_res (lock_round s i) (\<lambda>r.
     if sr_mode r \<noteq> RM_SCRIPTED then Inl (Conflict ''M2a reconcile accepts only a Scripted Round'')
     else case find_task (base (st_m2 s)) (sr_task r) of
       None \<Rightarrow> Inl (Conflict ''M2a SearchRound lost its durable Task'')
     | Some t \<Rightarrow>
         if sr_state r = R_CANCELLED
         then (if t_state t \<noteq> T_CANCELLED
               then Inl (Conflict ''cancelled M2a Round has a non-cancelled Task'')
               else Inr (r, NA_none))
         else
           bind_res (case barrier_of s i PH_SEARCH of None \<Rightarrow> Inr None
               | Some w \<Rightarrow> bind_res (decision_of w) (\<lambda>x. Inr (Some x))) (\<lambda>search.
           bind_res (case barrier_of s i PH_HOLDOUT of None \<Rightarrow> Inr None
               | Some w \<Rightarrow> bind_res (holdout_of w) (\<lambda>b. Inr (Some b))) (\<lambda>hold.
           let reveal = map_option rw_payload (reveal_of s i);
               cmp = map_option cw_payload (comparison_of s i);
               evidence = map_option ew_payload (bundle_of s i);
               ms = filter (\<lambda>m. mb_round m = i) (members (st_m2 s))
           in if (hold \<noteq> None \<and> (search = None \<or> reveal = None)) \<or>
                 (reveal \<noteq> None \<and> (case search of None \<Rightarrow> True
                    | Some x \<Rightarrow> bb_promoted (sd_barrier x) = [])) \<or>
                 (cmp \<noteq> None \<and> hold = None) \<or> (evidence \<noteq> None \<and> search = None)
              then Inl (Conflict ''M2a durable authority graph is incomplete'')
              else
                let (expected, action) = implied_state r ms search hold reveal cmp evidence in
                if sr_state r \<noteq> expected
                then Inl (Conflict ''M2a Round state disagrees with its durable authority graph'')
                else if t_state t \<noteq>
                  (if expected = R_SCRIPTED_COMPLETED then T_COMPLETED else T_CREATED)
                then Inl (Conflict ''M2a Task state disagrees with its Round authority'')
                else Inr (r, action))))"

end
