(* ===== verification/BarrierInv.thy ===== *)
theory BarrierInv
  imports BarrierStatistics "HOL-Library.Multiset"
begin

text \<open>
  The facts the properties of the barriers rest on: what the checked collections contain,
  that sorting by a key without ties does not see the order of its input, and the parts of
  a search barrier that closed.
\<close>

section \<open>Sorting without ties\<close>

lemma sort_key_unique:
  assumes "mset xs = mset ys" "inj_on f (set xs)"
  shows "sort_key f xs = sort_key f ys"
proof (rule properties_for_sort_key)
  show "mset (sort_key f ys) = mset xs" using assms(1) by simp
  show "sorted (map f (sort_key f ys))" by simp
  fix k assume "k \<in> set (sort_key f ys)"
  then have k: "k \<in> set xs" "set ys = set xs" using assms(1) by (auto dest: mset_eq_setD)
  have "filter (\<lambda>x. f k = f x) zs = replicate (count (mset zs) k) k" if "set zs = set xs" for zs
    using that
  proof -
    have "filter (\<lambda>x. f k = f x) zs = filter (\<lambda>x. k = x) zs"
      by (rule filter_cong) (use that k assms(2) in \<open>auto simp: inj_on_def\<close>)
    moreover have "filter (\<lambda>x. k = x) zs = replicate (count (mset zs) k) k"
      by (induction zs) auto
    ultimately show ?thesis by simp
  qed
  with k show "filter (\<lambda>x. f k = f x) (sort_key f ys) = filter (\<lambda>x. f k = f x) xs"
    using assms(1) by simp
qed

lemma sort_unique: "mset xs = mset ys \<Longrightarrow> sort xs = sort ys"
  by (rule sort_key_unique) auto

lemma distinct_mset_eq: "mset xs = mset ys \<Longrightarrow> distinct (map f xs) = distinct (map f ys)"
  by (metis distinct_count_atmost_1 mset_map set_mset_mset)

section \<open>Members and statistics\<close>

lemma ordered_members_Inr:
  "ordered_members ms = Inr items \<longleftrightarrow>
     items = sort_key bm_candidate ms \<and> ms \<noteq> [] \<and> distinct (map bm_candidate ms)"
  using distinct_mset_eq [of "sort_key bm_candidate ms" ms bm_candidate]
  by (auto simp: ordered_members_def Let_def)
    (metis length_0_conv length_sort)

lemma ordered_members_perm:
  assumes "mset ms = mset ms'"
  shows "ordered_members ms = ordered_members ms'"
proof (cases "distinct (map bm_candidate ms)")
  case True
  then have "inj_on bm_candidate (set ms)" by (simp add: distinct_map)
  from sort_key_unique [OF assms this] show ?thesis by (simp add: ordered_members_def)
next
  case False
  with distinct_mset_eq [OF assms, of bm_candidate] have "\<not> distinct (map bm_candidate ms')" by simp
  with False distinct_mset_eq [of "sort_key bm_candidate ms" ms bm_candidate]
    distinct_mset_eq [of "sort_key bm_candidate ms'" ms' bm_candidate]
  show ?thesis by (simp add: ordered_members_def Let_def)
qed

lemma collect_statistics_eq:
  "collect_statistics acc ss =
     (if distinct (map ss_candidate ss) \<and> fst ` set acc \<inter> ss_candidate ` set ss = {}
      then Inr (acc @ map (\<lambda>s. (ss_candidate s, s)) ss)
      else Inl (M2EvaluationError ''statistics_candidate_duplicate''))"
  by (induction ss arbitrary: acc) auto

lemma statistics_by_candidate_eq:
  "statistics_by_candidate ss =
     (if distinct (map ss_candidate ss) then Inr (map (\<lambda>s. (ss_candidate s, s)) ss)
      else Inl (M2EvaluationError ''statistics_candidate_duplicate''))"
  by (simp add: statistics_by_candidate_def collect_statistics_eq)

lemma member_by_id_unique:
  "distinct (map bm_candidate ms) \<Longrightarrow> m \<in> set ms \<Longrightarrow> member_by_id ms (bm_candidate m) = Some m"
  unfolding member_by_id_def by (rule find_key_unique) (simp_all add: rev_map flip: rev_map)

lemma member_by_idD: "member_by_id ms i = Some m \<Longrightarrow> m \<in> set ms \<and> bm_candidate m = i"
  by (auto simp: member_by_id_def dest: find_SomeD)

section \<open>Eligible candidates\<close>

text \<open>The score of a candidate that may be promoted.\<close>

definition eligible :: "statistics_input \<Rightarrow> pyfloat \<Rightarrow> bool" where
  "eligible s mean \<longleftrightarrow> statistics_valid s \<and> fmean (ss_effects s) = Inr mean \<and> fless (Fin 0) mean"

definition score_of :: "statistics_input \<Rightarrow> pyfloat option" where
  "score_of s =
     (if statistics_valid s then
        (case fmean (ss_effects s) of Inl e \<Rightarrow> None | Inr m \<Rightarrow> if fless (Fin 0) m then Some m else None)
      else None)"

lemma score_of_eq: "score_of s = Some m \<longleftrightarrow> eligible s m"
  by (auto simp: score_of_def eligible_def split: sum.splits)

definition scores :: "statistics_map \<Rightarrow> (uuid \<times> pyfloat) list" where
  "scores st = map (\<lambda>(i, s). (i, the (score_of s))) (filter (\<lambda>(i, s). score_of s \<noteq> None) st)"

definition overflows :: "statistics_map \<Rightarrow> bool" where
  "overflows st \<longleftrightarrow> (\<exists>(i, s) \<in> set st. statistics_valid s \<and> (\<exists>e. fmean (ss_effects s) = Inl e))"

lemma overflows_simps [simp]:
  "\<not> overflows []"
  "overflows ((i, s) # st) \<longleftrightarrow> statistics_valid s \<and> (\<exists>e. fmean (ss_effects s) = Inl e) \<or> overflows st"
  by (auto simp: overflows_def)

lemma scores_simps [simp]:
  "scores [] = []"
  "scores ((i, s) # st) = (case score_of s of None \<Rightarrow> scores st | Some m \<Rightarrow> (i, m) # scores st)"
  by (auto simp: scores_def split: option.split)

lemma eligible_candidates_eq:
  "\<forall>x \<in> set st. ss_effects (snd x) \<noteq> [] \<Longrightarrow>
   eligible_candidates st = (if overflows st then Inl OverflowError else Inr (scores st))"
proof (induction st)
  case (Cons x st)
  obtain i s where x: "x = (i, s)" by fastforce
  from Cons have IH: "eligible_candidates st = (if overflows st then Inl OverflowError else Inr (scores st))"
    by simp
  have "eligible_candidates ((i, s) # st) =
      (if overflows ((i, s) # st) then Inl OverflowError else Inr (scores ((i, s) # st)))"
  proof (cases "fmean (ss_effects s)")
    case (Inl e)
    with Cons.prems x have "e = OverflowError" using fmean_error [of "ss_effects s" e] by simp
    with Inl IH show ?thesis by (simp add: score_of_def)
  next
    case (Inr m)
    with IH show ?thesis by (simp add: score_of_def)
  qed
  then show ?case by (simp only: x)
qed simp

lemma scores_mem: "(i, m) \<in> set (scores st) \<longleftrightarrow> (\<exists>s. (i, s) \<in> set st \<and> eligible s m)"
  by (force simp: scores_def score_of_eq [symmetric] image_iff)

lemma scores_distinct: "distinct (map fst st) \<Longrightarrow> distinct (map fst (scores st))"
proof (induction st)
  case (Cons x st)
  obtain i s where x: "x = (i, s)" by fastforce
  have "fst ` set (scores st) \<subseteq> fst ` set st" by (force simp: scores_mem)
  with Cons show ?case by (auto simp: x split: option.split)
qed simp

lemma scores_mset: "mset st = mset st' \<Longrightarrow> mset (scores st) = mset (scores st')"
  by (simp only: scores_def mset_map mset_filter)

section \<open>Promotion\<close>

definition promotion_key :: "uuid \<times> pyfloat \<Rightarrow> pyfloat \<times> uuid" where
  "promotion_key = (\<lambda>(i, mean). (fneg mean, i))"

lemma promotion_key_inj: "inj promotion_key"
  by (auto simp: inj_def promotion_key_def fneg_inject)

lemma select_promoted_eq: "select_promoted xs k = map fst (take (nat k) (sort_key promotion_key xs))"
  by (simp add: select_promoted_def promotion_key_def)

lemma select_promoted_perm: "mset xs = mset ys \<Longrightarrow> select_promoted xs k = select_promoted ys k"
  unfolding select_promoted_eq
  by (metis sort_key_unique promotion_key_inj inj_on_subset subset_UNIV)

text \<open>The first elements of a list sorted by a key come before all others.\<close>

lemma take_sorted_first:
  assumes "x \<in> set (take k (sort_key f xs))" "y \<in> set xs" "y \<notin> set (take k (sort_key f xs))"
  shows "f x \<le> f y"
proof -
  let ?ys = "sort_key f xs"
  have "y \<in> set ?ys" using assms(2) by simp
  then have "y \<in> set (take k ?ys) \<union> set (drop k ?ys)" by (metis append_take_drop_id set_append)
  with assms(3) have "y \<in> set (drop k ?ys)" by blast
  moreover have "sorted (map f (take k ?ys) @ map f (drop k ?ys))"
    by (simp flip: map_append)
  ultimately show ?thesis using assms(1) by (auto simp: sorted_append)
qed

lemma select_promoted_distinct:
  assumes "distinct (map fst xs)"
  shows "distinct (select_promoted xs k)"
proof -
  have "distinct (map fst (sort_key promotion_key xs))"
    using assms distinct_mset_eq [of "sort_key promotion_key xs" xs fst] by simp
  then show ?thesis unfolding select_promoted_eq by (simp add: take_map [symmetric])
qed

lemma select_promoted_length: "length (select_promoted xs k) = min (nat k) (length xs)"
  by (simp add: select_promoted_eq)

lemma select_promoted_mem: "i \<in> set (select_promoted xs k) \<Longrightarrow> \<exists>m. (i, m) \<in> set xs"
  by (auto simp: select_promoted_eq dest!: in_set_takeD)

lemma select_promoted_best:
  assumes "distinct (map fst xs)" "i \<in> set (select_promoted xs k)" "(i, m) \<in> set xs"
    "(i', m') \<in> set xs" "i' \<notin> set (select_promoted xs k)" "m \<noteq> NaN" "m' \<noteq> NaN"
  shows "m' < m \<or> (m' = m \<and> i < i')"
proof -
  let ?T = "take (nat k) (sort_key promotion_key xs)"
  from assms(2) obtain n where n: "(i, n) \<in> set ?T" by (auto simp: select_promoted_eq)
  then have "(i, n) \<in> set xs" by (auto dest: in_set_takeD)
  with assms(1,3) have "n = m" by (metis eq_key_imp_eq_value)
  moreover from assms(5) have "(i', m') \<notin> set ?T" by (force simp: select_promoted_eq)
  ultimately have "promotion_key (i, m) \<le> promotion_key (i', m')"
    using take_sorted_first [of "(i, n)" "nat k" promotion_key xs "(i', m')"] n assms(4) by simp
  moreover have "i \<noteq> i'" using assms(2,5) by blast
  ultimately show ?thesis
    using fneg_less [OF assms(6,7)] fneg_inject [of m m'] by (auto simp: promotion_key_def)
qed

section \<open>A search barrier that closed\<close>

definition statistics_map_of :: "statistics_input list \<Rightarrow> statistics_map" where
  "statistics_map_of ss = map (\<lambda>s. (ss_candidate s, s)) ss"

lemma statistics_map_of_simps [simp]:
  "map fst (statistics_map_of ss) = map ss_candidate ss"
  "map snd (statistics_map_of ss) = ss"
  "(i, s) \<in> set (statistics_map_of ss) \<longleftrightarrow> s \<in> set ss \<and> i = ss_candidate s"
  by (auto simp: statistics_map_of_def comp_def)

definition search_promotions :: "search_round \<Rightarrow> statistics_input list \<Rightarrow> uuid list" where
  "search_promotions r ss = sort (select_promoted (scores (statistics_map_of ss)) (sr_promoted r))"

text \<open>What the guards of a search barrier ask for, in the order of the code.\<close>

definition search_ready ::
    "search_round \<Rightarrow> uuid list \<Rightarrow> barrier_member list \<Rightarrow> statistics_input list \<Rightarrow> bool" where
  "search_ready r expected ms ss \<longleftrightarrow>
     sr_mode r = RM_SCRIPTED \<and> sr_state r = R_SEARCH_BARRIER \<and> sr_family r \<noteq> None \<and> sr_artifacts r \<noteq> None \<and>
     expected \<noteq> [] \<and> distinct expected \<and> int (length expected) = sr_declared r \<and>
     distinct (map bm_candidate ms) \<and> map bm_candidate (sort_key bm_candidate ms) = sort expected \<and>
     list_all bm_synthetic ms \<and> distinct (map ss_candidate ss) \<and>
     ss_candidate ` set ss = bm_candidate ` {m \<in> set ms. bm_state m = RC_SEARCH_MEASURED} \<and>
     (\<forall>s \<in> set ss. \<exists>m \<in> set ms. bm_candidate m = ss_candidate s \<and>
        bm_receipt m = Some (ss_receipt s) \<and> bm_correctness m = Some (ss_correctness s)) \<and>
     distinct (map ss_receipt ss) \<and> distinct (map ss_raw ss) \<and> distinct (map ss_baseline ss) \<and>
     \<not> overflows (statistics_map_of ss)"

definition search_summary_of ::
    "search_round \<Rightarrow> string \<Rightarrow> barrier_member list \<Rightarrow> statistics_input list \<Rightarrow> search_summary" where
  "search_summary_of r arts ms ss =
     \<lparr>su_round = sr_id r, su_artifacts = arts, su_rule = sr_rule r, su_members = sort_key bm_candidate ms,
      su_statistics = map snd (sort_key fst (statistics_map_of ss)), su_promoted = search_promotions r ss\<rparr>"

definition search_barrier_of ::
    "pylib \<Rightarrow> search_round \<Rightarrow> string \<Rightarrow> barrier_member list \<Rightarrow> statistics_input list \<Rightarrow>
     string \<Rightarrow> stamp \<Rightarrow> string \<Rightarrow> barrier" where
  "search_barrier_of L r arts ms ss closed_by closed_at key =
     (let h = lib_digest L (summary_json (search_summary_of r arts ms ss)) in
      \<lparr>bb_id = lib_uuid5 L (''hcuopt:m2-search-barrier:'' @ h), bb_round = sr_id r,
       bb_mode = RM_SCRIPTED, bb_synthetic = True, bb_phase = PH_SEARCH, bb_family = arts,
       bb_expected = int (length ms), bb_members = sort_key bm_candidate ms,
       bb_rule_version = M2_SEARCH_SELECTION_RULE_VERSION, bb_rule = sr_rule r,
       bb_promoted = search_promotions r ss,
       bb_outcome = (if search_promotions r ss \<noteq> [] then MEMBERS_PROMOTED else NO_PROMOTABLE_CANDIDATE),
       bb_summary = h, bb_closed_by = closed_by, bb_closed_at = closed_at, bb_key = key\<rparr>)"

definition search_finish ::
    "pylib \<Rightarrow> search_round \<Rightarrow> string \<Rightarrow> barrier_member list \<Rightarrow> statistics_input list \<Rightarrow>
     string \<Rightarrow> stamp \<Rightarrow> string \<Rightarrow> error + decision" where
  "search_finish L r arts ms ss closed_by closed_at key =
     bind_res (make_summary (search_summary_of r arts ms ss)) (\<lambda>summary.
     bind_res (make_barrier (search_barrier_of L r arts ms ss closed_by closed_at key)) (\<lambda>barrier.
     bind_res
       (if search_promotions r ss \<noteq> []
        then bind_res (map_res (\<lambda>i. case member_by_id (sort_key bm_candidate ms) i of Some m \<Rightarrow> Inr m
                 | None \<Rightarrow> Inl (KeyError ''by_id'')) (search_promotions r ss)) (\<lambda>ms.
               bind_res (holdout_family_hash L r ms) (\<lambda>h. Inr (Some h)))
        else Inr None) (\<lambda>holdout.
     make_decision L \<lparr>sd_barrier = barrier, sd_summary = summary, sd_holdout = holdout\<rparr>)))"

lemma bind_statistics_eq:
  assumes "distinct (map bm_candidate ms)"
  shows "bind_statistics_to_members (statistics_map_of ss) ms = Inr u \<longleftrightarrow>
    (\<forall>s \<in> set ss. \<exists>m \<in> set ms. bm_candidate m = ss_candidate s \<and>
        bm_receipt m = Some (ss_receipt s) \<and> bm_correctness m = Some (ss_correctness s))"
proof -
  have m: "(case member_by_id ms i of None \<Rightarrow> False | Some m \<Rightarrow> Q m) \<longleftrightarrow>
      (\<exists>m \<in> set ms. bm_candidate m = i \<and> Q m)" for i Q
  proof (cases "member_by_id ms i")
    case None
    then show ?thesis using member_by_id_unique [OF assms] by auto
  next
    case (Some m)
    have "x = m" if "x \<in> set ms" "bm_candidate x = i" for x
      using member_by_id_unique [OF assms that(1)] that(2) Some by simp
    with member_by_idD [OF Some] show ?thesis by (auto simp: Some)
  qed
  show ?thesis
    unfolding bind_statistics_to_members_def m
    by (auto simp: list_all_iff statistics_map_of_def eq_commute [of "Some x" for x])
qed

lemma sort_key_props:
  "distinct (map f (sort_key f xs)) = distinct (map f xs)"
  "list_all P (sort_key f xs) = list_all P xs"
  using distinct_mset_eq [of "sort_key f xs" xs f] by (auto simp: list_all_iff)

text \<open>
  A frozen model is built by its constructor, which checks the fields and changes none, so
  an instance passes its own checks again.
\<close>

locale frozen_model =
  fixes make :: "'a \<Rightarrow> error + 'a"
  assumes built: "make x = Inr y \<Longrightarrow> y = x"
begin

lemma built_again: "make x = Inr y \<Longrightarrow> make y = Inr y"
  using built by blast

end

interpretation summary_model: frozen_model make_summary
  by unfold_locales (auto simp: make_summary_def bind_res_eq_Inr split: if_splits)

interpretation barrier_model: frozen_model make_barrier
  by unfold_locales (auto simp: make_barrier_def bind_res_eq_Inr split: if_splits)

interpretation decision_model: frozen_model "make_decision L" for L
  by unfold_locales (auto simp: make_decision_def split: if_splits)

interpretation adjusted_model: frozen_model make_adjusted
  by unfold_locales (auto simp: make_adjusted_def bind_res_eq_Inr split: if_splits)

interpretation comparison_model: frozen_model make_comparison
  by unfold_locales (auto simp: make_comparison_def bind_res_eq_Inr split: if_splits)

lemmas made_same = summary_model.built barrier_model.built decision_model.built adjusted_model.built
  comparison_model.built

lemma close_search_ready:
  assumes "search_ready r expected ms ss" "sr_artifacts r = Some arts" "\<forall>s \<in> set ss. ss_effects s \<noteq> []"
  shows "close_scripted_search_barrier L r expected ms ss closed_by closed_at key =
    search_finish L r arts ms ss closed_by closed_at key"
proof -
  let ?items = "sort_key bm_candidate ms"
  obtain fam where fam: "sr_family r = Some fam" using assms(1) by (auto simp: search_ready_def)
  have ne: "ms \<noteq> []" using assms(1) by (auto simp: search_ready_def dest: arg_cong [where f = length])
  have om: "ordered_members ms = Inr ?items"
    using assms(1) ne by (simp add: ordered_members_Inr search_ready_def)
  have fm: "expected_candidate_family expected (sr_declared r) c = Inr (sort expected)" for c
    using assms(1) by (auto simp: expected_candidate_family_def search_ready_def Let_def neq_Nil_conv)
  have st: "statistics_by_candidate ss = Inr (statistics_map_of ss)"
    using assms(1) by (simp add: statistics_by_candidate_eq search_ready_def statistics_map_of_def)
  have bd: "bind_statistics_to_members (statistics_map_of ss) ?items = Inr ()"
    using assms(1) by (subst bind_statistics_eq) (auto simp: search_ready_def sort_key_props)
  have el: "eligible_candidates (statistics_map_of ss) = Inr (scores (statistics_map_of ss))"
    using assms(1,3) by (subst eligible_candidates_eq) (auto simp: search_ready_def)
  have fs: "fst ` set (statistics_map_of ss) = ss_candidate ` set ss"
    by (force simp: statistics_map_of_def)
  have ru: "reject_reused_statistics_identities (map snd (statistics_map_of ss)) = Inr ()"
    using assms(1) by (simp add: reject_reused_statistics_identities_def search_ready_def)
  have g: "require_scripted_round r R_SEARCH_BARRIER = Inr ()"
    "guard_err (int (length expected) = sr_declared r) e1 = Inr ()"
    "guard_err (map bm_candidate ?items = sort expected) e2 = Inr ()"
    "guard_err (list_all bm_synthetic ?items) e3 = Inr ()"
    "guard_err (fst ` set (statistics_map_of ss) =
        bm_candidate ` {m \<in> set ?items. bm_state m = RC_SEARCH_MEASURED}) e4 = Inr ()" for e1 e2 e3 e4
    using assms(1) fs by (simp_all add: search_ready_def require_scripted_round_def sort_key_props)
  note su = search_promotions_def [symmetric] search_summary_of_def [symmetric]
  show ?thesis
  proof (cases "make_summary (search_summary_of r arts ms ss)")
    case (Inl e)
    then show ?thesis
      unfolding close_scripted_search_barrier_def fam assms(2) length_sort g fm om st bd el ru
        bind_res_simps option.case prod.case Let_def search_finish_def su by simp
  next
    case (Inr v)
    with made_same(1) have m: "make_summary (search_summary_of r arts ms ss) = Inr (search_summary_of r arts ms ss)"
      by blast
    show ?thesis
      unfolding close_scripted_search_barrier_def fam assms(2) length_sort g fm om st bd el ru
        bind_res_simps option.case prod.case Let_def search_finish_def su m search_barrier_of_def
      by (rule refl)
  qed
qed

lemma expected_family_Inr:
  "expected_candidate_family ids k c = Inr items \<longleftrightarrow>
     items = sort ids \<and> ids \<noteq> [] \<and> int (length ids) \<le> k \<and> distinct ids"
proof -
  have "1 \<le> int (length ids) \<longleftrightarrow> ids \<noteq> []" by (cases ids) auto
  then show ?thesis by (auto simp: expected_candidate_family_def Let_def)
qed

lemma close_search_guards:
  assumes c: "close_scripted_search_barrier L r expected ms ss closed_by closed_at key = Inr x"
    and ne: "\<forall>s \<in> set ss. ss_effects s \<noteq> []"
  shows "search_ready r expected ms ss"
proof -
  note B = bind_res_eq_Inr guard_err_eq_Inr
  have scripted: "sr_mode r = RM_SCRIPTED \<and> sr_state r = R_SEARCH_BARRIER"
    using c unfolding close_scripted_search_barrier_def B require_scripted_round_def by blast
  have fz: "\<exists>fam arts. sr_family r = Some fam \<and> sr_artifacts r = Some arts"
    using c unfolding close_scripted_search_barrier_def B
    by (cases "sr_family r"; cases "sr_artifacts r") simp_all
  then obtain fam arts where fa: "sr_family r = Some fam" "sr_artifacts r = Some arts" by blast
  from c obtain items st el u v where
    e: "expected \<noteq> []" "distinct expected" "int (length expected) = sr_declared r" and
    o: "ordered_members ms = Inr items" "map bm_candidate items = sort expected" "list_all bm_synthetic items" and
    t: "statistics_by_candidate ss = Inr st"
      "fst ` set st = bm_candidate ` {m \<in> set items. bm_state m = RC_SEARCH_MEASURED}"
      "bind_statistics_to_members st items = Inr u"
      "reject_reused_statistics_identities (map snd st) = Inr v" "eligible_candidates st = Inr el"
    unfolding close_scripted_search_barrier_def fa option.case prod.case B expected_family_Inr
    by (elim exE conjE, simp only: length_sort) blast
  from o(1) have items: "items = sort_key bm_candidate ms" "ms \<noteq> []" "distinct (map bm_candidate ms)"
    by (simp_all add: ordered_members_Inr)
  from t(1) have st: "distinct (map ss_candidate ss)" "st = statistics_map_of ss"
    by (simp_all add: statistics_by_candidate_eq statistics_map_of_def split: if_splits)
  have "\<forall>x \<in> set st. ss_effects (snd x) \<noteq> []" using ne by (auto simp: st(2) statistics_map_of_def)
  from eligible_candidates_eq [OF this] t(5) have ov: "\<not> overflows st" by (simp split: if_splits)
  have fs: "fst ` set st = ss_candidate ` set ss" unfolding st(2) by (force simp: statistics_map_of_def)
  have bd: "\<forall>s \<in> set ss. \<exists>m \<in> set items. bm_candidate m = ss_candidate s \<and>
      bm_receipt m = Some (ss_receipt s) \<and> bm_correctness m = Some (ss_correctness s)"
    using t(3) bind_statistics_eq [of items ss u] by (simp add: st(2) items(1,3) sort_key_props)
  show ?thesis
    using scripted fa e o(2,3) t(2,4) items(3) st(1) ov bd
    by (simp add: search_ready_def require_scripted_round_def expected_family_Inr items(1) sort_key_props
        reject_reused_statistics_identities_def st(2) flip: fs)
qed

section \<open>Which candidates are promoted\<close>

lemma search_promotions_props:
  assumes "distinct (map ss_candidate ss)"
  shows "distinct (search_promotions r ss)" "sorted (search_promotions r ss)"
    "length (search_promotions r ss) = min (nat (sr_promoted r)) (length (filter (\<lambda>s. score_of s \<noteq> None) ss))"
    "i \<in> set (search_promotions r ss) \<Longrightarrow> \<exists>s \<in> set ss. ss_candidate s = i \<and> (\<exists>m. eligible s m)"
proof -
  let ?st = "statistics_map_of ss"
  have d: "distinct (map fst (scores ?st))" using assms by (intro scores_distinct) simp
  then show "distinct (search_promotions r ss)"
    by (simp add: search_promotions_def select_promoted_distinct)
  show "sorted (search_promotions r ss)" by (simp add: search_promotions_def)
  have "length (scores ?st) = length (filter (\<lambda>s. score_of s \<noteq> None) ss)"
    by (simp add: scores_def statistics_map_of_def filter_map comp_def)
  then show "length (search_promotions r ss) = min (nat (sr_promoted r)) (length (filter (\<lambda>s. score_of s \<noteq> None) ss))"
    by (simp add: search_promotions_def select_promoted_length)
  show "\<exists>s \<in> set ss. ss_candidate s = i \<and> (\<exists>m. eligible s m)" if i: "i \<in> set (search_promotions r ss)"
  proof -
    from i obtain m where "(i, m) \<in> set (scores ?st)"
      by (auto simp: search_promotions_def dest: select_promoted_mem)
    then show ?thesis by (auto simp: scores_mem)
  qed
qed

lemma search_promotions_best:
  assumes "distinct (map ss_candidate ss)" "s \<in> set ss" "s' \<in> set ss" "eligible s m" "eligible s' m'"
    and "ss_candidate s \<in> set (search_promotions r ss)" "ss_candidate s' \<notin> set (search_promotions r ss)"
  shows "m' < m \<or> (m' = m \<and> ss_candidate s < ss_candidate s')"
proof -
  let ?xs = "scores (statistics_map_of ss)"
  have d: "distinct (map fst ?xs)" using assms(1) by (intro scores_distinct) simp
  have "(ss_candidate s, m) \<in> set ?xs" "(ss_candidate s', m') \<in> set ?xs"
    using assms(2-5) by (auto simp: scores_mem)
  moreover have "m \<noteq> NaN" "m' \<noteq> NaN" using assms(4,5) by (auto simp: eligible_def dest: fless_NaN)
  ultimately show ?thesis
    using select_promoted_best [OF d, of "ss_candidate s" "sr_promoted r" m "ss_candidate s'" m'] assms(6,7)
    by (simp add: search_promotions_def)
qed

section \<open>A search barrier closes\<close>

lemma map_res_all: "(\<And>x. x \<in> set xs \<Longrightarrow> f x = Inr (g x)) \<Longrightarrow> map_res f xs = Inr (map g xs)"
  by (induction xs) auto

definition search_member :: "barrier_member \<Rightarrow> bool" where
  "search_member m \<longleftrightarrow> make_barrier_member m = Inr m \<and> bm_state m \<in> set search_terminals"

definition search_limits :: "pylib \<Rightarrow> search_round \<Rightarrow> string \<Rightarrow> stamp \<Rightarrow> string \<Rightarrow> bool" where
  "search_limits L r closed_by closed_at key \<longleftrightarrow>
     (\<forall>v. is_sha256 (lib_digest L v)) \<and> is_sha256 (sr_rule r) \<and> opt_all is_sha256 (sr_artifacts r) \<and>
     1 \<le> sr_declared r \<and> sr_declared r \<le> 4 \<and> 1 \<le> sr_promoted r \<and> sr_promoted r \<le> 2 \<and>
     text_between 1 300 closed_by \<and> aware closed_at \<and> text_between 8 300 key"

lemma measured_artifact:
  assumes "search_member m" "bm_state m = RC_SEARCH_MEASURED"
  shows "bm_artifact m \<noteq> None \<and> bm_artifact_hash m \<noteq> None"
  using assms
  by (auto simp: search_member_def make_barrier_member_def require_terminal_evidence_shape_def
      measured_states_def Let_def bind_res_eq_Inr split: if_splits)

lemma statistics_bound:
  assumes "search_ready r expected ms ss"
  shows "length ss \<le> length ms" "length ms = length expected"
proof -
  have "length ss = card (ss_candidate ` set ss)"
    using assms distinct_card [of "map ss_candidate ss"] by (simp add: search_ready_def)
  also have "\<dots> \<le> card (bm_candidate ` set ms)"
    using assms by (intro card_mono) (auto simp: search_ready_def)
  also have "\<dots> \<le> length ms" by (metis card_length length_map list.set_map)
  finally show "length ss \<le> length ms" .
  have "length (map bm_candidate (sort_key bm_candidate ms)) = length (sort expected)"
    using assms by (simp only: search_ready_def)
  then show "length ms = length expected" by simp
qed

lemma promoted_members:
  assumes "search_ready r expected ms ss" "i \<in> set (search_promotions r ss)"
  shows "\<exists>m \<in> set ms. bm_candidate m = i \<and> bm_state m = RC_SEARCH_MEASURED \<and>
    member_by_id (sort_key bm_candidate ms) i = Some m"
proof -
  from assms(1) have d: "distinct (map ss_candidate ss)" "distinct (map bm_candidate ms)"
    by (simp_all add: search_ready_def)
  from search_promotions_props(4) [OF d(1) assms(2)] have "i \<in> ss_candidate ` set ss" by auto
  with assms(1) obtain m where "m \<in> set ms" "bm_candidate m = i" "bm_state m = RC_SEARCH_MEASURED"
    by (auto simp: search_ready_def)
  with member_by_id_unique [of "sort_key bm_candidate ms" m] d(2) show ?thesis
    by (auto simp: sort_key_props)
qed

lemma search_summary_made:
  assumes r: "search_ready r expected ms ss" and l: "search_limits L r closed_by closed_at key"
    and a: "sr_artifacts r = Some arts"
  shows "make_summary (search_summary_of r arts ms ss) = Inr (search_summary_of r arts ms ss)"
proof -
  have d: "distinct (map ss_candidate ss)" using r by (simp add: search_ready_def)
  note b = statistics_bound [OF r] and p = search_promotions_props [OF d, where r = r]
  have e: "expected \<noteq> []" "length expected \<le> 4" using r l by (auto simp: search_ready_def search_limits_def)
  have "map ss_candidate (map snd (sort_key fst (statistics_map_of ss))) = map fst (sort_key fst (statistics_map_of ss))"
    by (auto simp: statistics_map_of_def)
  then have s: "sorted (map ss_candidate (map snd (sort_key fst (statistics_map_of ss))))"
    by (simp only: sorted_sort_key)
  have f: "summary_fields (search_summary_of r arts ms ss)"
    using l a b e p(3) by (auto simp: summary_fields_def search_summary_of_def search_limits_def opt_all_def
        statistics_map_of_def Suc_le_eq)
  have "require_deterministic_summary_order (search_summary_of r arts ms ss) = Inr ()"
    using s p(2) by (simp add: require_deterministic_summary_order_def search_summary_of_def Let_def sort_key_id_if_sorted
        sorted_sort_id)
  with f show ?thesis by (simp add: make_summary_def)
qed

lemma search_barrier_made:
  assumes r: "search_ready r expected ms ss" and l: "search_limits L r closed_by closed_at key"
    and a: "sr_artifacts r = Some arts" and m: "\<forall>x \<in> set ms. search_member x"
  shows "make_barrier (search_barrier_of L r arts ms ss closed_by closed_at key) =
    Inr (search_barrier_of L r arts ms ss closed_by closed_at key)"
proof -
  let ?b = "search_barrier_of L r arts ms ss closed_by closed_at key"
  have d: "distinct (map ss_candidate ss)" "distinct (map bm_candidate ms)" "list_all bm_synthetic ms"
    using r by (simp_all add: search_ready_def)
  note b = statistics_bound [OF r] and p = search_promotions_props [OF d(1), where r = r]
  have e: "expected \<noteq> []" "length expected \<le> 4" using r l by (auto simp: search_ready_def search_limits_def)
  have f: "barrier_fields ?b"
    using l a b e p(3) by (auto simp: barrier_fields_def search_barrier_of_def search_limits_def opt_all_def
        Let_def Suc_le_eq text_between_def M2_SEARCH_SELECTION_RULE_VERSION_def)
  have ph: "require_search_barrier ?b = Inr ()"
    using m promoted_members [OF r]
    by (auto simp: require_search_barrier_def search_barrier_of_def Let_def search_member_def list_ex_iff)
  have "require_complete_phase_barrier ?b = require_search_barrier ?b"
    using l d p(1,2) promoted_members [OF r]
    by (auto simp: require_complete_phase_barrier_def search_barrier_of_def Let_def search_limits_def
        list_ex_iff list_all_iff sort_key_props sorted_sort_id)
  with f ph show ?thesis by (simp add: make_barrier_def)
qed

lemma search_finishes:
  assumes r: "search_ready r expected ms ss" and l: "search_limits L r closed_by closed_at key"
    and a: "sr_artifacts r = Some arts" and m: "\<forall>x \<in> set ms. search_member x"
  shows "\<exists>h. search_finish L r arts ms ss closed_by closed_at key =
    Inr \<lparr>sd_barrier = search_barrier_of L r arts ms ss closed_by closed_at key,
      sd_summary = search_summary_of r arts ms ss, sd_holdout = h\<rparr> \<and>
    (h \<noteq> None) = (search_promotions r ss \<noteq> [])"
proof -
  let ?P = "search_promotions r ss" and ?items = "sort_key bm_candidate ms"
  let ?b = "search_barrier_of L r arts ms ss closed_by closed_at key"
  obtain fam where fam: "sr_family r = Some fam" using r by (auto simp: search_ready_def)
  define pick where "pick i = the (member_by_id ?items i)" for i
  have pick: "member_by_id ?items i = Some (pick i) \<and> bm_candidate (pick i) = i \<and>
      bm_artifact (pick i) \<noteq> None \<and> bm_artifact_hash (pick i) \<noteq> None" if "i \<in> set ?P" for i
    using promoted_members [OF r that] measured_artifact m by (auto simp: pick_def)
  have ids: "map bm_candidate (map pick ?P) = ?P" using pick by (simp add: map_idI)
  have "map_res (\<lambda>i. case member_by_id ?items i of Some m \<Rightarrow> Inr m | None \<Rightarrow> Inl (KeyError ''by_id'')) ?P =
      Inr (map pick ?P)"
    using pick by (intro map_res_all) simp
  moreover have "\<exists>h. holdout_family_hash L r (map pick ?P) = Inr h \<and> is_sha256 h" if "?P \<noteq> []"
  proof -
    have "distinct (map bm_candidate (map pick ?P))"
      unfolding ids using r search_promotions_props(1) by (simp add: search_ready_def)
    with that have o: "ordered_members (map pick ?P) = Inr (sort_key bm_candidate (map pick ?P))"
      by (simp add: ordered_members_Inr)
    have "\<not> list_ex (\<lambda>b. bm_artifact b = None \<or> bm_artifact_hash b = None) (sort_key bm_candidate (map pick ?P))"
      using pick by (auto simp: list_ex_iff)
    with o l show ?thesis by (simp add: holdout_family_hash_def fam a search_limits_def)
  qed
  moreover have "make_decision L \<lparr>sd_barrier = ?b, sd_summary = search_summary_of r arts ms ss, sd_holdout = h\<rparr> =
      Inr \<lparr>sd_barrier = ?b, sd_summary = search_summary_of r arts ms ss, sd_holdout = h\<rparr>"
    if "opt_all is_sha256 h" "(?P \<noteq> []) = (h \<noteq> None)" for h
    using that by (simp add: make_decision_def search_barrier_of_def Let_def)
  ultimately show ?thesis
    by (cases "?P = []") (auto simp: search_finish_def search_summary_made [OF r l a]
        search_barrier_made [OF r l a m] opt_all_def)
qed

section \<open>What a document determines\<close>

lemma jobj_lookup: "jobj xs = jobj ys \<Longrightarrow> map_of xs k = map_of ys k"
  by (metis jget_jobj)

lemma map_eq_weaken:
  "map g xs = map g ys \<Longrightarrow> (\<And>x y. g x = g y \<Longrightarrow> h x = h y) \<Longrightarrow> map h xs = map h ys"
proof (induction xs arbitrary: ys)
  case (Cons x xs)
  from Cons.prems(1) obtain y zs where ys: "ys = y # zs" "g x = g y" "map g xs = map g zs"
    by (cases ys) simp_all
  from Cons.prems(2) [OF ys(2)] Cons.IH [OF ys(3) Cons.prems(2)] show ?case by (simp add: ys(1))
qed simp

lemma json_inject [simp]:
  "jstr_opt x = jstr_opt y \<longleftrightarrow> x = y" "jfloat_opt a = jfloat_opt b \<longleftrightarrow> a = b"
  "verdict_value v = verdict_value w \<longleftrightarrow> v = w"
proof -
  show "jstr_opt x = jstr_opt y \<longleftrightarrow> x = y" by (cases x; cases y) simp_all
  show "jfloat_opt a = jfloat_opt b \<longleftrightarrow> a = b" by (cases a; cases b) simp_all
  show "verdict_value v = verdict_value w \<longleftrightarrow> v = w" by (cases v; cases w) simp_all
qed

lemma adjusted_json_inject: "adjusted_json a = adjusted_json b \<Longrightarrow> a = b"
proof -
  assume e: "adjusted_json a = adjusted_json b"
  note k = e [unfolded adjusted_json_def, THEN jobj_lookup]
  have "map JStr (aj_codes a) = map JStr (aj_codes b) \<Longrightarrow> aj_codes a = aj_codes b"
    by (rule map_injective) (auto simp: inj_def)
  then show ?thesis
    using k [of "''candidate_id''"] k [of "''round_measurement_ref_id''"]
      k [of "''scripted_phase_receipt_id''"] k [of "''synthetic''"] k [of "''correctness_evidence_hash''"]
      k [of "''raw_evidence_hash''"] k [of "''baseline_sample_set_hash''"] k [of "''verdict''"]
      k [of "''adjusted_ci_lower''"] k [of "''adjusted_ci_upper''"] k [of "''stage0_mde_ratio''"]
      k [of "''workload_mde_ratio''"] k [of "''credible_threshold''"] k [of "''failure_codes''"]
    by simp
qed

lemma payload_inject:
  assumes "multiple_comparison_payload i b f p a m s rs rec y =
    multiple_comparison_payload i' b' f' p' a' m' s' rs' rec' y'"
  shows "i = i' \<and> b = b' \<and> f = f' \<and> p = p' \<and> a = a' \<and> m = m' \<and> s = s' \<and> rs = rs' \<and> rec = rec' \<and> y = y'"
proof -
  note k = assms [unfolded multiple_comparison_payload_def, THEN jobj_lookup]
  have "map adjusted_json rs = map adjusted_json rs' \<Longrightarrow> rs = rs'"
    by (rule map_injective) (auto simp: inj_def adjusted_json_inject)
  then show ?thesis
    using k [of "''round_id''"] k [of "''holdout_barrier_id''"] k [of "''holdout_family_hash''"]
      k [of "''protocol_hash''"] k [of "''family_alpha''"] k [of "''m''"] k [of "''alpha_candidate''"]
      k [of "''candidate_results''"] k [of "''recommended_candidate_id''"] k [of "''synthetic''"]
    by simp
qed

text \<open>The artifact a member of a holdout family stands for.\<close>

definition artifact_of :: "barrier_member \<Rightarrow> uuid \<times> uuid option \<times> string option" where
  "artifact_of m = (bm_candidate m, bm_artifact m, bm_artifact_hash m)"

lemma holdout_document_inject:
  assumes "holdout_document r f a ms = holdout_document r' f' a' ms'"
  shows "map artifact_of ms = map artifact_of ms' \<and> sr_id r = sr_id r' \<and> f = f' \<and> a = a' \<and> sr_rule r = sr_rule r'"
proof -
  note k = assms [unfolded holdout_document_def, THEN jobj_lookup]
  let ?g = "\<lambda>b. jobj [(''candidate_id'', JStr (bm_candidate b)),
         (''artifact_id'', jstr_opt (bm_artifact b)), (''artifact_hash'', jstr_opt (bm_artifact_hash b))]"
  have g: "artifact_of b = artifact_of c" if "?g b = ?g c" for b c
    using jobj_lookup [OF that, of "''candidate_id''"] jobj_lookup [OF that, of "''artifact_id''"]
      jobj_lookup [OF that, of "''artifact_hash''"] by (simp add: artifact_of_def)
  have "map ?g ms = map ?g ms'" using k [of "''members''"] by simp
  from map_eq_weaken [OF this g] have "map artifact_of ms = map artifact_of ms'" .
  then show ?thesis
    using k [of "''round_id''"] k [of "''candidate_family_hash''"] k [of "''artifact_family_hash''"]
      k [of "''selection_rule_hash''"] by simp
qed

section \<open>The statistics in another order\<close>

lemma statistics_order:
  assumes m: "mset ss = mset ss'" and d: "distinct (map ss_candidate ss)"
  shows "statistics_by_candidate ss = Inr (statistics_map_of ss)"
    "statistics_by_candidate ss' = Inr (statistics_map_of ss')"
    "fst ` set (statistics_map_of ss) = fst ` set (statistics_map_of ss')"
    "bind_statistics_to_members (statistics_map_of ss) items =
      bind_statistics_to_members (statistics_map_of ss') items"
    "reject_reused_statistics_identities (map snd (statistics_map_of ss)) =
      reject_reused_statistics_identities (map snd (statistics_map_of ss'))"
    "select_promoted (scores (statistics_map_of ss)) k = select_promoted (scores (statistics_map_of ss')) k"
    "sort_key fst (statistics_map_of ss) = sort_key fst (statistics_map_of ss')"
proof -
  have st: "mset (statistics_map_of ss) = mset (statistics_map_of ss')"
    by (simp add: statistics_map_of_def m)
  then have set: "set (statistics_map_of ss) = set (statistics_map_of ss')" by (rule mset_eq_setD)
  show "statistics_by_candidate ss = Inr (statistics_map_of ss)"
    "statistics_by_candidate ss' = Inr (statistics_map_of ss')"
    using d distinct_mset_eq [OF m, of ss_candidate]
    by (simp_all add: statistics_by_candidate_eq statistics_map_of_def)
  show "fst ` set (statistics_map_of ss) = fst ` set (statistics_map_of ss')" by (simp only: set)
  show "bind_statistics_to_members (statistics_map_of ss) items =
      bind_statistics_to_members (statistics_map_of ss') items"
    by (simp only: bind_statistics_to_members_def list_all_iff set)
  show "reject_reused_statistics_identities (map snd (statistics_map_of ss)) =
      reject_reused_statistics_identities (map snd (statistics_map_of ss'))"
    using distinct_mset_eq [OF m, of ss_receipt] distinct_mset_eq [OF m, of ss_raw]
      distinct_mset_eq [OF m, of ss_baseline] by (simp add: reject_reused_statistics_identities_def)
  show "select_promoted (scores (statistics_map_of ss)) k = select_promoted (scores (statistics_map_of ss')) k"
    by (rule select_promoted_perm [OF scores_mset [OF st]])
  have "distinct (map fst (statistics_map_of ss))" using d by simp
  then have "inj_on fst (set (statistics_map_of ss))" by (simp only: distinct_map)
  then show "sort_key fst (statistics_map_of ss) = sort_key fst (statistics_map_of ss')"
    by (rule sort_key_unique [OF st])
qed

section \<open>The artifacts behind a family hash\<close>

lemma same_artifacts:
  assumes "map artifact_of xs = map artifact_of ys"
  shows "map bm_candidate xs = map bm_candidate ys" "h \<in> set xs \<Longrightarrow> \<exists>m \<in> set ys. artifact_of m = artifact_of h"
proof -
  show "map bm_candidate xs = map bm_candidate ys"
    by (rule map_eq_weaken [OF assms]) (simp add: artifact_of_def)
  show "\<exists>m \<in> set ys. artifact_of m = artifact_of h" if "h \<in> set xs"
  proof -
    have "artifact_of h \<in> artifact_of ` set ys" using that assms by (metis image_eqI image_set)
    then show ?thesis by force
  qed
qed

lemma holdout_family_hash_Inr:
  "holdout_family_hash L r ms = Inr h \<longleftrightarrow>
     (\<exists>f a. sr_family r = Some f \<and> sr_artifacts r = Some a \<and> ms \<noteq> [] \<and> distinct (map bm_candidate ms) \<and>
        (\<forall>m \<in> set ms. bm_artifact m \<noteq> None \<and> bm_artifact_hash m \<noteq> None) \<and>
        h = lib_digest L (holdout_document r f a (sort_key bm_candidate ms)))"
  by (auto simp: holdout_family_hash_def bind_res_eq_Inr ordered_members_Inr list_ex_iff
      split: option.splits)

definition frozen_document :: "search_round \<Rightarrow> barrier_member list \<Rightarrow> json" where
  "frozen_document r ms = holdout_document r (the (sr_family r)) (the (sr_artifacts r)) ms"

definition promoted_by :: "decision \<Rightarrow> barrier_member list" where
  "promoted_by x = map (\<lambda>i. the (member_by_id (bb_members (sd_barrier x)) i)) (bb_promoted (sd_barrier x))"

lemma search_artifacts:
  assumes c: "close_scripted_search_barrier L r expected ms ss closed_by closed_at key = Inr x"
    and ne: "\<forall>s \<in> set ss. ss_effects s \<noteq> []"
  shows "map bm_candidate (promoted_by x) = bb_promoted (sd_barrier x) \<and>
    (\<forall>p \<in> set (promoted_by x). p \<in> set ms \<and> bm_state p = RC_SEARCH_MEASURED) \<and>
    (\<forall>h. sd_holdout x = Some h \<longrightarrow> h = lib_digest L (frozen_document r (promoted_by x)))"
proof -
  note r = close_search_guards [OF c ne]
  then obtain arts where a: "sr_artifacts r = Some arts" by (auto simp: search_ready_def)
  let ?P = "search_promotions r ss" and ?items = "sort_key bm_candidate ms"
  have fin: "search_finish L r arts ms ss closed_by closed_at key = Inr x"
    using c close_search_ready [OF r a ne] by simp
  then have b: "sd_barrier x = search_barrier_of L r arts ms ss closed_by closed_at key"
    by (auto simp: search_finish_def bind_res_eq_Inr dest!: made_same)
  then have p: "promoted_by x = map (\<lambda>i. the (member_by_id ?items i)) ?P" "bb_promoted (sd_barrier x) = ?P"
    by (simp_all add: promoted_by_def search_barrier_of_def Let_def)
  have all: "map_res (\<lambda>i. case member_by_id ?items i of Some m \<Rightarrow> Inr m
        | None \<Rightarrow> Inl (KeyError ''by_id'')) ?P = Inr (promoted_by x)"
    unfolding p using promoted_members [OF r] by (intro map_res_all) (force split: option.split)
  have pick: "bm_candidate (the (member_by_id ?items i)) = i \<and> the (member_by_id ?items i) \<in> set ms \<and>
      bm_state (the (member_by_id ?items i)) = RC_SEARCH_MEASURED" if "i \<in> set ?P" for i
    using promoted_members [OF r that] by auto
  then have m: "map bm_candidate (promoted_by x) = ?P" unfolding p(1) by (simp add: map_idI)
  moreover have "sorted ?P" by (simp add: search_promotions_def)
  ultimately have s: "sort_key bm_candidate (promoted_by x) = promoted_by x" by (simp add: sort_key_id_if_sorted)
  have "h = lib_digest L (frozen_document r (promoted_by x))" if "sd_holdout x = Some h" for h
  proof -
    from fin that all have "holdout_family_hash L r (promoted_by x) = Inr h"
      by (auto simp: search_finish_def bind_res_eq_Inr dest!: made_same split: if_splits)
    then show ?thesis by (auto simp: holdout_family_hash_Inr s frozen_document_def)
  qed
  with m pick p show ?thesis by auto
qed

lemma holdout_artifacts:
  assumes "close_scripted_holdout_barrier L r expected ms closed_by closed_at key = Inr b"
  shows "sr_holdout r = Some (lib_digest L (frozen_document r (bb_members b)))"
proof -
  obtain h p e where n: "sr_holdout r = Some h" "sr_holdout_plan r = Some p" "sr_reveal_evidence r = Some e"
    using assms unfolding close_scripted_holdout_barrier_def bind_res_eq_Inr
    by (cases "sr_holdout r"; cases "sr_holdout_plan r"; cases "sr_reveal_evidence r") auto
  from assms obtain items where i: "ordered_members ms = Inr items" "holdout_family_hash L r items = Inr h"
    "bb_members b = items"
    unfolding close_scripted_holdout_barrier_def n option.case prod.case bind_res_eq_Inr guard_err_eq_Inr Let_def
    by (auto dest!: made_same)
  from i(1) have "sort_key bm_candidate items = items" by (auto simp: ordered_members_Inr sort_key_id_if_sorted)
  with i n(1) show ?thesis by (auto simp: holdout_family_hash_Inr frozen_document_def)
qed

end
