(* ===== verification/FwerInv.thy ===== *)
theory FwerInv
  imports BarrierInv
begin

text \<open>
  The facts about the family-wise comparison: what each adjusted result rests on and which
  one is recommended.
\<close>

lemma map_res_Inr: "map_res f xs = Inr ys \<longleftrightarrow> list_all2 (\<lambda>x y. f x = Inr y) xs ys"
  by (induction xs arbitrary: ys) (auto simp: bind_res_eq_Inr list_all2_Cons1)

lemma list_all2_right: "list_all2 P xs ys \<Longrightarrow> y \<in> set ys \<Longrightarrow> \<exists>x \<in> set xs. P x y"
  by (induction rule: list_all2_induct) auto

text \<open>The document whose hash a comparison carries.\<close>

definition comparison_document :: "comparison \<Rightarrow> json" where
  "comparison_document c = multiple_comparison_payload (mc_round c) (mc_barrier c) (mc_family c)
     (mc_protocol c) (mc_family_alpha c) (mc_m c) (mc_alpha c) (mc_results c) (mc_recommended c) (mc_synthetic c)"

text \<open>A verdict other than invalid, with the numbers it was judged by.\<close>

definition backed ::
    "pylib \<Rightarrow> search_round \<Rightarrow> pyfloat \<Rightarrow> statistics_input \<Rightarrow> adjusted \<Rightarrow> bool" where
  "backed L r alpha s a \<longleftrightarrow> statistics_valid s \<and>
     (\<exists>lower upper mde.
        bootstrap_mean_ci L (ss_effects s)
          (ss_raw s @ '':'' @ (case sr_holdout r of None \<Rightarrow> ''None'' | Some h \<Rightarrow> h) @ '':'' @ lib_str L alpha)
          M2_FWER_BOOTSTRAP_RESAMPLES (fsub (Fin 1) alpha) = Inr (lower, upper) \<and>
        workload_baseline_mde L (ss_means s) alpha M2_FWER_POWER = Inr mde \<and>
        aj_lower a = Some lower \<and> aj_upper a = Some upper \<and>
        aj_threshold a = Some (fmax (ss_stage0 s) mde) \<and> fle lower upper \<and>
        aj_verdict a = judge lower upper (fmax (ss_stage0 s) mde))"

lemma adjust_measured_backed:
  assumes "adjust_measured L r alpha i s = Inr a"
  shows "aj_candidate a = i \<and> (aj_verdict a \<noteq> INVALID \<longrightarrow> backed L r alpha s a)"
proof (cases "statistics_valid s")
  case False
  with assms have "a = no_numbers i (Some (ss_receipt s)) (ss_correctness s) (Some (ss_raw s))
      (Some (ss_baseline s)) (ss_codes s)"
    by (auto simp: adjust_measured_def dest: made_same)
  then show ?thesis by (simp add: no_numbers_def)
next
  case True
  from assms obtain lower upper mde where n:
    "bootstrap_mean_ci L (ss_effects s)
      (ss_raw s @ '':'' @ (case sr_holdout r of None \<Rightarrow> ''None'' | Some h \<Rightarrow> h) @ '':'' @ lib_str L alpha)
      M2_FWER_BOOTSTRAP_RESAMPLES (fsub (Fin 1) alpha) = Inr (lower, upper)"
    "workload_baseline_mde L (ss_means s) alpha M2_FWER_POWER = Inr mde"
    "make_adjusted
      \<lparr>aj_candidate = i, aj_measurement = None, aj_receipt = Some (ss_receipt s), aj_synthetic = True,
       aj_correctness = ss_correctness s, aj_raw = Some (ss_raw s), aj_baseline = Some (ss_baseline s),
       aj_verdict = judge lower upper (fmax (ss_stage0 s) mde), aj_lower = Some lower, aj_upper = Some upper,
       aj_stage0 = Some (ss_stage0 s), aj_workload = Some mde, aj_threshold = Some (fmax (ss_stage0 s) mde),
       aj_codes = []\<rparr> = Inr a"
    unfolding adjust_measured_def Let_def by (auto simp: True bind_res_eq_Inr)
  note a = made_same(4) [OF n(3)]
  have "\<not> fless upper lower" "is_finite lower" "is_finite upper"
    using n(3) by (auto simp: make_adjusted_def adjusted_fields_def opt_all_def bind_res_eq_Inr
        require_adjusted_verdict_evidence_def Let_def judge_def split: if_splits)
  then have "fle lower upper" by (cases lower; cases upper) (auto simp: fle_def)
  with n(1,2) True show ?thesis unfolding a by (simp add: backed_def)
qed

lemma adjust_member_backed:
  assumes "adjust_member L r alpha st m = Inr a"
  shows "aj_candidate a = bm_candidate m \<and>
    (aj_verdict a \<noteq> INVALID \<longrightarrow> bm_state m = RC_HOLDOUT_MEASURED \<and>
      (\<exists>s. map_of st (bm_candidate m) = Some s \<and> backed L r alpha s a))"
proof (cases "bm_state m = RC_HOLDOUT_MEASURED")
  case True
  with assms show ?thesis
    using adjust_measured_backed [of L r alpha "bm_candidate m" _ a]
    by (auto simp: adjust_member_def Let_def split: option.splits)
next
  case False
  with assms obtain c where "a = no_numbers (bm_candidate m) None c None None [''holdout_member_failed'']"
    by (auto simp: adjust_member_def Let_def split: if_splits option.splits dest: made_same)
  then show ?thesis by (simp add: no_numbers_def)
qed

lemma adjust_member_made: "adjust_member L r alpha st m = Inr a \<Longrightarrow> make_adjusted a = Inr a"
  by (auto simp: adjust_member_def adjust_measured_def Let_def bind_res_eq_Inr
      split: if_splits option.splits prod.splits intro: adjusted_model.built_again)

lemma bonferroni_parts:
  assumes "bonferroni_fwer L r b ss created = Inr c"
  obtains alpha where
    "bb_round b = sr_id r" "bb_phase b = PH_HOLDOUT" "Some (bb_family b) = sr_holdout r"
    "1 \<le> bb_expected b" "bb_expected b \<le> sr_promoted r"
    "distinct (map ss_candidate ss)"
    "fdiv (sr_alpha r) (of_py_int (bb_expected b)) = Inr alpha"
    "map_res (adjust_member L r alpha (statistics_map_of ss)) (sort_key bm_candidate (bb_members b)) =
      Inr (mc_results c)"
    "mc_m c = bb_expected b" "mc_alpha c = alpha" "mc_recommended c = recommendation (mc_results c)"
    "mc_hash c = recompute_result_hash L c" "mc_family_alpha c = sr_alpha r" "make_comparison c = Inr c"
proof -
  from assms obtain st alpha results where p:
    "bb_round b = sr_id r" "bb_phase b = PH_HOLDOUT" "Some (bb_family b) = sr_holdout r"
    "1 \<le> bb_expected b" "bb_expected b \<le> sr_promoted r" "statistics_by_candidate ss = Inr st"
    "fdiv (sr_alpha r) (of_py_int (bb_expected b)) = Inr alpha"
    "map_res (adjust_member L r alpha st) (sort_key bm_candidate (bb_members b)) = Inr results" and
    m: "make_comparison
       \<lparr>mc_id = lib_uuid5 L (''hcuopt:m2-bonferroni:'' @ lib_digest L (multiple_comparison_payload (sr_id r)
            (bb_id b) (bb_family b) (m2_fwer_protocol_hash L) (sr_alpha r) (bb_expected b) alpha results
            (recommendation results) True)), mc_round = sr_id r,
        mc_mode = RM_SCRIPTED, mc_synthetic = True, mc_barrier = bb_id b, mc_family = bb_family b,
        mc_version = M2_FWER_PROTOCOL_VERSION, mc_protocol = m2_fwer_protocol_hash L,
        mc_family_alpha = sr_alpha r,
        mc_m = bb_expected b, mc_alpha = alpha, mc_results = results,
        mc_recommended = recommendation results,
        mc_hash = lib_digest L (multiple_comparison_payload (sr_id r)
            (bb_id b) (bb_family b) (m2_fwer_protocol_hash L) (sr_alpha r) (bb_expected b) alpha results
            (recommendation results) True), mc_created = created\<rparr> = Inr c"
    unfolding bonferroni_fwer_def Let_def bind_res_eq_Inr guard_err_eq_Inr by blast
  from p(6) have st: "distinct (map ss_candidate ss)" "st = statistics_map_of ss"
    by (simp_all add: statistics_by_candidate_eq statistics_map_of_def split: if_splits)
  note c = made_same(5) [OF m]
  show thesis
    by (rule that [of alpha]) (use p st comparison_model.built_again [OF m] in
      \<open>simp_all add: c recompute_result_hash_def\<close>)
qed

lemma recommendation_best:
  assumes "recommendation as = Some i"
  shows "\<exists>a \<in> set as. aj_verdict a = FASTER \<and> aj_candidate a = i \<and>
    (\<forall>a' \<in> set as. aj_verdict a' = FASTER \<longrightarrow> faster_key a \<le> faster_key a')"
proof -
  from assms obtain a where a: "argmin faster_key (filter (\<lambda>a. aj_verdict a = FASTER) as) = Some a"
    "aj_candidate a = i" by (auto simp: recommendation_def)
  from argmin_filterD [OF a(1)] have m: "a \<in> set as" "aj_verdict a = FASTER" by simp_all
  have "faster_key a \<le> faster_key a'" if "a' \<in> set as" "aj_verdict a' = FASTER" for a'
    using argmin_le [OF a(1), of a'] that by simp
  with a(2) m show ?thesis by blast
qed

lemma recommendation_none: "recommendation as = None \<longleftrightarrow> (\<forall>a \<in> set as. aj_verdict a \<noteq> FASTER)"
  by (auto simp: recommendation_def filter_empty_conv)

lemma fless_asym: "fless x y \<Longrightarrow> \<not> fless y x"
  by (cases x; cases y) auto

lemma fmax_bounds: "x \<noteq> NaN \<Longrightarrow> y \<noteq> NaN \<Longrightarrow> fle x (fmax x y) \<and> fle y (fmax x y)"
  by (cases x; cases y) (auto simp: fmax_def fle_def)

section \<open>Well-formed results\<close>

lemma search_result_models:
  assumes "close_scripted_search_barrier L r expected ms ss closed_by closed_at key = Inr x"
    and "\<forall>s \<in> set ss. ss_effects s \<noteq> []"
  shows "make_decision L x = Inr x \<and> make_barrier (sd_barrier x) = Inr (sd_barrier x) \<and>
    make_summary (sd_summary x) = Inr (sd_summary x)"
proof -
  note r = close_search_guards [OF assms]
  then obtain arts where a: "sr_artifacts r = Some arts" by (auto simp: search_ready_def)
  have "search_finish L r arts ms ss closed_by closed_at key = Inr x"
    using assms(1) close_search_ready [OF r a assms(2)] by simp
  then obtain u v h where m: "make_summary (search_summary_of r arts ms ss) = Inr u"
    "make_barrier (search_barrier_of L r arts ms ss closed_by closed_at key) = Inr v"
    "make_decision L \<lparr>sd_barrier = v, sd_summary = u, sd_holdout = h\<rparr> = Inr x"
    by (auto simp only: search_finish_def bind_res_eq_Inr)
  from made_same(3) [OF m(3)] have "sd_barrier x = v" "sd_summary x = u" by simp_all
  with decision_model.built_again [OF m(3)] barrier_model.built_again [OF m(2)]
    summary_model.built_again [OF m(1)] show ?thesis by simp
qed

lemma holdout_result_model:
  assumes "close_scripted_holdout_barrier L r expected ms closed_by closed_at key = Inr b"
  shows "make_barrier b = Inr b"
proof -
  obtain h p e where n: "sr_holdout r = Some h" "sr_holdout_plan r = Some p" "sr_reveal_evidence r = Some e"
    using assms unfolding close_scripted_holdout_barrier_def bind_res_eq_Inr
    by (cases "sr_holdout r"; cases "sr_holdout_plan r"; cases "sr_reveal_evidence r") auto
  from assms show ?thesis
    unfolding close_scripted_holdout_barrier_def n option.case prod.case bind_res_eq_Inr Let_def
    by (blast intro: barrier_model.built_again)
qed

end
