(* ===== verification/BarrierProps.thy ===== *)
theory BarrierProps
  imports FwerInv RoundProps
begin

text \<open>
  The properties of the barriers of an M2a round and of their multiple comparison
  (src/src/hcuopt/evaluation/m2_statistics.py and m2_models.py), with their witnesses on a
  round of two candidates.
\<close>

section \<open>A sample round\<close>

abbreviation sample_hash :: string where
  "sample_hash \<equiv> sample_sha (CHR ''0'')"

definition sample_lib :: pylib where
  "sample_lib = \<lparr>lib_digest = (\<lambda>_. sample_hash), lib_uuid5 = id, lib_str = (\<lambda>_. ''0.05''),
     lib_draw = (\<lambda>_ _ _. 0), lib_stdev = (\<lambda>_. Fin 0), lib_sqrt = (\<lambda>_. Fin 0),
     lib_inv_cdf = (\<lambda>_. Inr (Fin 1))\<rparr>"

lemma sample_hash_ok: "is_sha256 sample_hash"
  by code_simp

lemma sample_digest_ok [simp]: "is_sha256 (lib_digest sample_lib v)"
  by (simp add: sample_lib_def sample_hash_ok)

definition measured_member :: "uuid \<Rightarrow> round_candidate_state \<Rightarrow> barrier_member" where
  "measured_member i s =
     \<lparr>bm_member = ''m-'' @ i, bm_candidate = i, bm_state = s, bm_artifact = Some (''art-'' @ i),
      bm_artifact_hash = Some sample_hash, bm_correctness = Some sample_hash, bm_measurement = None,
      bm_receipt = Some (''r-'' @ i), bm_failure = None, bm_budget = sample_hash,
      bm_cleanup = Some sample_hash, bm_synthetic = True\<rparr>"

definition sample_statistics :: "char \<Rightarrow> statistics_input" where
  "sample_statistics c =
     \<lparr>ss_candidate = [c], ss_receipt = ''r-'' @ [c], ss_correctness = sample_hash, ss_raw = sample_sha c,
      ss_baseline = sample_sha c, ss_effects = replicate 4 (Fin (1/2)), ss_means = replicate 4 (Fin 1),
      ss_stage0 = Fin (1/4), ss_bindings_valid = True, ss_correctness_passed = True,
      ss_cleanup_healthy = True, ss_codes = []\<rparr>"

definition barrier_round :: "round_state \<Rightarrow> search_round" where
  "barrier_round s = sample_round\<lparr>sr_state := s, sr_alpha := Fin (1/16), sr_rule := sample_hash, sr_holdout_plan := Some sample_hash,
     sr_reveal_evidence := Some sample_hash, sr_family := Some sample_hash,
     sr_artifacts := Some sample_hash, sr_holdout := Some sample_hash\<rparr>"

abbreviation search_members :: "barrier_member list" where
  "search_members \<equiv> [measured_member ''a'' RC_SEARCH_MEASURED, measured_member ''b'' RC_SEARCH_MEASURED]"

abbreviation search_statistics :: "statistics_input list" where
  "search_statistics \<equiv> [sample_statistics (CHR ''a''), sample_statistics (CHR ''b'')]"

lemma sample_mean: "fmean (replicate 4 (Fin (1/2))) = Inr (Fin (1/2))"
  using fmean_half by (simp add: numeral_eq_Suc)

lemma sample_no_overflow: "\<not> overflows (statistics_map_of search_statistics)"
  by (simp add: statistics_map_of_def sample_statistics_def sample_mean)

lemma sample_search_ready:
  "search_ready (barrier_round R_SEARCH_BARRIER) [''b'', ''a''] search_members search_statistics"
proof -
  have "{m \<in> set search_members. bm_state m = RC_SEARCH_MEASURED} = set search_members"
    by (auto simp: measured_member_def)
  then have "bm_candidate ` {m \<in> set search_members. bm_state m = RC_SEARCH_MEASURED} = {''a'', ''b''}"
    by (simp add: measured_member_def)
  with sample_no_overflow show ?thesis
    unfolding search_ready_def
    by (simp add: barrier_round_def sample_round_def measured_member_def sample_statistics_def sample_sha_def)
qed

lemma sample_limits:
  "search_limits sample_lib (barrier_round s) ''someone'' (Aware 5) ''close-key''"
  using sample_hash_ok
  by (simp add: search_limits_def barrier_round_def sample_round_def opt_all_def text_between_def)

lemma sample_members_ok: "\<forall>m \<in> set search_members. search_member m"
  using sample_hash_ok
  by (simp add: search_member_def measured_member_def make_barrier_member_def barrier_member_fields_def
      require_terminal_evidence_shape_def opt_all_def measured_states_def failed_states_def
      search_terminals_def given_def Let_def)

lemma sample_effects: "\<forall>s \<in> set search_statistics. ss_effects s \<noteq> []"
  by (simp add: sample_statistics_def)

text \<open>The numbers of the comparison of the sample: all its means are one half.\<close>

lemma map_res_const: "(\<And>x. x \<in> set xs \<Longrightarrow> f x = Inr c) \<Longrightarrow> map_res f xs = Inr (replicate (length xs) c)"
  by (induction xs) auto

lemma py_nth_replicate: "0 \<le> i \<Longrightarrow> i < int n \<Longrightarrow> py_nth (replicate n c) i = Inr c"
  by (simp add: py_nth_def)

lemma sample_resample: "resample (lib_draw sample_lib m n) (replicate 4 (Fin (1/2))) k = Inr (replicate 4 (Fin (1/2)))"
  by (simp add: resample_def sample_lib_def numeral_eq_Suc py_nth_def)

lemma sample_positions:
  "fmul (Fin (1/32)) (of_py_int 1999) = Fin (1999/32)"
  "fmul (Fin (31/32)) (of_py_int 1999) = Fin (61969/32)"
  by code_simp+

lemma sample_interpolation:
  "fadd (fmul (Fin (1/2)) (fsub (Fin 1) (fsub (Fin (1999/32)) (of_py_int 62))))
     (fmul (Fin (1/2)) (fsub (Fin (1999/32)) (of_py_int 62))) = Fin (1/2)"
  "fadd (fmul (Fin (1/2)) (fsub (Fin 1) (fsub (Fin (61969/32)) (of_py_int 1936))))
     (fmul (Fin (1/2)) (fsub (Fin (61969/32)) (of_py_int 1936))) = Fin (1/2)"
  by code_simp+

lemma sample_percentiles:
  "percentile (replicate 2000 (Fin (1/2))) (Fin (1/32)) = Inr (Fin (1/2))"
  "percentile (replicate 2000 (Fin (1/2))) (Fin (31/32)) = Inr (Fin (1/2))"
proof -
  have f: "\<lfloor>1999 / 32 :: rat\<rfloor> = 62" "\<lceil>1999 / 32 :: rat\<rceil> = 63"
    "\<lfloor>61969 / 32 :: rat\<rfloor> = 1936" "\<lceil>61969 / 32 :: rat\<rceil> = 1937" by (simp_all add: floor_unique ceiling_unique)
  show "percentile (replicate 2000 (Fin (1/2))) (Fin (1/32)) = Inr (Fin (1/2))"
    "percentile (replicate 2000 (Fin (1/2))) (Fin (31/32)) = Inr (Fin (1/2))"
    using sample_interpolation sample_positions
    by (simp_all add: percentile_def Let_def f py_nth_replicate)
qed

lemma sample_tails:
  "fdiv (fsub (Fin 1) (Fin (15/16))) (Fin 2) = Inr (Fin (1/32))" "fsub (Fin 1) (Fin (1/32)) = Fin (31/32)"
  "fsub (Fin 1) (Fin (1/16)) = Fin (15/16)"
  by code_simp+

lemma sample_interval:
  "bootstrap_mean_ci sample_lib (replicate 4 (Fin (1/2))) m M2_FWER_BOOTSTRAP_RESAMPLES (Fin (15/16)) =
     Inr (Fin (1/2), Fin (1/2))"
proof -
  have "map_res (\<lambda>k. bind_res (resample (lib_draw sample_lib m (length (replicate 4 (Fin (1/2))))) (replicate 4 (Fin (1/2))) k) fmean)
      [0..<M2_FWER_BOOTSTRAP_RESAMPLES] = Inr (replicate 2000 (Fin (1/2)))"
    by (subst map_res_const [where c = "Fin (1/2)"])
      (simp_all only: sample_resample bind_res_simps sample_mean M2_FWER_BOOTSTRAP_RESAMPLES_def length_upt diff_zero)
  then show ?thesis
    unfolding bootstrap_mean_ci_def
    by (simp add: sample_tails sample_percentiles Let_def del: fdiv.simps)
qed

lemma sample_mde: "workload_baseline_mde sample_lib (replicate 4 (Fin 1)) (Fin (1/16)) M2_FWER_POWER = Inr (Fin 0)"
  by code_simp

section \<open>Properties\<close>

text \<open>
  C34. When a search barrier closes: on well-formed inputs, the barrier of a scripted round
  closes exactly when the round waits at its search barrier with both families frozen,
  every declared candidate is there once, and the statistics belong to exactly the
  measured members, bind their receipts and correctness evidence, share no identity and
  have a mean. In that case the decision carries the members in the order of their
  candidates and the promotions of the selection rule.
\<close>

theorem search_barrier_closes:
  assumes "search_limits L r closed_by closed_at key" "\<forall>m \<in> set ms. search_member m"
    and "\<forall>s \<in> set ss. ss_effects s \<noteq> []"
  shows "if search_ready r expected ms ss
    then \<exists>x. close_scripted_search_barrier L r expected ms ss closed_by closed_at key = Inr x \<and>
      bb_members (sd_barrier x) = sort_key bm_candidate ms \<and>
      bb_promoted (sd_barrier x) = search_promotions r ss \<and>
      bb_outcome (sd_barrier x) = (if search_promotions r ss \<noteq> [] then MEMBERS_PROMOTED else NO_PROMOTABLE_CANDIDATE)
    else \<exists>e. close_scripted_search_barrier L r expected ms ss closed_by closed_at key = Inl e"
proof (cases "search_ready r expected ms ss")
  case True
  then obtain arts where a: "sr_artifacts r = Some arts" by (auto simp: search_ready_def)
  from search_finishes [OF True assms(1) a assms(2)] close_search_ready [OF True a assms(3)] True
  show ?thesis by (auto simp: search_barrier_of_def Let_def)
next
  case False
  with close_search_guards [OF _ assms(3)] show ?thesis
    by (cases "close_scripted_search_barrier L r expected ms ss closed_by closed_at key") auto
qed

theorem search_barrier_closes_witness:
  "\<exists>x. close_scripted_search_barrier sample_lib (barrier_round R_SEARCH_BARRIER) [''b'', ''a'']
     search_members search_statistics ''someone'' (Aware 5) ''close-key'' = Inr x"
  using search_barrier_closes [OF sample_limits sample_members_ok sample_effects,
      of R_SEARCH_BARRIER "[''b'', ''a'']"] sample_search_ready by auto

text \<open>
  C35. The selection rule: a closed search barrier promotes as many of the eligible
  candidates (measured, with valid statistics and a positive mean effect) as the round
  allows, or all of them; no candidate twice, in the order of their identifiers; and a
  promoted candidate has a greater mean effect than any eligible one that is not
  promoted, or the same and a smaller identifier.
\<close>

theorem search_promotes_the_best:
  assumes "close_scripted_search_barrier L r expected ms ss closed_by closed_at key = Inr x"
    and "\<forall>s \<in> set ss. ss_effects s \<noteq> []"
  shows "let P = bb_promoted (sd_barrier x) in distinct P \<and> sorted P \<and>
    length P = min (nat (sr_promoted r)) (card {s \<in> set ss. \<exists>m. eligible s m}) \<and>
    (\<forall>i \<in> set P. (\<exists>s \<in> set ss. ss_candidate s = i \<and> (\<exists>m. eligible s m)) \<and>
       (\<exists>b \<in> set ms. bm_candidate b = i \<and> bm_state b = RC_SEARCH_MEASURED)) \<and>
    (\<forall>s \<in> set ss. \<forall>s' \<in> set ss. \<forall>m m'. eligible s m \<and> eligible s' m' \<and>
       ss_candidate s \<in> set P \<and> ss_candidate s' \<notin> set P \<longrightarrow>
       m' < m \<or> (m' = m \<and> ss_candidate s < ss_candidate s'))"
proof -
  let ?P = "bb_promoted (sd_barrier x)"
  note r = close_search_guards [OF assms(1,2)]
  then obtain arts where a: "sr_artifacts r = Some arts" by (auto simp: search_ready_def)
  have d: "distinct (map ss_candidate ss)" using r by (simp add: search_ready_def)
  have "search_finish L r arts ms ss closed_by closed_at key = Inr x"
    using assms(1) close_search_ready [OF r a assms(2)] by simp
  then have P: "?P = search_promotions r ss"
    by (auto simp: search_finish_def bind_res_eq_Inr search_barrier_of_def Let_def dest!: made_same)
  note p = search_promotions_props [OF d, where r = r]
  have "distinct ss" using d by (simp add: distinct_map)
  then have "length (filter (\<lambda>s. score_of s \<noteq> None) ss) = card {s \<in> set ss. \<exists>m. eligible s m}"
    by (simp add: score_of_eq [symmetric] flip: distinct_card)
  with p promoted_members [OF r] search_promotions_best [OF d] show ?thesis
    unfolding Let_def P by (intro conjI ballI allI impI) (blast | simp)+
qed

theorem search_promotes_the_best_witness:
  "\<exists>x. close_scripted_search_barrier sample_lib (barrier_round R_SEARCH_BARRIER) [''b'', ''a'']
     search_members search_statistics ''someone'' (Aware 5) ''close-key'' = Inr x \<and>
     length (bb_promoted (sd_barrier x)) = 1"
proof -
  obtain x where x: "close_scripted_search_barrier sample_lib (barrier_round R_SEARCH_BARRIER) [''b'', ''a'']
     search_members search_statistics ''someone'' (Aware 5) ''close-key'' = Inr x"
    using search_finishes [OF sample_search_ready sample_limits _ sample_members_ok]
      close_search_ready [OF sample_search_ready _ sample_effects]
    by (auto simp: barrier_round_def)
  have "{s \<in> set search_statistics. \<exists>m. eligible s m} = set search_statistics"
    by (auto simp: eligible_def sample_statistics_def statistics_valid_def sample_mean)
  then have "card {s \<in> set search_statistics. \<exists>m. eligible s m} = 2"
    by (simp add: sample_statistics_def sample_sha_def)
  with search_promotes_the_best [OF x sample_effects] x show ?thesis
    by (simp add: Let_def barrier_round_def sample_round_def)
qed

text \<open>
  C36. A barrier does not see the order of its inputs: the same candidates, members and
  statistics in any order give the same decision, byte for byte, or the same error.
\<close>

theorem search_barrier_ignores_order:
  assumes "mset expected = mset expected'" "mset ms = mset ms'" "mset ss = mset ss'"
    and "\<forall>s \<in> set ss. ss_effects s \<noteq> []"
  shows "close_scripted_search_barrier L r expected ms ss closed_by closed_at key =
    close_scripted_search_barrier L r expected' ms' ss' closed_by closed_at key"
proof -
  have ex: "expected_candidate_family expected = expected_candidate_family expected'"
    using sort_unique [OF assms(1)] by (simp add: expected_candidate_family_def fun_eq_iff)
  have om: "ordered_members ms = ordered_members ms'" by (rule ordered_members_perm [OF assms(2)])
  have el: "overflows (statistics_map_of ss) = overflows (statistics_map_of ss')"
    "\<forall>x \<in> set (statistics_map_of ss). ss_effects (snd x) \<noteq> []"
    "\<forall>x \<in> set (statistics_map_of ss'). ss_effects (snd x) \<noteq> []"
    using assms(4) mset_eq_setD [OF assms(3)] by (auto simp: overflows_def statistics_map_of_def)
  show ?thesis
  proof (cases "distinct (map ss_candidate ss)")
    case False
    then have "statistics_by_candidate ss = statistics_by_candidate ss'"
      using distinct_mset_eq [OF assms(3), of ss_candidate] by (simp add: statistics_by_candidate_eq)
    then show ?thesis unfolding close_scripted_search_barrier_def ex om by (rule arg_cong)
  next
    case True
    note same = statistics_order [OF assms(3) True]
    show ?thesis
    proof (cases "overflows (statistics_map_of ss)")
      case True
      with el eligible_candidates_eq [OF el(2)] eligible_candidates_eq [OF el(3)]
      have e: "eligible_candidates (statistics_map_of ss) = Inl OverflowError"
        "eligible_candidates (statistics_map_of ss') = Inl OverflowError" by simp_all
      show ?thesis
        unfolding close_scripted_search_barrier_def ex om same(1,2) e bind_res_simps
        unfolding same(3-7) by (rule refl)
    next
      case False
      with el eligible_candidates_eq [OF el(2)] eligible_candidates_eq [OF el(3)]
      have e: "eligible_candidates (statistics_map_of ss) = Inr (scores (statistics_map_of ss))"
        "eligible_candidates (statistics_map_of ss') = Inr (scores (statistics_map_of ss'))" by simp_all
      show ?thesis
        unfolding close_scripted_search_barrier_def ex om same(1,2) e bind_res_simps
        unfolding same(3-7) by (rule refl)
    qed
  qed
qed

theorem search_barrier_ignores_order_witness:
  "close_scripted_search_barrier sample_lib (barrier_round R_SEARCH_BARRIER) [''b'', ''a'']
     search_members search_statistics ''someone'' (Aware 5) ''close-key'' =
   close_scripted_search_barrier sample_lib (barrier_round R_SEARCH_BARRIER) [''a'', ''b'']
     (rev search_members) (rev search_statistics) ''someone'' (Aware 5) ''close-key''"
  by (rule search_barrier_ignores_order) (simp_all add: sample_statistics_def)

text \<open>
  C37. The holdout family is the promoted one: when a holdout barrier closes for the family
  hash that a search barrier froze, its members are exactly the candidates that were
  promoted, each with the artifact it was measured with in the search; provided the hash
  does not collide on the two documents that describe them.
\<close>

theorem holdout_keeps_the_promoted_artifacts:
  assumes "close_scripted_search_barrier L r expected ms ss closed_by closed_at key = Inr x"
    and "\<forall>s \<in> set ss. ss_effects s \<noteq> []"
    and "close_scripted_holdout_barrier L r' expected' ms' closed_by' closed_at' key' = Inr b"
    and "sr_holdout r' = sd_holdout x"
    and "lib_digest L (frozen_document r (promoted_by x)) = lib_digest L (frozen_document r' (bb_members b)) \<Longrightarrow>
      frozen_document r (promoted_by x) = frozen_document r' (bb_members b)"
  shows "map bm_candidate (bb_members b) = bb_promoted (sd_barrier x) \<and>
    (\<forall>h \<in> set (bb_members b). \<exists>m \<in> set ms. artifact_of m = artifact_of h \<and> bm_state m = RC_SEARCH_MEASURED)"
proof -
  note s = search_artifacts [OF assms(1,2)]
  from holdout_artifacts [OF assms(3)] assms(4) s
  have "frozen_document r' (bb_members b) = frozen_document r (promoted_by x)" by (intro assms(5) [symmetric]) simp
  then have "map artifact_of (bb_members b) = map artifact_of (promoted_by x)"
    unfolding frozen_document_def by (rule holdout_document_inject [THEN conjunct1])
  from same_artifacts [OF this] s show ?thesis by metis
qed

abbreviation sample_holdout :: "barrier_member list" where
  "sample_holdout \<equiv> [measured_member ''a'' RC_HOLDOUT_MEASURED]"

text \<open>The decision and the barrier of the sample.\<close>

definition sample_barrier :: barrier where
  "sample_barrier = \<lparr>bb_id = ''hcuopt:m2-holdout-barrier:'' @ sample_hash, bb_round = ''round-1'',
     bb_mode = RM_SCRIPTED, bb_synthetic = True, bb_phase = PH_HOLDOUT, bb_family = sample_hash,
     bb_expected = 1, bb_members = sample_holdout, bb_rule_version = M2_HOLDOUT_BARRIER_RULE_VERSION,
     bb_rule = sample_hash, bb_promoted = [], bb_outcome = BARRIER_COMPLETED, bb_summary = sample_hash,
     bb_closed_by = ''someone'', bb_closed_at = Aware 9, bb_key = ''holdout-key''\<rparr>"

lemma sample_digest_eq [simp]: "lib_digest sample_lib v = sample_hash"
  by (simp add: sample_lib_def)

lemma sample_holdout_closes:
  "close_scripted_holdout_barrier sample_lib (barrier_round R_HOLDOUT_BARRIER) [''a''] sample_holdout
     ''someone'' (Aware 9) ''holdout-key'' = Inr sample_barrier"
  using sample_hash_ok
  by (simp add: close_scripted_holdout_barrier_def barrier_round_def sample_round_def require_scripted_round_def
      expected_candidate_family_def ordered_members_def holdout_family_hash_def measured_member_def Let_def
      make_barrier_def barrier_fields_def require_complete_phase_barrier_def require_holdout_barrier_def
      holdout_terminals_def text_between_def M2_HOLDOUT_BARRIER_RULE_VERSION_def sample_barrier_def sample_lib_def)

lemma sample_promotions: "search_promotions (barrier_round R_SEARCH_BARRIER) search_statistics = [''a'']"
proof -
  have "score_of (sample_statistics c) = Some (Fin (1/2))" for c
    by (simp add: score_of_def statistics_valid_def sample_statistics_def sample_mean)
  then have "scores (statistics_map_of search_statistics) = [(''a'', Fin (1/2)), (''b'', Fin (1/2))]"
    by (simp add: scores_def statistics_map_of_def) (simp add: sample_statistics_def)
  then show ?thesis
    by (simp add: search_promotions_def select_promoted_eq promotion_key_def barrier_round_def sample_round_def)
qed

lemma sample_decision:
  "\<exists>x. close_scripted_search_barrier sample_lib (barrier_round R_SEARCH_BARRIER) [''b'', ''a'']
     search_members search_statistics ''someone'' (Aware 5) ''close-key'' = Inr x \<and>
   sd_holdout x = Some sample_hash \<and> bb_promoted (sd_barrier x) = [''a''] \<and>
   bb_members (sd_barrier x) = search_members"
proof -
  have a: "sr_artifacts (barrier_round R_SEARCH_BARRIER) = Some sample_hash" by (simp add: barrier_round_def)
  obtain h where h: "close_scripted_search_barrier sample_lib (barrier_round R_SEARCH_BARRIER) [''b'', ''a'']
      search_members search_statistics ''someone'' (Aware 5) ''close-key'' =
    Inr \<lparr>sd_barrier = search_barrier_of sample_lib (barrier_round R_SEARCH_BARRIER) sample_hash search_members
        search_statistics ''someone'' (Aware 5) ''close-key'',
      sd_summary = search_summary_of (barrier_round R_SEARCH_BARRIER) sample_hash search_members search_statistics,
      sd_holdout = h\<rparr>" "h \<noteq> None"
    using search_finishes [OF sample_search_ready sample_limits a sample_members_ok]
      close_search_ready [OF sample_search_ready a sample_effects] sample_promotions by auto
  from search_artifacts [OF h(1) sample_effects] h(2) have "h = Some sample_hash" by auto
  with h(1) sample_promotions show ?thesis
    by (auto simp: search_barrier_of_def Let_def measured_member_def)
qed

theorem holdout_keeps_the_promoted_artifacts_witness:
  "map bm_candidate (bb_members sample_barrier) = [''a'']"
proof -
  obtain x where x: "close_scripted_search_barrier sample_lib (barrier_round R_SEARCH_BARRIER) [''b'', ''a'']
     search_members search_statistics ''someone'' (Aware 5) ''close-key'' = Inr x"
    "sd_holdout x = Some sample_hash" "bb_promoted (sd_barrier x) = [''a'']"
    "bb_members (sd_barrier x) = search_members" using sample_decision by blast
  have "sr_holdout (barrier_round R_HOLDOUT_BARRIER) = sd_holdout x" by (simp add: barrier_round_def x(2))
  moreover have "frozen_document (barrier_round R_SEARCH_BARRIER) (promoted_by x) =
      frozen_document (barrier_round R_HOLDOUT_BARRIER) (bb_members sample_barrier)"
    by (simp add: frozen_document_def promoted_by_def x(3,4) member_by_id_def sample_barrier_def
        barrier_round_def sample_round_def measured_member_def holdout_document_def)
  ultimately show ?thesis
    using holdout_keeps_the_promoted_artifacts [OF x(1) sample_effects sample_holdout_closes] x(3) by metis
qed


text \<open>The comparison of the sample.\<close>

definition sample_adjusted :: adjusted where
  "sample_adjusted = \<lparr>aj_candidate = ''a'', aj_measurement = None, aj_receipt = Some ''r-a'', aj_synthetic = True,
     aj_correctness = sample_hash, aj_raw = Some (sample_sha (CHR ''a'')),
     aj_baseline = Some (sample_sha (CHR ''a'')), aj_verdict = FASTER, aj_lower = Some (Fin (1/2)),
     aj_upper = Some (Fin (1/2)), aj_stage0 = Some (Fin (1/4)), aj_workload = Some (Fin 0),
     aj_threshold = Some (Fin (1/4)), aj_codes = []\<rparr>"

definition sample_comparison :: comparison where
  "sample_comparison = \<lparr>mc_id = ''hcuopt:m2-bonferroni:'' @ sample_hash, mc_round = ''round-1'',
     mc_mode = RM_SCRIPTED, mc_synthetic = True, mc_barrier = bb_id sample_barrier, mc_family = sample_hash,
     mc_version = M2_FWER_PROTOCOL_VERSION, mc_protocol = sample_hash, mc_family_alpha = Fin (1/16), mc_m = 1,
     mc_alpha = Fin (1/16), mc_results = [sample_adjusted], mc_recommended = Some ''a'',
     mc_hash = sample_hash, mc_created = Aware 11\<rparr>"

lemma sample_adjusted_ok: "make_adjusted sample_adjusted = Inr sample_adjusted"
proof -
  have "is_sha256 (sample_sha (CHR ''a''))" by code_simp
  with sample_hash_ok show ?thesis
    by (simp add: make_adjusted_def adjusted_fields_def sample_adjusted_def opt_all_def fle_def
        require_adjusted_verdict_evidence_def given_def is_close_def fmax_def feq_def verdict_matches_def Let_def)
qed

lemma sample_adjusts:
  "adjust_member sample_lib (barrier_round R_HOLDOUT_BARRIER) (Fin (1/16))
     (statistics_map_of [sample_statistics (CHR ''a'')]) (measured_member ''a'' RC_HOLDOUT_MEASURED) =
   Inr sample_adjusted"
  using sample_adjusted_ok
  by (simp add: adjust_member_def adjust_measured_def measured_member_def statistics_map_of_def
      sample_statistics_def statistics_valid_def sample_tails(3) sample_interval sample_mde Let_def
      judge_def fmax_def sample_adjusted_def)

lemma sample_compares:
  "bonferroni_fwer sample_lib (barrier_round R_HOLDOUT_BARRIER) sample_barrier
     [sample_statistics (CHR ''a'')] (Aware 11) = Inr sample_comparison"
proof -
  let ?r = "barrier_round R_HOLDOUT_BARRIER" and ?ss = "[sample_statistics (CHR ''a'')]"
  have al: "fdiv (sr_alpha ?r) (of_py_int 1) = Inr (Fin (1/16))" unfolding barrier_round_def by simp code_simp
  have al': "fdiv (Fin (1/16)) (of_py_int 1) = Inr (Fin (1/16))" by code_simp
  have st: "statistics_by_candidate ?ss = Inr (statistics_map_of ?ss)"
    by (simp add: statistics_by_candidate_eq statistics_map_of_def)
  have m: "make_comparison sample_comparison = Inr sample_comparison"
    using sample_hash_ok al'
    by (simp add: make_comparison_def comparison_fields_def sample_comparison_def open_unit_def text_between_def
        M2_FWER_PROTOCOL_VERSION_def require_frozen_bonferroni_family_def is_close_def feq_def
        recommendation_def sample_adjusted_def Let_def del: fdiv.simps)
  have "map_res (adjust_member sample_lib ?r (Fin (1/16)) (statistics_map_of ?ss)) sample_holdout = Inr [sample_adjusted]"
    using sample_adjusts by simp
  moreover have "bind_statistics_to_members (statistics_map_of ?ss) sample_holdout = Inr ()"
    "reject_reused_statistics_identities (map snd (statistics_map_of ?ss)) = Inr ()"
    "{x \<in> set sample_holdout. bm_state x = RC_HOLDOUT_MEASURED} = set sample_holdout"
    by (auto simp: bind_statistics_eq reject_reused_statistics_identities_def measured_member_def sample_statistics_def)
  moreover have "recommendation [sample_adjusted] = Some ''a''" by (simp add: recommendation_def sample_adjusted_def)
  ultimately show ?thesis
    using m al st
    by (simp add: bonferroni_fwer_def Let_def require_scripted_round_def sample_barrier_def m2_fwer_protocol_hash_def
        sample_comparison_def del: fdiv.simps)
      (simp add: barrier_round_def sample_round_def sample_statistics_def statistics_map_of_def measured_member_def
        sample_lib_def)
qed


text \<open>
  C39. The hash of a comparison is reproducible and tells tampering: recomputing it from the
  result gives the stored hash; and another result with that hash, recomputed likewise,
  has the same verdicts and numbers for every candidate, the same recommendation and the
  same family, level and share of it, provided the hash does not collide on the two.
\<close>

theorem result_hash_is_tamper_evident:
  assumes "bonferroni_fwer L r b ss created = Inr c"
  shows "recompute_result_hash L c = mc_hash c \<and>
    (\<forall>c'. recompute_result_hash L c' = mc_hash c \<and>
        (lib_digest L (comparison_document c') = lib_digest L (comparison_document c) \<longrightarrow>
           comparison_document c' = comparison_document c) \<longrightarrow>
      mc_results c' = mc_results c \<and> mc_recommended c' = mc_recommended c \<and>
      mc_family_alpha c' = mc_family_alpha c \<and> mc_m c' = mc_m c \<and> mc_alpha c' = mc_alpha c \<and>
      mc_round c' = mc_round c \<and> mc_barrier c' = mc_barrier c \<and> mc_family c' = mc_family c \<and>
      mc_protocol c' = mc_protocol c \<and> mc_synthetic c' = mc_synthetic c)"
proof -
  from bonferroni_parts [OF assms] have h: "recompute_result_hash L c = mc_hash c" by metis
  have d: "recompute_result_hash L c' = lib_digest L (comparison_document c')" for c'
    by (simp add: recompute_result_hash_def comparison_document_def)
  show ?thesis
    using h unfolding d comparison_document_def
    by (auto dest!: payload_inject)
qed

theorem result_hash_is_tamper_evident_witness:
  "recompute_result_hash sample_lib sample_comparison = mc_hash sample_comparison"
  using result_hash_is_tamper_evident [OF sample_compares] by blast



end
