(* ===== verification/RoundLife.thy ===== *)
theory RoundLife
  imports RoundTasks RoundOps BarrierProps
begin

text \<open>
  The life of a scripted round: the operations of SearchRound, RoundBudget, the queue and
  RoundOps as one transition system, the abstract life that the durable rows of a round
  stand for, and the invariant that ties the two together. The properties are in
  RoundLifeProps.
\<close>

section \<open>Operations and histories\<close>

datatype store_op =
    S_m2 m2_op
  | S_search decision
  | S_reveal reveal
  | S_holdout barrier
  | S_compare comparison
  | S_finish evidence_bundle
  | S_cancel time uuid string

definition store_state :: "error + (round_store \<times> 'r) \<Rightarrow> error + round_store" where
  "store_state m = bind_res m (\<lambda>(s, _). Inr s)"

lemma store_state_Inr [simp]: "store_state m = Inr s \<longleftrightarrow> (\<exists>r. m = Inr (s, r))"
  by (auto simp: store_state_def bind_res_eq_Inr)

fun store_step :: "m2_lib \<Rightarrow> finalizer option \<Rightarrow> store_op \<Rightarrow> round_store \<Rightarrow> error + round_store" where
  "store_step E verify (S_m2 p) s =
     bind_res (m2_step (doc_hash E) p (st_m2 s)) (\<lambda>d. Inr (s\<lparr>st_m2 := d\<rparr>))"
| "store_step E verify (S_search x) s = store_state (store_search_barrier E x s)"
| "store_step E verify (S_reveal v) s = store_state (record_scripted_holdout_reveal E v s)"
| "store_step E verify (S_holdout b) s = store_state (store_holdout_barrier E b s)"
| "store_step E verify (S_compare c) s = store_state (record_scripted_multiple_comparison E c s)"
| "store_step E verify (S_finish b) s = store_state (finalize_scripted_search_round E verify b s)"
| "store_step E verify (S_cancel now i reason) s =
     store_state (cancel_scripted_search_round now i reason s)"

text \<open>The requests that the models accept.\<close>

fun store_valid :: "m2_lib \<Rightarrow> store_op \<Rightarrow> bool" where
  "store_valid E (S_m2 p) = m2_valid p"
| "store_valid E (S_search x) = (make_barrier (sd_barrier x) = Inr (sd_barrier x))"
| "store_valid E (S_reveal v) = (make_reveal E v = Inr v)"
| "store_valid E (S_holdout b) = (make_barrier b = Inr b)"
| "store_valid E (S_compare c) = (make_comparison c = Inr c)"
| "store_valid E (S_finish b) = (make_bundle b = Inr b)"
| "store_valid E (S_cancel now i reason) = True"

section \<open>The abstract life of a round\<close>

datatype stage = ST_intake | ST_closed | ST_building | ST_frozen | ST_searched bool
  | ST_revealed | ST_held | ST_compared | ST_completed | ST_cancelled

inductive life_step :: "stage \<Rightarrow> stage \<Rightarrow> bool" where
  "life_step ST_intake ST_closed"
| "life_step ST_closed ST_building"
| "life_step ST_building ST_frozen"
| "life_step ST_frozen (ST_searched promoted)"
| "life_step (ST_searched True) ST_revealed"
| "life_step ST_revealed ST_held"
| "life_step ST_held ST_compared"
| "life_step ST_compared ST_completed"
| "life_step (ST_searched False) ST_completed"
| "a \<noteq> ST_completed \<Longrightarrow> a \<noteq> ST_cancelled \<Longrightarrow> life_step a ST_cancelled"

inductive_simps life_step_from [simp]:
  "life_step ST_completed b" "life_step ST_cancelled b" "life_step ST_compared b"

text \<open>What the durable rows of a round imply.\<close>

definition search_of :: "round_store \<Rightarrow> uuid \<Rightarrow> decision option" where
  "search_of s i = (case barrier_of s i PH_SEARCH of None \<Rightarrow> None
     | Some w \<Rightarrow> (case br_payload w of Search_payload x \<Rightarrow> Some x | Holdout_payload b \<Rightarrow> None))"

definition hold_of :: "round_store \<Rightarrow> uuid \<Rightarrow> barrier option" where
  "hold_of s i = (case barrier_of s i PH_HOLDOUT of None \<Rightarrow> None
     | Some w \<Rightarrow> (case br_payload w of Holdout_payload b \<Rightarrow> Some b | Search_payload x \<Rightarrow> None))"

definition any_built :: "m2_db \<Rightarrow> uuid \<Rightarrow> bool" where
  "any_built d i \<longleftrightarrow> (\<exists>m \<in> set (round_members d i). mb_state m \<in> set BUILD_TERMINAL_STATES)"

definition stage_of :: "round_store \<Rightarrow> search_round \<Rightarrow> stage" where
  "stage_of s r =
     (let i = sr_id r in
      if sr_state r = R_CANCELLED then ST_cancelled
      else if bundle_of s i \<noteq> None then ST_completed
      else if comparison_of s i \<noteq> None then ST_compared
      else if hold_of s i \<noteq> None then ST_held
      else if reveal_of s i \<noteq> None then ST_revealed
      else case search_of s i of
        Some x \<Rightarrow> ST_searched (bb_promoted (sd_barrier x) \<noteq> [])
      | None \<Rightarrow>
          if sr_artifacts r \<noteq> None then ST_frozen
          else if sr_family r \<noteq> None then (if any_built (st_m2 s) i then ST_building else ST_closed)
          else ST_intake)"

fun stage_state :: "stage \<Rightarrow> round_state" where
  "stage_state ST_intake = R_INTAKE_OPEN"
| "stage_state ST_closed = R_INTAKE_CLOSED"
| "stage_state ST_building = R_BUILDING"
| "stage_state ST_frozen = R_CORRECTNESS"
| "stage_state (ST_searched p) = R_SEARCH_BARRIER"
| "stage_state ST_revealed = R_HOLDOUT_MEASURING"
| "stage_state ST_held = R_HOLDOUT_BARRIER"
| "stage_state ST_compared = R_HOLDOUT_BARRIER"
| "stage_state ST_completed = R_SCRIPTED_COMPLETED"
| "stage_state ST_cancelled = R_CANCELLED"

definition task_of :: "round_state \<Rightarrow> task_state" where
  "task_of s = (if s = R_SCRIPTED_COMPLETED then T_COMPLETED
     else if s = R_CANCELLED then T_CANCELLED else T_CREATED)"

section \<open>The invariant\<close>

text \<open>A round and its task stand and fall together.\<close>

definition task_inv :: "m2_db \<Rightarrow> bool" where
  "task_inv d \<longleftrightarrow>
     distinct (map t_id (tasks (base d))) \<and> distinct (map sr_task (rounds d)) \<and>
     (\<forall>t \<in> set (round_tasks (base d)). \<exists>r \<in> set (rounds d). sr_task r = t_id t \<and> sr_key r = t_key t) \<and>
     (\<forall>r \<in> set (rounds d). \<exists>t \<in> set (round_tasks (base d)).
        t_id t = sr_task r \<and> t_key t = sr_key r \<and> t_state t = task_of (sr_state r))"

text \<open>The evidence of a round has no gaps.\<close>

definition complete :: "round_store \<Rightarrow> uuid \<Rightarrow> bool" where
  "complete s i \<longleftrightarrow>
     (reveal_of s i \<noteq> None \<longrightarrow> (\<exists>x. search_of s i = Some x \<and> bb_promoted (sd_barrier x) \<noteq> [])) \<and>
     (hold_of s i \<noteq> None \<longrightarrow> reveal_of s i \<noteq> None) \<and>
     (comparison_of s i \<noteq> None \<longrightarrow> hold_of s i \<noteq> None) \<and>
     (bundle_of s i \<noteq> None \<longrightarrow> (\<exists>x. search_of s i = Some x \<and>
        (bb_promoted (sd_barrier x) \<noteq> [] \<longrightarrow> comparison_of s i \<noteq> None)))"

text \<open>A completed round passed its check, and its budget is closed for good.\<close>

definition sealed :: "m2_lib \<Rightarrow> finalizer option \<Rightarrow> round_store \<Rightarrow> search_round \<Rightarrow> bool" where
  "sealed E verify s r \<longleftrightarrow> (\<exists>w x check st n.
     bundle_of s (sr_id r) = Some w \<and> search_of s (sr_id r) = Some x \<and> verify = Some check \<and>
     check (r\<lparr>sr_state := st, sr_version := n\<rparr>) x (ew_payload w) (hold_of s (sr_id r))
       (map_option cw_payload (comparison_of s (sr_id r))) = Inr () \<and>
     eb_ledger (ew_payload w) = durable_ledger_hash E (st_m2 s) (sr_id r) \<and>
     (\<forall>v \<in> set (reservations (st_m2 s)). v_round v = sr_id r \<longrightarrow> v_state v \<noteq> BR_RESERVED))"

definition barrier_row_ok :: "barrier_row \<Rightarrow> bool" where
  "barrier_row_ok w \<longleftrightarrow> (case br_payload w of
     Search_payload x \<Rightarrow> br_phase w = PH_SEARCH \<and>
       (bb_outcome (sd_barrier x) = MEMBERS_PROMOTED \<longleftrightarrow> bb_promoted (sd_barrier x) \<noteq> []) \<and>
       (bb_outcome (sd_barrier x) = NO_PROMOTABLE_CANDIDATE \<longleftrightarrow> bb_promoted (sd_barrier x) = [])
   | Holdout_payload b \<Rightarrow> br_phase w = PH_HOLDOUT)"

definition rows_inv :: "round_store \<Rightarrow> bool" where
  "rows_inv s \<longleftrightarrow>
     (\<forall>w \<in> set (st_barriers s). barrier_row_ok w) \<and>
     br_round ` set (st_barriers s) \<union> rw_round ` set (st_reveals s) \<union>
     cw_round ` set (st_comparisons s) \<union> ew_round ` set (st_bundles s) \<subseteq>
       sr_id ` set (rounds (st_m2 s))"

definition life_ok :: "m2_lib \<Rightarrow> finalizer option \<Rightarrow> round_store \<Rightarrow> search_round \<Rightarrow> bool" where
  "life_ok E verify s r \<longleftrightarrow>
     sr_state r = stage_state (stage_of s r) \<and> complete s (sr_id r) \<and>
     (sr_state r = R_CANCELLED \<longrightarrow> bundle_of s (sr_id r) = None) \<and>
     (sr_state r = R_SCRIPTED_COMPLETED \<longrightarrow> sealed E verify s r)"

definition store_inv :: "m2_lib \<Rightarrow> finalizer option \<Rightarrow> round_store \<Rightarrow> bool" where
  "store_inv E verify s \<longleftrightarrow> m2_inv (doc_hash E) (st_m2 s) \<and> task_inv (st_m2 s) \<and> rows_inv s \<and>
     (\<forall>r \<in> set (rounds (st_m2 s)). life_ok E verify s r)"

definition empty_store :: "round_store \<Rightarrow> bool" where
  "empty_store s \<longleftrightarrow> empty_m2 (st_m2 s) \<and> st_barriers s = [] \<and> st_reveals s = [] \<and>
     st_comparisons s = [] \<and> st_bundles s = [] \<and>
     distinct (map t_id (tasks (base (st_m2 s)))) \<and> round_tasks (base (st_m2 s)) = []"

lemma empty_store_inv: "empty_store s \<Longrightarrow> store_inv E verify s"
  by (auto simp: empty_store_def store_inv_def empty_m2_inv task_inv_def rows_inv_def)
    (auto simp: empty_m2_def)

section \<open>Looking rows up\<close>

lemma insert_barrierD:
  assumes "insert_barrier w s = Inr s'"
  shows "s' = s\<lparr>st_barriers := st_barriers s @ [w]\<rparr>" "barrier_of s (br_round w) (br_phase w) = None"
  using assms by (auto simp: insert_barrier_def barrier_of_def find_None_iff list_ex_iff split: if_splits)

lemma insert_revealD:
  assumes "insert_reveal w s = Inr s'"
  shows "s' = s\<lparr>st_reveals := st_reveals s @ [w]\<rparr>" "reveal_of s (rw_round w) = None"
  using assms by (auto simp: insert_reveal_def reveal_of_def find_None_iff list_ex_iff split: if_splits)

lemma insert_comparisonD:
  assumes "insert_comparison w s = Inr s'"
  shows "s' = s\<lparr>st_comparisons := st_comparisons s @ [w]\<rparr>" "comparison_of s (cw_round w) = None"
  using assms by (auto simp: insert_comparison_def comparison_of_def find_None_iff list_ex_iff split: if_splits)

lemma insert_bundleD:
  assumes "insert_bundle w s = Inr s'"
  shows "s' = s\<lparr>st_bundles := st_bundles s @ [w]\<rparr>" "bundle_of s (ew_round w) = None"
  using assms by (auto simp: insert_bundle_def bundle_of_def find_None_iff list_ex_iff split: if_splits)

lemma barrier_of_insert:
  "st_barriers s' = st_barriers s @ [w] \<Longrightarrow> barrier_of s (br_round w) (br_phase w) = None \<Longrightarrow>
   barrier_of s' i p = (if i = br_round w \<and> p = br_phase w then Some w else barrier_of s i p)"
  by (auto simp: barrier_of_def find_append split: option.split)

lemma reveal_of_insert:
  "st_reveals s' = st_reveals s @ [w] \<Longrightarrow> reveal_of s (rw_round w) = None \<Longrightarrow>
   reveal_of s' i = (if i = rw_round w then Some w else reveal_of s i)"
  by (auto simp: reveal_of_def find_append split: option.split)

lemma comparison_of_insert:
  "st_comparisons s' = st_comparisons s @ [w] \<Longrightarrow> comparison_of s (cw_round w) = None \<Longrightarrow>
   comparison_of s' i = (if i = cw_round w then Some w else comparison_of s i)"
  by (auto simp: comparison_of_def find_append split: option.split)

lemma bundle_of_insert:
  "st_bundles s' = st_bundles s @ [w] \<Longrightarrow> bundle_of s (ew_round w) = None \<Longrightarrow>
   bundle_of s' i = (if i = ew_round w then Some w else bundle_of s i)"
  by (auto simp: bundle_of_def find_append split: option.split)

end
