(* ===== verification/RoundLifeInv.thy ===== *)
theory RoundLifeInv
  imports RoundLife
begin

text \<open>
  The invariant of RoundLife is kept by every operation of the store: first what each
  operation does to the tables, then the families, the tasks and the life of the rounds.
\<close>

section \<open>Effects\<close>

definition bump :: "(search_round \<Rightarrow> search_round) \<Rightarrow> search_round \<Rightarrow> search_round" where
  "bump f q = (f q)\<lparr>sr_version := sr_version q + 1\<rparr>"

text \<open>One round is rewritten, and the members only by \<open>h\<close>.\<close>

definition moves ::
    "uuid \<Rightarrow> (search_round \<Rightarrow> search_round) \<Rightarrow> (member \<Rightarrow> member) \<Rightarrow> m2_db \<Rightarrow> m2_db \<Rightarrow> bool" where
  "moves i g h d d' \<longleftrightarrow>
     rounds d' = update_where (\<lambda>q. sr_id q = i) (bump g) (rounds d) \<and>
     members d' = map h (members d) \<and> reservations d' = reservations d \<and> ledger d' = ledger d"

text \<open>The four tables of evidence, and the rows of one operation appended to one of them.\<close>

definition evidence_rows ::
    "round_store \<Rightarrow> barrier_row list \<times> reveal_row list \<times> comparison_row list \<times> bundle_row list" where
  "evidence_rows s = (st_barriers s, st_reveals s, st_comparisons s, st_bundles s)"

lemma lock_round_Inr [simp]: "lock_round s i = Inr r \<longleftrightarrow> find_round (st_m2 s) i = Some r"
  by (simp add: lock_round_def split: option.split)

lemma make_search_round_Inr: "make_search_round q = Inr q' \<Longrightarrow> q' = q"
  by (auto simp: make_search_round_def bind_res_eq_Inr split: if_splits)

lemma update_round_eq:
  "update_round i f ty details r s =
     (in_m2 (in_base (log_task (sr_task r) ty details) \<circ> set_round i (bump f)) s, bump f r)"
  by (simp add: update_round_def bump_def [abs_def])

lemma in_m2_simps [simp]:
  "st_m2 (in_m2 k s) = k (st_m2 s)" "evidence_rows (in_m2 k s) = evidence_rows s"
  by (simp_all add: in_m2_def evidence_rows_def)

lemma base_in_base [simp]: "base (in_base f d) = f (base d)"
  by (simp add: in_base_def)

definition mark :: "barrier_member \<Rightarrow> member \<Rightarrow> member" where
  "mark b m = (if mb_id m = bm_member b then m\<lparr>mb_state := bm_state b\<rparr> else m)"

lemma fold_set_member_state:
  "fold set_member_state bs d = d\<lparr>members := map (fold mark bs) (members d)\<rparr>"
proof (induction bs arbitrary: d)
  case (Cons b bs)
  have "set_member_state b d = d\<lparr>members := map (mark b) (members d)\<rparr>"
    by (simp add: set_member_state_def update_where_def mark_def)
  then show ?case by (simp add: Cons o_def)
qed simp

lemma fold_mark_id [simp]: "mb_id (fold mark bs m) = mb_id m"
  by (induction bs arbitrary: m) (auto simp: mark_def)

lemma fold_mark_part: "artifact_part (fold mark bs m) = artifact_part m"
  by (induction bs arbitrary: m) (auto simp: mark_def artifact_part_def)

lemma fold_mark_other: "mb_id m \<notin> bm_member ` set bs \<Longrightarrow> fold mark bs m = m"
  by (induction bs arbitrary: m) (auto simp: mark_def)

lemma map_resD: "map_res f xs = Inr ys \<Longrightarrow> x \<in> set xs \<Longrightarrow> \<exists>y. f x = Inr y"
  by (induction xs arbitrary: ys) (auto simp: bind_res_eq_Inr)

lemma check_search_memberD:
  "check_search_member ms b = Inr u \<Longrightarrow> \<exists>m \<in> set ms. mb_id m = bm_member b"
  by (auto simp: check_search_member_def same_artifact_def split: option.splits if_splits)

lemma check_holdout_memberD:
  "check_holdout_member ms b = Inr u \<Longrightarrow> \<exists>m \<in> set ms. mb_id m = bm_member b"
  by (auto simp: check_holdout_member_def same_artifact_def split: option.splits if_splits)

definition own_members :: "uuid \<Rightarrow> barrier_member list \<Rightarrow> m2_db \<Rightarrow> bool" where
  "own_members i bs d \<longleftrightarrow> (\<forall>b \<in> set bs. \<exists>m \<in> set (members d). mb_round m = i \<and> mb_id m = bm_member b)"

lemma search_effect:
  assumes "store_search_barrier E x s = Inr (s', r')"
  shows "s' = s \<or> (\<exists>r w. find_round (st_m2 s) (bb_round (sd_barrier x)) = Some r \<and>
     sr_state r \<in> {R_CORRECTNESS, R_SEARCH_MEASURING} \<and>
     own_members (bb_round (sd_barrier x)) (bb_members (sd_barrier x)) (st_m2 s) \<and>
     br_round w = bb_round (sd_barrier x) \<and> br_phase w = PH_SEARCH \<and> br_payload w = Search_payload x \<and>
     barrier_of s (br_round w) PH_SEARCH = None \<and>
     moves (bb_round (sd_barrier x)) (\<lambda>q. q\<lparr>sr_state := R_SEARCH_BARRIER, sr_holdout := sd_holdout x\<rparr>)
       (fold mark (bb_members (sd_barrier x))) (st_m2 s) (st_m2 s') \<and>
     tasks (base (st_m2 s')) = tasks (base (st_m2 s)) \<and>
     evidence_rows s' = (st_barriers s @ [w], st_reveals s, st_comparisons s, st_bundles s))"
proof (cases "s' = s")
  case False
  let ?b = "sd_barrier x"
  let ?w = "\<lparr>br_id = bb_id ?b, br_round = bb_round ?b, br_phase = PH_SEARCH, br_payload = Search_payload x,
    br_hash = doc_hash E (decision_json E x), br_key = bb_key ?b\<rparr>"
  from assms False obtain r s1 us where r: "find_round (st_m2 s) (bb_round ?b) = Some r"
      "sr_state r \<in> {R_CORRECTNESS, R_SEARCH_MEASURING}"
    and own: "map_res (check_search_member (sort_key mb_candidate
        (filter (\<lambda>m. mb_round m = bb_round ?b) (members (st_m2 s))))) (bb_members ?b) = Inr us"
    and ins: "insert_barrier ?w s = Inr s1"
    and s': "s' = fst (update_round (bb_round ?b)
        (\<lambda>q. q\<lparr>sr_state := R_SEARCH_BARRIER, sr_holdout := sd_holdout x\<rparr>)
        ''m2_search_barrier_closed''
        (jobj [(''round_id'', JStr (bb_round ?b)), (''barrier_id'', JStr (bb_id ?b)),
           (''outcome'', JStr (outcome_value (bb_outcome ?b))),
           (''promoted_candidate_ids'', JArr (map JStr (bb_promoted ?b)))]) r
        (in_m2 (fold set_member_state (bb_members ?b)) s1))"
    by (auto simp: store_search_barrier_def Let_def bind_res_eq_Inr split: if_splits option.splits)
  have o: "own_members (bb_round ?b) (bb_members ?b) (st_m2 s)"
    unfolding own_members_def
  proof
    fix b assume "b \<in> set (bb_members ?b)"
    from map_resD [OF own this] show "\<exists>m \<in> set (members (st_m2 s)). mb_round m = bb_round ?b \<and> mb_id m = bm_member b"
      by (auto dest!: check_search_memberD)
  qed
  note I = insert_barrierD [OF ins]
  show ?thesis
    using r o I(2) unfolding s' update_round_eq I(1)
    by (intro disjI2 exI [of _ r] exI [of _ ?w])
      (simp add: moves_def fold_set_member_state evidence_rows_def in_m2_def)
qed simp

lemma reveal_effect:
  assumes "record_scripted_holdout_reveal E v s = Inr (s', r')"
  shows "s' = s \<or> (\<exists>r w u x. find_round (st_m2 s) (rv_round v) = Some r \<and> sr_state r = R_SEARCH_BARRIER \<and>
     barrier_of s (rv_round v) PH_SEARCH = Some u \<and> br_payload u = Search_payload x \<and>
     bb_outcome (sd_barrier x) = MEMBERS_PROMOTED \<and>
     rw_round w = rv_round v \<and> reveal_of s (rw_round w) = None \<and>
     moves (rv_round v) (\<lambda>q. q\<lparr>sr_state := R_HOLDOUT_MEASURING, sr_holdout_plan := Some (rv_plan v),
        sr_reveal_lease := Some (rv_lease v), sr_reveal_evidence := Some (rv_evidence v)\<rparr>)
       (\<lambda>m. m) (st_m2 s) (st_m2 s') \<and>
     tasks (base (st_m2 s')) = tasks (base (st_m2 s)) \<and>
     evidence_rows s' = (st_barriers s, st_reveals s @ [w], st_comparisons s, st_bundles s))"
proof (cases "s' = s")
  case False
  let ?w = "\<lparr>rw_round = rv_round v, rw_payload = v, rw_hash = doc_hash E (reveal_json E v)\<rparr>"
  from assms False obtain r s1 u x ty det where r: "find_round (st_m2 s) (rv_round v) = Some r"
      "sr_state r = R_SEARCH_BARRIER" "barrier_of s (rv_round v) PH_SEARCH = Some u"
      "br_payload u = Search_payload x" "bb_outcome (sd_barrier x) = MEMBERS_PROMOTED"
    and ins: "insert_reveal ?w s = Inr s1"
    and s': "update_round (rv_round v)
      (\<lambda>q. q\<lparr>sr_state := R_HOLDOUT_MEASURING, sr_holdout_plan := Some (rv_plan v),
         sr_reveal_lease := Some (rv_lease v), sr_reveal_evidence := Some (rv_evidence v)\<rparr>) ty det r s1 =
         (s', r')"
    by (auto simp: record_scripted_holdout_reveal_def Let_def bind_res_eq_Inr
        split: if_splits option.splits barrier_payload.splits)
  note I = insert_revealD [OF ins]
  show ?thesis
    using r I(2) s' [symmetric] unfolding update_round_eq I(1)
    by (intro disjI2 exI [of _ r] exI [of _ ?w] exI [of _ u] exI [of _ x])
      (simp add: moves_def evidence_rows_def in_m2_def)
qed simp

lemma holdout_effect:
  assumes "store_holdout_barrier E b s = Inr (s', r')"
  shows "s' = s \<or> (\<exists>r w. find_round (st_m2 s) (bb_round b) = Some r \<and>
     sr_state r = R_HOLDOUT_MEASURING \<and> own_members (bb_round b) (bb_members b) (st_m2 s) \<and>
     br_round w = bb_round b \<and> br_phase w = PH_HOLDOUT \<and> br_payload w = Holdout_payload b \<and>
     barrier_of s (br_round w) PH_HOLDOUT = None \<and>
     moves (bb_round b) (\<lambda>q. q\<lparr>sr_state := R_HOLDOUT_BARRIER\<rparr>)
       (fold mark (bb_members b)) (st_m2 s) (st_m2 s') \<and>
     tasks (base (st_m2 s')) = tasks (base (st_m2 s)) \<and>
     evidence_rows s' = (st_barriers s @ [w], st_reveals s, st_comparisons s, st_bundles s))"
proof (cases "s' = s")
  case False
  let ?w = "\<lparr>br_id = bb_id b, br_round = bb_round b, br_phase = PH_HOLDOUT, br_payload = Holdout_payload b,
    br_hash = doc_hash E (barrier_json E b), br_key = bb_key b\<rparr>"
  from assms False obtain r s1 us where r: "find_round (st_m2 s) (bb_round b) = Some r"
      "sr_state r = R_HOLDOUT_MEASURING"
    and own: "map_res (check_holdout_member
        (filter (\<lambda>m. mb_round m = bb_round b) (members (st_m2 s)))) (bb_members b) = Inr us"
    and ins: "insert_barrier ?w s = Inr s1"
    and s': "s' = fst (update_round (bb_round b) (\<lambda>q. q\<lparr>sr_state := R_HOLDOUT_BARRIER\<rparr>)
        ''m2_holdout_barrier_closed''
        (jobj [(''round_id'', JStr (bb_round b)), (''barrier_id'', JStr (bb_id b)),
           (''member_count'', JInt (bb_expected b))]) r
        (in_m2 (fold set_member_state (bb_members b)) s1))"
    by (auto simp: store_holdout_barrier_def Let_def bind_res_eq_Inr split: if_splits option.splits)
  have o: "own_members (bb_round b) (bb_members b) (st_m2 s)"
    unfolding own_members_def
  proof
    fix c assume "c \<in> set (bb_members b)"
    from map_resD [OF own this] show "\<exists>m \<in> set (members (st_m2 s)). mb_round m = bb_round b \<and> mb_id m = bm_member c"
      by (auto dest!: check_holdout_memberD)
  qed
  note I = insert_barrierD [OF ins]
  show ?thesis
    using r o I(2) unfolding s' update_round_eq I(1)
    by (intro disjI2 exI [of _ r] exI [of _ ?w])
      (simp add: moves_def fold_set_member_state evidence_rows_def in_m2_def)
qed simp

lemma comparison_effect:
  assumes "record_scripted_multiple_comparison E c s = Inr (s', c')"
  shows "s' = s \<or> (\<exists>r w. find_round (st_m2 s) (mc_round c) = Some r \<and> sr_state r = R_HOLDOUT_BARRIER \<and>
     cw_round w = mc_round c \<and> comparison_of s (cw_round w) = None \<and>
     moves (mc_round c) (\<lambda>q. q) (\<lambda>m. m) (st_m2 s) (st_m2 s') \<and>
     tasks (base (st_m2 s')) = tasks (base (st_m2 s)) \<and>
     evidence_rows s' = (st_barriers s, st_reveals s, st_comparisons s @ [w], st_bundles s))"
proof (cases "s' = s")
  case False
  let ?w = "\<lparr>cw_round = mc_round c, cw_payload = c, cw_hash = doc_hash E (comparison_json E c)\<rparr>"
  from assms False obtain r s1 ty det where r: "find_round (st_m2 s) (mc_round c) = Some r"
      "sr_state r = R_HOLDOUT_BARRIER"
    and ins: "insert_comparison ?w s = Inr s1"
    and s': "fst (update_round (mc_round c) (\<lambda>q. q) ty det r s1) = s'"
    by (auto simp: record_scripted_multiple_comparison_def Let_def bind_res_eq_Inr
        split: if_splits option.splits)
  note I = insert_comparisonD [OF ins]
  show ?thesis
    using r I(2) s' [symmetric] unfolding update_round_eq I(1)
    by (intro disjI2 exI [of _ r] exI [of _ ?w]) (simp add: moves_def evidence_rows_def in_m2_def)
qed simp

lemma finalizer_conflict_Inr [simp]: "finalizer_conflict m = Inr u \<longleftrightarrow> m = Inr ()"
  by (auto simp: finalizer_conflict_def split: sum.splits error.splits)

definition moved_tasks :: "uuid \<Rightarrow> task_state \<Rightarrow> task list \<Rightarrow> task list" where
  "moved_tasks i st = update_where (\<lambda>t. t_id t = i) (\<lambda>t. t\<lparr>t_state := st, t_version := t_version t + 1\<rparr>)"

lemma tasks_move_task: "tasks (move_task i st d) = moved_tasks i st (tasks d)"
  by (simp add: move_task_def set_task_def moved_tasks_def)

definition hold_row :: "barrier_row option \<Rightarrow> error + barrier option" where
  "hold_row h = (case h of None \<Rightarrow> Inr None | Some w \<Rightarrow> bind_res (holdout_of w) (\<lambda>y. Inr (Some y)))"

lemma hold_row_of: "hold_row (barrier_of s i PH_HOLDOUT) = Inr y \<Longrightarrow> y = hold_of s i"
  by (auto simp: hold_row_def hold_of_def bind_res_eq_Inr split: option.splits barrier_payload.splits)

lemma finish_effect:
  assumes "finalize_scripted_search_round E verify b s = Inr (s', r')"
  shows "s' = s \<or> (\<exists>r w u x check. find_round (st_m2 s) (eb_round b) = Some r \<and>
     barrier_of s (eb_round b) PH_SEARCH = Some u \<and> br_payload u = Search_payload x \<and>
     verify = Some check \<and> check r x b (hold_of s (eb_round b))
       (map_option cw_payload (comparison_of s (eb_round b))) = Inr () \<and>
     terminal_path b r x (hold_of s (eb_round b))
       (map_option cw_payload (comparison_of s (eb_round b))) = Inr () \<and>
     eb_ledger b = durable_ledger_hash E (st_m2 s) (eb_round b) \<and>
     (\<forall>v \<in> set (reservations (st_m2 s)). v_round v = eb_round b \<longrightarrow> v_state v \<noteq> BR_RESERVED) \<and>
     ew_round w = eb_round b \<and> ew_payload w = b \<and> bundle_of s (ew_round w) = None \<and>
     moves (eb_round b) (\<lambda>q. q\<lparr>sr_state := R_SCRIPTED_COMPLETED\<rparr>) (\<lambda>m. m) (st_m2 s) (st_m2 s') \<and>
     tasks (base (st_m2 s')) = moved_tasks (sr_task r) T_COMPLETED (tasks (base (st_m2 s))) \<and>
     evidence_rows s' = (st_barriers s, st_reveals s, st_comparisons s, st_bundles s @ [w]))"
proof (cases "s' = s")
  case False
  let ?i = "eb_round b"
  let ?w = "\<lparr>ew_round = ?i, ew_payload = b, ew_hash = doc_hash E (bundle_json E b)\<rparr>"
  from assms False obtain r s1 u x y check ty det where r: "find_round (st_m2 s) ?i = Some r"
      "barrier_of s ?i PH_SEARCH = Some u" "br_payload u = Search_payload x" "verify = Some check"
    and y: "hold_row (barrier_of s ?i PH_HOLDOUT) = Inr y"
    and c: "check r x b y (map_option cw_payload (comparison_of s ?i)) = Inr ()"
      "terminal_path b r x y (map_option cw_payload (comparison_of s ?i)) = Inr ()"
      "\<not> list_ex (\<lambda>v. v_round v = ?i \<and> v_state v = BR_RESERVED) (reservations (st_m2 s))"
      "eb_ledger b = durable_ledger_hash E (st_m2 s) ?i"
    and ins: "insert_bundle ?w s = Inr s1"
    and s': "update_round ?i (\<lambda>q. q\<lparr>sr_state := R_SCRIPTED_COMPLETED\<rparr>) ty det r
        (in_m2 (in_base (move_task (sr_task r) T_COMPLETED)) s1) = (s', r')"
    unfolding finalize_scripted_search_round_def Let_def bind_res_eq_Inr hold_row_def [symmetric]
    by (auto simp: bind_res_eq_Inr split: if_splits option.splits barrier_payload.splits prod.splits
        dest!: make_search_round_Inr)
  note I = insert_bundleD [OF ins]
  show ?thesis
    using r c I(2) hold_row_of [OF y] s' [symmetric] unfolding update_round_eq I(1)
    by (intro disjI2 exI [of _ r] exI [of _ ?w] exI [of _ u] exI [of _ x] exI [of _ check])
      (simp add: moves_def evidence_rows_def in_m2_def tasks_move_task list_ex_iff)
qed simp

lemma fold_log_tasks: "tasks (fold (\<lambda>j. log_job (k j) ty v) js d) = tasks d"
  by (induction js arbitrary: d) simp_all

lemma cancel_effect:
  assumes "cancel_scripted_search_round now i reason s = Inr (s', r')"
  shows "s' = s \<or> (\<exists>r. find_round (st_m2 s) i = Some r \<and>
     sr_state r \<notin> {R_CANCELLED, R_SCRIPTED_COMPLETED} \<and> bundle_of s i = None \<and>
     moves i (\<lambda>q. q\<lparr>sr_state := R_CANCELLED\<rparr>) (\<lambda>m. m) (st_m2 s) (st_m2 s') \<and>
     tasks (base (st_m2 s')) = moved_tasks (sr_task r) T_CANCELLED (tasks (base (st_m2 s))) \<and>
     evidence_rows s' = evidence_rows s)"
  using assms
  by (auto simp: cancel_scripted_search_round_def Let_def bind_res_eq_Inr update_round_eq moves_def
      tasks_move_task fold_log_tasks evidence_rows_def in_m2_def split: if_splits)

section \<open>Families and the ledger\<close>

text \<open>A change of state keeps what the family hashes read.\<close>

definition same_frozen :: "search_round \<Rightarrow> search_round \<Rightarrow> bool" where
  "same_frozen r q \<longleftrightarrow> sr_id q = sr_id r \<and> sr_task q = sr_task r \<and> sr_key q = sr_key r \<and>
     sr_declared q = sr_declared r \<and> sr_mode q = sr_mode r \<and> sr_budget q = sr_budget r \<and>
     sr_family q = sr_family r \<and> sr_artifacts q = sr_artifacts r \<and> sr_closed q = sr_closed r \<and>
     sr_hotspot q = sr_hotspot r"

lemma keeps_identityI: "(\<And>m. artifact_part (h m) = artifact_part m) \<Longrightarrow> keeps_identity h"
proof -
  assume h: "\<And>m. artifact_part (h m) = artifact_part m"
  have "same_identity m (h m)" for m
  proof -
    have "same_identity m x \<longleftrightarrow> same_identity (artifact_part m) (artifact_part x)" for x
      by (simp add: same_identity_def artifact_part_def)
    moreover have "same_identity (artifact_part m) (artifact_part m)" by (simp add: same_identity_def)
    ultimately show ?thesis by (simp add: h)
  qed
  then show ?thesis by (simp add: keeps_identity_def)
qed

lemma same_frozen_hashes:
  assumes "same_frozen r q"
  shows "candidate_family_hash digest q ms = candidate_family_hash digest r ms"
    "frozen_artifacts digest ms q h = frozen_artifacts digest ms r h"
proof -
  show "candidate_family_hash digest q ms = candidate_family_hash digest r ms"
    using assms by (simp add: same_frozen_def candidate_family_hash_def member_document_def [abs_def])
  have "artifact_family_hash digest q = artifact_family_hash digest r"
  proof
    show "artifact_family_hash digest q ms = artifact_family_hash digest r ms" for ms
      using assms unfolding same_frozen_def artifact_family_hash_def by metis
  qed
  then show "frozen_artifacts digest ms q h = frozen_artifacts digest ms r h"
    by (simp add: frozen_artifacts_def)
qed

lemma family_ok_moved:
  assumes "family_ok digest ms r" "same_frozen r q" "\<And>m. artifact_part (h m) = artifact_part m"
    and st: "sr_state q = sr_state r \<or> sr_state q = R_CANCELLED \<or>
      (sr_artifacts r \<noteq> None \<and> sr_state q \<notin> {R_INTAKE_OPEN, R_INTAKE_CLOSED, R_BUILDING})"
  shows "family_ok digest (map h ms) q"
proof -
  have fr: "frozen_artifacts digest (map h ms) r a = frozen_artifacts digest ms r a" for a
    using assms(3) by (simp add: frozen_artifacts_def o_def)
  have fam: "sr_family q = sr_family r" "sr_artifacts q = sr_artifacts r" "sr_closed q = sr_closed r"
    "sr_declared q = sr_declared r" using assms(2) by (simp_all add: same_frozen_def)
  show ?thesis
    using assms(1) st
    unfolding family_ok_def fam same_frozen_hashes [OF assms(2)] fr length_map
      family_hash_map [OF keeps_identityI [OF assms(3)]]
    by (auto split: option.splits)
qed

lemma moved_inv:
  assumes inv: "m2_inv digest d" and mv: "moves i g h d d'" and r: "find_round d i = Some r"
    and h: "\<And>m. artifact_part (h m) = artifact_part m" and g: "\<And>q. same_frozen q (bump g q)"
    and st: "sr_state (g r) = sr_state r \<or> sr_state (g r) = R_CANCELLED \<or>
      (sr_artifacts r \<noteq> None \<and> sr_state (g r) \<notin> {R_INTAKE_OPEN, R_INTAKE_CLOSED, R_BUILDING})"
  shows "m2_inv digest d'"
proof -
  have rinv: "rounds_inv digest d" and linv: "ledger_inv d" using inv by (simp_all add: m2_inv_def)
  note D = rounds_invD [OF rinv]
  let ?d = "d\<lparr>members := members d'\<rparr>"
  have mem: "members ?d = map h (members d)" using mv by (simp add: moves_def)
  have keep: "keeps_identity h" by (rule keeps_identityI [OF h])
  have rm: "round_members ?d k = map h (round_members d k)" for k by (rule round_members_map [OF mem keep])
  have idk: "mb_id (h m) = mb_id m" "member_slot (h m) = member_slot m" "mb_round (h m) = mb_round m"
      "mb_ordinal (h m) = mb_ordinal m" for m
    using keep by (simp_all add: keeps_identity_def same_identity_def member_slot_def)
  have fam: "family_ok digest (round_members ?d (sr_id x)) x" if "x \<in> set (rounds d)" for x
    unfolding rm by (rule family_ok_moved [OF D(5) [OF that] _ h]) (simp_all add: same_frozen_def)
  have slots: "map mb_id (members ?d) = map mb_id (members d)"
    "map member_slot (members ?d) = map member_slot (members d)"
    unfolding mem by (simp_all add: idk)
  have "\<exists>r \<in> set (rounds d). sr_id r = mb_round x \<and> 0 \<le> mb_ordinal x \<and> mb_ordinal x < sr_declared r"
    if "x \<in> set (members ?d)" for x
    using that D(4) unfolding mem by (auto simp: idk)
  then have mid: "rounds_inv digest ?d" unfolding rounds_inv_def slots using D(1-3,6-8) fam by auto
  have rs: "rounds d' = update_where (\<lambda>q. sr_id q = i) (bump g) (rounds ?d)"
    using mv by (simp add: moves_def)
  have ri: "r \<in> set (rounds d)" "sr_id r = i" using r by (auto dest: find_roundD)
  have famr: "family_ok digest (round_members ?d i) (bump g r)"
    unfolding rm
  proof (rule family_ok_moved [OF _ g h])
    show "family_ok digest (round_members d i) r" using D(5) [OF ri(1)] ri(2) by simp
  qed (use st in \<open>simp add: bump_def\<close>)
  have fr: "find_round ?d i = Some r" using r by (simp add: find_round_def)
  have "rounds_inv digest d'"
    by (rule set_round_inv [OF mid _ rs fr _ _ _ _ famr]) (use g in \<open>simp_all add: same_frozen_def\<close>)
  moreover have "sr_id ` set (rounds d') = sr_id ` set (rounds d)"
  proof -
    have "map sr_id (rounds d') = map sr_id (rounds d)"
      unfolding rs using g by (simp add: map_update_where same_frozen_def)
    then show ?thesis by (metis list.set_map)
  qed
  then have "ledger_inv d'"
    using ledger_inv_cong [OF linv, of d'] mv by (simp add: moves_def)
  ultimately show ?thesis by (simp add: m2_inv_def)
qed

section \<open>Tasks\<close>

lemma task_invD:
  assumes "task_inv d"
  shows "distinct (map t_id (tasks (base d)))" "distinct (map sr_task (rounds d))"
    "t \<in> set (round_tasks (base d)) \<Longrightarrow> \<exists>r \<in> set (rounds d). sr_task r = t_id t \<and> sr_key r = t_key t"
    "r \<in> set (rounds d) \<Longrightarrow> \<exists>t \<in> set (round_tasks (base d)).
        t_id t = sr_task r \<and> t_key t = sr_key r \<and> t_state t = task_of (sr_state r)"
  using assms unfolding task_inv_def by blast+

lemma round_tasks_mem: "t \<in> set (round_tasks d) \<longleftrightarrow> t \<in> set (tasks d) \<and> t_workflow t = WF_SEARCH_ROUND"
  by (auto simp: round_tasks_def)

lemma task_inv_state:
  assumes "task_inv d" "t \<in> set (round_tasks (base d))"
  obtains r where "r \<in> set (rounds d)" "sr_task r = t_id t" "sr_key r = t_key t"
    "t_state t = task_of (sr_state r)"
proof -
  note D = task_invD [OF assms(1)]
  from D(3) [OF assms(2)] obtain r where r: "r \<in> set (rounds d)" "sr_task r = t_id t" "sr_key r = t_key t"
    by blast
  from D(4) [OF r(1)] obtain u where u: "u \<in> set (round_tasks (base d))" "t_id u = sr_task r"
    "t_state u = task_of (sr_state r)" by blast
  have "u = t" using key_unique [OF D(1), of u t] u r assms(2) by (simp add: round_tasks_mem)
  with that r u(3) show thesis by blast
qed

lemma task_inv_calm: "task_inv d \<Longrightarrow> calm (base d)"
proof (unfold calm_def, intro conjI ballI)
  assume inv: "task_inv d"
  then show "distinct (map t_id (tasks (base d)))" by (rule task_invD)
  fix t assume "t \<in> set (round_tasks (base d))"
  with inv show "t_state t \<noteq> T_ENDPOINT_PROBING"
    by (rule task_inv_state) (auto simp: task_of_def split: if_splits)
qed

text \<open>The rows of the rounds may change as long as their tasks need not.\<close>

lemma task_inv_rounds:
  assumes inv: "task_inv d" and t: "tasks (base d') = tasks (base d)"
    and rs: "rounds d' = update_where P f (rounds d)"
    and f: "\<And>q. sr_task (f q) = sr_task q" "\<And>q. sr_key (f q) = sr_key q"
      "\<And>q. q \<in> set (rounds d) \<Longrightarrow> P q \<Longrightarrow> task_of (sr_state (f q)) = task_of (sr_state q)"
  shows "task_inv d'"
proof -
  note D = task_invD [OF inv]
  have rt: "round_tasks (base d') = round_tasks (base d)" by (simp add: round_tasks_def t)
  have "map sr_task (rounds d') = map sr_task (rounds d)" unfolding rs by (rule map_update_where) (rule f(1))
  moreover have "\<exists>r \<in> set (rounds d'). sr_task r = t_id t \<and> sr_key r = t_key t"
    if "t \<in> set (round_tasks (base d))" for t
  proof -
    from D(3) [OF that] obtain r where r: "r \<in> set (rounds d)" "sr_task r = t_id t" "sr_key r = t_key t"
      by blast
    have "(if P r then f r else r) \<in> set (rounds d')" unfolding rs set_update_where using r(1) by (rule imageI)
    moreover have "sr_task (if P r then f r else r) = t_id t" "sr_key (if P r then f r else r) = t_key t"
      using r f by simp_all
    ultimately show ?thesis by blast
  qed
  moreover have "\<exists>t \<in> set (round_tasks (base d)). t_id t = sr_task r \<and> t_key t = sr_key r \<and>
      t_state t = task_of (sr_state r)" if "r \<in> set (rounds d')" for r
    using that D(4) f unfolding rs by (auto simp: update_where_mem split: if_splits)
  ultimately show ?thesis using D(1,2) unfolding task_inv_def rt t by simp
qed

lemma task_inv_same:
  "task_inv d \<Longrightarrow> tasks (base d') = tasks (base d) \<Longrightarrow> rounds d' = rounds d \<Longrightarrow> task_inv d'"
  by (simp add: task_inv_def round_tasks_def)

lemma moved_round_tasks:
  assumes "tasks b' = moved_tasks k st (tasks b)"
  shows "round_tasks b' = moved_tasks k st (round_tasks b)"
proof -
  have "filter (\<lambda>t. t_workflow t = WF_SEARCH_ROUND) (moved_tasks k st ts) =
      moved_tasks k st (filter (\<lambda>t. t_workflow t = WF_SEARCH_ROUND) ts)" for ts
    by (induction ts) (auto simp: moved_tasks_def)
  then show ?thesis by (simp add: round_tasks_def assms)
qed

lemma moved_tasks_mem:
  "u \<in> set (moved_tasks k st ts) \<longleftrightarrow>
     (\<exists>t \<in> set ts. u = (if t_id t = k then t\<lparr>t_state := st, t_version := t_version t + 1\<rparr> else t))"
  by (simp add: moved_tasks_def update_where_mem)

text \<open>One round and its task move together.\<close>

lemma task_inv_move:
  assumes inv: "task_inv d" and dis: "distinct (map sr_id (rounds d))" and r: "find_round d i = Some r"
    and t: "tasks (base d') = moved_tasks (sr_task r) (task_of (sr_state (g r))) (tasks (base d))"
    and rs: "rounds d' = update_where (\<lambda>q. sr_id q = i) g (rounds d)"
    and g: "\<And>q. sr_task (g q) = sr_task q" "\<And>q. sr_key (g q) = sr_key q"
  shows "task_inv d'"
proof -
  note D = task_invD [OF inv]
  let ?k = "sr_task r" and ?st = "task_of (sr_state (g r))"
  let ?f = "\<lambda>t. t\<lparr>t_state := ?st, t_version := t_version t + 1\<rparr>"
  note rt = moved_round_tasks [OF t]
  have ri: "r \<in> set (rounds d)" "sr_id r = i" using r by (auto dest: find_roundD)
  have mem: "x \<in> set (rounds d') \<longleftrightarrow> x = g r \<or> (x \<in> set (rounds d) \<and> x \<noteq> r)" for x
    unfolding rs by (rule mem_update_unique [OF dis ri(1)]) (use ri in simp_all)
  have "map t_id (tasks (base d')) = map t_id (tasks (base d))"
    by (simp add: t moved_tasks_def map_update_where)
  moreover have "map sr_task (rounds d') = map sr_task (rounds d)"
    unfolding rs by (rule map_update_where) (rule g(1))
  moreover have "\<exists>q \<in> set (rounds d'). sr_task q = t_id u \<and> sr_key q = t_key u"
    if u: "u \<in> set (round_tasks (base d'))" for u
  proof -
    from u obtain u0 where u0: "u0 \<in> set (round_tasks (base d))" "t_id u = t_id u0" "t_key u = t_key u0"
      unfolding rt moved_tasks_mem by (auto split: if_splits)
    from D(3) [OF u0(1)] obtain q where q: "q \<in> set (rounds d)" "sr_task q = t_id u" "sr_key q = t_key u"
      using u0 by auto
    show ?thesis
    proof (cases "q = r")
      case True
      with q g show ?thesis by (intro bexI [of _ "g r"]) (simp_all add: mem)
    qed (use q in \<open>auto simp: mem\<close>)
  qed
  moreover have "\<exists>u \<in> set (round_tasks (base d')).
      t_id u = sr_task q \<and> t_key u = sr_key q \<and> t_state u = task_of (sr_state q)"
    if q: "q \<in> set (rounds d')" for q
    using q unfolding mem
  proof (elim disjE conjE)
    assume "q = g r"
    from D(4) [OF ri(1)] obtain u where "u \<in> set (round_tasks (base d))" "t_id u = ?k" "t_key u = sr_key r"
      by blast
    then have "?f u \<in> set (round_tasks (base d'))" unfolding rt moved_tasks_mem by force
    with \<open>q = g r\<close> \<open>t_id u = ?k\<close> \<open>t_key u = sr_key r\<close> show ?thesis
      by (intro bexI [of _ "?f u"]) (simp_all add: g)
  next
    assume x: "q \<in> set (rounds d)" "q \<noteq> r"
    then have k: "sr_task q \<noteq> ?k" using key_unique [OF D(2) x(1) ri(1)] by auto
    from D(4) [OF x(1)] obtain u where u: "u \<in> set (round_tasks (base d))"
      "t_id u = sr_task q" "t_key u = sr_key q" "t_state u = task_of (sr_state q)" by blast
    then have "u \<in> set (moved_tasks ?k ?st (round_tasks (base d)))"
      unfolding moved_tasks_mem using k by (intro bexI [of _ u]) simp_all
    with u show ?thesis unfolding rt by blast
  qed
  ultimately show ?thesis using D(1,2) unfolding task_inv_def by simp
qed

text \<open>A new round comes with a new task.\<close>

lemma insert_roundD:
  "insert_round q d = Inr (d', r) \<Longrightarrow> r \<in> set (rounds d) \<or> rounds d' = rounds d @ [q]"
  by (auto simp: insert_round_def split: if_splits option.splits)

lemma create_task_inv:
  assumes inv: "task_inv d" and c: "create_search_round q d = Inr (d', r)"
  shows "task_inv d'"
proof -
  note D = task_invD [OF inv]
  from c obtain a d1 t d2 where ins: "insert_round_task q a d = (d1, t)"
    and tm: "task_matches q a t" and rd: "insert_round q d1 = Inr (d2, r)"
    and same: "same_creation q r" and d': "d' = log_created_once q d2" and st: "sr_state q = R_INTAKE_OPEN"
    by (auto simp: create_search_round_def Let_def bind_res_eq_Inr
        split: if_splits option.splits prod.splits)
  have tab: "tasks (base d') = tasks (base d2)" "rounds d' = rounds d2"
    by (simp_all add: d' log_created_once_def)
  have d2: "base d2 = base d1" using rd by (auto simp: insert_round_def split: if_splits option.splits)
  show ?thesis
  proof (cases "find (\<lambda>t. t_id t = sr_task q \<or> t_key t = sr_key q) (tasks (base d))")
    case (Some u)
    then have "d1 = d" "t = u" using ins by (auto simp: insert_round_task_def)
    moreover have "u \<in> set (round_tasks (base d))" "t_key u = sr_key q"
      using Some tm \<open>t = u\<close> by (auto simp: round_tasks_mem task_matches_def dest: find_SomeD)
    then have "\<exists>x \<in> set (rounds d). sr_key x = sr_key q" using D(3) [of u] by auto
    then have "rounds d2 = rounds d"
      using rd \<open>d1 = d\<close> by (auto simp: insert_round_def list_ex_iff split: if_splits option.splits)
    ultimately show ?thesis using task_inv_same [OF inv, of d'] tab d2 by simp
  next
    case None
    then have d1: "d1 = in_base (\<lambda>b. b\<lparr>tasks := tasks b @ [round_task q a]\<rparr>) d"
      using ins by (auto simp: insert_round_task_def)
    have fresh: "t_id u \<noteq> sr_task q" if "u \<in> set (tasks (base d))" for u
      using None that by (auto simp: find_None_iff)
    have nt: "sr_task x \<noteq> sr_task q" if "x \<in> set (rounds d)" for x
      using D(4) [OF that] fresh by (auto simp: round_tasks_mem)
    have "sr_task r = sr_task q" using same by (simp add: same_creation_def)
    then have new: "r \<notin> set (rounds d)" using nt [of r] by auto
    have own: "sr_task q \<notin> sr_task ` set (rounds d)" using nt by (metis imageE)
    have "rounds d1 = rounds d" by (simp add: d1)
    then have "rounds d2 = rounds d @ [q]" using insert_roundD [OF rd] new by simp
    then have rs: "rounds d' = rounds d @ [q]" by (simp add: tab)
    have "tasks (base d1) = tasks (base d) @ [round_task q a]" by (simp add: d1)
    then have ts: "tasks (base d') = tasks (base d) @ [round_task q a]" by (simp add: tab d2)
    have rt: "round_tasks (base d') = round_tasks (base d) @ [round_task q a]"
      by (simp add: round_tasks_def ts round_task_def)
    have tk: "t_id (round_task q a) = sr_task q" "t_key (round_task q a) = sr_key q"
      "t_state (round_task q a) = task_of (sr_state q)"
      by (simp_all add: round_task_def st task_of_def)
    have "t_id (round_task q a) \<notin> t_id ` set (tasks (base d))" unfolding tk(1) using fresh by (metis imageE)
    then show ?thesis
      unfolding task_inv_def ts rs rt using D own tk by auto
  qed
qed

lemma plain_tasks:
  "add_round_candidate m d = Inr (d', x) \<Longrightarrow> tasks (base d') = tasks (base d)"
  "close_search_round_intake digest now i d = Inr (d', y) \<Longrightarrow> tasks (base d') = tasks (base d)"
  "record_round_candidate_build b d = Inr (d', x) \<Longrightarrow> tasks (base d') = tasks (base d)"
  "freeze_search_round_artifact_family digest i fam h d = Inr (d', y) \<Longrightarrow> tasks (base d') = tasks (base d)"
  by (auto simp: add_round_candidate_def insert_round_candidate_def close_search_round_intake_def
      record_round_candidate_build_def freeze_search_round_artifact_family_def Let_def bind_res_eq_Inr
      split: if_splits option.splits sum.splits)

lemma budget_tasks:
  "reserve_round_budget q g d = Inr (d', z) \<Longrightarrow> tasks (base d') = tasks (base d)"
  "finalize_round_budget g d = Inr (d', z) \<Longrightarrow> tasks (base d') = tasks (base d)"
  by (auto simp: reserve_round_budget_def finalize_round_budget_def insert_ledger_def Let_def bind_res_eq_Inr
      split: if_splits option.splits)

lemma queue_task_inv:
  assumes inv: "task_inv d" and q: "queue_step p (base d) = Inr b"
  shows "task_inv (d\<lparr>base := b\<rparr>)"
proof -
  have "map t_id (tasks b) = map t_id (tasks (base d))" "round_tasks b = round_tasks (base d)"
    using queue_step_kept [OF q] task_inv_calm [OF inv] by (simp_all add: tasks_kept_def)
  with inv show ?thesis by (simp add: task_inv_def)
qed

lemma m2_step_task_inv:
  assumes inv: "task_inv d" "m2_inv digest d" and s: "m2_step digest p d = Inr d'"
  shows "task_inv d'"
proof (cases p)
  case (M_create q)
  with s create_task_inv [OF inv(1)] show ?thesis by auto
next
  case (M_add q)
  with s obtain x where c: "add_round_candidate q d = Inr (d', x)" by auto
  show ?thesis by (rule task_inv_same [OF inv(1) plain_tasks(1) [OF c] add_effect(1) [OF c]])
next
  case (M_close now i)
  with s obtain x where c: "close_search_round_intake digest now i d = Inr (d', x)" by auto
  from close_effect(4) [OF c] show ?thesis
  proof (elim disjE exE conjE)
    fix r assume r: "find_round d i = Some r" "sr_state r = R_INTAKE_OPEN"
      and rs: "rounds d' = update_where (\<lambda>q. sr_id q = i) (\<lambda>q. q\<lparr>sr_state := R_INTAKE_CLOSED,
        sr_family := Some (candidate_family_hash digest r (round_members d i)),
        sr_closed := Some now, sr_version := sr_version q + 1\<rparr>) (rounds d)"
    have "sr_state q = R_INTAKE_OPEN" if "q \<in> set (rounds d)" "sr_id q = i" for q
      using find_round_unique [of digest d q] inv(2) that r by (simp add: m2_inv_def)
    then show ?thesis
      by (intro task_inv_rounds [OF inv(1) plain_tasks(2) [OF c] rs]) (auto simp: task_of_def)
  qed (use inv in simp)
next
  case (M_build q)
  with s obtain x where c: "record_round_candidate_build q d = Inr (d', x)" by auto
  from build_effect(3) [OF c] show ?thesis
  proof (elim disjE exE conjE)
    fix r assume r: "find_round d (bt_round q) = Some r" "sr_state r \<in> {R_INTAKE_CLOSED, R_BUILDING}"
      and rs: "rounds d' = update_where (\<lambda>x. sr_id x = bt_round q)
         (\<lambda>x. x\<lparr>sr_state := R_BUILDING, sr_version := sr_version x + 1\<rparr>) (rounds d)"
    have "task_of (sr_state x) = T_CREATED" if "x \<in> set (rounds d)" "sr_id x = bt_round q" for x
      using find_round_unique [of digest d x] inv(2) that r by (auto simp: m2_inv_def task_of_def)
    then show ?thesis
      by (intro task_inv_rounds [OF inv(1) plain_tasks(3) [OF c] rs]) (simp_all add: task_of_def)
  qed (use inv in simp)
next
  case (M_freeze i family expected)
  with s obtain x where c: "freeze_search_round_artifact_family digest i family expected d = Inr (d', x)"
    by auto
  from freeze_effect(4) [OF c] show ?thesis
  proof (elim disjE exE conjE)
    fix r h assume r: "find_round d i = Some r" "sr_state r = R_BUILDING"
      and rs: "rounds d' = update_where (\<lambda>q. sr_id q = i) (\<lambda>q. q\<lparr>sr_state := R_CORRECTNESS,
        sr_artifacts := Some h, sr_version := sr_version q + 1\<rparr>) (rounds d)"
    have "sr_state q = R_BUILDING" if "q \<in> set (rounds d)" "sr_id q = i" for q
      using find_round_unique [of digest d q] inv(2) that r by (simp add: m2_inv_def)
    then show ?thesis
      by (intro task_inv_rounds [OF inv(1) plain_tasks(4) [OF c] rs]) (auto simp: task_of_def)
  qed (use inv in simp)
next
  case (M_reserve q g)
  with s obtain x where c: "reserve_round_budget q g d = Inr (d', x)" by auto
  show ?thesis by (rule task_inv_same [OF inv(1) budget_tasks(1) [OF c] reserve_effect(1) [OF c]])
next
  case (M_finalize g)
  with s obtain x where c: "finalize_round_budget g d = Inr (d', x)" by auto
  show ?thesis by (rule task_inv_same [OF inv(1) budget_tasks(2) [OF c] finalize_effect(1) [OF c]])
next
  case (M_queue q)
  with s queue_task_inv [OF inv(1)] show ?thesis by (auto simp: bind_res_eq_Inr)
qed

section \<open>Evidence\<close>

definition same_evidence :: "round_store \<Rightarrow> round_store \<Rightarrow> uuid \<Rightarrow> bool" where
  "same_evidence s s' i \<longleftrightarrow> (\<forall>p. barrier_of s' i p = barrier_of s i p) \<and>
     reveal_of s' i = reveal_of s i \<and> comparison_of s' i = comparison_of s i \<and> bundle_of s' i = bundle_of s i"

lemma same_evidenceD:
  assumes "same_evidence s s' i"
  shows "search_of s' i = search_of s i" "hold_of s' i = hold_of s i" "reveal_of s' i = reveal_of s i"
    "comparison_of s' i = comparison_of s i" "bundle_of s' i = bundle_of s i"
  using assms by (simp_all add: same_evidence_def search_of_def hold_of_def)

lemma same_tables: "evidence_rows s' = evidence_rows s \<Longrightarrow> same_evidence s s' i"
  by (simp add: evidence_rows_def same_evidence_def barrier_of_def reveal_of_def comparison_of_def bundle_of_def)

definition same_budget :: "m2_db \<Rightarrow> m2_db \<Rightarrow> uuid \<Rightarrow> bool" where
  "same_budget d d' i \<longleftrightarrow>
     filter (\<lambda>v. v_round v = i) (reservations d') = filter (\<lambda>v. v_round v = i) (reservations d) \<and>
     filter (\<lambda>g. g_round g = i) (ledger d') = filter (\<lambda>g. g_round g = i) (ledger d)"

lemma same_budgetI: "reservations d' = reservations d \<Longrightarrow> ledger d' = ledger d \<Longrightarrow> same_budget d d' i"
  by (simp add: same_budget_def)

lemma same_budget_hash: "same_budget d d' i \<Longrightarrow> durable_ledger_hash E d' i = durable_ledger_hash E d i"
  by (simp add: same_budget_def durable_ledger_hash_def)

lemma same_budget_open:
  assumes "same_budget d d' i" "\<forall>v \<in> set (reservations d). v_round v = i \<longrightarrow> P v" 
    "v \<in> set (reservations d')" "v_round v = i"
  shows "P v"
proof -
  have "v \<in> set (filter (\<lambda>v. v_round v = i) (reservations d'))" using assms(3,4) by simp
  moreover have "filter (\<lambda>v. v_round v = i) (reservations d') = filter (\<lambda>v. v_round v = i) (reservations d)"
    using assms(1) by (simp add: same_budget_def)
  ultimately have "v \<in> set (filter (\<lambda>v. v_round v = i) (reservations d))" by (simp only:)
  with assms(2) show ?thesis by simp
qed

lemma any_built_iff:
  "any_built d i \<longleftrightarrow> (\<exists>m \<in> set (members d). mb_round m = i \<and> mb_state m \<in> set BUILD_TERMINAL_STATES)"
  by (auto simp: any_built_def round_members_def)

lemma stage_frame:
  assumes "same_evidence s s' (sr_id r)" "any_built (st_m2 s') (sr_id r) = any_built (st_m2 s) (sr_id r)"
  shows "stage_of s' r = stage_of s r"
  unfolding stage_of_def Let_def same_evidenceD [OF assms(1)] assms(2) by (rule refl)

lemma life_frame:
  assumes "life_ok E verify s r" "same_evidence s s' (sr_id r)"
    and "any_built (st_m2 s') (sr_id r) = any_built (st_m2 s) (sr_id r)"
    and "sr_state r = R_SCRIPTED_COMPLETED \<Longrightarrow> same_budget (st_m2 s) (st_m2 s') (sr_id r)"
  shows "life_ok E verify s' r"
proof -
  note ev = same_evidenceD [OF assms(2)]
  have "sealed E verify s' r" if st: "sr_state r = R_SCRIPTED_COMPLETED"
  proof -
    note b = assms(4) [OF st]
    from assms(1) st have "sealed E verify s r" by (simp add: life_ok_def)
    then obtain w x check q n where
      rows: "bundle_of s (sr_id r) = Some w" "search_of s (sr_id r) = Some x" "verify = Some check" and
      ok: "check (r\<lparr>sr_state := q, sr_version := n\<rparr>) x (ew_payload w) (hold_of s (sr_id r))
         (map_option cw_payload (comparison_of s (sr_id r))) = Inr ()"
        "eb_ledger (ew_payload w) = durable_ledger_hash E (st_m2 s) (sr_id r)" and
      closed: "\<forall>v \<in> set (reservations (st_m2 s)). v_round v = sr_id r \<longrightarrow> v_state v \<noteq> BR_RESERVED"
      unfolding sealed_def by blast
    have "\<forall>v \<in> set (reservations (st_m2 s')). v_round v = sr_id r \<longrightarrow> v_state v \<noteq> BR_RESERVED"
      using same_budget_open [OF b closed] by blast
    with rows ok show ?thesis
      unfolding sealed_def ev same_budget_hash [OF b]
      by (intro exI [of _ w] exI [of _ x] exI [of _ check] exI [of _ q] exI [of _ n] conjI)
  qed
  moreover have "complete s' (sr_id r) = complete s (sr_id r)" by (simp add: complete_def ev)
  ultimately show ?thesis
    using assms(1) unfolding life_ok_def stage_frame [OF assms(2,3)] ev by blast
qed

lemma no_rows:
  assumes "rows_inv s" "i \<notin> sr_id ` set (rounds (st_m2 s))"
  shows "barrier_of s i p = None" "reveal_of s i = None" "comparison_of s i = None" "bundle_of s i = None"
    "search_of s i = None" "hold_of s i = None"
proof -
  from assms have no: "i \<notin> br_round ` set (st_barriers s)" "i \<notin> rw_round ` set (st_reveals s)"
    "i \<notin> cw_round ` set (st_comparisons s)" "i \<notin> ew_round ` set (st_bundles s)"
    unfolding rows_inv_def by blast+
  have b: "barrier_of s i p = None" for p
    using no(1) by (auto simp: barrier_of_def find_None_iff image_iff)
  show "barrier_of s i p = None" by (rule b)
  show "reveal_of s i = None" "comparison_of s i = None" "bundle_of s i = None"
    using no(2-4) by (auto simp: reveal_of_def comparison_of_def bundle_of_def find_None_iff image_iff)
  show "search_of s i = None" "hold_of s i = None" by (simp_all add: search_of_def hold_of_def b)
qed

lemma store_invD:
  assumes "store_inv E verify s"
  shows "m2_inv (doc_hash E) (st_m2 s)" "task_inv (st_m2 s)" "rows_inv s"
    "r \<in> set (rounds (st_m2 s)) \<Longrightarrow> life_ok E verify s r"
  using assms unfolding store_inv_def by blast+

text \<open>The operations that append a row and move one round.\<close>

lemma store_inv_moves:
  assumes inv: "store_inv E verify s" and r: "find_round (st_m2 s) i = Some r"
    and mv: "moves i g h (st_m2 s) (st_m2 s')"
    and h: "\<And>m. artifact_part (h m) = artifact_part m"
      "\<And>m. m \<in> set (members (st_m2 s)) \<Longrightarrow> mb_round m \<noteq> i \<Longrightarrow> h m = m"
    and g: "\<And>q. same_frozen q (bump g q)"
    and st: "sr_state (g r) = sr_state r \<or> sr_state (g r) = R_CANCELLED \<or>
      (sr_artifacts r \<noteq> None \<and> sr_state (g r) \<notin> {R_INTAKE_OPEN, R_INTAKE_CLOSED, R_BUILDING})"
    and t: "tasks (base (st_m2 s')) = moved_tasks (sr_task r) (task_of (sr_state (g r))) (tasks (base (st_m2 s))) \<or>
      tasks (base (st_m2 s')) = tasks (base (st_m2 s)) \<and> task_of (sr_state (g r)) = task_of (sr_state r)"
    and ev: "\<And>k. k \<noteq> i \<Longrightarrow> same_evidence s s' k"
    and rows: "rows_inv s'" and life: "life_ok E verify s' (bump g r)"
  shows "store_inv E verify s'"
proof -
  let ?d = "st_m2 s" and ?d' = "st_m2 s'"
  note I = store_invD [OF inv]
  have rinv: "rounds_inv (doc_hash E) ?d" using I(1) by (simp add: m2_inv_def)
  note D = rounds_invD [OF rinv]
  from r have ri: "r \<in> set (rounds ?d)" "sr_id r = i" by (auto dest: find_roundD)
  have rs: "rounds ?d' = update_where (\<lambda>q. sr_id q = i) (bump g) (rounds ?d)"
    and ms: "members ?d' = map h (members ?d)" and bud: "\<And>k. same_budget ?d ?d' k"
    using mv by (simp_all add: moves_def same_budget_def)
  have keys: "sr_task (bump g q) = sr_task q" "sr_key (bump g q) = sr_key q" "sr_id (bump g q) = sr_id q" for q
    using g [of q] by (simp_all add: same_frozen_def)
  have state: "sr_state (bump g q) = sr_state (g q)" for q by (simp add: bump_def)
  have "task_inv ?d'"
    using t
  proof
    assume m: "tasks (base ?d') = moved_tasks (sr_task r) (task_of (sr_state (g r))) (tasks (base ?d))"
    show ?thesis
      by (rule task_inv_move [OF I(2) D(1) r _ rs keys(1,2)]) (simp add: m state)
  next
    assume m: "tasks (base ?d') = tasks (base ?d) \<and> task_of (sr_state (g r)) = task_of (sr_state r)"
    have "q = r" if "q \<in> set (rounds ?d)" "sr_id q = i" for q
      using find_round_unique [OF rinv that(1)] that(2) r by simp
    with m show ?thesis
      by (intro task_inv_rounds [OF I(2) _ rs]) (auto simp: keys state)
  qed
  moreover have "life_ok E verify s' x" if "x \<in> set (rounds ?d')" for x
  proof -
    have "x = bump g r \<or> (x \<in> set (rounds ?d) \<and> x \<noteq> r)"
      using that mem_update_unique [OF D(1) ri(1), of "\<lambda>q. sr_id q = i" x "bump g"] ri(2)
      unfolding rs by simp
    then show ?thesis
    proof
      assume x: "x \<in> set (rounds ?d) \<and> x \<noteq> r"
      then have other: "sr_id x \<noteq> i" using key_unique [OF D(1) _ ri(1)] ri(2) by auto
      have hr: "mb_round (h m) = mb_round m" for m
        using keeps_identityI [OF h(1)] by (simp add: keeps_identity_def same_identity_def)
      have "any_built ?d' (sr_id x) = any_built ?d (sr_id x)"
        unfolding any_built_iff ms using h(2) other hr by auto
      from life_frame [OF I(4) ev [OF other] this bud] x show ?thesis by blast
    qed (use life in simp)
  qed
  ultimately show ?thesis
    using moved_inv [OF I(1) mv r h(1) g st] rows unfolding store_inv_def by blast
qed

text \<open>The row of one operation in its table.\<close>

lemma rows_inv_append:
  assumes "rows_inv s" "sr_id ` set (rounds (st_m2 s')) = sr_id ` set (rounds (st_m2 s))"
    and "evidence_rows s' = (st_barriers s @ bs, st_reveals s @ rs, st_comparisons s @ cs, st_bundles s @ es)"
    and "\<forall>w \<in> set bs. barrier_row_ok w"
    and "br_round ` set bs \<union> rw_round ` set rs \<union> cw_round ` set cs \<union> ew_round ` set es \<subseteq> {i}"
    and "find_round (st_m2 s) i = Some r"
  shows "rows_inv s'"
proof -
  have "i \<in> sr_id ` set (rounds (st_m2 s))" using assms(6) by (auto dest: find_roundD)
  then show ?thesis
    using assms(1,3-5) unfolding rows_inv_def assms(2) by (auto simp: evidence_rows_def)
qed

lemma moves_ids: "moves i g h d d' \<Longrightarrow> (\<And>q. same_frozen q (bump g q)) \<Longrightarrow> sr_id ` set (rounds d') = sr_id ` set (rounds d)"
  by (simp add: moves_def set_round_ids same_frozen_def)

lemma own_members_other:
  assumes "m2_inv digest d" "own_members i bs d" "m \<in> set (members d)" "mb_round m \<noteq> i"
  shows "fold mark bs m = m"
proof (rule fold_mark_other, rule notI)
  assume "mb_id m \<in> bm_member ` set bs"
  with assms(2) obtain x where "x \<in> set (members d)" "mb_round x = i" "mb_id x = mb_id m"
    unfolding own_members_def by force
  moreover have "distinct (map mb_id (members d))" using assms(1) by (simp add: m2_inv_def rounds_inv_def)
  ultimately show False using key_unique [of mb_id "members d" x m] assms(3,4) by auto
qed

end
