(* ===== verification/RoundLifeSteps.thy ===== *)
theory RoundLifeSteps
  imports RoundLifeInv
begin

text \<open>
  Every operation of the store keeps the invariant of RoundLife and moves each round along
  its abstract life.
\<close>

section \<open>Reading the stage\<close>

lemma stage_emptyD:
  assumes "stage_of s r \<in> {ST_intake, ST_closed, ST_building, ST_frozen}"
  shows "bundle_of s (sr_id r) = None" "comparison_of s (sr_id r) = None" "hold_of s (sr_id r) = None"
    "reveal_of s (sr_id r) = None" "search_of s (sr_id r) = None" "sr_state r \<noteq> R_CANCELLED"
    "sr_artifacts r \<noteq> None \<longleftrightarrow> stage_of s r = ST_frozen" "stage_of s r = ST_intake \<Longrightarrow> sr_family r = None"
    "stage_of s r \<in> {ST_closed, ST_building} \<Longrightarrow> sr_family r \<noteq> None"
  using assms by (auto simp: stage_of_def Let_def split: if_splits option.splits)

lemma stage_searchedD:
  assumes "stage_of s r = ST_searched p"
  shows "bundle_of s (sr_id r) = None" "comparison_of s (sr_id r) = None" "hold_of s (sr_id r) = None"
    "reveal_of s (sr_id r) = None" "sr_state r \<noteq> R_CANCELLED"
    "\<exists>x. search_of s (sr_id r) = Some x \<and> p = (bb_promoted (sd_barrier x) \<noteq> [])"
  using assms by (auto simp: stage_of_def Let_def split: if_splits option.splits)

lemma stage_revealedD:
  assumes "stage_of s r = ST_revealed"
  shows "bundle_of s (sr_id r) = None" "comparison_of s (sr_id r) = None" "hold_of s (sr_id r) = None"
    "reveal_of s (sr_id r) \<noteq> None" "sr_state r \<noteq> R_CANCELLED"
  using assms by (auto simp: stage_of_def Let_def split: if_splits option.splits)

lemma stage_heldD:
  assumes "stage_of s r \<in> {ST_held, ST_compared}"
  shows "bundle_of s (sr_id r) = None" "hold_of s (sr_id r) \<noteq> None \<or> comparison_of s (sr_id r) \<noteq> None"
    "sr_state r \<noteq> R_CANCELLED" "stage_of s r = ST_compared \<longleftrightarrow> comparison_of s (sr_id r) \<noteq> None"
  using assms by (auto simp: stage_of_def Let_def split: if_splits option.splits)

lemma stage_stateD:
  "stage_state g = R_INTAKE_OPEN \<Longrightarrow> g = ST_intake"
  "stage_state g = R_INTAKE_CLOSED \<Longrightarrow> g = ST_closed"
  "stage_state g = R_BUILDING \<Longrightarrow> g = ST_building"
  "stage_state g = R_CORRECTNESS \<Longrightarrow> g = ST_frozen"
  "stage_state g \<noteq> R_SEARCH_MEASURING"
  "stage_state g = R_SEARCH_BARRIER \<Longrightarrow> \<exists>p. g = ST_searched p"
  "stage_state g = R_HOLDOUT_MEASURING \<Longrightarrow> g = ST_revealed"
  "stage_state g = R_HOLDOUT_BARRIER \<Longrightarrow> g = ST_held \<or> g = ST_compared"
  "stage_state g = R_SCRIPTED_COMPLETED \<Longrightarrow> g = ST_completed"
  "stage_state g = R_CANCELLED \<Longrightarrow> g = ST_cancelled"
  by (cases g; simp)+

lemma life_okD:
  assumes "life_ok E verify s r"
  shows "sr_state r = stage_state (stage_of s r)" "complete s (sr_id r)"
  using assms by (simp_all add: life_ok_def)

definition progress :: "round_store \<Rightarrow> round_store \<Rightarrow> bool" where
  "progress s s' \<longleftrightarrow> (\<forall>i r. find_round (st_m2 s) i = Some r \<longrightarrow>
     (\<exists>r'. find_round (st_m2 s') i = Some r' \<and>
        (stage_of s' r' = stage_of s r \<or> life_step (stage_of s r) (stage_of s' r'))))"

lemma progress_refl [simp]: "progress s s"
  by (simp add: progress_def)

lemma any_built_moves:
  assumes mv: "moves i g h d d'" and h: "\<And>m. artifact_part (h m) = artifact_part m"
    "\<And>m. m \<in> set (members d) \<Longrightarrow> mb_round m \<noteq> i \<Longrightarrow> h m = m" and k: "k \<noteq> i"
  shows "any_built d' k = any_built d k"
proof -
  have hr: "mb_round (h m) = mb_round m" for m
    using keeps_identityI [OF h(1)] by (simp add: keeps_identity_def same_identity_def)
  have "members d' = map h (members d)" using mv by (simp add: moves_def)
  then show ?thesis unfolding any_built_iff using h(2) k hr by auto
qed

lemma progress_moves:
  assumes r: "find_round (st_m2 s) i = Some r" and mv: "moves i g h (st_m2 s) (st_m2 s')"
    and h: "\<And>m. artifact_part (h m) = artifact_part m"
      "\<And>m. m \<in> set (members (st_m2 s)) \<Longrightarrow> mb_round m \<noteq> i \<Longrightarrow> h m = m"
    and g: "\<And>q. same_frozen q (bump g q)" and ev: "\<And>k. k \<noteq> i \<Longrightarrow> same_evidence s s' k"
    and st: "stage_of s' (bump g r) = stage_of s r \<or> life_step (stage_of s r) (stage_of s' (bump g r))"
  shows "progress s s'"
  unfolding progress_def
proof (intro allI impI)
  fix k q assume q: "find_round (st_m2 s) k = Some q"
  then have qk: "sr_id q = k" by (auto dest: find_roundD)
  have "rounds (st_m2 s') = update_where (\<lambda>q. sr_id q = i) (bump g) (rounds (st_m2 s))"
    using mv by (simp add: moves_def)
  then have f: "find_round (st_m2 s') k = Some (if sr_id q = i then bump g q else q)"
    using find_set_round [of "st_m2 s'" i "bump g" "st_m2 s" k] g q by (simp add: same_frozen_def)
  show "\<exists>r'. find_round (st_m2 s') k = Some r' \<and>
      (stage_of s' r' = stage_of s q \<or> life_step (stage_of s q) (stage_of s' r'))"
  proof (cases "k = i")
    case True
    with r q st f qk show ?thesis by auto
  next
    case False
    have "stage_of s' q = stage_of s q"
      using stage_frame [of s s' q] ev [OF False] any_built_moves [OF mv h False] qk by blast
    with f qk False show ?thesis by simp
  qed
qed

section \<open>The barriers\<close>

lemma same_frozen_bump:
  "same_frozen q (bump (\<lambda>q. q\<lparr>sr_state := st, sr_holdout := x\<rparr>) q)"
  "same_frozen q (bump (\<lambda>q. q\<lparr>sr_state := st\<rparr>) q)"
  "same_frozen q (bump (\<lambda>q. q) q)"
  "same_frozen q (bump (\<lambda>q. q\<lparr>sr_state := st, sr_holdout_plan := a, sr_reveal_lease := b,
     sr_reveal_evidence := c\<rparr>) q)"
  by (simp_all add: same_frozen_def bump_def)

lemma bump_simps [simp]:
  "sr_id (bump (\<lambda>q. q\<lparr>sr_state := st, sr_holdout := x\<rparr>) q) = sr_id q"
  "sr_state (bump (\<lambda>q. q\<lparr>sr_state := st, sr_holdout := x\<rparr>) q) = st"
  "sr_id (bump (\<lambda>q. q\<lparr>sr_state := st\<rparr>) q) = sr_id q"
  "sr_state (bump (\<lambda>q. q\<lparr>sr_state := st\<rparr>) q) = st"
  "sr_id (bump (\<lambda>q. q) q) = sr_id q" "sr_state (bump (\<lambda>q. q) q) = sr_state q"
  "sr_id (bump (\<lambda>q. q\<lparr>sr_state := st, sr_holdout_plan := a, sr_reveal_lease := b,
     sr_reveal_evidence := c\<rparr>) q) = sr_id q"
  "sr_state (bump (\<lambda>q. q\<lparr>sr_state := st, sr_holdout_plan := a, sr_reveal_lease := b,
     sr_reveal_evidence := c\<rparr>) q) = st"
  by (simp_all add: bump_def)

lemma barrier_outcome_ok:
  assumes "make_barrier b = Inr b'" "bb_phase b = PH_SEARCH"
  shows "bb_outcome b = (if bb_promoted b \<noteq> [] then MEMBERS_PROMOTED else NO_PROMOTABLE_CANDIDATE)"
  using assms
  by (auto simp: make_barrier_def bind_res_eq_Inr require_complete_phase_barrier_def require_search_barrier_def
      Let_def split: if_splits)

lemma search_step:
  assumes inv: "store_inv E verify s" and c: "store_search_barrier E x s = Inr (s', r')"
    and v: "make_barrier (sd_barrier x) = Inr (sd_barrier x)"
  shows "store_inv E verify s' \<and> progress s s'"
proof (cases "s' = s")
  case False
  let ?i = "bb_round (sd_barrier x)"
  let ?g = "\<lambda>q. q\<lparr>sr_state := R_SEARCH_BARRIER, sr_holdout := sd_holdout x\<rparr>"
  let ?h = "fold mark (bb_members (sd_barrier x))"
  from search_effect [OF c] False obtain r w where r: "find_round (st_m2 s) ?i = Some r"
    and st: "sr_state r \<in> {R_CORRECTNESS, R_SEARCH_MEASURING}"
    and own: "own_members ?i (bb_members (sd_barrier x)) (st_m2 s)"
    and w: "br_round w = ?i" "br_phase w = PH_SEARCH" "br_payload w = Search_payload x"
    and none: "barrier_of s (br_round w) PH_SEARCH = None"
    and mv: "moves ?i ?g ?h (st_m2 s) (st_m2 s')"
    and t: "tasks (base (st_m2 s')) = tasks (base (st_m2 s))"
    and rows: "evidence_rows s' = (st_barriers s @ [w], st_reveals s, st_comparisons s, st_bundles s)"
    by blast
  note I = store_invD [OF inv]
  have ri: "r \<in> set (rounds (st_m2 s))" "sr_id r = ?i" using r by (auto dest: find_roundD)
  note L = life_okD [OF I(4) [OF ri(1)]]
  have frozen: "stage_of s r = ST_frozen" using L(1) st stage_stateD(4,5) [of "stage_of s r"] by auto
  have "stage_of s r \<in> {ST_intake, ST_closed, ST_building, ST_frozen}" by (simp add: frozen)
  note S = stage_emptyD [OF this]
  have look: "barrier_of s' k p = (if k = ?i \<and> p = PH_SEARCH then Some w else barrier_of s k p)" for k p
    using barrier_of_insert [of s' s w k p] none rows w by (simp add: evidence_rows_def)
  have rest: "reveal_of s' k = reveal_of s k" "comparison_of s' k = comparison_of s k"
    "bundle_of s' k = bundle_of s k" for k
    using rows by (simp_all add: evidence_rows_def reveal_of_def comparison_of_def bundle_of_def)
  have ev: "same_evidence s s' k" if "k \<noteq> ?i" for k
    using that by (simp add: same_evidence_def look rest)
  have srch: "search_of s' ?i = Some x" by (simp add: search_of_def look w)
  have hold: "hold_of s' ?i = None" using S(3) by (simp add: hold_of_def look ri)
  have phase: "bb_phase (sd_barrier x) = PH_SEARCH"
    using c False by (auto simp: store_search_barrier_def Let_def split: if_splits)
  have ok: "barrier_row_ok w"
    using barrier_outcome_ok [OF v phase] by (simp add: barrier_row_ok_def w)
  have rinv: "rows_inv s'"
    by (rule rows_inv_append [OF I(3) moves_ids [OF mv same_frozen_bump(1)], of "[w]" "[]" "[]" "[]", OF _ _ _ r])
      (simp_all add: rows ok w)
  have stage: "stage_of s' (bump ?g r) = ST_searched (bb_promoted (sd_barrier x) \<noteq> [])"
    using S(1-4) by (simp add: stage_of_def Let_def ri rest hold srch)
  have life: "life_ok E verify s' (bump ?g r)"
    unfolding life_ok_def stage using S(1-4) by (simp add: complete_def ri rest hold)
  note h = fold_mark_part own_members_other [OF I(1) own]
  have art: "sr_artifacts r \<noteq> None" using S(7) frozen by simp
  have "store_inv E verify s'"
    by (rule store_inv_moves [OF inv r mv h same_frozen_bump(1) _ _ ev rinv life])
      (use art st t in \<open>auto simp: task_of_def\<close>)
  moreover have "progress s s'"
    by (rule progress_moves [OF r mv h same_frozen_bump(1) ev])
      (simp_all add: stage frozen life_step.intros)
  ultimately show ?thesis ..
qed (use inv in simp)

lemma barrier_of_search: "barrier_of s i PH_SEARCH = Some u \<Longrightarrow> br_payload u = Search_payload x \<Longrightarrow> search_of s i = Some x"
  by (simp add: search_of_def)

lemma search_row_ok:
  assumes "rows_inv s" "barrier_of s i PH_SEARCH = Some u" "br_payload u = Search_payload x"
  shows "bb_outcome (sd_barrier x) = MEMBERS_PROMOTED \<longleftrightarrow> bb_promoted (sd_barrier x) \<noteq> []"
    "bb_outcome (sd_barrier x) = NO_PROMOTABLE_CANDIDATE \<longleftrightarrow> bb_promoted (sd_barrier x) = []"
proof -
  have "u \<in> set (st_barriers s)" using assms(2) by (auto simp: barrier_of_def)
  with assms(1) have "barrier_row_ok u" by (simp add: rows_inv_def)
  with assms(3) show "bb_outcome (sd_barrier x) = MEMBERS_PROMOTED \<longleftrightarrow> bb_promoted (sd_barrier x) \<noteq> []"
    "bb_outcome (sd_barrier x) = NO_PROMOTABLE_CANDIDATE \<longleftrightarrow> bb_promoted (sd_barrier x) = []"
    by (simp_all add: barrier_row_ok_def)
qed

lemma reveal_step:
  assumes inv: "store_inv E verify s" and c: "record_scripted_holdout_reveal E v s = Inr (s', r')"
  shows "store_inv E verify s' \<and> progress s s'"
proof (cases "s' = s")
  case False
  let ?i = "rv_round v"
  let ?g = "\<lambda>q. q\<lparr>sr_state := R_HOLDOUT_MEASURING, sr_holdout_plan := Some (rv_plan v),
        sr_reveal_lease := Some (rv_lease v), sr_reveal_evidence := Some (rv_evidence v)\<rparr>"
  let ?h = "\<lambda>m::member. m"
  from reveal_effect [OF c] False obtain r w u x where r: "find_round (st_m2 s) ?i = Some r"
    and st: "sr_state r = R_SEARCH_BARRIER"
    and u: "barrier_of s ?i PH_SEARCH = Some u" "br_payload u = Search_payload x"
      "bb_outcome (sd_barrier x) = MEMBERS_PROMOTED"
    and w: "rw_round w = ?i" and none: "reveal_of s (rw_round w) = None"
    and mv: "moves ?i ?g ?h (st_m2 s) (st_m2 s')"
    and t: "tasks (base (st_m2 s')) = tasks (base (st_m2 s))"
    and rows: "evidence_rows s' = (st_barriers s, st_reveals s @ [w], st_comparisons s, st_bundles s)"
    by blast
  note I = store_invD [OF inv]
  have ri: "r \<in> set (rounds (st_m2 s))" "sr_id r = ?i" using r by (auto dest: find_roundD)
  note L = life_okD [OF I(4) [OF ri(1)]]
  have x: "search_of s ?i = Some x" "bb_promoted (sd_barrier x) \<noteq> []"
    using barrier_of_search u search_row_ok [OF I(3) u(1,2)] by simp_all
  obtain p where "stage_of s r = ST_searched p" using L(1) st stage_stateD(6) [of "stage_of s r"] by auto
  note S = stage_searchedD [OF this]
  have before: "stage_of s r = ST_searched True"
    using \<open>stage_of s r = ST_searched p\<close> S(6) x ri by simp
  have art: "sr_artifacts r \<noteq> None"
    using rounds_invD(5) [of "doc_hash E" "st_m2 s" r] I(1) ri(1) st
    by (auto simp: m2_inv_def family_ok_def split: option.splits)
  have look: "reveal_of s' k = (if k = ?i then Some w else reveal_of s k)" for k
    using reveal_of_insert [of s' s w k] none rows w by (simp add: evidence_rows_def)
  have rest: "barrier_of s' k p = barrier_of s k p" "comparison_of s' k = comparison_of s k"
    "bundle_of s' k = bundle_of s k" for k p
    using rows by (simp_all add: evidence_rows_def barrier_of_def comparison_of_def bundle_of_def)
  have both: "search_of s' k = search_of s k" "hold_of s' k = hold_of s k" for k
    by (simp_all add: search_of_def hold_of_def rest)
  have ev: "same_evidence s s' k" if "k \<noteq> ?i" for k
    using that by (simp add: same_evidence_def look rest)
  have rinv: "rows_inv s'"
    by (rule rows_inv_append [OF I(3) moves_ids [OF mv same_frozen_bump(4)], of "[]" "[w]" "[]" "[]", OF _ _ _ r])
      (simp_all add: rows w)
  have stage: "stage_of s' (bump ?g r) = ST_revealed"
    using S(1-4) by (simp add: stage_of_def Let_def ri rest both look)
  have life: "life_ok E verify s' (bump ?g r)"
    unfolding life_ok_def stage using S(1-4) x by (simp add: complete_def ri rest both look)
  have h: "artifact_part (?h m) = artifact_part m"
    "m \<in> set (members (st_m2 s)) \<Longrightarrow> mb_round m \<noteq> ?i \<Longrightarrow> ?h m = m" for m by simp_all
  have "store_inv E verify s'"
    by (rule store_inv_moves [OF inv r mv h same_frozen_bump(4) _ _ ev rinv life])
      (use art st t in \<open>auto simp: task_of_def\<close>)
  moreover have "progress s s'"
    by (rule progress_moves [OF r mv h same_frozen_bump(4) ev])
      (simp_all add: stage before life_step.intros)
  ultimately show ?thesis ..
qed (use inv in simp)

lemma holdout_step:
  assumes inv: "store_inv E verify s" and c: "store_holdout_barrier E b s = Inr (s', r')"
  shows "store_inv E verify s' \<and> progress s s'"
proof (cases "s' = s")
  case False
  let ?i = "bb_round b"
  let ?g = "\<lambda>q. q\<lparr>sr_state := R_HOLDOUT_BARRIER\<rparr>"
  let ?h = "fold mark (bb_members b)"
  from holdout_effect [OF c] False obtain r w where r: "find_round (st_m2 s) ?i = Some r"
    and st: "sr_state r = R_HOLDOUT_MEASURING" and own: "own_members ?i (bb_members b) (st_m2 s)"
    and w: "br_round w = ?i" "br_phase w = PH_HOLDOUT" "br_payload w = Holdout_payload b"
    and none: "barrier_of s (br_round w) PH_HOLDOUT = None"
    and mv: "moves ?i ?g ?h (st_m2 s) (st_m2 s')"
    and t: "tasks (base (st_m2 s')) = tasks (base (st_m2 s))"
    and rows: "evidence_rows s' = (st_barriers s @ [w], st_reveals s, st_comparisons s, st_bundles s)"
    by blast
  note I = store_invD [OF inv]
  have ri: "r \<in> set (rounds (st_m2 s))" "sr_id r = ?i" using r by (auto dest: find_roundD)
  note L = life_okD [OF I(4) [OF ri(1)]]
  have before: "stage_of s r = ST_revealed" using L(1) st stage_stateD(7) [of "stage_of s r"] by simp
  note S = stage_revealedD [OF this]
  obtain x where x: "search_of s ?i = Some x" "bb_promoted (sd_barrier x) \<noteq> []"
    using L(2) S(4) ri(2) by (auto simp: complete_def)
  have art: "sr_artifacts r \<noteq> None"
    using rounds_invD(5) [of "doc_hash E" "st_m2 s" r] I(1) ri(1) st
    by (auto simp: m2_inv_def family_ok_def split: option.splits)
  have look: "barrier_of s' k p = (if k = ?i \<and> p = PH_HOLDOUT then Some w else barrier_of s k p)" for k p
    using barrier_of_insert [of s' s w k p] none rows w by (simp add: evidence_rows_def)
  have rest: "reveal_of s' k = reveal_of s k" "comparison_of s' k = comparison_of s k"
    "bundle_of s' k = bundle_of s k" for k
    using rows by (simp_all add: evidence_rows_def reveal_of_def comparison_of_def bundle_of_def)
  have ev: "same_evidence s s' k" if "k \<noteq> ?i" for k
    using that by (simp add: same_evidence_def look rest)
  have srch: "search_of s' ?i = Some x" using x(1) by (simp add: search_of_def look)
  have hold: "hold_of s' ?i = Some b" by (simp add: hold_of_def look w)
  have ok: "barrier_row_ok w" by (simp add: barrier_row_ok_def w)
  have rinv: "rows_inv s'"
    by (rule rows_inv_append [OF I(3) moves_ids [OF mv same_frozen_bump(2)], of "[w]" "[]" "[]" "[]", OF _ _ _ r])
      (simp_all add: rows ok w)
  have stage: "stage_of s' (bump ?g r) = ST_held"
    using S by (simp add: stage_of_def Let_def ri rest hold srch)
  have life: "life_ok E verify s' (bump ?g r)"
    unfolding life_ok_def stage using S x by (simp add: complete_def ri rest hold srch)
  note h = fold_mark_part own_members_other [OF I(1) own]
  have "store_inv E verify s'"
    by (rule store_inv_moves [OF inv r mv h same_frozen_bump(2) _ _ ev rinv life])
      (use art st t in \<open>auto simp: task_of_def\<close>)
  moreover have "progress s s'"
    by (rule progress_moves [OF r mv h same_frozen_bump(2) ev])
      (simp_all add: stage before life_step.intros)
  ultimately show ?thesis ..
qed (use inv in simp)

lemma comparison_step:
  assumes inv: "store_inv E verify s" and c: "record_scripted_multiple_comparison E c s = Inr (s', c')"
  shows "store_inv E verify s' \<and> progress s s'"
proof (cases "s' = s")
  case False
  let ?i = "mc_round c"
  let ?g = "\<lambda>q::search_round. q" and ?h = "\<lambda>m::member. m"
  from comparison_effect [OF c] False obtain r w where r: "find_round (st_m2 s) ?i = Some r"
    and st: "sr_state r = R_HOLDOUT_BARRIER"
    and w: "cw_round w = ?i" and none: "comparison_of s (cw_round w) = None"
    and mv: "moves ?i ?g ?h (st_m2 s) (st_m2 s')"
    and t: "tasks (base (st_m2 s')) = tasks (base (st_m2 s))"
    and rows: "evidence_rows s' = (st_barriers s, st_reveals s, st_comparisons s @ [w], st_bundles s)"
    by blast
  note I = store_invD [OF inv]
  have ri: "r \<in> set (rounds (st_m2 s))" "sr_id r = ?i" using r by (auto dest: find_roundD)
  note L = life_okD [OF I(4) [OF ri(1)]]
  have "stage_of s r = ST_held \<or> stage_of s r = ST_compared"
    using L(1) st stage_stateD(8) [of "stage_of s r"] by simp
  then have "stage_of s r \<in> {ST_held, ST_compared}" by blast
  note S = stage_heldD [OF this]
  have before: "stage_of s r = ST_held"
    using S(4) none w ri \<open>stage_of s r \<in> {ST_held, ST_compared}\<close> by auto
  have look: "comparison_of s' k = (if k = ?i then Some w else comparison_of s k)" for k
    using comparison_of_insert [of s' s w k] none rows w by (simp add: evidence_rows_def)
  have rest: "barrier_of s' k p = barrier_of s k p" "reveal_of s' k = reveal_of s k"
    "bundle_of s' k = bundle_of s k" for k p
    using rows by (simp_all add: evidence_rows_def barrier_of_def reveal_of_def bundle_of_def)
  have both: "search_of s' k = search_of s k" "hold_of s' k = hold_of s k" for k
    by (simp_all add: search_of_def hold_of_def rest)
  have ev: "same_evidence s s' k" if "k \<noteq> ?i" for k
    using that by (simp add: same_evidence_def look rest)
  have rinv: "rows_inv s'"
    by (rule rows_inv_append [OF I(3) moves_ids [OF mv same_frozen_bump(3)], of "[]" "[]" "[w]" "[]", OF _ _ _ r])
      (simp_all add: rows w)
  have stage: "stage_of s' (bump ?g r) = ST_compared"
    using S by (simp add: stage_of_def Let_def ri rest both look)
  have life: "life_ok E verify s' (bump ?g r)"
    unfolding life_ok_def stage using S L(2) st none w by (auto simp: complete_def ri rest both look)
  have h: "artifact_part (?h m) = artifact_part m"
    "m \<in> set (members (st_m2 s)) \<Longrightarrow> mb_round m \<noteq> ?i \<Longrightarrow> ?h m = m" for m by simp_all
  have "store_inv E verify s'"
    by (rule store_inv_moves [OF inv r mv h same_frozen_bump(3) _ _ ev rinv life])
      (use t in auto)
  moreover have "progress s s'"
    by (rule progress_moves [OF r mv h same_frozen_bump(3) ev])
      (simp_all add: stage before life_step.intros)
  ultimately show ?thesis ..
qed (use inv in simp)

section \<open>The end of a round\<close>

lemma terminal_pathD:
  assumes "terminal_path b r x hold cmp = Inr u"
  shows "(sr_state r = R_SEARCH_BARRIER \<and> bb_outcome (sd_barrier x) = NO_PROMOTABLE_CANDIDATE) \<or>
    (sr_state r = R_HOLDOUT_BARRIER \<and> hold \<noteq> None \<and> cmp \<noteq> None)"
  using assms by (auto simp: terminal_path_def split: if_splits)

lemma finish_step:
  assumes inv: "store_inv E verify s" and c: "finalize_scripted_search_round E verify b s = Inr (s', r')"
  shows "store_inv E verify s' \<and> progress s s'"
proof (cases "s' = s")
  case False
  let ?i = "eb_round b"
  let ?g = "\<lambda>q. q\<lparr>sr_state := R_SCRIPTED_COMPLETED\<rparr>" and ?h = "\<lambda>m::member. m"
  let ?cmp = "map_option cw_payload (comparison_of s ?i)"
  from finish_effect [OF c] False obtain r w u x check where r: "find_round (st_m2 s) ?i = Some r"
    and u: "barrier_of s ?i PH_SEARCH = Some u" "br_payload u = Search_payload x"
    and chk: "verify = Some check" "check r x b (hold_of s ?i) ?cmp = Inr ()"
    and path: "terminal_path b r x (hold_of s ?i) ?cmp = Inr ()"
    and led: "eb_ledger b = durable_ledger_hash E (st_m2 s) ?i"
    and closed: "\<forall>v \<in> set (reservations (st_m2 s)). v_round v = ?i \<longrightarrow> v_state v \<noteq> BR_RESERVED"
    and w: "ew_round w = ?i" "ew_payload w = b" and none: "bundle_of s (ew_round w) = None"
    and mv: "moves ?i ?g ?h (st_m2 s) (st_m2 s')"
    and t: "tasks (base (st_m2 s')) = moved_tasks (sr_task r) T_COMPLETED (tasks (base (st_m2 s)))"
    and rows: "evidence_rows s' = (st_barriers s, st_reveals s, st_comparisons s, st_bundles s @ [w])"
    by blast
  note I = store_invD [OF inv]
  have ri: "r \<in> set (rounds (st_m2 s))" "sr_id r = ?i" using r by (auto dest: find_roundD)
  note L = life_okD [OF I(4) [OF ri(1)]]
  have x: "search_of s ?i = Some x" using barrier_of_search u by simp
  have before: "(stage_of s r = ST_searched False \<and> bb_promoted (sd_barrier x) = []) \<or>
      (stage_of s r = ST_compared \<and> comparison_of s ?i \<noteq> None)"
    using terminal_pathD [OF path]
  proof (elim disjE conjE)
    assume st: "sr_state r = R_SEARCH_BARRIER" "bb_outcome (sd_barrier x) = NO_PROMOTABLE_CANDIDATE"
    then have none: "bb_promoted (sd_barrier x) = []" using search_row_ok(2) [OF I(3) u] by simp
    obtain p where p: "stage_of s r = ST_searched p" using L(1) st(1) stage_stateD(6) [of "stage_of s r"] by auto
    from stage_searchedD(6) [OF p] x ri none p show ?thesis by simp
  next
    assume st: "sr_state r = R_HOLDOUT_BARRIER" and some: "?cmp \<noteq> None"
    from L(1) st stage_stateD(8) [of "stage_of s r"] have "stage_of s r \<in> {ST_held, ST_compared}" by simp
    from stage_heldD(4) [OF this] some ri show ?thesis by simp
  qed
  have state: "sr_state r = R_SEARCH_BARRIER \<or> sr_state r = R_HOLDOUT_BARRIER"
    using terminal_pathD [OF path] by blast
  have art: "sr_artifacts r \<noteq> None"
    using rounds_invD(5) [of "doc_hash E" "st_m2 s" r] I(1) ri(1) state
    by (auto simp: m2_inv_def family_ok_def split: option.splits)
  have look: "bundle_of s' k = (if k = ?i then Some w else bundle_of s k)" for k
    using bundle_of_insert [of s' s w k] none rows w by (simp add: evidence_rows_def)
  have rest: "barrier_of s' k p = barrier_of s k p" "reveal_of s' k = reveal_of s k"
    "comparison_of s' k = comparison_of s k" for k p
    using rows by (simp_all add: evidence_rows_def barrier_of_def reveal_of_def comparison_of_def)
  have both: "search_of s' k = search_of s k" "hold_of s' k = hold_of s k" for k
    by (simp_all add: search_of_def hold_of_def rest)
  have ev: "same_evidence s s' k" if "k \<noteq> ?i" for k
    using that by (simp add: same_evidence_def look rest)
  have rinv: "rows_inv s'"
    by (rule rows_inv_append [OF I(3) moves_ids [OF mv same_frozen_bump(2)], of "[]" "[]" "[]" "[w]", OF _ _ _ r])
      (simp_all add: rows w)
  have stage: "stage_of s' (bump ?g r) = ST_completed" by (simp add: stage_of_def Let_def ri look)
  have bud: "reservations (st_m2 s') = reservations (st_m2 s)" "ledger (st_m2 s') = ledger (st_m2 s)"
    using mv by (simp_all add: moves_def)
  have undo: "(bump ?g r)\<lparr>sr_state := sr_state r, sr_version := sr_version r\<rparr> = r" by (simp add: bump_def)
  have "sealed E verify s' (bump ?g r)"
    unfolding sealed_def
  proof (intro exI conjI)
    show "bundle_of s' (sr_id (bump ?g r)) = Some w" by (simp add: look ri)
    show "search_of s' (sr_id (bump ?g r)) = Some x" by (simp add: both ri x)
    show "check ((bump ?g r)\<lparr>sr_state := sr_state r, sr_version := sr_version r\<rparr>) x (ew_payload w)
        (hold_of s' (sr_id (bump ?g r))) (map_option cw_payload (comparison_of s' (sr_id (bump ?g r)))) = Inr ()"
      unfolding undo using chk by (simp add: both rest ri w)
    show "eb_ledger (ew_payload w) = durable_ledger_hash E (st_m2 s') (sr_id (bump ?g r))"
      using led by (simp add: ri w same_budget_hash [OF same_budgetI [OF bud]])
    show "\<forall>v \<in> set (reservations (st_m2 s')). v_round v = sr_id (bump ?g r) \<longrightarrow> v_state v \<noteq> BR_RESERVED"
      using closed by (simp add: bud ri)
  qed (rule chk)
  moreover have "complete s' ?i" using L(2) before x by (auto simp: complete_def ri rest both look)
  ultimately have life: "life_ok E verify s' (bump ?g r)"
    unfolding life_ok_def stage by (simp add: ri)
  have h: "artifact_part (?h m) = artifact_part m"
    "m \<in> set (members (st_m2 s)) \<Longrightarrow> mb_round m \<noteq> ?i \<Longrightarrow> ?h m = m" for m by simp_all
  have "store_inv E verify s'"
    by (rule store_inv_moves [OF inv r mv h same_frozen_bump(2) _ _ ev rinv life])
      (use art t in \<open>auto simp: task_of_def\<close>)
  moreover have "progress s s'"
    by (rule progress_moves [OF r mv h same_frozen_bump(2) ev])
      (use before stage in \<open>auto intro: life_step.intros\<close>)
  ultimately show ?thesis ..
qed (use inv in simp)

lemma cancel_step:
  assumes inv: "store_inv E verify s" and c: "cancel_scripted_search_round now i reason s = Inr (s', r')"
  shows "store_inv E verify s' \<and> progress s s'"
proof (cases "s' = s")
  case False
  let ?g = "\<lambda>q. q\<lparr>sr_state := R_CANCELLED\<rparr>" and ?h = "\<lambda>m::member. m"
  from cancel_effect [OF c] False obtain r where r: "find_round (st_m2 s) i = Some r"
    and st: "sr_state r \<notin> {R_CANCELLED, R_SCRIPTED_COMPLETED}" and none: "bundle_of s i = None"
    and mv: "moves i ?g ?h (st_m2 s) (st_m2 s')"
    and t: "tasks (base (st_m2 s')) = moved_tasks (sr_task r) T_CANCELLED (tasks (base (st_m2 s)))"
    and rows: "evidence_rows s' = evidence_rows s"
    by blast
  note I = store_invD [OF inv]
  have ri: "r \<in> set (rounds (st_m2 s))" "sr_id r = i" using r by (auto dest: find_roundD)
  note L = life_okD [OF I(4) [OF ri(1)]]
  have ev: "same_evidence s s' k" for k by (rule same_tables [OF rows])
  have ids: "sr_id ` set (rounds (st_m2 s')) = sr_id ` set (rounds (st_m2 s))"
    by (rule moves_ids [OF mv same_frozen_bump(2)])
  have rinv: "rows_inv s'"
    using I(3) rows unfolding rows_inv_def ids by (simp add: evidence_rows_def)
  have stage: "stage_of s' (bump ?g r) = ST_cancelled" by (simp add: stage_of_def)
  have life: "life_ok E verify s' (bump ?g r)"
    unfolding life_ok_def stage using L(2) none
    by (simp add: ri complete_def same_evidenceD [OF ev])
  have h: "artifact_part (?h m) = artifact_part m"
    "m \<in> set (members (st_m2 s)) \<Longrightarrow> mb_round m \<noteq> i \<Longrightarrow> ?h m = m" for m by simp_all
  have "store_inv E verify s'"
    by (rule store_inv_moves [OF inv r mv h same_frozen_bump(2) _ _ ev rinv life])
      (use t in \<open>auto simp: task_of_def\<close>)
  moreover have "stage_of s r \<noteq> ST_completed" "stage_of s r \<noteq> ST_cancelled" using L(1) st by auto
  then have "progress s s'"
    by (intro progress_moves [OF r mv h same_frozen_bump(2) ev]) (simp_all add: stage life_step.intros)
  ultimately show ?thesis ..
qed (use inv in simp)

section \<open>Intake, builds, budget and the queue\<close>

text \<open>Each round is left as it was, or is new or moved as shown.\<close>

lemma store_inv_m2:
  fixes s :: round_store and d' :: m2_db
  defines "s' \<equiv> s\<lparr>st_m2 := d'\<rparr>"
  assumes inv: "store_inv E verify s" and m2: "m2_inv (doc_hash E) d'" and task: "task_inv d'"
    and each: "\<And>k. (find_round d' k = find_round (st_m2 s) k \<and> any_built d' k = any_built (st_m2 s) k) \<or>
      (\<exists>r'. find_round d' k = Some r' \<and> life_ok E verify s' r' \<and>
        (\<forall>r. find_round (st_m2 s) k = Some r \<longrightarrow>
           stage_of s' r' = stage_of s r \<or> life_step (stage_of s r) (stage_of s' r')))"
    and bud: "\<And>k r. find_round (st_m2 s) k = Some r \<Longrightarrow> sr_state r = R_SCRIPTED_COMPLETED \<Longrightarrow>
      same_budget (st_m2 s) d' k"
  shows "store_inv E verify s' \<and> progress s s'"
proof
  note I = store_invD [OF inv]
  have st: "st_m2 s' = d'" and rows: "evidence_rows s' = evidence_rows s"
    by (simp_all add: s'_def evidence_rows_def)
  note ev = same_tables [OF rows]
  have rinv: "rounds_inv (doc_hash E) (st_m2 s)" "rounds_inv (doc_hash E) d'"
    using I(1) m2 by (simp_all add: m2_inv_def)
  have "sr_id ` set (rounds (st_m2 s)) \<subseteq> sr_id ` set (rounds d')"
  proof
    fix k assume "k \<in> sr_id ` set (rounds (st_m2 s))"
    then obtain r where "r \<in> set (rounds (st_m2 s))" "sr_id r = k" by blast
    then have "find_round (st_m2 s) k = Some r" using find_round_unique [OF rinv(1)] by blast
    with each [of k] obtain r' where "find_round d' k = Some r'" by auto
    then show "k \<in> sr_id ` set (rounds d')" by (auto dest: find_roundD)
  qed
  moreover have "st_barriers s' = st_barriers s" "st_reveals s' = st_reveals s"
    "st_comparisons s' = st_comparisons s" "st_bundles s' = st_bundles s"
    by (simp_all add: s'_def)
  ultimately have "rows_inv s'" using I(3) unfolding rows_inv_def st by (metis subset_trans)
  moreover have "life_ok E verify s' x" if x: "x \<in> set (rounds d')" for x
  proof -
    have fx: "find_round d' (sr_id x) = Some x" by (rule find_round_unique [OF rinv(2) x])
    from each [of "sr_id x"] show ?thesis
    proof
      assume same: "find_round d' (sr_id x) = find_round (st_m2 s) (sr_id x) \<and>
        any_built d' (sr_id x) = any_built (st_m2 s) (sr_id x)"
      then have old: "find_round (st_m2 s) (sr_id x) = Some x" using fx by simp
      then have "x \<in> set (rounds (st_m2 s))" by (auto dest: find_roundD)
      from life_frame [OF I(4) [OF this] ev] same bud [OF old] show ?thesis by (simp add: st)
    qed (use fx in auto)
  qed
  ultimately show "store_inv E verify s'" using m2 task unfolding store_inv_def st by blast
  show "progress s s'"
    unfolding progress_def st
  proof (intro allI impI)
    fix k r assume r: "find_round (st_m2 s) k = Some r"
    then have rk: "sr_id r = k" by (auto dest: find_roundD)
    from each [of k] show "\<exists>r'. find_round d' k = Some r' \<and>
        (stage_of s' r' = stage_of s r \<or> life_step (stage_of s r) (stage_of s' r'))"
    proof
      assume same: "find_round d' k = find_round (st_m2 s) k \<and> any_built d' k = any_built (st_m2 s) k"
      then have "stage_of s' r = stage_of s r" by (intro stage_frame [OF ev]) (simp add: st rk)
      with same r show ?thesis by auto
    qed (use r in auto)
  qed
qed

lemma create_step:
  assumes inv: "store_inv E verify s" and c: "create_search_round q (st_m2 s) = Inr (d', r)"
    and m2: "m2_inv (doc_hash E) d'" and task: "task_inv d'"
  shows "store_inv E verify (s\<lparr>st_m2 := d'\<rparr>) \<and> progress s (s\<lparr>st_m2 := d'\<rparr>)"
proof (rule store_inv_m2 [OF inv m2 task])
  note E = create_effect [OF c]
  note I = store_invD [OF inv]
  have built: "any_built d' k = any_built (st_m2 s) k" for k by (simp add: any_built_iff E(1))
  fix k
  show "(find_round d' k = find_round (st_m2 s) k \<and> any_built d' k = any_built (st_m2 s) k) \<or>
      (\<exists>r'. find_round d' k = Some r' \<and> life_ok E verify (s\<lparr>st_m2 := d'\<rparr>) r' \<and>
        (\<forall>r. find_round (st_m2 s) k = Some r \<longrightarrow> stage_of (s\<lparr>st_m2 := d'\<rparr>) r' = stage_of s r \<or>
           life_step (stage_of s r) (stage_of (s\<lparr>st_m2 := d'\<rparr>) r')))"
  proof (cases "rounds d' = rounds (st_m2 s)")
    case True
    then show ?thesis using built by (simp add: find_round_def)
  next
    case False
    with E(4) have new: "rounds d' = rounds (st_m2 s) @ [q]" "sr_id q \<notin> sr_id ` set (rounds (st_m2 s))"
      "sr_state q = R_INTAKE_OPEN" "sr_family q = None" "sr_artifacts q = None" by auto
    note none = no_rows [OF I(3) new(2)]
    have look: "find_round d' k = (case find_round (st_m2 s) k of Some x \<Rightarrow> Some x
        | None \<Rightarrow> if sr_id q = k then Some q else None)"
      by (simp add: find_round_def new(1) find_append split: option.split)
    let ?s = "s\<lparr>st_m2 := d'\<rparr>"
    have "evidence_rows ?s = evidence_rows s" by (simp add: evidence_rows_def)
    note ev = same_evidenceD [OF same_tables [OF this]]
    have stage: "stage_of ?s q = ST_intake"
      using new(3-5) none by (simp add: stage_of_def Let_def ev)
    have life: "life_ok E verify ?s q"
      unfolding life_ok_def stage using new(3) none by (simp add: complete_def ev)
    show ?thesis
    proof (cases "k = sr_id q")
      case True
      have "find_round (st_m2 s) (sr_id q) = None"
        using new(2) by (auto simp: find_round_def find_None_iff image_iff)
      with look True life show ?thesis by simp
    next
      case False
      then have "find_round d' k = find_round (st_m2 s) k" using look by (simp split: option.split)
      with built show ?thesis by simp
    qed
  qed
  show "same_budget (st_m2 s) d' k" by (rule same_budgetI [OF E(2,3)])
qed

lemma add_step:
  assumes inv: "store_inv E verify s" and c: "add_round_candidate q (st_m2 s) = Inr (d', m)"
    and m2: "m2_inv (doc_hash E) d'" and task: "task_inv d'"
  shows "store_inv E verify (s\<lparr>st_m2 := d'\<rparr>) \<and> progress s (s\<lparr>st_m2 := d'\<rparr>)"
proof (rule store_inv_m2 [OF inv m2 task])
  note E = add_effect [OF c]
  have "any_built d' k = any_built (st_m2 s) k" for k
    using E(4) by (auto simp: any_built_iff BUILD_TERMINAL_STATES_def)
  then show "(find_round d' k = find_round (st_m2 s) k \<and> any_built d' k = any_built (st_m2 s) k) \<or> P k" for k P
    by (simp add: find_round_def E(1))
  show "same_budget (st_m2 s) d' k" for k by (rule same_budgetI [OF E(2,3)])
qed

text \<open>An operation that rewrites one round.\<close>

lemma rewrite_step:
  fixes d' :: m2_db and s :: round_store
  defines "s' \<equiv> s\<lparr>st_m2 := d'\<rparr>"
  assumes inv: "store_inv E verify s" and m2: "m2_inv (doc_hash E) d'" and task: "task_inv d'"
    and r: "find_round (st_m2 s) i = Some r"
    and rs: "rounds d' = update_where (\<lambda>q. sr_id q = i) f (rounds (st_m2 s))" and f: "\<And>q. sr_id (f q) = sr_id q"
    and built: "\<And>k. k \<noteq> i \<Longrightarrow> any_built d' k = any_built (st_m2 s) k"
    and bud: "reservations d' = reservations (st_m2 s)" "ledger d' = ledger (st_m2 s)"
    and life: "life_ok E verify s' (f r)"
    and stage: "stage_of s' (f r) = stage_of s r \<or> life_step (stage_of s r) (stage_of s' (f r))"
  shows "store_inv E verify s' \<and> progress s s'"
  unfolding s'_def
proof (rule store_inv_m2 [OF inv m2 task])
  fix k
  have look: "find_round d' k = map_option (\<lambda>q. if sr_id q = i then f q else q) (find_round (st_m2 s) k)"
    by (rule find_set_round [OF rs f])
  show "(find_round d' k = find_round (st_m2 s) k \<and> any_built d' k = any_built (st_m2 s) k) \<or>
      (\<exists>r'. find_round d' k = Some r' \<and> life_ok E verify (s\<lparr>st_m2 := d'\<rparr>) r' \<and>
        (\<forall>r. find_round (st_m2 s) k = Some r \<longrightarrow> stage_of (s\<lparr>st_m2 := d'\<rparr>) r' = stage_of s r \<or>
           life_step (stage_of s r) (stage_of (s\<lparr>st_m2 := d'\<rparr>) r')))"
  proof (cases "k = i")
    case True
    with r look have "find_round d' k = Some (f r)" by (auto dest: find_roundD)
    with life stage r True show ?thesis unfolding s'_def by auto
  next
    case False
    then have "find_round d' k = find_round (st_m2 s) k"
      using look by (cases "find_round (st_m2 s) k") (auto dest: find_roundD)
    with built [OF False] show ?thesis by simp
  qed
  show "same_budget (st_m2 s) d' k" by (rule same_budgetI [OF bud])
qed

lemma close_accepted:
  assumes "close_search_round_intake digest now i d = Inr (d', r')"
  shows "m \<in> set (members d) \<Longrightarrow> mb_round m = i \<Longrightarrow> mb_state m = RC_INTAKE_ACCEPTED"
  using assms
  by (auto simp: close_search_round_intake_def Let_def list_ex_iff round_members_def split: if_splits option.splits)

lemma close_step:
  assumes inv: "store_inv E verify s" and c: "close_search_round_intake digest now i (st_m2 s) = Inr (d', r')"
    and m2: "m2_inv (doc_hash E) d'" and task: "task_inv d'"
  shows "store_inv E verify (s\<lparr>st_m2 := d'\<rparr>) \<and> progress s (s\<lparr>st_m2 := d'\<rparr>)"
proof (cases "d' = st_m2 s")
  case False
  note E = close_effect [OF c]
  let ?s = "s\<lparr>st_m2 := d'\<rparr>"
  let ?f = "\<lambda>h q. q\<lparr>sr_state := R_INTAKE_CLOSED, sr_family := Some h, sr_closed := Some now,
    sr_version := sr_version q + 1\<rparr>"
  from E(4) False obtain r h where r: "find_round (st_m2 s) i = Some r" "sr_state r = R_INTAKE_OPEN"
    and rs: "rounds d' = update_where (\<lambda>q. sr_id q = i) (?f h) (rounds (st_m2 s))" by blast
  note I = store_invD [OF inv]
  have ri: "r \<in> set (rounds (st_m2 s))" "sr_id r = i" using r by (auto dest: find_roundD)
  note L = life_okD [OF I(4) [OF ri(1)]]
  have before: "stage_of s r = ST_intake" using L(1) r(2) stage_stateD(1) [of "stage_of s r"] by simp
  then have "stage_of s r \<in> {ST_intake, ST_closed, ST_building, ST_frozen}" by simp
  note S = stage_emptyD [OF this]
  have "evidence_rows ?s = evidence_rows s" by (simp add: evidence_rows_def)
  note ev = same_evidenceD [OF same_tables [OF this]]
  have "\<not> any_built d' i"
    using close_accepted [OF c] by (auto simp: any_built_iff E(1) BUILD_TERMINAL_STATES_def)
  moreover have "sr_artifacts r = None" using S(7) before by simp
  ultimately have stage: "stage_of ?s (?f h r) = ST_closed"
    using S(1-6) by (simp add: stage_of_def Let_def ri ev)
  have life: "life_ok E verify ?s (?f h r)"
    unfolding life_ok_def stage using S(1-6) by (simp add: complete_def ri ev)
  have "stage_of ?s (?f h r) = stage_of s r \<or> life_step (stage_of s r) (stage_of ?s (?f h r))"
    unfolding stage before by (simp add: life_step.intros)
  from rewrite_step [OF inv m2 task r(1) rs _ _ E(2,3) life this] show ?thesis
    by (simp add: any_built_iff E(1))
qed (use inv in simp)

lemma terminal_state:
  "require_one_build_terminal q = Inr () \<Longrightarrow> bt_state q \<in> set BUILD_TERMINAL_STATES"
  by (auto simp: require_one_build_terminal_def Let_def BUILD_TERMINAL_STATES_def split: if_splits)

lemma build_step:
  assumes inv: "store_inv E verify s" and c: "record_round_candidate_build q (st_m2 s) = Inr (d', m')"
    and m2: "m2_inv (doc_hash E) d'" and task: "task_inv d'" and v: "require_one_build_terminal q = Inr ()"
  shows "store_inv E verify (s\<lparr>st_m2 := d'\<rparr>) \<and> progress s (s\<lparr>st_m2 := d'\<rparr>)"
proof (cases "d' = st_m2 s")
  case False
  note E = build_effect [OF c]
  let ?d = "st_m2 s" and ?s = "s\<lparr>st_m2 := d'\<rparr>" and ?i = "bt_round q"
  let ?f = "\<lambda>x. x\<lparr>sr_state := R_BUILDING, sr_version := sr_version x + 1\<rparr>"
  from E(3) False obtain r m where r: "find_round ?d ?i = Some r"
    and st: "sr_family r \<noteq> None" "sr_artifacts r = None" "sr_state r \<in> {R_INTAKE_CLOSED, R_BUILDING}"
    and m: "find (\<lambda>m. mb_id m = bt_member q) (members ?d) = Some m" "mb_round m = ?i"
    and ms: "members d' = update_where (\<lambda>x. mb_id x = bt_member q) (end_build q) (members ?d)"
    and rs: "rounds d' = update_where (\<lambda>x. sr_id x = ?i) ?f (rounds ?d)"
    unfolding end_build_def [abs_def] by blast
  note I = store_invD [OF inv]
  have ri: "r \<in> set (rounds ?d)" "sr_id r = ?i" using r by (auto dest: find_roundD)
  note L = life_okD [OF I(4) [OF ri(1)]]
  have before: "stage_of s r = ST_closed \<or> stage_of s r = ST_building"
    using L(1) st(3) stage_stateD(2,3) [of "stage_of s r"] by auto
  then have "stage_of s r \<in> {ST_intake, ST_closed, ST_building, ST_frozen}" by blast
  note S = stage_emptyD [OF this]
  have "evidence_rows ?s = evidence_rows s" by (simp add: evidence_rows_def)
  note ev = same_evidenceD [OF same_tables [OF this]]
  have mi: "m \<in> set (members ?d)" "mb_id m = bt_member q" using m(1) by (auto dest: find_SomeD)
  have dis: "distinct (map mb_id (members ?d))" using I(1) by (simp add: m2_inv_def rounds_inv_def)
  have "end_build q m \<in> set (members d')" unfolding ms update_where_mem using mi by force
  then have "any_built d' ?i"
    using terminal_state [OF v] m(2) by (auto simp: any_built_iff end_build_def intro!: bexI [of _ "end_build q m"])
  then have stage: "stage_of ?s (?f r) = ST_building"
    using S(1-6) st by (simp add: stage_of_def Let_def ri ev)
  have life: "life_ok E verify ?s (?f r)"
    unfolding life_ok_def stage using S(1-6) by (simp add: complete_def ri ev)
  have step: "stage_of ?s (?f r) = stage_of s r \<or> life_step (stage_of s r) (stage_of ?s (?f r))"
    unfolding stage using before by (auto intro: life_step.intros)
  have other: "any_built d' k = any_built ?d k" if "k \<noteq> ?i" for k
    unfolding any_built_def build_members(3) [OF ms dis mi m(2) that] by (rule refl)
  show ?thesis
    by (rule rewrite_step [OF inv m2 task r rs _ _ E(1,2) life step]) (simp_all add: other)
qed (use inv in simp)

lemma freeze_step:
  assumes inv: "store_inv E verify s"
    and c: "freeze_search_round_artifact_family digest i family expected (st_m2 s) = Inr (d', r')"
    and m2: "m2_inv (doc_hash E) d'" and task: "task_inv d'"
  shows "store_inv E verify (s\<lparr>st_m2 := d'\<rparr>) \<and> progress s (s\<lparr>st_m2 := d'\<rparr>)"
proof (cases "d' = st_m2 s")
  case False
  note E = freeze_effect [OF c]
  let ?s = "s\<lparr>st_m2 := d'\<rparr>"
  let ?f = "\<lambda>h q. q\<lparr>sr_state := R_CORRECTNESS, sr_artifacts := Some h, sr_version := sr_version q + 1\<rparr>"
  from E(4) False obtain r h where r: "find_round (st_m2 s) i = Some r" "sr_state r = R_BUILDING"
    and rs: "rounds d' = update_where (\<lambda>q. sr_id q = i) (?f h) (rounds (st_m2 s))" by blast
  note I = store_invD [OF inv]
  have ri: "r \<in> set (rounds (st_m2 s))" "sr_id r = i" using r by (auto dest: find_roundD)
  note L = life_okD [OF I(4) [OF ri(1)]]
  have before: "stage_of s r = ST_building" using L(1) r(2) stage_stateD(3) [of "stage_of s r"] by simp
  then have "stage_of s r \<in> {ST_intake, ST_closed, ST_building, ST_frozen}" by simp
  note S = stage_emptyD [OF this]
  have "evidence_rows ?s = evidence_rows s" by (simp add: evidence_rows_def)
  note ev = same_evidenceD [OF same_tables [OF this]]
  have stage: "stage_of ?s (?f h r) = ST_frozen"
    using S(1-6) by (simp add: stage_of_def Let_def ri ev)
  have life: "life_ok E verify ?s (?f h r)"
    unfolding life_ok_def stage using S(1-6) by (simp add: complete_def ri ev)
  have "stage_of ?s (?f h r) = stage_of s r \<or> life_step (stage_of s r) (stage_of ?s (?f h r))"
    unfolding stage before by (simp add: life_step.intros)
  from rewrite_step [OF inv m2 task r(1) rs _ _ E(2,3) life this] show ?thesis
    by (simp add: any_built_iff E(1))
qed (use inv in simp)

lemma quiet_step:
  assumes inv: "store_inv E verify s" and m2: "m2_inv (doc_hash E) d'" and task: "task_inv d'"
    and same: "rounds d' = rounds (st_m2 s)" "members d' = members (st_m2 s)"
    and bud: "\<And>k r. find_round (st_m2 s) k = Some r \<Longrightarrow> sr_state r = R_SCRIPTED_COMPLETED \<Longrightarrow>
      same_budget (st_m2 s) d' k"
  shows "store_inv E verify (s\<lparr>st_m2 := d'\<rparr>) \<and> progress s (s\<lparr>st_m2 := d'\<rparr>)"
  by (rule store_inv_m2 [OF inv m2 task]) (simp_all add: find_round_def same any_built_iff bud [unfolded find_round_def])

lemma reserve_open:
  assumes "reserve_round_budget q g d = Inr (d', z)" "d' \<noteq> d" "find_round d (v_round q) = Some r"
  shows "sr_state r \<noteq> R_SCRIPTED_COMPLETED"
  using assms
  by (auto simp: reserve_round_budget_def Let_def bind_res_eq_Inr split: if_splits option.splits)

lemma reserve_step:
  assumes inv: "store_inv E verify s" and c: "reserve_round_budget q g (st_m2 s) = Inr (d', z)"
    and m2: "m2_inv (doc_hash E) d'" and task: "task_inv d'"
  shows "store_inv E verify (s\<lparr>st_m2 := d'\<rparr>) \<and> progress s (s\<lparr>st_m2 := d'\<rparr>)"
proof (rule quiet_step [OF inv m2 task])
  note E = reserve_effect [OF c]
  show "rounds d' = rounds (st_m2 s)" "members d' = members (st_m2 s)" by (rule E(1), rule E(2))
  fix k r assume r: "find_round (st_m2 s) k = Some r" "sr_state r = R_SCRIPTED_COMPLETED"
  show "same_budget (st_m2 s) d' k"
  proof (cases "d' = st_m2 s")
    case False
    then have "v_round q \<noteq> k" using reserve_open [OF c] r by auto
    with E(3) False show ?thesis by (auto simp: same_budget_def)
  qed (simp add: same_budget_def)
qed

lemma settle_step:
  assumes inv: "store_inv E verify s" and c: "finalize_round_budget g (st_m2 s) = Inr (d', z)"
    and m2: "m2_inv (doc_hash E) d'" and task: "task_inv d'"
  shows "store_inv E verify (s\<lparr>st_m2 := d'\<rparr>) \<and> progress s (s\<lparr>st_m2 := d'\<rparr>)"
proof (rule quiet_step [OF inv m2 task])
  note E = finalize_effect [OF c]
  note I = store_invD [OF inv]
  show "rounds d' = rounds (st_m2 s)" "members d' = members (st_m2 s)" by (rule E(1), rule E(2))
  fix k r assume r: "find_round (st_m2 s) k = Some r" "sr_state r = R_SCRIPTED_COMPLETED"
  show "same_budget (st_m2 s) d' k"
  proof (cases "d' = st_m2 s")
    case False
    with E(3) obtain v st where v: "v \<in> set (reservations (st_m2 s))" "v_id v = g_reservation g"
      "v_round v = g_round g" "v_state v = BR_RESERVED"
      and N: "ledger d' = ledger (st_m2 s) @ [g]" "reservations d' = update_where
        (\<lambda>x. v_id x = g_reservation g) (\<lambda>x. x\<lparr>v_state := st\<rparr>) (reservations (st_m2 s))" by blast
    from r have "r \<in> set (rounds (st_m2 s))" "sr_id r = k" by (auto dest: find_roundD)
    with I(4) [of r] r(2) have "\<forall>v \<in> set (reservations (st_m2 s)). v_round v = k \<longrightarrow> v_state v \<noteq> BR_RESERVED"
      by (auto simp: life_ok_def sealed_def)
    with v have k: "v_round v \<noteq> k" "g_round g \<noteq> k" by auto
    have dis: "distinct (map v_id (reservations (st_m2 s)))" using I(1) by (simp add: m2_inv_def ledger_inv_def)
    have "filter (\<lambda>v. v_round v = k) (reservations d') = filter (\<lambda>v. v_round v = k) (reservations (st_m2 s))"
      unfolding N(2)
    proof (rule filter_update_other)
      fix x assume "x \<in> set (reservations (st_m2 s))" "v_id x = g_reservation g"
      then have "x = v" using key_unique [OF dis _ v(1)] v(2) by simp
      with k show "\<not> v_round x = k \<and> \<not> v_round (x\<lparr>v_state := st\<rparr>) = k" by simp
    qed
    with N(1) k(2) show ?thesis by (simp add: same_budget_def)
  qed (simp add: same_budget_def)
qed

section \<open>Every operation\<close>

lemma m2_store_step:
  assumes inv: "store_inv E verify s" and v: "m2_valid p" and c: "m2_step (doc_hash E) p (st_m2 s) = Inr d'"
  shows "store_inv E verify (s\<lparr>st_m2 := d'\<rparr>) \<and> progress s (s\<lparr>st_m2 := d'\<rparr>)"
proof -
  note I = store_invD [OF inv]
  have m2: "m2_inv (doc_hash E) d'" by (rule m2_step_inv [OF v I(1) c])
  have task: "task_inv d'" by (rule m2_step_task_inv [OF I(2,1) c])
  show ?thesis
  proof (cases p)
    case (M_queue q)
    with c obtain b where d': "d' = (st_m2 s)\<lparr>base := b\<rparr>" by (auto simp: bind_res_eq_Inr)
    show ?thesis by (rule quiet_step [OF inv m2 task]) (simp_all add: d' same_budget_def)
  next
    case (M_create q)
    with c v create_step [OF inv _ m2 task] show ?thesis by auto
  next
    case (M_add q)
    with c v add_step [OF inv _ m2 task] show ?thesis by auto
  next
    case (M_close now i)
    with c v close_step [OF inv _ m2 task] show ?thesis by auto
  next
    case (M_build q)
    with c v build_step [OF inv _ m2 task] show ?thesis by auto
  next
    case (M_freeze i family expected)
    with c v freeze_step [OF inv _ m2 task] show ?thesis by auto
  next
    case (M_reserve q g)
    with c v reserve_step [OF inv _ m2 task] show ?thesis by auto
  next
    case (M_finalize g)
    with c v settle_step [OF inv _ m2 task] show ?thesis by auto
  qed
qed

lemma store_step_ok:
  assumes inv: "store_inv E verify s" and v: "store_valid E p" and c: "store_step E verify p s = Inr s'"
  shows "store_inv E verify s' \<and> progress s s'"
proof (cases p)
  case (S_m2 q)
  with m2_store_step [OF inv] v c show ?thesis by (auto simp: bind_res_eq_Inr)
next
  case (S_search x)
  with search_step [OF inv] v c show ?thesis by auto
next
  case (S_reveal x)
  with reveal_step [OF inv] c show ?thesis by auto
next
  case (S_holdout x)
  with holdout_step [OF inv] c show ?thesis by auto
next
  case (S_compare x)
  with comparison_step [OF inv] c show ?thesis by auto
next
  case (S_finish x)
  with finish_step [OF inv] c show ?thesis by auto
next
  case (S_cancel now i reason)
  with cancel_step [OF inv] c show ?thesis by auto
qed

interpretation life_tx: transactional "store_step E verify" "store_valid E" "store_inv E verify" for E verify
  by unfold_locales (use store_step_ok in blast)

end
