(* ===== verification/EvidenceProps.thy ===== *)
theory EvidenceProps
  imports EvidenceIndex BarrierProps
begin

text \<open>
  Properties of the evidence index of a round: what the flattening loop computes and that
  it ends on every index, what a verified index guarantees, and that an index that was just
  published verifies, unless two requirements cite the same bytes.
\<close>

section \<open>Flattening\<close>

primrec preorder :: "index_entry \<Rightarrow> index_entry list" where
  "preorder (Index_entry role ty uri sha producer owner checked cs) =
     Index_entry role ty uri sha producer owner checked cs # concat (map preorder cs)"

primrec height :: "index_entry \<Rightarrow> nat" where
  "height (Index_entry role ty uri sha producer owner checked cs) = Suc (Max (set (0 # map height cs)))"

lemma preorder_children: "preorder e = e # concat (map preorder (ie_children e))"
  by (cases e) simp

lemma height_children: "height e \<le> n \<longleftrightarrow> 0 < n \<and> (\<forall>c \<in> set (ie_children e). height c < n)"
  by (cases e; cases n) (auto simp: less_Suc_eq_le)

lemma length_preorder: "0 < length (preorder e)"
  by (subst preorder_children) simp

definition within_depth :: "(index_entry \<times> nat) list \<Rightarrow> bool" where
  "within_depth st \<longleftrightarrow> (\<forall>(e, d) \<in> set st. d + height e \<le> Suc MAX_EVIDENCE_INDEX_DEPTH)"

lemma within_depth_Cons:
  "within_depth ((e, d) # st) \<longleftrightarrow> d \<le> MAX_EVIDENCE_INDEX_DEPTH \<and>
     within_depth (map (\<lambda>c. (c, Suc d)) (ie_children e) @ st)"
proof -
  let ?M = MAX_EVIDENCE_INDEX_DEPTH
  have pos: "0 < height e" using height_children [of e 0] by auto
  have lt: "height c < Suc ?M - d \<longleftrightarrow> Suc d + height c \<le> Suc ?M" for c by arith
  have "d + height e \<le> Suc ?M \<longleftrightarrow> d \<le> ?M \<and> (\<forall>c \<in> set (ie_children e). Suc d + height c \<le> Suc ?M)"
  proof (cases "d \<le> ?M")
    case True
    then have "d + height e \<le> Suc ?M \<longleftrightarrow> height e \<le> Suc ?M - d" by arith
    also have "\<dots> \<longleftrightarrow> (\<forall>c \<in> set (ie_children e). Suc d + height c \<le> Suc ?M)"
      unfolding height_children [of e] lt using True by simp
    finally show ?thesis using True by simp
  next
    case False
    with pos show ?thesis by simp
  qed
  then show ?thesis unfolding within_depth_def by (simp add: ball_Un)
qed

lemma flatten_stack_Inr:
  assumes "length res \<le> MAX_EVIDENCE_INDEX_ENTRIES"
  shows "flatten_stack st res = Inr rs \<longleftrightarrow> rs = res @ concat (map (preorder \<circ> fst) st) \<and>
    within_depth st \<and> length rs \<le> MAX_EVIDENCE_INDEX_ENTRIES"
  using assms
proof (induction st res rule: flatten_stack.induct)
  case (1 res)
  then show ?case by (auto simp: within_depth_def)
next
  case (2 e d st res)
  show ?case
  proof (cases "d \<le> MAX_EVIDENCE_INDEX_DEPTH \<and> length (res @ [e]) \<le> MAX_EVIDENCE_INDEX_ENTRIES")
    case True
    have pre: "res @ concat (map (preorder \<circ> fst) ((e, d) # st)) =
        (res @ [e]) @ concat (map (preorder \<circ> fst) (map (\<lambda>c. (c, Suc d)) (ie_children e) @ st))"
      by (simp add: preorder_children [of e] o_def)
    from True have c: "\<not> MAX_EVIDENCE_INDEX_DEPTH < d"
      "\<not> MAX_EVIDENCE_INDEX_ENTRIES < length (res @ [e])" by simp_all
    have "length (res @ [e]) \<le> MAX_EVIDENCE_INDEX_ENTRIES" using True by blast
    from 2(1) [OF c this] True show ?thesis
      unfolding pre within_depth_Cons flatten_stack.simps if_not_P [OF c(1)] if_not_P [OF c(2)] by blast
  next
    case False
    have "length (res @ [e]) \<le> length (res @ concat (map (preorder \<circ> fst) ((e, d) # st)))"
      using length_preorder [of e] by (simp add: Suc_le_eq o_def)
    with False show ?thesis by (auto simp: within_depth_Cons o_def)
  qed
qed

section \<open>Ending\<close>

text \<open>The loop with the number of its turns bounded by the first argument.\<close>

fun flatten_turns ::
    "nat \<Rightarrow> (index_entry \<times> nat) list \<Rightarrow> index_entry list \<Rightarrow> (error + index_entry list) option" where
  "flatten_turns n [] result = Some (Inr result)"
| "flatten_turns 0 (x # stack) result = None"
| "flatten_turns (Suc n) ((e, depth) # stack) result =
     (if MAX_EVIDENCE_INDEX_DEPTH < depth
      then Some (Inl (M2RoundEvidenceError ''evidence_index_too_deep''))
      else if MAX_EVIDENCE_INDEX_ENTRIES < length (result @ [e])
      then Some (Inl (M2RoundEvidenceError ''evidence_index_too_large''))
      else flatten_turns n (map (\<lambda>c. (c, Suc depth)) (ie_children e) @ stack) (result @ [e]))"

lemma flatten_turns_stack:
  "MAX_EVIDENCE_INDEX_ENTRIES < n + length res \<Longrightarrow> length res \<le> MAX_EVIDENCE_INDEX_ENTRIES \<Longrightarrow>
   flatten_turns n st res = Some (flatten_stack st res)"
proof (induction st res arbitrary: n rule: flatten_stack.induct)
  case (2 e d st res)
  then obtain m where "n = Suc m" by (cases n) auto
  with 2 show ?case by simp
qed simp

section \<open>What verification checks\<close>

lemma index_identities_Inr:
  "index_identities seen es = Inr out \<longleftrightarrow> out = seen @ es \<and>
     (\<forall>e \<in> set es. \<forall>x \<in> set seen. ie_role x \<noteq> ie_role e \<and> ie_uri x \<noteq> ie_uri e \<and> ie_sha x \<noteq> ie_sha e) \<and>
     distinct (map ie_role es) \<and> distinct (map ie_uri es) \<and> distinct (map ie_sha es)"
proof (induction es arbitrary: seen)
  case (Cons e es)
  show ?case
  proof (cases "\<exists>x \<in> set seen. ie_role x = ie_role e \<or> ie_uri x = ie_uri e \<or> ie_sha x = ie_sha e")
    case True
    then show ?thesis by (auto simp: list_ex_iff)
  next
    case False
    have none: "\<not> list_ex (\<lambda>x. ie_role x = ie_role e \<or> ie_uri x = ie_uri e) seen"
      "\<not> list_ex (\<lambda>x. ie_sha x = ie_sha e \<and> ie_role x \<noteq> ie_role e) seen"
      using False by (auto simp: list_ex_iff)
    have step: "index_identities seen (e # es) = index_identities (seen @ [e]) es"
      unfolding index_identities.simps if_not_P [OF none(1)] if_not_P [OF none(2)] by (rule refl)
    show ?thesis
      unfolding step Cons.IH using False by (simp add: ball_Un image_iff) blast
  qed
qed auto

lemma map_res_unit: "map_res f xs = Inr us \<Longrightarrow> x \<in> set xs \<Longrightarrow> \<exists>y. f x = Inr y"
  by (induction xs arbitrary: us) (auto simp: bind_res_eq_Inr)

lemma reraise_Inr [simp]: "reraise code m = Inr a \<longleftrightarrow> m = Inr a"
  by (auto simp: reraise_def split: sum.splits)

text \<open>What an entry that serves a requirement has to show.\<close>

definition backed :: "m2_lib \<Rightarrow> byte_reader \<Rightarrow> index_entry list \<Rightarrow> requirement \<Rightarrow> bool" where
  "backed E reader es q \<longleftrightarrow> (\<exists>e \<in> set es. \<exists>bs. ie_role e = rq_role q \<and> ie_type e = rq_type q \<and>
     ie_sha e = rq_sha q \<and> reader (ie_uri e) (ie_sha e) = Inr bs \<and> ml_sha E bs = rq_sha q \<and>
     (rq_bytes q = None \<or> rq_bytes q = Some bs))"

lemma verify_entry_backed: "verify_entry E reader es q = Inr u \<Longrightarrow> backed E reader es q"
  by (auto simp: verify_entry_def backed_def bind_res_eq_Inr split: option.splits if_splits dest: find_SomeD)

definition index_entries :: "evidence_index \<Rightarrow> index_entry list" where
  "index_entries i = concat (map preorder (ix_entries i))"

lemma flatten_Inr:
  "flatten_entries roots = Inr rs \<longleftrightarrow> rs = concat (map preorder roots) \<and>
     (\<forall>e \<in> set roots. height e \<le> MAX_EVIDENCE_INDEX_DEPTH) \<and> length rs \<le> MAX_EVIDENCE_INDEX_ENTRIES"
  unfolding flatten_entries_def
  by (subst flatten_stack_Inr) (auto simp: within_depth_def o_def)

lemma verified_index:
  assumes "read_and_verify_index E reader parse uri h rid qs = Inr i"
  shows "ix_round i = rid" "\<exists>bs. reader uri h = Inr bs \<and> ml_sha E bs = h \<and> bs = ml_bytes E (index_json E i)"
    "distinct (map ie_role (index_entries i))" "distinct (map ie_uri (index_entries i))"
    "distinct (map ie_sha (index_entries i))" "ie_role ` set (index_entries i) = rq_role ` set qs"
    "q \<in> set qs \<Longrightarrow> backed E reader (index_entries i) q"
  using assms
  by (auto simp: read_and_verify_index_def bind_res_eq_Inr flatten_Inr index_identities_Inr index_entries_def
      split: if_splits dest: map_res_unit verify_entry_backed)

lemma add_requirement_set: "add_requirement q qs = Inr rs \<Longrightarrow> set rs = insert q (set qs)"
  by (auto simp: add_requirement_def split: option.splits if_splits)

lemma add_requirements_set: "add_requirements ps qs = Inr rs \<Longrightarrow> set rs = set ps \<union> set qs"
proof (induction ps arbitrary: qs)
  case (Cons p ps)
  then obtain ts where "add_requirement p qs = Inr ts" "add_requirements ps ts = Inr rs"
    by (auto simp: bind_res_eq_Inr)
  with Cons.IH add_requirement_set show ?case by fastforce
qed simp

lemma add_requirement_roles:
  "add_requirement q qs = Inr rs \<Longrightarrow> distinct (map rq_role qs) \<Longrightarrow> distinct (map rq_role rs)"
proof (cases "find (\<lambda>x. rq_role x = rq_role q) qs")
  case None
  assume "add_requirement q qs = Inr rs" "distinct (map rq_role qs)"
  moreover from None have "rq_role q \<notin> rq_role ` set qs" by (auto simp: find_None_iff image_iff)
  ultimately show ?thesis using None by (auto simp: add_requirement_def)
qed (auto simp: add_requirement_def split: if_splits)

lemma add_requirements_roles:
  "add_requirements ps qs = Inr rs \<Longrightarrow> distinct (map rq_role qs) \<Longrightarrow> distinct (map rq_role rs)"
  by (induction ps arbitrary: qs) (auto simp: bind_res_eq_Inr dest: add_requirement_roles)

text \<open>Every requirement of the path that the round took.\<close>

definition all_requirements ::
    "m2_lib \<Rightarrow> search_round \<Rightarrow> decision \<Rightarrow> string \<Rightarrow> barrier option \<Rightarrow> comparison option \<Rightarrow> requirement set" where
  "all_requirements E r x led hold cmp = set (search_requirements E r x led) \<union>
     (case (hold, cmp) of
        (Some b, Some c) \<Rightarrow> set (holdout_requirements E (the (sr_holdout_plan r)) (the (sr_reveal_evidence r)) b c)
      | _ \<Rightarrow> {})"

lemma round_requirements_set:
  assumes "round_requirements E r x led hold cmp = Inr qs"
  shows "set qs = all_requirements E r x led hold cmp" "distinct (map rq_role qs)"
    "validate_round_path E r x hold cmp = Inr ()"
proof -
  from assms obtain u ps all where v: "validate_round_path E r x hold cmp = Inr u"
    and ps: "add_requirements (search_requirements E r x led) [] = Inr ps"
    and all: "(case (hold, cmp) of
        (Some b, Some c) \<Rightarrow>
          (case (sr_holdout_plan r, sr_reveal_evidence r) of
             (Some plan, Some reveal) \<Rightarrow> add_requirements (holdout_requirements E plan reveal b c) ps
           | _ \<Rightarrow> Inl (M2RoundEvidenceError ''holdout_evidence_incomplete''))
      | _ \<Rightarrow> Inr ps) = Inr all"
    and qs: "qs = sort_key rq_role all"
    unfolding round_requirements_def bind_res_eq_Inr by auto
  have set_ps: "set ps = set (search_requirements E r x led)" and d: "distinct (map rq_role ps)"
    using add_requirements_set [OF ps] add_requirements_roles [OF ps] by simp_all
  have "set all = all_requirements E r x led hold cmp \<and> distinct (map rq_role all)"
  proof (cases "\<exists>b c. hold = Some b \<and> cmp = Some c")
    case True
    then obtain b c where hc: "hold = Some b" "cmp = Some c" by blast
    then obtain plan reveal where pr: "sr_holdout_plan r = Some plan" "sr_reveal_evidence r = Some reveal"
      "add_requirements (holdout_requirements E plan reveal b c) ps = Inr all"
      using all by (auto split: option.splits)
    show ?thesis
      using add_requirements_set [OF pr(3)] add_requirements_roles [OF pr(3) d] set_ps hc pr(1,2)
      by (auto simp: all_requirements_def)
  next
    case False
    then have "all = ps" using all by (auto split: option.splits)
    with False set_ps d show ?thesis by (auto simp: all_requirements_def split: option.splits)
  qed
  moreover have "set qs = set all" "distinct (map rq_role all) \<Longrightarrow> distinct (map rq_role qs)"
    by (simp_all add: qs distinct_map)
  ultimately show "set qs = all_requirements E r x led hold cmp" "distinct (map rq_role qs)" by blast+
  show "validate_round_path E r x hold cmp = Inr ()" using v by simp
qed

section \<open>What publishing leaves behind\<close>

lemma evidence_uri_inj: "evidence_uri h = Inr u \<Longrightarrow> evidence_uri k = Inr u \<Longrightarrow> h = k"
proof -
  assume "evidence_uri h = Inr u" "evidence_uri k = Inr u"
  then have "take 7 h = take 7 k" "drop 7 h = drop 7 k"
    by (auto simp: evidence_uri_def is_sha256_def split: if_splits)
  then show ?thesis by (metis append_take_drop_id)
qed

lemma publish_bytesD:
  assumes "publish_bytes E bs st = Inr (st', a)"
  shows "st \<subseteq>\<^sub>m st'" "evidence_uri (ml_sha E bs) = Inr (ea_uri a)" "ea_sha a = ml_sha E bs"
    "st' (ea_uri a) = Some bs"
  using assms
  by (auto simp: publish_bytes_def Let_def bind_res_eq_Inr map_le_def split: if_splits option.splits)

text \<open>The entry of a requirement, and the bytes behind it.\<close>

definition stored :: "m2_lib \<Rightarrow> string \<Rightarrow> string \<Rightarrow> stamp \<Rightarrow> blobs \<Rightarrow> requirement \<Rightarrow> index_entry \<Rightarrow> bool" where
  "stored E producer owner created st q e \<longleftrightarrow> (\<exists>uri bs. evidence_uri (rq_sha q) = Inr uri \<and>
     e = Index_entry (rq_role q) (rq_type q) uri (rq_sha q) producer owner created [] \<and>
     st uri = Some bs \<and> ml_sha E bs = rq_sha q \<and> (rq_bytes q = None \<or> rq_bytes q = Some bs))"

lemma stored_mono: "stored E p w c st q e \<Longrightarrow> st \<subseteq>\<^sub>m st' \<Longrightarrow> stored E p w c st' q e"
  by (auto simp: stored_def map_le_def dom_def)

lemma make_entry_Inr: "make_entry e = Inr e' \<Longrightarrow> e' = e"
  by (auto simp: make_entry_def bind_res_eq_Inr split: if_splits)

lemma publish_requirementD:
  assumes "publish_requirement E p w c q st = Inr (st1, e)"
  shows "st \<subseteq>\<^sub>m st1" "stored E p w c st1 q e"
proof -
  obtain a where a: "make_entry (Index_entry (rq_role q) (rq_type q) (ea_uri a) (ea_sha a) p w c []) = Inr e"
    "\<exists>bs. read_raw_bytes E st1 (ea_uri a) (ea_sha a) = Inr bs"
    and src: "(case rq_bytes q of
        Some bs \<Rightarrow> bind_res (publish_bytes E bs st) (\<lambda>(st1, a).
          if ea_sha a \<noteq> rq_sha q then Inl (M2RoundEvidenceError ''evidence_document_hash_mismatch'')
          else Inr (st1, a))
      | None \<Rightarrow> bind_res (artifact_for_hash (rq_sha q) st) (\<lambda>a. Inr (st, a))) = Inr (st1, a)"
    using assms unfolding publish_requirement_def by (subst (asm) bind_res_eq_Inr) (auto simp: bind_res_eq_Inr)
  have e: "e = Index_entry (rq_role q) (rq_type q) (ea_uri a) (ea_sha a) p w c []"
    by (rule make_entry_Inr [OF a(1)])
  have "st \<subseteq>\<^sub>m st1 \<and> stored E p w c st1 q e"
  proof (cases "rq_bytes q")
    case None
    then have "artifact_for_hash (rq_sha q) st = Inr a" "st1 = st" using src by (auto simp: bind_res_eq_Inr)
    then obtain bs where "evidence_uri (rq_sha q) = Inr (ea_uri a)" "st (ea_uri a) = Some bs" "ea_sha a = rq_sha q"
      by (auto simp: artifact_for_hash_def bind_res_eq_Inr split: option.splits)
    then show ?thesis
      using a(2) None \<open>st1 = st\<close>
      by (auto simp: stored_def e read_raw_bytes_def bind_res_eq_Inr split: if_splits)
  next
    case (Some bs)
    then have p: "publish_bytes E bs st = Inr (st1, a)" and sha: "ea_sha a = rq_sha q"
      using src by (auto simp: bind_res_eq_Inr split: prod.splits if_splits)
    from publish_bytesD [OF p] sha Some show ?thesis by (simp add: stored_def e)
  qed
  then show "st \<subseteq>\<^sub>m st1" "stored E p w c st1 q e" by blast+
qed

lemma publish_requirementsD:
  "publish_requirements E p w c qs st = Inr (st', es) \<Longrightarrow>
   st \<subseteq>\<^sub>m st' \<and> list_all2 (stored E p w c st') qs es"
proof (induction qs arbitrary: st es)
  case (Cons q qs)
  then obtain st1 e es1 where one: "publish_requirement E p w c q st = Inr (st1, e)"
    and rest: "publish_requirements E p w c qs st1 = Inr (st', es1)" "es = e # es1"
    by (auto simp: bind_res_eq_Inr split: prod.splits)
  from Cons.IH [OF rest(1)] publish_requirementD [OF one] rest(2) show ?case
    by (auto intro: stored_mono map_le_trans)
qed simp

lemma stored_columns:
  assumes "list_all2 (stored E p w c st) qs es"
  shows "map ie_role es = map rq_role qs" "map ie_sha es = map rq_sha qs"
    "map ie_uri es = map (\<lambda>q. projr (evidence_uri (rq_sha q))) qs" "concat (map preorder es) = es"
    "e \<in> set es \<Longrightarrow> height e = 1"
    "q \<in> set qs \<Longrightarrow> \<exists>e \<in> set es. stored E p w c st q e"
    "\<forall>q \<in> set qs. \<exists>uri. evidence_uri (rq_sha q) = Inr uri"
  using assms by (induction rule: list_all2_induct) (auto simp: stored_def)

lemma distinct_uris:
  assumes "\<forall>q \<in> set qs. \<exists>uri. evidence_uri (rq_sha q) = Inr uri" "distinct (map rq_sha qs)"
  shows "distinct (map (\<lambda>q. projr (evidence_uri (rq_sha q))) qs)"
proof -
  have "inj_on (\<lambda>h. projr (evidence_uri h)) (rq_sha ` set qs)"
  proof (rule inj_onI)
    fix h k
    assume "h \<in> rq_sha ` set qs" "k \<in> rq_sha ` set qs" and eq: "projr (evidence_uri h) = projr (evidence_uri k)"
    then obtain u v where "evidence_uri h = Inr u" "evidence_uri k = Inr v" using assms(1) by blast
    with eq show "h = k" using evidence_uri_inj [of h u k] by simp
  qed
  with assms(2) show ?thesis
    using distinct_map [of "\<lambda>h. projr (evidence_uri h)" "map rq_sha qs"] by (simp add: o_def)
qed

lemma read_stored:
  "evidence_uri h = Inr uri \<Longrightarrow> st uri = Some bs \<Longrightarrow> ml_sha E bs = h \<Longrightarrow> read_raw_bytes E st uri h = Inr bs"
  by (simp add: read_raw_bytes_def)

lemma verify_stored:
  assumes "stored E p w c st q e" "e \<in> set es" "distinct (map ie_role es)"
  shows "verify_entry E (read_raw_bytes E st) es q = Inr ()"
proof -
  from assms(1) obtain uri bs where u: "evidence_uri (rq_sha q) = Inr uri" "st uri = Some bs"
    "ml_sha E bs = rq_sha q" "rq_bytes q = None \<or> rq_bytes q = Some bs"
    "e = Index_entry (rq_role q) (rq_type q) uri (rq_sha q) p w c []" by (auto simp: stored_def)
  have "find (\<lambda>x. ie_role x = rq_role q) es = Some e"
    by (rule find_key_unique [OF assms(3,2)]) (simp add: u)
  then show ?thesis using u read_stored [OF u(1), of st bs E] by (auto simp: verify_entry_def reraise_def)
qed

lemma map_res_units: "(\<And>x. x \<in> set xs \<Longrightarrow> f x = Inr ()) \<Longrightarrow> \<exists>us. map_res f xs = Inr us"
  by (induction xs) auto

lemma index_identities_Inl:
  "index_identities seen es = Inl e \<Longrightarrow> e = M2RoundEvidenceError ''evidence_index_identity_reused''"
  by (induction seen es rule: index_identities.induct) (auto split: if_splits)

lemma index_identities_alone:
  assumes "distinct (map ie_role es)" "distinct (map ie_sha es) \<Longrightarrow> distinct (map ie_uri es)"
  shows "index_identities [] es = (if distinct (map ie_sha es) then Inr es
     else Inl (M2RoundEvidenceError ''evidence_index_identity_reused''))"
proof (cases "index_identities [] es")
  case (Inl e)
  then have "\<not> distinct (map ie_sha es)" using assms index_identities_Inr [of "[]" es es] by auto
  with Inl index_identities_Inl [OF Inl] show ?thesis by simp
next
  case (Inr out)
  then show ?thesis by (simp add: index_identities_Inr)
qed

lemma make_index_Inr:
  "make_index i = Inr j \<Longrightarrow> j = i \<and> length (ix_entries i) \<le> 64 \<and> distinct (map ie_role (ix_entries i))"
  by (auto simp: make_index_def require_deterministic_root_def Let_def bind_res_eq_Inr split: if_splits)

section \<open>A sample index\<close>

text \<open>
  A round whose only candidate failed to build. Four documents are told apart by a field of
  theirs; the hash of some bytes repeats their first digit.
\<close>

definition index_lib :: m2_lib where
  "index_lib = \<lparr>ml_base = sample_lib,
     ml_bytes = (\<lambda>v. if jget v ''entries'' \<noteq> None then ''a'' else if jget v ''members'' = None then ''d''
       else if jget v ''closed_by'' \<noteq> None then ''c'' else ''b''),
     ml_sha = (\<lambda>bs. sample_sha (hd bs)), ml_iso = (\<lambda>_. ''t''), ml_time = (\<lambda>_. ''t'')\<rparr>"

definition index_member :: barrier_member where
  "index_member = \<lparr>bm_member = ''m-0'', bm_candidate = ''cand-0'', bm_state = RC_BUILD_FAILED, bm_artifact = None,
     bm_artifact_hash = None, bm_correctness = None, bm_measurement = None, bm_receipt = None,
     bm_failure = Some (sample_sha (CHR ''e'')), bm_budget = sample_sha (CHR ''9''), bm_cleanup = None,
     bm_synthetic = True\<rparr>"

definition index_round :: search_round where
  "index_round = sample_round\<lparr>sr_state := R_SEARCH_BARRIER, sr_declared := 1,
     sr_family := Some (sample_sha (CHR ''f'')), sr_artifacts := Some (sample_sha (CHR ''f''))\<rparr>"

definition index_decision :: decision where
  "index_decision = \<lparr>sd_barrier = \<lparr>bb_id = ''barrier-1'', bb_round = ''round-1'', bb_mode = RM_SCRIPTED,
       bb_synthetic = True, bb_phase = PH_SEARCH, bb_family = sample_sha (CHR ''f''), bb_expected = 1,
       bb_members = [index_member], bb_rule_version = M2_SEARCH_SELECTION_RULE_VERSION,
       bb_rule = sample_sha (CHR ''8''), bb_promoted = [], bb_outcome = NO_PROMOTABLE_CANDIDATE,
       bb_summary = sample_sha (CHR ''b''), bb_closed_by = ''someone'', bb_closed_at = Aware 5,
       bb_key = ''close-key''\<rparr>,
     sd_summary = \<lparr>su_round = ''round-1'', su_artifacts = sample_sha (CHR ''f''),
       su_rule = sample_sha (CHR ''8''), su_members = [index_member], su_statistics = [], su_promoted = []\<rparr>,
     sd_holdout = None\<rparr>"

definition raw_blobs :: blobs where
  "raw_blobs = map_of (map (\<lambda>c. (''scripted-evidence://sha256/'' @ replicate 64 c, [c])) ''059e'')"

definition sample_requirements_of :: "requirement list" where
  "sample_requirements_of =
     projr (round_requirements index_lib index_round index_decision (sample_sha (CHR ''0'')) None None)"

definition sample_published :: "error + (blobs \<times> (evidence_index \<times> evidence_artifact))" where
  "sample_published = publish_scripted_evidence_index index_lib ''round-1'' sample_requirements_of
     ''producer'' ''owner'' (Aware 7) raw_blobs"

definition index_blobs :: blobs where
  "index_blobs = fst (projr sample_published)"

definition published_index :: evidence_index where
  "published_index = fst (snd (projr sample_published))"

definition sample_artifact :: evidence_artifact where
  "sample_artifact = snd (snd (projr sample_published))"

definition sample_entry :: "string \<Rightarrow> string \<Rightarrow> char \<Rightarrow> index_entry" where
  "sample_entry role ty c = Index_entry role ty (''scripted-evidence://sha256/'' @ replicate 64 c)
     (sample_sha c) ''producer'' ''owner'' (Aware 7) []"

definition sample_index :: evidence_index where
  "sample_index = \<lparr>ix_round = ''round-1'', ix_entries =
     [sample_entry ''budget/ledger'' ''round_budget_ledger'' (CHR ''0''),
      sample_entry ''candidate/cand-0/search/budget-usage'' ''budget_usage_evidence'' (CHR ''9''),
      sample_entry ''candidate/cand-0/search/failure'' ''failure_evidence'' (CHR ''e''),
      sample_entry ''candidate/cand-0/search/member'' ''barrier_member'' (CHR ''d''),
      sample_entry ''search/barrier'' ''round_barrier'' (CHR ''c''),
      sample_entry ''search/input-summary'' ''search_barrier_input'' (CHR ''b''),
      sample_entry ''search/plan'' ''search_plan'' (CHR ''5'')],
     ix_created = Aware 7\<rparr>"

text \<open>A reader that holds the bytes of every hash above.\<close>

definition sample_reader :: byte_reader where
  "sample_reader uri h = Inr [last h]"

definition index_bundle :: evidence_bundle where
  "index_bundle = \<lparr>eb_id = ''bundle-1'', eb_round = ''round-1'', eb_task = ''task-r'', eb_mode = RM_SCRIPTED,
     eb_reason = TR_NO_PROMOTABLE_CANDIDATE, eb_family = sample_sha (CHR ''f''),
     eb_artifacts = sample_sha (CHR ''f''), eb_holdout = None, eb_search_plan = sample_sha (CHR ''5''),
     eb_commitment = sample_sha (CHR ''6''), eb_holdout_plan = None, eb_reveal = None, eb_candidates = [],
     eb_search_barrier = ''barrier-1'', eb_holdout_barrier = None, eb_comparison = None,
     eb_ledger = sample_sha (CHR ''0''), eb_index_uri = ''scripted-evidence://sha256/'' @ replicate 64 (CHR ''a''),
     eb_index_hash = sample_sha (CHR ''a''), eb_summary = fmempty, eb_synthetic = True, eb_created = Aware 9\<rparr>"

lemma sample_published_ok: "(case sample_published of Inl e \<Rightarrow> False | Inr v \<Rightarrow> True)"
  by code_simp

lemma sample_published_eq:
  "publish_scripted_evidence_index index_lib ''round-1'' sample_requirements_of ''producer'' ''owner''
     (Aware 7) raw_blobs = Inr (index_blobs, (published_index, sample_artifact))"
  using sample_published_ok
  by (auto simp: index_blobs_def published_index_def sample_artifact_def sample_published_def split: sum.splits)

lemma sample_bundle_verifies:
  "verify_bundle index_lib sample_reader (\<lambda>_. Inr sample_index) index_round
     index_decision index_bundle None None = Inr ()"
  by code_simp

lemma sample_hashes_distinct: "distinct (map rq_sha sample_requirements_of)"
  by code_simp

section \<open>Properties\<close>

text \<open>
  C12. \<open>_flatten_entries\<close> with its explicit stack computes the entries of the index in
  preorder, every parent before its children and siblings in their order; it returns exactly
  when no entry is nested deeper than \<open>MAX_EVIDENCE_INDEX_DEPTH\<close> and there are at most
  \<open>MAX_EVIDENCE_INDEX_ENTRIES\<close> of them, and raises otherwise.
\<close>

theorem flattening_is_preorder:
  "flatten_entries roots = Inr rs \<longleftrightarrow> rs = concat (map preorder roots) \<and>
     list_all (\<lambda>e. height e \<le> MAX_EVIDENCE_INDEX_DEPTH) roots \<and>
     length (concat (map preorder roots)) \<le> MAX_EVIDENCE_INDEX_ENTRIES"
  by (auto simp: flatten_Inr list_all_iff)

text \<open>
  C13. The loop ends on every index, however deep or wide its tree is: with a budget of
  \<open>MAX_EVIDENCE_INDEX_ENTRIES\<close> turns and one more it has returned or raised what
  \<open>flatten_entries\<close> says.
\<close>

theorem flattening_ends_early:
  "flatten_turns (Suc MAX_EVIDENCE_INDEX_ENTRIES) (map (\<lambda>e. (e, 1)) roots) [] = Some (flatten_entries roots)"
  unfolding flatten_entries_def by (rule flatten_turns_stack) simp_all

text \<open>
  C10. What \<open>M2ScriptedRoundFinalizer.verify\<close> accepts is backed by evidence: the bytes
  behind the index URI of the bundle have the hash the bundle names and are the canonical
  dump of an index of this round; its entries repeat no role, URI or hash and name exactly
  the roles that the path of the round requires, and every requirement of it (plans,
  summaries, barriers, the budget ledger, samples and members) is served by an entry whose
  bytes the reader returns with the hash, the type and the content that were required.
  Evidence of the holdout phase is present exactly when a candidate was promoted.
\<close>

theorem verified_bundles_are_backed:
  assumes "verify_bundle E reader parse r x b hold cmp = Inr ()"
  shows "(\<exists>i. reader (eb_index_uri b) (eb_index_hash b) = Inr (ml_bytes E (index_json E i)) \<and>
      ml_sha E (ml_bytes E (index_json E i)) = eb_index_hash b \<and> ix_round i = sr_id r \<and>
      distinct (map ie_role (index_entries i)) \<and> distinct (map ie_uri (index_entries i)) \<and>
      distinct (map ie_sha (index_entries i)) \<and>
      ie_role ` set (index_entries i) = rq_role ` all_requirements E r x (eb_ledger b) hold cmp \<and>
      (\<forall>q \<in> all_requirements E r x (eb_ledger b) hold cmp. backed E reader (index_entries i) q)) \<and>
    (hold = None \<longleftrightarrow> bb_promoted (sd_barrier x) = []) \<and> (cmp = None \<longleftrightarrow> bb_promoted (sd_barrier x) = [])"
proof -
  from assms obtain qs i where qs: "round_requirements E r x (eb_ledger b) hold cmp = Inr qs"
    and i: "read_and_verify_index E reader parse (eb_index_uri b) (eb_index_hash b) (sr_id r) qs = Inr i"
    by (auto simp: verify_bundle_def build_scripted_round_evidence_def bind_res_eq_Inr)
  note Q = round_requirements_set [OF qs]
  have "(hold = None \<longleftrightarrow> bb_promoted (sd_barrier x) = []) \<and> (cmp = None \<longleftrightarrow> bb_promoted (sd_barrier x) = [])"
    using Q(3) by (auto simp: validate_round_path_def split: if_splits option.splits)
  with verified_index [OF i] Q(1) show ?thesis by metis
qed

theorem verified_bundles_are_backed_witness:
  "\<exists>i. ml_sha index_lib (ml_bytes index_lib (index_json index_lib i)) = sample_sha (CHR ''a'') \<and>
     ie_role ` set (index_entries i) =
       rq_role ` all_requirements index_lib index_round index_decision (sample_sha (CHR ''0'')) None None"
  using verified_bundles_are_backed [OF sample_bundle_verifies] by (auto simp: index_bundle_def)

text \<open>
  C11. Publishing and verifying are inverse up to one case: an index that
  \<open>publish_scripted_evidence_index\<close> has just written verifies against the same requirements
  with the URI and the hash it returned, as long as no two requirements cite the same bytes;
  if two do, the index was published all the same and its verification is refused.
\<close>

theorem published_indexes_verify:
  assumes "publish_scripted_evidence_index E rid qs p w c st = Inr (st', (i, a))"
    and parse: "parse (ml_bytes E (index_json E i)) = Inr i"
  shows "read_and_verify_index E (read_raw_bytes E st') parse (ea_uri a) (ea_sha a) rid qs =
    (if distinct (map rq_sha qs) then Inr i
     else Inl (M2RoundEvidenceError ''evidence_index_identity_reused''))"
proof -
  let ?qs = "sort_key rq_role qs" and ?read = "read_raw_bytes E st'"
  from assms(1) obtain st1 es where es: "publish_requirements E p w c ?qs st = Inr (st1, es)"
    and mk: "make_index \<lparr>ix_round = rid, ix_entries = es, ix_created = c\<rparr> = Inr i"
    and pub: "publish_bytes E (ml_bytes E (index_json E i)) st1 = Inr (st', a)"
    unfolding publish_scripted_evidence_index_def by (auto simp: bind_res_eq_Inr)
  note I = make_index_Inr [OF mk] and P = publish_bytesD [OF pub]
  have rel: "list_all2 (stored E p w c st') ?qs es"
    using publish_requirementsD [OF es] stored_mono [OF _ P(1)] by (auto intro: list_all2_mono)
  note C = stored_columns [OF rel]
  have roles: "distinct (map ie_role es)" and few: "length es \<le> 64" and ixs: "ix_entries i = es" "ix_round i = rid"
    using I by simp_all
  have shas: "distinct (map ie_sha es) \<longleftrightarrow> distinct (map rq_sha qs)"
    by (metis C(2) distinct_sort mset_map mset_sort mset_eq_imp_distinct_iff)
  have flat: "flatten_entries es = Inr es"
    unfolding flatten_Inr C(4) using C(5) few
    by (simp add: MAX_EVIDENCE_INDEX_ENTRIES_def MAX_EVIDENCE_INDEX_DEPTH_def)
  have idents: "index_identities [] es = (if distinct (map rq_sha qs) then Inr es
      else Inl (M2RoundEvidenceError ''evidence_index_identity_reused''))"
    using index_identities_alone [OF roles] distinct_uris [OF C(7)] by (simp add: shas C(2,3) flip: shas)
  have set_roles: "ie_role ` set es = rq_role ` set qs" by (metis C(1) image_set set_sort)
  have rd: "?read (ea_uri a) (ea_sha a) = Inr (ml_bytes E (index_json E i))"
    by (rule read_stored [where E = E]) (use P in simp_all)
  obtain us where us: "map_res (verify_entry E ?read es) qs = Inr us"
  proof -
    have "verify_entry E ?read es q = Inr ()" if "q \<in> set qs" for q
      using C(6) [of q] that verify_stored roles by auto
    then show thesis using map_res_units that by metis
  qed
  show ?thesis
    unfolding read_and_verify_index_def
    by (simp add: rd [unfolded P(3)] P(3) parse ixs flat idents set_roles us reraise_def)
qed

theorem published_indexes_verify_witness:
  "read_and_verify_index index_lib (read_raw_bytes index_lib index_blobs) (\<lambda>_. Inr published_index)
     (ea_uri sample_artifact) (ea_sha sample_artifact) ''round-1'' sample_requirements_of = Inr published_index"
  using published_indexes_verify [OF sample_published_eq, of "\<lambda>_. Inr published_index"] sample_hashes_distinct
  by simp

end
