(* ===== verification/HoldoutProps.thy ===== *)
theory HoldoutProps
  imports HoldoutAuthority BarrierProps
begin

text \<open>
  The life of a synthetic holdout authority under any sequence of calls: what it reveals was
  committed, leased and not revealed before.
\<close>

section \<open>Sequences of calls\<close>

datatype auth_call =
    A_commit uuid json string stamp
  | A_issue search_round string uuid string int stamp stamp uuid
  | A_reveal uuid uuid string uuid string int stamp

text \<open>A call that raises changes nothing; only an accepted reveal discloses anything.\<close>

fun auth_step :: "m2_lib \<Rightarrow> auth_call \<Rightarrow> holdout_authority \<Rightarrow> holdout_authority \<times> reveal list" where
  "auth_step E (A_commit i plan nonce created) a =
     (case commit_plan E i plan nonce created a of Inl e \<Rightarrow> (a, []) | Inr (a', c) \<Rightarrow> (a', []))"
| "auth_step E (A_issue r worker execution resource fence expires issued lease) a =
     (case issue_reveal_lease r worker execution resource fence expires issued lease a of
        Inl e \<Rightarrow> (a, []) | Inr (a', l) \<Rightarrow> (a', []))"
| "auth_step E (A_reveal lease i worker execution resource fence now) a =
     (case reveal_plan E lease i worker execution resource fence now a of
        Inl e \<Rightarrow> (a, []) | Inr (a', v) \<Rightarrow> (a', [v]))"

definition auth_run :: "m2_lib \<Rightarrow> auth_call list \<Rightarrow> holdout_authority \<Rightarrow> holdout_authority \<times> reveal list" where
  "auth_run E ps a =
     foldl (\<lambda>(a, vs) p. let (a', ws) = auth_step E p a in (a', vs @ ws)) (a, []) ps"

lemma auth_run_snoc:
  "auth_run E (ps @ [p]) a = (let (b, vs) = auth_run E ps a; (b', ws) = auth_step E p b in (b', vs @ ws))"
  by (simp add: auth_run_def split: prod.splits)

section \<open>The invariant\<close>

text \<open>A plan that some call committed.\<close>

definition committed :: "m2_lib \<Rightarrow> auth_call list \<Rightarrow> uuid \<Rightarrow> string \<Rightarrow> string \<Rightarrow> string \<Rightarrow> bool" where
  "committed E ps i nonce text c \<longleftrightarrow>
     (\<exists>plan created. A_commit i plan nonce created \<in> set ps \<and> text = ml_bytes E plan \<and> c = ml_sha E (nonce @ text))"

text \<open>A lease that some call issued to a round at its search barrier.\<close>

definition leased ::
    "auth_call list \<Rightarrow> uuid \<Rightarrow> uuid \<Rightarrow> string \<Rightarrow> string \<Rightarrow> string \<Rightarrow> uuid \<Rightarrow> string \<Rightarrow> int \<Rightarrow> stamp \<Rightarrow> bool" where
  "leased ps lease i family c worker execution resource fence expires \<longleftrightarrow>
     (\<exists>r issued. A_issue r worker execution resource fence expires issued lease \<in> set ps \<and> sr_id r = i \<and>
        sr_mode r = RM_SCRIPTED \<and> sr_state r = R_SEARCH_BARRIER \<and> sr_holdout r = Some family \<and>
        sr_holdout_plan r = None \<and> sr_reveal_lease r = None \<and> sr_reveal_evidence r = None \<and>
        sr_commitment r = c)"

definition disclosed :: "m2_lib \<Rightarrow> auth_call list \<Rightarrow> reveal \<Rightarrow> bool" where
  "disclosed E ps v \<longleftrightarrow> make_reveal E v = Inr v \<and>
     (\<exists>nonce. committed E ps (rv_round v) nonce (rv_text v) (rv_commitment v) \<and> rv_nonce v = hex_text nonce) \<and>
     (\<exists>expires. leased ps (rv_lease v) (rv_round v) (rv_family v) (rv_commitment v) (rv_worker v)
        (rv_execution v) (rv_resource v) (rv_fence v) expires \<and> before (rv_at v) expires = Inr True)"

definition plans_ok :: "m2_lib \<Rightarrow> auth_call list \<Rightarrow> holdout_authority \<Rightarrow> bool" where
  "plans_ok E ps a \<longleftrightarrow> (\<forall>i p. ha_plans a i = Some p \<longrightarrow>
     committed E ps i (sp_nonce p) (sp_encoded p) (hc_commitment (sp_commitment p)))"

definition leases_ok :: "auth_call list \<Rightarrow> holdout_authority \<Rightarrow> bool" where
  "leases_ok ps a \<longleftrightarrow> (\<forall>k l. ha_leases a k = Some l \<longrightarrow> rl_id l = k \<and>
     ha_round_leases a (rl_round l) = Some k \<and>
     (\<exists>p. ha_plans a (rl_round l) = Some p \<and>
        leased ps k (rl_round l) (rl_family l) (hc_commitment (sp_commitment p)) (rl_worker l) (rl_execution l)
          (rl_resource l) (rl_fence l) (rl_expires l)))"

definition reveals_ok :: "m2_lib \<Rightarrow> auth_call list \<Rightarrow> holdout_authority \<Rightarrow> reveal list \<Rightarrow> bool" where
  "reveals_ok E ps a vs \<longleftrightarrow> distinct (map rv_round vs) \<and> distinct (map rv_lease vs) \<and>
     (\<forall>v \<in> set vs. ha_round_leases a (rv_round v) = Some (rv_lease v) \<and> rv_lease v \<in> ha_consumed a \<and>
        disclosed E ps v)"

definition auth_inv :: "m2_lib \<Rightarrow> auth_call list \<Rightarrow> holdout_authority \<Rightarrow> reveal list \<Rightarrow> bool" where
  "auth_inv E ps a vs \<longleftrightarrow> plans_ok E ps a \<and> leases_ok ps a \<and> reveals_ok E ps a vs"

lemma leases_okD:
  assumes "leases_ok ps a" "ha_leases a k = Some l"
  shows "rl_id l = k" "ha_round_leases a (rl_round l) = Some k"
    "ha_plans a (rl_round l) = Some p \<Longrightarrow> leased ps k (rl_round l) (rl_family l) (hc_commitment (sp_commitment p))
       (rl_worker l) (rl_execution l) (rl_resource l) (rl_fence l) (rl_expires l)"
  using assms unfolding leases_ok_def by fastforce+

lemma committed_more: "committed E ps i n t c \<Longrightarrow> committed E (ps @ [p]) i n t c"
  by (auto simp: committed_def)

lemma leased_more: "leased ps k i f c w e r n x \<Longrightarrow> leased (ps @ [p]) k i f c w e r n x"
  unfolding leased_def by (metis Un_iff set_append)

lemma disclosed_more: "disclosed E ps v \<Longrightarrow> disclosed E (ps @ [p]) v"
  unfolding disclosed_def by (metis committed_more leased_more)

lemma auth_inv_more: "auth_inv E ps a vs \<Longrightarrow> auth_inv E (ps @ [p]) a vs"
  unfolding auth_inv_def plans_ok_def leases_ok_def reveals_ok_def
  by (meson committed_more leased_more disclosed_more)

section \<open>The calls\<close>

lemma commit_planD:
  assumes "commit_plan E i plan nonce created a = Inr (a', c)"
  obtains p where "ha_plans a i = None" "a' = a\<lparr>ha_plans := (ha_plans a)(i \<mapsto> p)\<rparr>" "sp_nonce p = nonce"
    "sp_encoded p = ml_bytes E plan" "hc_commitment (sp_commitment p) = ml_sha E (nonce @ ml_bytes E plan)"
  using assms
  by (auto simp: commit_plan_def make_commitment_def Let_def bind_res_eq_Inr split: if_splits)

lemma commit_plan_inv:
  assumes inv: "auth_inv E ps a vs" and c: "commit_plan E i plan nonce created a = Inr (a', c)"
  shows "auth_inv E (ps @ [A_commit i plan nonce created]) a' vs"
proof -
  from c obtain p where p: "ha_plans a i = None" "a' = a\<lparr>ha_plans := (ha_plans a)(i \<mapsto> p)\<rparr>" "sp_nonce p = nonce"
    "sp_encoded p = ml_bytes E plan" "hc_commitment (sp_commitment p) = ml_sha E (nonce @ ml_bytes E plan)"
    by (rule commit_planD)
  let ?ps = "ps @ [A_commit i plan nonce created]"
  have inv': "auth_inv E ?ps a vs" by (rule auth_inv_more [OF inv])
  have new: "committed E ?ps i (sp_nonce p) (sp_encoded p) (hc_commitment (sp_commitment p))"
    by (auto simp: committed_def p)
  have "plans_ok E ?ps a'" using inv' new by (simp add: auth_inv_def plans_ok_def p(2))
  moreover have "leases_ok ?ps a'"
    using inv' p(1) unfolding auth_inv_def leases_ok_def p(2) by fastforce
  ultimately show ?thesis using inv' by (simp add: auth_inv_def reveals_ok_def p(2))
qed

lemma issueD:
  assumes "issue_reveal_lease r worker execution resource fence expires issued k a = Inr (a', l)"
  obtains p where "ha_plans a (sr_id r) = Some p" "ha_round_leases a (sr_id r) = None"
    "a' = a\<lparr>ha_leases := (ha_leases a)(k \<mapsto> l), ha_round_leases := (ha_round_leases a)(sr_id r \<mapsto> k)\<rparr>"
    "rl_id l = k" "rl_round l = sr_id r" "rl_worker l = worker" "rl_execution l = execution"
    "rl_resource l = resource" "rl_fence l = fence" "rl_expires l = expires"
    "sr_mode r = RM_SCRIPTED" "sr_state r = R_SEARCH_BARRIER" "sr_holdout r = Some (rl_family l)"
    "sr_holdout_plan r = None" "sr_reveal_lease r = None" "sr_reveal_evidence r = None"
    "hc_commitment (sp_commitment p) = sr_commitment r"
  using assms
  by (auto simp: issue_reveal_lease_def require_round_authority_def make_reveal_lease_def bind_res_eq_Inr
      split: if_splits option.splits)

lemma issue_lease_inv:
  assumes inv: "auth_inv E ps a vs"
    and c: "issue_reveal_lease r worker execution resource fence expires issued k a = Inr (a', l)"
  shows "auth_inv E (ps @ [A_issue r worker execution resource fence expires issued k]) a' vs"
proof -
  let ?ps = "ps @ [A_issue r worker execution resource fence expires issued k]"
  from c obtain p where p: "ha_plans a (sr_id r) = Some p" "ha_round_leases a (sr_id r) = None"
    "a' = a\<lparr>ha_leases := (ha_leases a)(k \<mapsto> l), ha_round_leases := (ha_round_leases a)(sr_id r \<mapsto> k)\<rparr>"
    "rl_id l = k" "rl_round l = sr_id r" "rl_worker l = worker" "rl_execution l = execution"
    "rl_resource l = resource" "rl_fence l = fence" "rl_expires l = expires"
    and r: "sr_mode r = RM_SCRIPTED" "sr_state r = R_SEARCH_BARRIER" "sr_holdout r = Some (rl_family l)"
    "sr_holdout_plan r = None" "sr_reveal_lease r = None" "sr_reveal_evidence r = None"
    "hc_commitment (sp_commitment p) = sr_commitment r"
    by (rule issueD)
  have inv': "auth_inv E ?ps a vs" by (rule auth_inv_more [OF inv])
  have new: "leased ?ps k (rl_round l) (rl_family l) (hc_commitment (sp_commitment p)) (rl_worker l)
      (rl_execution l) (rl_resource l) (rl_fence l) (rl_expires l)"
    unfolding leased_def using p(4-) r by (intro exI [of _ r] exI [of _ issued]) simp
  from inv' have ok: "leases_ok ?ps a" by (simp add: auth_inv_def)
  have "rl_round la \<noteq> sr_id r" if "ha_leases a ka = Some la" for ka la
    using leases_okD(2) [OF ok that] p(2) by auto
  then have "leases_ok ?ps a'"
    using ok new p(1,4,5) unfolding leases_ok_def p(3) by auto
  moreover have "reveals_ok E ?ps a' vs"
    using inv' p(2) unfolding auth_inv_def reveals_ok_def p(3) by force
  ultimately show ?thesis using inv' by (simp add: auth_inv_def plans_ok_def p(3))
qed

lemma revealD:
  assumes "reveal_plan E k i worker execution resource fence now a = Inr (a', v)"
  obtains l p where "ha_leases a k = Some l" "k \<notin> ha_consumed a" "before now (rl_expires l) = Inr True"
    "rl_round l = i" "ha_plans a i = Some p" "a' = a\<lparr>ha_consumed := insert k (ha_consumed a)\<rparr>"
    "make_reveal E v = Inr v" "rv_lease v = rl_id l" "rv_round v = i" "rv_family v = rl_family l"
    "rv_commitment v = hc_commitment (sp_commitment p)" "rv_text v = sp_encoded p"
    "rv_nonce v = hex_text (sp_nonce p)" "rv_worker v = rl_worker l" "rv_execution v = rl_execution l"
    "rv_resource v = rl_resource l" "rv_fence v = rl_fence l" "rv_at v = now"
  using assms
  by (auto simp: reveal_plan_def make_reveal_def Let_def bind_res_eq_Inr split: if_splits option.splits)

lemma reveal_plan_inv:
  assumes inv: "auth_inv E ps a vs"
    and c: "reveal_plan E k i worker execution resource fence now a = Inr (a', v)"
  shows "auth_inv E (ps @ [A_reveal k i worker execution resource fence now]) a' (vs @ [v])"
proof -
  let ?ps = "ps @ [A_reveal k i worker execution resource fence now]"
  from c obtain l p where l: "ha_leases a k = Some l" "k \<notin> ha_consumed a" "before now (rl_expires l) = Inr True"
    "rl_round l = i" "ha_plans a i = Some p" "a' = a\<lparr>ha_consumed := insert k (ha_consumed a)\<rparr>"
    and v: "make_reveal E v = Inr v" "rv_lease v = rl_id l" "rv_round v = i" "rv_family v = rl_family l"
    "rv_commitment v = hc_commitment (sp_commitment p)" "rv_text v = sp_encoded p"
    "rv_nonce v = hex_text (sp_nonce p)" "rv_worker v = rl_worker l" "rv_execution v = rl_execution l"
    "rv_resource v = rl_resource l" "rv_fence v = rl_fence l" "rv_at v = now"
    by (rule revealD)
  have inv': "auth_inv E ?ps a vs" by (rule auth_inv_more [OF inv])
  then have L: "rl_id l = k" "ha_round_leases a i = Some k"
    "leased ?ps k i (rl_family l) (hc_commitment (sp_commitment p)) (rl_worker l) (rl_execution l)
       (rl_resource l) (rl_fence l) (rl_expires l)"
    using leases_okD [OF _ l(1), of ?ps] l(4,5) by (simp_all add: auth_inv_def)
  from inv' have P: "committed E ?ps i (sp_nonce p) (sp_encoded p) (hc_commitment (sp_commitment p))"
    and R: "\<And>w. w \<in> set vs \<Longrightarrow> ha_round_leases a (rv_round w) = Some (rv_lease w) \<and> rv_lease w \<in> ha_consumed a"
    using l(5) by (auto simp: auth_inv_def plans_ok_def reveals_ok_def)
  have "disclosed E ?ps v"
    unfolding disclosed_def using v L l(3) P by auto
  moreover have "k \<notin> rv_lease ` set vs" using R l(2) by blast
  moreover have "rv_round w \<noteq> i" if "w \<in> set vs" for w
    using R [OF that] l(2) L(2) l(4) by auto
  then have "i \<notin> rv_round ` set vs" by blast
  ultimately show ?thesis
    using inv' L(1,2) v(2,3) by (auto simp: auth_inv_def plans_ok_def leases_ok_def reveals_ok_def l(6))
qed

lemma auth_run_inv:
  assumes "new_authority E i version = Inr a0"
  shows "auth_run E ps a0 = (a, vs) \<Longrightarrow> auth_inv E ps a vs"
proof (induction ps arbitrary: a vs rule: rev_induct)
  case Nil
  with assms show ?case
    by (auto simp: auth_run_def new_authority_def auth_inv_def plans_ok_def leases_ok_def reveals_ok_def
        split: if_splits)
next
  case (snoc p ps)
  obtain b us where b: "auth_run E ps a0 = (b, us)" by (cases "auth_run E ps a0") auto
  from snoc.IH [OF b] have inv: "auth_inv E ps b us" .
  obtain ws where s: "auth_step E p b = (a, ws)" "vs = us @ ws"
    using snoc.prems b by (auto simp: auth_run_snoc Let_def split: prod.splits)
  show ?case
    using s auth_inv_more [OF inv] commit_plan_inv [OF inv] issue_lease_inv [OF inv] reveal_plan_inv [OF inv]
    by (cases p) (auto split: sum.splits prod.splits)
qed

section \<open>A sample authority\<close>

text \<open>A plan that is committed, leased, revealed, and not revealed again.\<close>

definition holdout_lib :: m2_lib where
  "holdout_lib = \<lparr>ml_base = sample_lib, ml_bytes = (\<lambda>_. ''{}''), ml_sha = (\<lambda>_. sample_hash),
     ml_iso = (\<lambda>_. ''t''), ml_time = (\<lambda>_. ''t'')\<rparr>"

definition holdout_round :: search_round where
  "holdout_round = sample_round\<lparr>sr_state := R_SEARCH_BARRIER, sr_holdout := Some sample_hash,
     sr_commitment := sample_hash, sr_authority_id := ''auth'', sr_authority_hash := sample_hash\<rparr>"

definition holdout_calls :: "auth_call list" where
  "holdout_calls =
     [A_commit ''round-1'' (jobj []) (replicate 32 (CHR ''n'')) (Aware 1),
      A_issue holdout_round ''worker'' ''exec'' ''gpu-0'' 1 (Aware 9) (Aware 2) ''lease-1'',
      A_issue holdout_round ''other'' ''exec'' ''gpu-0'' 2 (Aware 9) (Aware 3) ''lease-2'',
      A_reveal ''lease-1'' ''round-1'' ''other'' ''exec'' ''gpu-0'' 1 (Aware 4),
      A_reveal ''lease-1'' ''round-1'' ''worker'' ''exec'' ''gpu-0'' 1 (Aware 5),
      A_reveal ''lease-1'' ''round-1'' ''worker'' ''exec'' ''gpu-0'' 1 (Aware 6)]"

definition sample_authority :: holdout_authority where
  "sample_authority = projr (new_authority holdout_lib ''auth'' ''v1'')"

lemma sample_authority_new: "new_authority holdout_lib ''auth'' ''v1'' = Inr sample_authority"
  by (simp add: sample_authority_def new_authority_def text_between_def)

lemma sample_nonce_ok:
  "is_nonce_text (hex_text (replicate 32 (CHR ''n'')))"
  "case from_hex (hex_text (replicate 32 (CHR ''n''))) of Inl e \<Rightarrow> False | Inr bs \<Rightarrow> True"
  by code_simp+

lemma sample_disclosures: "length (snd (auth_run holdout_lib holdout_calls sample_authority)) = 1"
proof -
  obtain bs where "from_hex (hex_text (replicate 32 (CHR ''n''))) = Inr bs"
    using sample_nonce_ok(2) by (auto split: sum.splits)
  note facts = this sample_nonce_ok(1) sample_hash_ok
  show ?thesis
    by (simp add: facts auth_run_def holdout_calls_def sample_authority_def new_authority_def holdout_lib_def
        doc_hash_def commit_plan_def make_commitment_def issue_reveal_lease_def require_round_authority_def
        make_reveal_lease_def reveal_plan_def make_reveal_def reveal_fields_def require_aware_reveal_time_def
        holdout_round_def sample_round_def text_between_def Let_def)
qed

section \<open>Properties\<close>

text \<open>
  C14. However the calls of \<open>commit_plan\<close>, \<open>issue_reveal_lease\<close> and \<open>reveal\<close> on an
  authority are ordered, and whatever identifiers they choose, it discloses at most one plan
  per round and per lease, and each plan it discloses validates as a \<open>HoldoutRevealResult\<close>,
  is the plan that a call committed for that round with the nonce and the commitment of that
  call, and goes to the worker, execution, resource and fence of a lease that was issued for
  the round when it stood at its search barrier with this holdout family and this commitment,
  before the lease expired.
\<close>

theorem disclosures_are_single_and_leased:
  assumes "new_authority E i version = Inr a0"
  shows "distinct (map rv_round (snd (auth_run E ps a0))) \<and> distinct (map rv_lease (snd (auth_run E ps a0))) \<and>
    list_all (disclosed E ps) (snd (auth_run E ps a0))"
proof -
  obtain a vs where "auth_run E ps a0 = (a, vs)" by (cases "auth_run E ps a0") auto
  with auth_run_inv [OF assms this] show ?thesis
    by (auto simp: auth_inv_def reveals_ok_def list_all_iff)
qed

theorem disclosures_are_single_and_leased_witness:
  "\<exists>v. snd (auth_run holdout_lib holdout_calls sample_authority) = [v] \<and> disclosed holdout_lib holdout_calls v"
  using disclosures_are_single_and_leased [OF sample_authority_new, of holdout_calls] sample_disclosures
  by (auto simp: length_Suc_conv)

end
