(* ===== verification/Spec2Isabelle.thy ===== *)
theory Spec2Isabelle
  imports Lease Stage0 QueueProps WalkingProps RoundLifeProps EvidenceProps HoldoutProps
begin

text \<open>
  A model of the control plane of hcu-auto-opt (src/src/hcuopt): the server that drives the
  optimization of accelerator code by durable jobs, and decides from measured evidence what
  is promoted. The development translates the code that keeps state and decides; what only
  moves bytes (HTTP, processes, files, hardware) is outside.

  \<^bold>\<open>The program and its theories.\<close> Every operation of PostgresRepository is one transaction:
  a function of the store that returns the new store and a result, or an error that leaves
  the store unchanged.

  \<^item> Domain (domain/enums.py, transitions.py, errors.py): enumerations, the transition graphs
    of tasks, candidates and leases. Lease (leases.py): the in-memory resource lease. Stage0
    (stage0.py): the measurement gate. Json, Float64, PyMath: JSON values, binary64 arithmetic
    with its rounding, and the functions of math and statistics that the code calls.
  \<^item> Database: the rows of the tables. JobQueue (storage/repository.py and
    storage/endpoint_validation.py): registration of workers, enqueue, claim with claim and
    fencing token, heartbeat, completion, failure, recovery, cancellation, cleanup reports.
    QueueInv, QueueSteps and QueueProps: its invariant, its transition system and properties.
  \<^item> TaskStore and Evaluation: tasks, Stage 0 reports, baselines, hotspots, candidates,
    artifacts and evaluation runs with the validators of contracts/platform_v1.py. Session and
    Walking (orchestrator/walking.py): the coordinator that turns completed jobs into the next
    jobs, as sessions of several transactions between which the process may die. WalkingInv,
    WalkingReplay and WalkingProps: what each commit respects and what a repetition does.
  \<^item> SearchRound and RoundBudget (storage/repository.py, contracts/m2.py,
    orchestrator/search_round.py): a round of candidates from its creation to its frozen
    families, and the ledger of its budget. RoundInv and RoundProps: their invariants and
    properties under histories that interleave rounds and queue.
  \<^item> BarrierModels and BarrierStatistics (evaluation/m2_models.py, m2_statistics.py): the
    search barrier that promotes candidates, the holdout barrier, and the Bonferroni
    comparison. BarrierInv, FwerInv and BarrierProps: what they promise.
  \<^item> HoldoutAuthority (evaluation/m2_authority.py): commitment, lease and single disclosure of
    the holdout plan, with HoldoutProps over any sequence of calls. EvidenceIndex
    (evaluation/m2_verifier.py, m2_finalizer.py): the evidence store, the index, its
    verification and the rebuilt bundle, with EvidenceProps.
  \<^item> RoundStore and RoundOps (storage/repository.py): the persisted evidence of a round and the
    operations from the search barrier to completion or cancellation, and the audit.
    RoundTasks, RoundLife, RoundLifeInv, RoundLifeSteps and RoundLifeProps: all operations as
    one transition system, refined against the abstract life of a round.

  \<^bold>\<open>How the parts interact.\<close> A worker claims a job from JobQueue, which leases it a resource;
  its completion makes Walking enqueue the next one. A round owns a task of the same table and
  reserves budget for running jobs of that table; the failure hooks of the queue reject tasks,
  and RoundTasks shows that they never touch the task of a round. RoundOps recomputes with
  BarrierStatistics what a client submits and stores it only when it is equal; its finalizer
  is \<open>verify_bundle\<close> of EvidenceIndex.

  \<^bold>\<open>What the lemmas show.\<close> The queue: exclusive ownership of resources, fencing, bounded
  attempts, finality, idempotence, complete recovery. The coordinator: only edges of the
  graphs, no release without an end-to-end evaluation, replayable completion, and the one
  place where a crash loses a job. Rounds: budgets are never exceeded, ledgers reconcile,
  families stay frozen, the rows refine the abstract life, the audit always agrees, completed
  rounds are evidenced and final. Barriers: who is promoted, that order does not matter, what
  every verdict rests on. Evidence: flattening is preorder and ends, what is verified is
  backed, and what is published verifies unless two requirements cite the same bytes. The
  interfaces are locales with interpretations on the model: \<open>transition_system\<close> on the three
  graphs, \<open>transactional\<close> on the queue, the rounds and the durable lifecycle, and the locales of
  WalkingInv on the coordinator.

  \<^bold>\<open>Parameters.\<close> The clock \<open>now\<close>, the identifiers of \<open>uuid4()\<close>, row locks that another
  transaction holds (\<open>SKIP LOCKED\<close>), and capability documents are arguments. SHA-256 of
  canonical JSON, \<open>uuid5\<close>, the random generator, the normal quantile, the standard deviation
  and the square root are fields of \<open>pylib\<close> and \<open>m2_lib\<close>; nothing is assumed of them, and
  where a property rests on the digest it names the two documents that would have to collide.
  The conversions of Pydantic (\<open>codec\<close>), the evidence reader, the parser of an index and the
  configured finalizer are functions. In the histories of RoundLife a request is valid when
  the contract models of its arguments validate.

  \<^bold>\<open>Bounds and fuel.\<close> Python integers and PostgreSQL counters are \<open>int\<close>. An index has at most
  256 entries and depth 8, and the fuel of \<open>flatten_turns\<close>, 257, is proved enough for every
  index; all other recursions are structural or have a measure. The bootstrap has 2000
  resamples, as the code has.

  \<^bold>\<open>Not modelled.\<close> The manifest lists every part. Left out are the operations on formal rounds
  (\<open>create_search_round\<close> refuses that mode), the other workflows of the repository (Stage 0
  runs, Framework Smoke, manual candidates, endpoint validation, agent generation) apart from
  their hooks in the queue, the verifiers of Stage 0, M1 and agent evidence, and the code
  around the core: HTTP API, command lines, operator console, deployment scripts, adapters of
  execution and measurement, runtime probes and generators, which are I/O on systems whose
  behaviour the repository does not define.
\<close>

end
